(* ===== verification/Prelude.thy ===== *)
theory Prelude
  imports
    Main
    "HOL-Library.AList"
    "HOL-Library.Char_ord"
    "HOL-Library.List_Lexorder"
    "HOL-Library.Signed_Division"
begin

text \<open>
  The vocabulary shared by every component: clock values and durations, the wrap-around of
  Go's signed integers, the parts of Go's \<open>strings\<close> and \<open>net\<close> packages the sources call,
  Go maps as association lists, and the two interfaces that several components implement: the
  left-to-right selection scan and the keyed registry of lazily created entries.

  Conventions. A \<open>time.Time\<close> is an integer number of nanoseconds, a \<open>time.Duration\<close> an
  integer number of nanoseconds inside the 64-bit range; an operation that reads the clock
  takes the reading as its argument \<open>now\<close>. A Go string is a list of bytes. A Go map is an
  association list with distinct keys: \<open>map_of\<close> looks a key up, \<open>AList.update\<close> stores,
  \<open>AList.delete\<close> deletes, and the order of the list is the order in which a \<open>range\<close> loop
  visits the entries, so a statement about all lists covers every iteration order.
\<close>

section \<open>Fact collections\<close>

named_theorems go_simps \<open>equations that evaluate Go library operations\<close>
named_theorems gw_defs \<open>definitions of the pure guards and comparisons of the gateway\<close>

section \<open>Integers of fixed width\<close>

definition i64 :: "int \<Rightarrow> int" where
  "i64 x = (x + 2 ^ 63) mod 2 ^ 64 - 2 ^ 63"

definition i32 :: "int \<Rightarrow> int" where
  "i32 x = (x + 2 ^ 31) mod 2 ^ 32 - 2 ^ 31"

lemma i64_id: "- (2 ^ 63) \<le> x \<Longrightarrow> x < 2 ^ 63 \<Longrightarrow> i64 x = x"
  by (simp add: i64_def)

lemma i32_id: "- (2 ^ 31) \<le> x \<Longrightarrow> x < 2 ^ 31 \<Longrightarrow> i32 x = x"
  by (simp add: i32_def)

lemma i64_bounds: "- (2 ^ 63) \<le> i64 x \<and> i64 x < 2 ^ 63"
proof -
  have "0 \<le> (x + 2 ^ 63) mod 2 ^ 64" and "(x + 2 ^ 63) mod 2 ^ 64 < (2 ^ 64 :: int)"
    by simp_all
  then show ?thesis by (simp add: i64_def)
qed

lemma i32_bounds: "- (2 ^ 31) \<le> i32 x \<and> i32 x < 2 ^ 31"
proof -
  have "0 \<le> (x + 2 ^ 31) mod 2 ^ 32" and "(x + 2 ^ 31) mod 2 ^ 32 < (2 ^ 32 :: int)"
    by simp_all
  then show ?thesis by (simp add: i32_def)
qed

text \<open>A product of two factors below \<open>2 ^ 31\<close> does not wrap.\<close>

lemma i64_mult_id:
  assumes "0 \<le> a" "a < 2 ^ 31" "0 \<le> b" "b < 2 ^ 31"
  shows "i64 (a * b) = a * b"
proof -
  have "a * b \<le> 2 ^ 31 * 2 ^ 31"
    using assms by (intro mult_mono) auto
  then show ?thesis
    using assms by (intro i64_id) (auto intro: order_trans [of _ 0])
qed

section \<open>Clock values and durations\<close>

type_synonym time = int
type_synonym duration = int

definition max_dur :: duration where
  "max_dur = 2 ^ 63 - 1"

definition min_dur :: duration where
  "min_dur = - (2 ^ 63)"

text \<open>\<open>t.Sub(u)\<close> and \<open>time.Since(u)\<close>: the difference, saturated to the duration range.\<close>

definition time_sub :: "time \<Rightarrow> time \<Rightarrow> duration" where
  "time_sub t u = max min_dur (min max_dur (t - u))"

definition nanosecond :: duration where "nanosecond = 1"
definition microsecond :: duration where "microsecond = 1000 * nanosecond"
definition millisecond :: duration where "millisecond = 1000 * microsecond"
definition second :: duration where "second = 1000 * millisecond"
definition minute :: duration where "minute = 60 * second"

lemmas duration_defs [go_simps] =
  nanosecond_def microsecond_def millisecond_def second_def minute_def

text \<open>The zero \<open>time.Time\<close> (1 January of the year 1), in nanoseconds from the Unix epoch.\<close>

definition zero_time :: time where
  "zero_time = - 62135596800 * 1000000000"

lemma time_sub_le: "u \<le> t \<Longrightarrow> time_sub t u \<le> t - u"
  by (simp add: time_sub_def min_dur_def)

lemma time_sub_nonneg: "u \<le> t \<Longrightarrow> 0 \<le> time_sub t u"
  by (simp add: time_sub_def max_dur_def)

lemma time_sub_max: "time_sub t u \<le> max_dur"
  by (simp add: time_sub_def max_dur_def min_dur_def)

lemma time_sub_self [simp]: "time_sub t t = 0"
  by (simp add: time_sub_def max_dur_def min_dur_def)

lemma time_sub_less_iff:
  "0 \<le> d \<Longrightarrow> d \<le> max_dur \<Longrightarrow> time_sub t u < d \<longleftrightarrow> t - u < d"
  by (auto simp: time_sub_def max_dur_def min_dur_def)

lemma time_sub_ge_iff:
  "0 \<le> d \<Longrightarrow> d \<le> max_dur \<Longrightarrow> d \<le> time_sub t u \<longleftrightarrow> d \<le> t - u"
  by (auto simp: time_sub_def max_dur_def min_dur_def)

text \<open>Truncated division of non-negative integers is the flooring one.\<close>

lemma sdiv_nonneg: "0 \<le> a \<Longrightarrow> 0 < b \<Longrightarrow> a sdiv b = a div (b :: int)"
  by (auto simp: signed_divide_int_def sgn_if)

lemma sdiv_nonpos: "a \<le> 0 \<Longrightarrow> 0 < b \<Longrightarrow> a sdiv b \<le> (0 :: int)"
  by (auto simp: signed_divide_int_def sgn_if zdiv_int intro: pos_imp_zdiv_nonneg_iff [THEN iffD2])

lemma smod_nonneg: "0 \<le> a \<Longrightarrow> 0 < b \<Longrightarrow> a smod b = a mod (b :: int)"
  by (auto simp: signed_modulo_int_def sgn_if)

section \<open>Strings\<close>

definition to_lower_char :: "char \<Rightarrow> char" where
  "to_lower_char c = (if CHR ''A'' \<le> c \<and> c \<le> CHR ''Z'' then char_of (of_char c + 32 :: nat) else c)"

definition to_upper_char :: "char \<Rightarrow> char" where
  "to_upper_char c = (if CHR ''a'' \<le> c \<and> c \<le> CHR ''z'' then char_of (of_char c - 32 :: nat) else c)"

definition to_lower :: "string \<Rightarrow> string" where
  "to_lower s = map to_lower_char s"

definition to_upper :: "string \<Rightarrow> string" where
  "to_upper s = map to_upper_char s"

text \<open>Byte classes.\<close>

definition byte_in :: "nat \<Rightarrow> nat \<Rightarrow> char \<Rightarrow> bool" where
  "byte_in lo hi c \<longleftrightarrow> lo \<le> of_char c \<and> of_char c \<le> hi"

definition is_digit :: "char \<Rightarrow> bool" where
  "is_digit c \<longleftrightarrow> byte_in 48 57 c"

definition is_alnum :: "char \<Rightarrow> bool" where
  "is_alnum c \<longleftrightarrow> byte_in 48 57 c \<or> byte_in 65 90 c \<or> byte_in 97 122 c"

text \<open>ASCII white space, as \<open>strings.TrimSpace\<close> removes it from both ends.\<close>

definition is_space :: "char \<Rightarrow> bool" where
  "is_space c \<longleftrightarrow> c = CHR '' '' \<or> c = CHR 0x09 \<or> c = CHR 0x0A \<or> c = CHR 0x0B \<or> c = CHR 0x0C \<or> c = CHR 0x0D"

definition trim_by :: "(char \<Rightarrow> bool) \<Rightarrow> string \<Rightarrow> string" where
  "trim_by p s = rev (dropWhile p (rev (dropWhile p s)))"

definition trim_space :: "string \<Rightarrow> string" where
  "trim_space s = trim_by is_space s"

definition has_prefix :: "string \<Rightarrow> string \<Rightarrow> bool" where
  "has_prefix s p \<longleftrightarrow> take (length p) s = p"

definition has_suffix :: "string \<Rightarrow> string \<Rightarrow> bool" where
  "has_suffix s p \<longleftrightarrow> length p \<le> length s \<and> drop (length s - length p) s = p"

definition trim_prefix :: "string \<Rightarrow> string \<Rightarrow> string" where
  "trim_prefix s p = (if has_prefix s p then drop (length p) s else s)"

definition trim_suffix :: "string \<Rightarrow> string \<Rightarrow> string" where
  "trim_suffix s p = (if has_suffix s p then take (length s - length p) s else s)"

text \<open>\<open>strings.TrimRight\<close> with a one-byte cutset.\<close>

definition trim_right :: "char \<Rightarrow> string \<Rightarrow> string" where
  "trim_right d s = rev (dropWhile (\<lambda>c. c = d) (rev s))"

fun str_contains :: "string \<Rightarrow> string \<Rightarrow> bool" where
  "str_contains [] p = (p = [])"
| "str_contains (c # s) p = (has_prefix (c # s) p \<or> str_contains s p)"

text \<open>\<open>strings.IndexByte\<close> and \<open>strings.LastIndexByte\<close>, with \<open>None\<close> for the result -1.\<close>

fun index_byte :: "string \<Rightarrow> char \<Rightarrow> nat option" where
  "index_byte [] c = None"
| "index_byte (x # xs) c = (if x = c then Some 0 else map_option Suc (index_byte xs c))"

fun last_index_byte :: "string \<Rightarrow> char \<Rightarrow> nat option" where
  "last_index_byte [] c = None"
| "last_index_byte (x # xs) c =
     (case last_index_byte xs c of
        Some i \<Rightarrow> Some (Suc i)
      | None \<Rightarrow> if x = c then Some 0 else None)"

text \<open>\<open>strings.Split\<close> at a one-byte separator.\<close>

fun split_on :: "char \<Rightarrow> string \<Rightarrow> string list" where
  "split_on d [] = [[]]"
| "split_on d (c # s) =
     (if c = d then [] # split_on d s
      else case split_on d s of [] \<Rightarrow> [[c]] | w # ws \<Rightarrow> (c # w) # ws)"

lemma split_on_nonempty [simp]: "split_on d s \<noteq> []"
  by (induction s) (auto split: list.splits)

text \<open>\<open>strings.Join\<close> with a one-byte separator.\<close>

fun join_with :: "char \<Rightarrow> string list \<Rightarrow> string" where
  "join_with d [] = []"
| "join_with d [w] = w"
| "join_with d (w # v # ws) = w @ d # join_with d (v # ws)"

lemma split_on_none: "d \<notin> set s \<Longrightarrow> split_on d s = [s]"
  by (induction s) auto

lemma split_on_append: "d \<notin> set w \<Longrightarrow> split_on d (w @ d # s) = w # split_on d s"
  by (induction w) auto

lemma split_on_join: "ws \<noteq> [] \<Longrightarrow> \<forall>w \<in> set ws. d \<notin> set w \<Longrightarrow> split_on d (join_with d ws) = ws"
  by (induction d ws rule: join_with.induct) (auto simp: split_on_none split_on_append)

lemma has_prefix_append [simp]: "has_prefix (p @ s) p"
  by (simp add: has_prefix_def)

lemma trim_prefix_append [simp]: "trim_prefix (p @ s) p = s"
  by (simp add: trim_prefix_def)

lemma to_lower_char_fix [simp]: "to_lower_char (to_lower_char c) = to_lower_char c"
proof (cases "CHR ''A'' \<le> c \<and> c \<le> CHR ''Z''")
  case True
  then have "65 \<le> (of_char c :: nat)" and "(of_char c :: nat) \<le> 90"
    by (simp_all add: less_eq_char_def)
  then have "\<not> (CHR ''A'' \<le> char_of (of_char c + 32 :: nat)
      \<and> char_of (of_char c + 32 :: nat) \<le> CHR ''Z'')"
    by (simp add: less_eq_char_def)
  then have "to_lower_char (char_of (of_char c + 32 :: nat)) = char_of (of_char c + 32 :: nat)"
    unfolding to_lower_char_def by (rule if_not_P)
  moreover have "to_lower_char c = char_of (of_char c + 32 :: nat)"
    unfolding to_lower_char_def using True by (rule if_P)
  ultimately show ?thesis by (simp only:)
next
  case False
  then have "to_lower_char c = c"
    unfolding to_lower_char_def by (rule if_not_P)
  then show ?thesis by (simp only:)
qed

lemma to_lower_idem [simp]: "to_lower (to_lower s) = to_lower s"
  by (simp add: to_lower_def o_def)

text \<open>\<open>strings.ToUpper\<close> is idempotent too.\<close>

lemma to_upper_char_fix [simp]: "to_upper_char (to_upper_char c) = to_upper_char c"
proof (cases "CHR ''a'' \<le> c \<and> c \<le> CHR ''z''")
  case True
  then have "97 \<le> (of_char c :: nat)" and "(of_char c :: nat) \<le> 122"
    by (simp_all add: less_eq_char_def)
  then have "\<not> (CHR ''a'' \<le> char_of (of_char c - 32 :: nat)
      \<and> char_of (of_char c - 32 :: nat) \<le> CHR ''z'')"
    by (auto simp: less_eq_char_def)
  then have "to_upper_char (char_of (of_char c - 32 :: nat)) = char_of (of_char c - 32 :: nat)"
    unfolding to_upper_char_def by (rule if_not_P)
  moreover have "to_upper_char c = char_of (of_char c - 32 :: nat)"
    unfolding to_upper_char_def using True by (rule if_P)
  ultimately show ?thesis by (simp only:)
next
  case False
  then have "to_upper_char c = c"
    unfolding to_upper_char_def by (rule if_not_P)
  then show ?thesis by (simp only:)
qed

lemma to_upper_idem [simp]: "to_upper (to_upper s) = to_upper s"
  by (simp add: to_upper_def o_def)

lemma dropWhile_idem [simp]: "dropWhile p (dropWhile p s) = dropWhile p s"
  by (induction s) auto

text \<open>
  \<open>net.SplitHostPort\<close>, the host part: \<open>None\<close> when the library returns an error. The port starts
  after the last colon; a host with a colon must be bracketed.
\<close>

definition split_host_port :: "string \<Rightarrow> string option" where
  "split_host_port hp =
     (case last_index_byte hp CHR '':'' of
        None \<Rightarrow> None
      | Some i \<Rightarrow>
          (if hd hp = CHR ''['' then
             (case index_byte hp CHR '']'' of
                None \<Rightarrow> None
              | Some e \<Rightarrow>
                  if e + 1 = i \<and> index_byte (drop 1 hp) CHR ''['' = None
                     \<and> index_byte (drop (e + 1) hp) CHR '']'' = None
                  then Some (take (e - 1) (drop 1 hp)) else None)
           else
             (if index_byte (take i hp) CHR '':'' = None
                \<and> index_byte hp CHR ''['' = None \<and> index_byte hp CHR '']'' = None
              then Some (take i hp) else None)))"

lemma split_host_port_no_colon: "last_index_byte hp CHR '':'' = None \<Longrightarrow> split_host_port hp = None"
  by (simp add: split_host_port_def)

section \<open>Go maps\<close>

lemmas go_map_simps [simp] = update_conv' delete_conv'

lemma distinct_keys_update [simp]:
  "distinct (map fst m) \<Longrightarrow> distinct (map fst (AList.update k v m))"
  by (rule distinct_update)

lemma distinct_keys_delete [simp]:
  "distinct (map fst m) \<Longrightarrow> distinct (map fst (AList.delete k m))"
  by (rule distinct_delete)

lemma delete_append: "AList.delete k (xs @ ys) = AList.delete k xs @ AList.delete k ys"
  by (simp add: AList.delete_eq)

lemma delete_absent: "k \<notin> fst ` set m \<Longrightarrow> AList.delete k m = m"
  by (induction m) auto

lemma update_forall: "\<forall>(k, v) \<in> set m. P k v \<Longrightarrow> P j w \<Longrightarrow> \<forall>(k, v) \<in> set (AList.update j w m). P k v"
  by (induction m) auto

lemma set_delete: "set (AList.delete k m) \<subseteq> set m"
  by (auto simp: AList.delete_eq)

lemma filter_map_of:
  assumes "distinct (map fst m)"
  shows "map_of (filter (\<lambda>(k, v). P v) m) k =
    (case map_of m k of Some v \<Rightarrow> if P v then Some v else None | None \<Rightarrow> None)"
  using assms
  by (induction m) (auto split: option.splits dest: map_of_SomeD intro: rev_image_eqI)

section \<open>Results that may be errors\<close>

text \<open>The pattern \<open>if err != nil { return err }\<close> between the calls of a function.\<close>

fun res_bind :: "'e + 'a \<Rightarrow> ('a \<Rightarrow> 'e + 'b) \<Rightarrow> 'e + 'b" where
  "res_bind (Inl e) f = Inl e"
| "res_bind (Inr x) f = f x"

fun some_or :: "'e \<Rightarrow> 'a option \<Rightarrow> 'e + 'a" where
  "some_or e None = Inl e"
| "some_or e (Some x) = Inr x"

fun no_error :: "'e option \<Rightarrow> 'e + unit" where
  "no_error None = Inr ()"
| "no_error (Some e) = Inl e"

lemma res_bind_Inr: "res_bind m f = Inr y \<longleftrightarrow> (\<exists>x. m = Inr x \<and> f x = Inr y)"
  by (cases m) auto

lemma res_bind_Inl: "res_bind m f = Inl e \<longleftrightarrow> m = Inl e \<or> (\<exists>x. m = Inr x \<and> f x = Inl e)"
  by (cases m) auto

lemma some_or_Inr: "some_or e m = Inr x \<longleftrightarrow> m = Some x"
  by (cases m) auto

lemma no_error_Inr: "no_error m = Inr u \<longleftrightarrow> m = None"
  by (cases m) auto

section \<open>The selection scan\<close>

text \<open>
  The selection loops of the gateway and the API server keep the best element seen so far and
  replace it when the next one compares strictly better. \<open>scan_best better acc xs\<close> is that
  loop; the contract below says which comparisons make its result a first minimal element.
\<close>

fun scan_best :: "('a \<Rightarrow> 'a \<Rightarrow> bool) \<Rightarrow> 'a option \<Rightarrow> 'a list \<Rightarrow> 'a option" where
  "scan_best better acc [] = acc"
| "scan_best better None (x # xs) = scan_best better (Some x) xs"
| "scan_best better (Some c) (x # xs) = scan_best better (Some (if better x c then x else c)) xs"

lemma scan_best_None_iff: "scan_best better acc xs = None \<longleftrightarrow> acc = None \<and> xs = []"
  by (induction better acc xs rule: scan_best.induct) auto

lemma scan_best_in: "scan_best better acc xs = Some m \<Longrightarrow> acc = Some m \<or> m \<in> set xs"
  by (induction better acc xs rule: scan_best.induct) (auto split: if_splits)

locale selection_order =
  fixes good :: "'a \<Rightarrow> bool"
    and better :: "'a \<Rightarrow> 'a \<Rightarrow> bool"
  assumes better_irrefl: "good a \<Longrightarrow> \<not> better a a"
    and better_trans:
      "good a \<Longrightarrow> good b \<Longrightarrow> good c \<Longrightarrow> better a b \<Longrightarrow> better b c \<Longrightarrow> better a c"
    and worse_trans:
      "good a \<Longrightarrow> good b \<Longrightarrow> good c \<Longrightarrow> \<not> better a b \<Longrightarrow> \<not> better b c \<Longrightarrow> \<not> better a c"
begin

lemma better_asym: "good a \<Longrightarrow> good b \<Longrightarrow> better a b \<Longrightarrow> \<not> better b a"
  using better_trans better_irrefl by blast

text \<open>The element the scan ends with beats everything before it and is beaten by nothing.\<close>

lemma scan_from:
  assumes "good c" and "\<forall>x\<in>set xs. good x"
    and "scan_best better (Some c) xs = Some m"
  shows "good m \<and> \<not> better c m \<and> (\<forall>x\<in>set xs. \<not> better x m)
    \<and> (m = c \<or> (\<exists>ys zs. xs = ys @ m # zs \<and> better m c \<and> (\<forall>y\<in>set ys. better m y)))"
  using assms
proof (induction xs arbitrary: c)
  case Nil
  then show ?case by (auto simp: better_irrefl)
next
  case (Cons x xs)
  then have gx: "good x" and gxs: "\<forall>x\<in>set xs. good x" by auto
  show ?case
  proof (cases "better x c")
    case True
    have scan: "scan_best better (Some x) xs = Some m"
      using Cons.prems(3) True by simp
    note IH = Cons.IH [OF gx gxs scan]
    have "\<not> better c m"
      using IH True Cons.prems(1) gx worse_trans better_asym by blast
    moreover have "better m c"
    proof (cases "m = x")
      case False
      then have "better m x" using IH by blast
      then show ?thesis using True IH gx Cons.prems(1) better_trans by blast
    qed (use True in simp)
    moreover have "\<exists>ys zs. x # xs = ys @ m # zs \<and> (\<forall>y\<in>set ys. better m y)"
    proof (cases "m = x")
      case True
      then show ?thesis by (intro exI [of _ "[]"] exI [of _ xs]) simp
    next
      case False
      then obtain ys zs where "xs = ys @ m # zs" "better m x" "\<forall>y\<in>set ys. better m y"
        using IH by blast
      then show ?thesis by (intro exI [of _ "x # ys"] exI [of _ zs]) simp
    qed
    ultimately show ?thesis using IH by auto
  next
    case False
    have scan: "scan_best better (Some c) xs = Some m"
      using Cons.prems(3) False by simp
    note IH = Cons.IH [OF Cons.prems(1) gxs scan]
    have "\<not> better x m"
      using False IH gx Cons.prems(1) worse_trans by blast
    moreover have "m = c \<or> (\<exists>ys zs. x # xs = ys @ m # zs \<and> better m c \<and> (\<forall>y\<in>set ys. better m y))"
    proof (cases "m = c")
      case False2: False
      then obtain ys zs where ys: "xs = ys @ m # zs" "better m c" "\<forall>y\<in>set ys. better m y"
        using IH by blast
      have "better m x"
        using ys(2) False IH gx Cons.prems(1) worse_trans by blast
      then show ?thesis
        using ys by (intro disjI2 exI [of _ "x # ys"] exI [of _ zs]) simp
    qed simp
    ultimately show ?thesis using IH by auto
  qed
qed

theorem scan_first_minimal:
  assumes "\<forall>x\<in>set xs. good x" and "scan_best better None xs = Some m"
  shows "\<exists>ys zs. xs = ys @ m # zs \<and> (\<forall>y\<in>set ys. better m y) \<and> (\<forall>x\<in>set xs. \<not> better x m)"
proof (cases xs)
  case Nil
  with assms show ?thesis by simp
next
  case (Cons x xs')
  with assms have scan: "scan_best better (Some x) xs' = Some m"
    and gx: "good x" and gxs: "\<forall>x\<in>set xs'. good x" by auto
  note S = scan_from [OF gx gxs scan]
  show ?thesis
  proof (cases "m = x")
    case True
    then show ?thesis using S Cons
      by (intro exI [of _ "[]"] exI [of _ xs']) (auto simp: better_irrefl gx)
  next
    case False
    then obtain ys zs where "xs' = ys @ m # zs" "better m x" "\<forall>y\<in>set ys. better m y"
      using S by blast
    then show ?thesis using S Cons
      by (intro exI [of _ "x # ys"] exI [of _ zs]) auto
  qed
qed

end

text \<open>A comparison that compares sort keys satisfies the contract.\<close>

locale selection_key =
  fixes good :: "'a \<Rightarrow> bool"
    and better :: "'a \<Rightarrow> 'a \<Rightarrow> bool"
    and key :: "'a \<Rightarrow> 'k::linorder"
  assumes better_key: "good a \<Longrightarrow> good b \<Longrightarrow> better a b \<longleftrightarrow> key a < key b"

sublocale selection_key \<subseteq> selection_order good better
  by unfold_locales (auto simp: better_key)

context selection_key
begin

lemma scan_first_least:
  assumes "\<forall>x\<in>set xs. good x" and "scan_best better None xs = Some m"
  shows "\<exists>ys zs. xs = ys @ m # zs \<and> (\<forall>y\<in>set ys. key m < key y) \<and> (\<forall>x\<in>set xs. key m \<le> key x)"
proof -
  obtain ys zs where "xs = ys @ m # zs" "\<forall>y\<in>set ys. better m y" "\<forall>x\<in>set xs. \<not> better x m"
    using scan_first_minimal [OF assms] by blast
  then show ?thesis
    using assms(1) by (intro exI [of _ ys] exI [of _ zs]) (auto simp: better_key not_less)
qed

end

section \<open>Keyed registries\<close>

text \<open>
  Two components keep one entry per key in a Go map and create it on first use: the circuit
  breakers per backend and the token buckets per client. \<open>fetch k m\<close> returns the entry and the
  map after the call, \<open>fresh m k\<close> is the entry a first call creates, \<open>put\<close> writes an entry back
  through the pointer that \<open>fetch\<close> returned. The laws give each key its own independent state.
\<close>

locale keyed_registry =
  fixes lookup :: "'m \<Rightarrow> 'k \<Rightarrow> 'v option"
    and fresh :: "'m \<Rightarrow> 'k \<Rightarrow> 'v"
    and fetch :: "'k \<Rightarrow> 'm \<Rightarrow> 'v \<times> 'm"
    and put :: "'k \<Rightarrow> 'v \<Rightarrow> 'm \<Rightarrow> 'm"
  assumes fetch_entry: "fst (fetch k m) = (case lookup m k of None \<Rightarrow> fresh m k | Some v \<Rightarrow> v)"
    and fetch_lookup: "lookup (snd (fetch k m)) = (lookup m)(k \<mapsto> fst (fetch k m))"
    and put_lookup: "lookup (put k v m) = (lookup m)(k \<mapsto> v)"
    and fetch_fresh: "fresh (snd (fetch k m)) = fresh m"
    and put_fresh: "fresh (put k v m) = fresh m"
begin

definition current :: "'m \<Rightarrow> 'k \<Rightarrow> 'v" where
  "current m k = (case lookup m k of None \<Rightarrow> fresh m k | Some v \<Rightarrow> v)"

lemma fetch_current: "fst (fetch k m) = current m k"
  by (simp add: current_def fetch_entry)

lemma fetch_pure: "current (snd (fetch k m)) j = current m j"
  by (simp add: current_def fetch_lookup fetch_entry fetch_fresh split: option.splits)

lemma put_current: "current (put k v m) j = (if j = k then v else current m j)"
  by (simp add: current_def put_lookup put_fresh split: option.splits)

lemma fetch_idem: "fst (fetch k (snd (fetch k m))) = fst (fetch k m)"
  by (simp add: fetch_current fetch_pure)

end

end
