(* ===== verification/Http.thy ===== *)
theory Http
  imports Prelude
begin

text \<open>
  The parts of \<open>net/http\<close> the handlers use: requests, responses, headers with case-insensitive
  names, and \<open>http.Error\<close>. Bodies are strings; connections and streaming are not modelled.
\<close>

type_synonym headers = "(string \<times> string) list"

definition header_get :: "headers \<Rightarrow> string \<Rightarrow> string" where
  "header_get h k = (case map_of h (to_lower k) of Some v \<Rightarrow> v | None \<Rightarrow> '''')"

definition header_set :: "string \<Rightarrow> string \<Rightarrow> headers \<Rightarrow> headers" where
  "header_set k v h = AList.update (to_lower k) v h"

lemma header_get_set [simp]:
  "header_get (header_set k v h) j = (if to_lower j = to_lower k then v else header_get h j)"
  by (simp add: header_get_def header_set_def)

definition header_del :: "string \<Rightarrow> headers \<Rightarrow> headers" where
  "header_del k h = AList.delete (to_lower k) h"

lemma header_get_del [simp]:
  "header_get (header_del k h) j = (if to_lower j = to_lower k then '''' else header_get h j)"
  by (simp add: header_get_def header_del_def)

record HttpRequest =
  rq_Method :: string
  rq_Host :: string
  rq_Path :: string
  rq_RemoteAddr :: string
  rq_TLS :: bool
  rq_Header :: headers

record HttpResponse =
  rs_StatusCode :: int
  rs_Header :: headers
  rs_Body :: string

text \<open>\<open>http.Error\<close> on a writer whose headers so far are \<open>h\<close>.\<close>

definition http_error :: "headers \<Rightarrow> string \<Rightarrow> int \<Rightarrow> HttpResponse" where
  "http_error h msg code =
     \<lparr> rs_StatusCode = code,
       rs_Header = header_set ''X-Content-Type-Options'' ''nosniff''
                     (header_set ''Content-Type'' ''text/plain; charset=utf-8'' h),
       rs_Body = msg @ [CHR 0x0A] \<rparr>"

lemma http_error_status [simp]: "rs_StatusCode (http_error h msg code) = code"
  by (simp add: http_error_def)

definition StatusOK :: int where "StatusOK = 200"
definition StatusAccepted :: int where "StatusAccepted = 202"
definition StatusTemporaryRedirect :: int where "StatusTemporaryRedirect = 307"
definition StatusPermanentRedirect :: int where "StatusPermanentRedirect = 308"
definition StatusBadRequest :: int where "StatusBadRequest = 400"
definition StatusUnauthorized :: int where "StatusUnauthorized = 401"
definition StatusForbidden :: int where "StatusForbidden = 403"
definition StatusNotFound :: int where "StatusNotFound = 404"
definition StatusMethodNotAllowed :: int where "StatusMethodNotAllowed = 405"
definition StatusTooManyRequests :: int where "StatusTooManyRequests = 429"
definition StatusInternalServerError :: int where "StatusInternalServerError = 500"
definition StatusBadGateway :: int where "StatusBadGateway = 502"
definition StatusServiceUnavailable :: int where "StatusServiceUnavailable = 503"

lemmas http_status_defs [go_simps] =
  StatusOK_def StatusAccepted_def StatusTemporaryRedirect_def StatusPermanentRedirect_def StatusBadRequest_def
  StatusUnauthorized_def StatusForbidden_def StatusNotFound_def
  StatusMethodNotAllowed_def StatusTooManyRequests_def StatusInternalServerError_def
  StatusBadGateway_def StatusServiceUnavailable_def

end
