(* ===== verification/RateLimit.thy ===== *)
theory RateLimit
  imports Http
begin

text \<open>
  The gateway's rate limiter (\<open>pkg/gateway/ratelimit.go\<close>): the local token bucket, the Redis
  token-bucket script, the limiter that keeps one bucket per client and falls back from Redis to
  the local buckets, the client key, and the middleware. A bucket operation runs under the
  bucket's mutex and is one step; the Redis server is a parameter of \<open>allowRedis\<close>.
\<close>

section \<open>The local token bucket\<close>

record TokenBucket =
  tb_Capacity :: int
  tb_Tokens :: int
  tb_RefillRate :: duration
  tb_LastRefill :: time
  tb_LastSeen :: time

definition NewTokenBucket :: "time \<Rightarrow> int \<Rightarrow> duration \<Rightarrow> TokenBucket" where
  "NewTokenBucket now capacity refillRate =
     (let refillRate = (if refillRate \<le> 0 then second else refillRate)
      in \<lparr> tb_Capacity = capacity, tb_Tokens = capacity, tb_RefillRate = refillRate,
           tb_LastRefill = now, tb_LastSeen = now \<rparr>)"

definition tb_Allow :: "time \<Rightarrow> TokenBucket \<Rightarrow> TokenBucket \<times> bool" where
  "tb_Allow now tb =
     (let tb1 = tb\<lparr>tb_LastSeen := now\<rparr>;
          elapsed = time_sub now (tb_LastRefill tb1);
          tokensToAdd = elapsed sdiv tb_RefillRate tb1;
          tb2 = (if tokensToAdd > 0 then
                   let tokens = i64 (tb_Tokens tb1 + tokensToAdd);
                       tokens = (if tokens > tb_Capacity tb1 then tb_Capacity tb1 else tokens)
                   in tb1\<lparr>tb_Tokens := tokens, tb_LastRefill := now\<rparr>
                 else tb1)
      in if tb_Tokens tb2 > 0 then (tb2\<lparr>tb_Tokens := tb_Tokens tb2 - 1\<rparr>, True) else (tb2, False))"

section \<open>The Redis script\<close>

text \<open>
  The script stores a bucket as two numbers printed by Lua's \<open>tostring\<close>, which keeps 14
  significant decimal digits (\<open>%.14g\<close>), and reads them back with \<open>tonumber\<close>. \<open>lua_num x\<close> is the
  number that comes back for a non-negative integer \<open>x\<close> a Lua number holds exactly.
\<close>

lemma power10_gt: "k < (10 :: nat) ^ (14 + k)"
proof -
  have "k < (10 :: nat) ^ k" by (induction k) auto
  also have "(10 :: nat) ^ k \<le> 10 ^ (14 + k)" by simp
  finally show ?thesis .
qed

function lua_scale :: "nat \<Rightarrow> nat \<Rightarrow> nat" where
  "lua_scale x k = (if x < 10 ^ (14 + k) then 10 ^ k else lua_scale x (Suc k))"
  by pat_completeness auto

termination
proof (relation "measure (\<lambda>(x, k). x - k)")
  fix x k :: nat
  assume "\<not> x < 10 ^ (14 + k)"
  then have "k < x" using power10_gt [of k] by linarith
  then show "((x, Suc k), (x, k)) \<in> measure (\<lambda>(x, k). x - k)" by simp
qed simp

declare lua_scale.simps [simp del]

definition lua_num :: "int \<Rightarrow> int" where
  "lua_num x =
     (let p = int (lua_scale (nat x) 0); q = x div p; r = x mod p
      in if 2 * r < p then q * p
         else if 2 * r > p then (q + 1) * p
         else if even q then q * p else (q + 1) * p)"

text \<open>The stored value: two numbers, or text that the script cannot parse.\<close>

datatype redis_raw = RawBucket int int | RawMalformed

definition redisTokenBucketScript ::
    "int \<Rightarrow> int \<Rightarrow> int \<Rightarrow> redis_raw option \<Rightarrow> string + redis_raw \<times> int" where
  "redisTokenBucketScript capacity refill_micros now_micros raw =
     (if capacity \<le> 0 \<or> refill_micros \<le> 0 then Inl ''invalid token bucket configuration''
      else
        let (tokens, last_refill) =
              (case raw of
                 Some (RawBucket parsed_tokens parsed_last) \<Rightarrow> (parsed_tokens, parsed_last)
               | _ \<Rightarrow> (capacity, now_micros));
            elapsed = now_micros - last_refill;
            elapsed = (if elapsed < 0 then 0 else elapsed);
            tokens_to_add = elapsed div refill_micros;
            (tokens, last_refill) =
              (if tokens_to_add > 0 then
                 (if tokens + tokens_to_add > capacity then capacity else tokens + tokens_to_add, now_micros)
               else (tokens, last_refill));
            (tokens, allowed) = (if tokens > 0 then (tokens - 1, 1) else (tokens, 0))
        in Inr (RawBucket (lua_num tokens) (lua_num last_refill), allowed))"

section \<open>The limiter\<close>

text \<open>\<open>rl_redis\<close> records whether a Redis client is attached (\<open>rl.redis != nil\<close>).\<close>

record RateLimiter =
  rl_limiters :: "(string \<times> TokenBucket) list"
  rl_capacity :: int
  rl_refillRate :: duration
  rl_cleanupTTL :: duration
  rl_redis :: bool
  rl_redisEnabled :: bool
  rl_redisTimeout :: duration
  rl_windowSize :: duration

definition NewRateLimiter :: "int \<Rightarrow> duration \<Rightarrow> RateLimiter" where
  "NewRateLimiter capacity refillRate =
     \<lparr> rl_limiters = [], rl_capacity = capacity, rl_refillRate = refillRate,
       rl_cleanupTTL = 10 * minute, rl_redis = False, rl_redisEnabled = False,
       rl_redisTimeout = 0, rl_windowSize = 0 \<rparr>"

definition NewDistributedRateLimiter :: "int \<Rightarrow> duration \<Rightarrow> bool \<Rightarrow> duration \<Rightarrow> RateLimiter" where
  "NewDistributedRateLimiter capacity refillRate redisClient redisTimeout =
     (let rl = NewRateLimiter capacity refillRate
      in if redisClient then
           let windowSize = i64 (capacity * refillRate);
               windowSize = (if windowSize < second then second else windowSize)
           in rl\<lparr>rl_redis := True, rl_redisEnabled := True, rl_redisTimeout := redisTimeout,
                 rl_windowSize := windowSize\<rparr>
         else rl)"

definition cleanup :: "time \<Rightarrow> RateLimiter \<Rightarrow> RateLimiter" where
  "cleanup now rl =
     rl\<lparr>rl_limiters := filter (\<lambda>(key, bucket). \<not> time_sub now (tb_LastSeen bucket) > rl_cleanupTTL rl)
          (rl_limiters rl)\<rparr>"

definition redisTTLSeconds :: "duration \<Rightarrow> int" where
  "redisTTLSeconds duration =
     (if duration \<le> 0 then 1
      else let seconds = duration sdiv second;
               seconds = (if duration smod second \<noteq> 0 then seconds + 1 else seconds)
           in if seconds < 1 then 1 else seconds)"

text \<open>
  \<open>allowRedis\<close> sends the script to the server. The parameter \<open>eval\<close> is the server: it takes the
  key and the four script arguments and returns an error or the integer reply, with the server's
  next state.
\<close>

type_synonym 'r redis_eval = "string \<Rightarrow> int \<Rightarrow> int \<Rightarrow> int \<Rightarrow> int \<Rightarrow> 'r \<Rightarrow> (string + int) \<times> 'r"

definition allowRedis :: "'r redis_eval \<Rightarrow> time \<Rightarrow> RateLimiter \<Rightarrow> string \<Rightarrow> 'r \<Rightarrow> (string + bool) \<times> 'r" where
  "allowRedis eval now rl key r =
     (let refillMicros = rl_refillRate rl sdiv microsecond;
          refillMicros = (if refillMicros \<le> 0 then second sdiv microsecond else refillMicros);
          ttlSeconds = redisTTLSeconds (i64 (rl_windowSize rl + second));
          redisKey = ''rl:'' @ key
      in case eval redisKey (rl_capacity rl) refillMicros (now div microsecond) ttlSeconds r of
           (Inl err, r') \<Rightarrow> (Inl err, r')
         | (Inr allowed, r') \<Rightarrow> (Inr (allowed = 1), r'))"

definition local_bucket :: "time \<Rightarrow> string \<Rightarrow> RateLimiter \<Rightarrow> TokenBucket \<times> RateLimiter" where
  "local_bucket now key rl =
     (case map_of (rl_limiters rl) key of
        Some bucket \<Rightarrow> (bucket, rl)
      | None \<Rightarrow>
          let bucket = NewTokenBucket now (rl_capacity rl) (rl_refillRate rl)
          in (bucket, rl\<lparr>rl_limiters := AList.update key bucket (rl_limiters rl)\<rparr>))"

definition put_bucket :: "string \<Rightarrow> TokenBucket \<Rightarrow> RateLimiter \<Rightarrow> RateLimiter" where
  "put_bucket key bucket rl = rl\<lparr>rl_limiters := AList.update key bucket (rl_limiters rl)\<rparr>"

definition allow_local :: "time \<Rightarrow> string \<Rightarrow> RateLimiter \<Rightarrow> bool \<times> RateLimiter" where
  "allow_local now key rl =
     (let (bucket, rl1) = local_bucket now key rl; (bucket', ok) = tb_Allow now bucket
      in (ok, put_bucket key bucket' rl1))"

definition rl_Allow ::
    "'r redis_eval \<Rightarrow> time \<Rightarrow> string \<Rightarrow> RateLimiter \<Rightarrow> 'r \<Rightarrow> bool \<times> RateLimiter \<times> 'r" where
  "rl_Allow eval now key rl r =
     (if rl_redisEnabled rl \<and> rl_redis rl then
        case allowRedis eval now rl key r of
          (Inr allowed, r') \<Rightarrow> (allowed, rl, r')
        | (Inl err, r') \<Rightarrow> (let (ok, rl') = allow_local now key rl in (ok, rl', r'))
      else (let (ok, rl') = allow_local now key rl in (ok, rl', r)))"

section \<open>The client key and the middleware\<close>

definition extractIPFromAddr :: "string \<Rightarrow> string" where
  "extractIPFromAddr addr = (case split_host_port addr of Some host \<Rightarrow> host | None \<Rightarrow> addr)"

definition extractForwardedForIP :: "string \<Rightarrow> string" where
  "extractForwardedForIP xff =
     (if xff = '''' then ''''
      else case split_on CHR '','' xff of [] \<Rightarrow> '''' | p # _ \<Rightarrow> trim_space p)"

definition extractRateLimitKey :: "HttpRequest \<Rightarrow> string" where
  "extractRateLimitKey r =
     (let ip = extractIPFromAddr (rq_RemoteAddr r)
      in if ip \<noteq> '''' then ''ip:'' @ ip
         else let ip = extractForwardedForIP (header_get (rq_Header r) ''X-Forwarded-For'')
              in if ip \<noteq> '''' then ''ip:'' @ ip else ''unknown'')"

text \<open>\<open>Inl\<close>: the middleware answers itself; \<open>Inr\<close>: it calls the next handler.\<close>

definition RateLimitMiddleware ::
    "'r redis_eval \<Rightarrow> time \<Rightarrow> HttpRequest \<Rightarrow> RateLimiter \<Rightarrow> 'r \<Rightarrow> (HttpResponse + unit) \<times> RateLimiter \<times> 'r" where
  "RateLimitMiddleware eval now req rl r =
     (let key = extractRateLimitKey req; (ok, rl', r') = rl_Allow eval now key rl r
      in if \<not> ok then
           (Inl (http_error (header_set ''Retry-After'' ''60'' (header_set ''X-RateLimit-Limit'' ''exceeded'' []))
                  ''Rate limit exceeded'' StatusTooManyRequests), rl', r')
         else (Inr (), rl', r'))"

interpretation rlreg: keyed_registry
  "\<lambda>rl. map_of (rl_limiters rl)"
  "\<lambda>rl key. NewTokenBucket now (rl_capacity rl) (rl_refillRate rl)"
  "local_bucket now" put_bucket
  for now
  by unfold_locales
    (auto simp: local_bucket_def put_bucket_def Let_def fun_eq_iff split: option.splits)

section \<open>Invariant and long-run rate of a bucket\<close>

text \<open>
  The bounds keep the token sum inside 64 bits: a duration holds at most \<open>2 ^ 62\<close> refills of
  two nanoseconds or more.
\<close>

definition tb_inv :: "TokenBucket \<Rightarrow> bool" where
  "tb_inv tb \<longleftrightarrow> 0 \<le> tb_Tokens tb \<and> tb_Tokens tb \<le> tb_Capacity tb \<and> tb_Capacity tb < 2 ^ 62
     \<and> 2 \<le> tb_RefillRate tb \<and> tb_RefillRate tb \<le> max_dur"

lemma refill_bound:
  assumes "2 \<le> rate" shows "time_sub t u sdiv rate < 2 ^ 62"
proof (cases "time_sub t u < 0")
  case True
  have "time_sub t u sdiv rate \<le> 0"
    using True assms by (simp add: sdiv_nonpos)
  then show ?thesis by (simp add: order_le_less_trans [of _ 0])
next
  case False
  then have "time_sub t u sdiv rate = time_sub t u div rate" using assms by (simp add: sdiv_nonneg)
  also have "\<dots> \<le> time_sub t u div 2" using False assms by (intro zdiv_mono2) auto
  also have "\<dots> < 2 ^ 62" using time_sub_max [of t u] by (simp add: max_dur_def)
  finally show ?thesis .
qed

definition tb_refilled :: "time \<Rightarrow> TokenBucket \<Rightarrow> int" where
  "tb_refilled now tb = min (tb_Capacity tb) (tb_Tokens tb + max 0 (time_sub now (tb_LastRefill tb) sdiv tb_RefillRate tb))"

lemma tb_Allow_inv:
  assumes "tb_inv tb"
  shows "tb_Allow now tb =
    (tb\<lparr>tb_LastSeen := now,
        tb_LastRefill := (if time_sub now (tb_LastRefill tb) sdiv tb_RefillRate tb > 0 then now else tb_LastRefill tb),
        tb_Tokens := (if tb_refilled now tb > 0 then tb_refilled now tb - 1 else tb_refilled now tb)\<rparr>,
     tb_refilled now tb > 0)"
proof -
  let ?a = "time_sub now (tb_LastRefill tb) sdiv tb_RefillRate tb"
  have "?a > 0 \<Longrightarrow> i64 (tb_Tokens tb + ?a) = tb_Tokens tb + ?a"
    using assms refill_bound [of "tb_RefillRate tb" now "tb_LastRefill tb"]
    by (intro i64_id) (auto simp: tb_inv_def)
  then show ?thesis
    using assms by (auto simp: tb_Allow_def tb_refilled_def tb_inv_def Let_def min_def max_def)
qed

lemma tb_inv_Allow:
  assumes "tb_inv tb" shows "tb_inv (fst (tb_Allow now tb))"
  using assms by (simp add: tb_Allow_inv) (auto simp: tb_inv_def tb_refilled_def)

text \<open>Tokens and time since the last refill, measured in nanoseconds, never grow by an operation.\<close>

lemma tb_Allow_potential:
  assumes "tb_inv tb" and "tb_LastRefill tb \<le> now" and "tb_Allow now tb = (tb', ok)"
  shows "(of_bool ok + tb_Tokens tb') * tb_RefillRate tb - tb_LastRefill tb'
           \<le> tb_Tokens tb * tb_RefillRate tb - tb_LastRefill tb"
    and "tb_LastRefill tb' \<le> now" and "now - tb_LastRefill tb' < tb_RefillRate tb"
    and "tb_RefillRate tb' = tb_RefillRate tb" and "tb_Capacity tb' = tb_Capacity tb" and "tb_inv tb'"
proof -
  define rate where "rate = tb_RefillRate tb"
  define e where "e = time_sub now (tb_LastRefill tb)"
  define n where "n = e div rate"
  have rate: "2 \<le> rate" using assms(1) by (simp add: tb_inv_def rate_def)
  have e: "0 \<le> e" "e \<le> now - tb_LastRefill tb"
    using assms(2) by (simp_all add: e_def time_sub_nonneg time_sub_le)
  have n: "0 \<le> n" "n * rate \<le> e"
    using e rate by (simp_all add: n_def pos_imp_zdiv_nonneg_iff)
       (metis div_mult_mod_eq e(1) le_add_same_cancel1 pos_mod_sign rate zero_less_numeral order_less_le_trans)
  have sd: "e sdiv rate = n" using e rate by (simp add: sdiv_nonneg n_def)
  show "tb_LastRefill tb' \<le> now" "tb_RefillRate tb' = tb_RefillRate tb" "tb_Capacity tb' = tb_Capacity tb"
    using assms tb_Allow_inv [OF assms(1), of now] by (auto split: if_splits)
  show "tb_inv tb'" using tb_inv_Allow [OF assms(1), of now] assms(3) by simp
  define r where "r = tb_refilled now tb"
  have r: "r \<le> tb_Tokens tb + n"
    using n by (simp add: r_def tb_refilled_def sd [unfolded e_def rate_def] max_def)
  have r0: "n = 0 \<Longrightarrow> r = tb_Tokens tb"
    using assms(1) by (simp add: r_def tb_refilled_def sd [unfolded e_def rate_def] tb_inv_def)
  have tb': "of_bool ok + tb_Tokens tb' = r" "tb_LastRefill tb' = (if 0 < n then now else tb_LastRefill tb)"
    using assms(3) by (auto simp: tb_Allow_inv [OF assms(1)] sd [unfolded e_def rate_def] r_def [symmetric])
  have "r * rate \<le> (tb_Tokens tb + n) * rate"
    using r rate by (intro mult_right_mono) auto
  then show "(of_bool ok + tb_Tokens tb') * tb_RefillRate tb - tb_LastRefill tb'
           \<le> tb_Tokens tb * tb_RefillRate tb - tb_LastRefill tb"
    using n e r0 unfolding tb' rate_def [symmetric] by (auto simp: distrib_right not_less)
  show "now - tb_LastRefill tb' < tb_RefillRate tb"
  proof (cases "0 < n")
    case True
    then show ?thesis using rate by (simp add: tb' rate_def)
  next
    case False
    then have "e < rate" using e rate by (simp add: n_def pos_imp_zdiv_pos_iff not_less)
    then have "now - tb_LastRefill tb < rate"
      using assms(1) rate by (intro time_sub_less_iff [THEN iffD1]) (auto simp: e_def tb_inv_def rate_def)
    then show ?thesis using False by (simp add: tb' rate_def)
  qed
qed

text \<open>A series of requests on one bucket, with the number of those allowed.\<close>

fun tb_run :: "TokenBucket \<Rightarrow> time list \<Rightarrow> TokenBucket \<times> int" where
  "tb_run tb [] = (tb, 0)"
| "tb_run tb (t # ts) =
     (let (tb1, ok) = tb_Allow t tb; (tb2, n) = tb_run tb1 ts in (tb2, of_bool ok + n))"

lemma tb_run_potential:
  assumes "tb_inv tb" and "sorted (tb_LastRefill tb # ts)" and "tb_run tb ts = (tb', n)"
  shows "(n + tb_Tokens tb') * tb_RefillRate tb - tb_LastRefill tb'
           \<le> tb_Tokens tb * tb_RefillRate tb - tb_LastRefill tb
         \<and> tb_LastRefill tb' \<le> last (tb_LastRefill tb # ts) \<and> tb_inv tb'"
  using assms
proof (induction ts arbitrary: tb n)
  case (Cons t ts)
  obtain tb1 ok where a: "tb_Allow t tb = (tb1, ok)" by force
  obtain m where m: "tb_run tb1 ts = (tb', m)" "n = of_bool ok + m"
    using Cons.prems(3) a by (auto split: prod.splits)
  have "tb_LastRefill tb \<le> t" using Cons.prems(2) by simp
  note P = tb_Allow_potential [OF Cons.prems(1) this a]
  have "sorted (tb_LastRefill tb1 # ts)"
    using Cons.prems(2) P(2) by (auto intro: order_trans)
  note IH = Cons.IH [OF P(6) this m(1)]
  have "last (tb_LastRefill tb1 # ts) \<le> last (t # ts)" using P(2) by simp
  then show ?case
    using IH P(1) unfolding P(4) m(2) by (auto simp: algebra_simps)
qed simp

lemma tb_run_inv: "tb_inv tb \<Longrightarrow> tb_inv (fst (tb_run tb ts)) \<and> tb_Capacity (fst (tb_run tb ts)) = tb_Capacity tb
    \<and> tb_RefillRate (fst (tb_run tb ts)) = tb_RefillRate tb"
proof (induction ts arbitrary: tb)
  case (Cons t ts)
  obtain tb1 ok where a: "tb_Allow t tb = (tb1, ok)" by force
  have "tb_inv tb1" "tb_Capacity tb1 = tb_Capacity tb" "tb_RefillRate tb1 = tb_RefillRate tb"
    using tb_inv_Allow [OF Cons.prems, of t] tb_Allow_inv [OF Cons.prems, of t] a by auto
  then show ?case using Cons.IH [of tb1] a by (auto split: prod.splits)
qed simp

lemma NewTokenBucket_inv:
  "0 \<le> cap \<Longrightarrow> cap < 2 ^ 62 \<Longrightarrow> 2 \<le> rate \<Longrightarrow> rate \<le> max_dur \<Longrightarrow> tb_inv (NewTokenBucket t cap rate)"
  by (simp add: tb_inv_def NewTokenBucket_def Let_def)

text \<open>A token bucket never holds fewer than zero tokens or more than its capacity, for every
  series of requests and every sequence of clock readings, monotone or not.\<close>

lemma token_bucket_bounded:
  assumes "0 \<le> cap" "cap < 2 ^ 62" "2 \<le> rate" "rate \<le> max_dur"
  shows "0 \<le> tb_Tokens (fst (tb_run (NewTokenBucket t0 cap rate) ts))
    \<and> tb_Tokens (fst (tb_run (NewTokenBucket t0 cap rate) ts)) \<le> cap"
  using tb_run_inv [OF NewTokenBucket_inv [OF assms], of t0 ts]
  by (simp add: tb_inv_def NewTokenBucket_def Let_def split: if_splits)

lemma tb_run_append:
  "tb_run tb (us @ ts) =
     (let (tb1, n) = tb_run tb us; (tb2, m) = tb_run tb1 ts in (tb2, n + m))"
  by (induction us arbitrary: tb) (auto simp: Let_def split: prod.splits)

lemma tb_run_LastRefill:
  assumes "tb_inv tb" and "sorted (tb_LastRefill tb # us)"
  shows "tb_LastRefill (fst (tb_run tb us)) \<le> last (tb_LastRefill tb # us)"
  using tb_run_potential [OF assms, of "fst (tb_run tb us)" "snd (tb_run tb us)"] by simp

text \<open>The requests of a window: the first one leaves less than one refill interval of credit.\<close>

lemma tb_window:
  assumes "tb_inv tb" and "sorted (tb_LastRefill tb # t # ts)"
  shows "snd (tb_run tb (t # ts)) \<le> tb_Capacity tb + 1 + (last (t # ts) - t) div tb_RefillRate tb"
proof -
  obtain tb1 ok where a: "tb_Allow t tb = (tb1, ok)" by force
  obtain tb2 m where m: "tb_run tb1 ts = (tb2, m)" by force
  let ?R = "tb_RefillRate tb"
  have le: "tb_LastRefill tb \<le> t" using assms(2) by simp
  note P = tb_Allow_potential [OF assms(1) le a]
  have srt: "sorted (tb_LastRefill tb1 # ts)"
    using assms(2) P(2) by (auto intro: order_trans)
  note Q = tb_run_potential [OF P(6) srt m, unfolded P(4)]
  have R: "0 < ?R" and T: "tb_Tokens tb1 \<le> tb_Capacity tb" "0 \<le> tb_Tokens tb2"
    using assms(1) P(5,6) Q by (auto simp: tb_inv_def)
  have ok_le: "of_bool ok + tb_Tokens tb1 \<le> tb_Capacity tb"
    using a assms(1) by (auto simp: tb_Allow_inv tb_refilled_def)
  have "last (tb_LastRefill tb1 # ts) \<le> last (t # ts)" using P(2) by simp
  then have "(m + tb_Tokens tb2) * ?R \<le> tb_Tokens tb1 * ?R + (last (t # ts) - tb_LastRefill tb1)"
    using Q by linarith
  moreover have "0 \<le> tb_Tokens tb2 * ?R" using T R by simp
  ultimately have "(m - tb_Tokens tb1 - 1) * ?R \<le> last (t # ts) - t"
    using P(3) by (simp add: algebra_simps)
  then have "m - tb_Tokens tb1 - 1 \<le> (last (t # ts) - t) div ?R"
    using R zdiv_mono1 [of "(m - tb_Tokens tb1 - 1) * ?R" "last (t # ts) - t" ?R] by simp
  then show ?thesis using a m ok_le by simp
qed

text \<open>C14. Rate limit: in every time window the number of requests a token bucket lets through is
  at most its capacity plus one plus the number of refill intervals in the window, whatever the
  bucket did before.\<close>

theorem token_bucket_window_bound:
  assumes "0 \<le> cap" "cap < 2 ^ 62" "2 \<le> rate" "rate \<le> max_dur"
    and "sorted (t0 # us @ t # ts)"
  shows "snd (tb_run (fst (tb_run (NewTokenBucket t0 cap rate) us)) (t # ts))
    \<le> cap + 1 + (last (t # ts) - t) div rate"
proof -
  let ?b = "NewTokenBucket t0 cap rate"
  note I = NewTokenBucket_inv [OF assms(1-4), of t0]
  have b: "tb_Capacity ?b = cap" "tb_RefillRate ?b = rate" "tb_LastRefill ?b = t0"
    using assms(3) by (simp_all add: NewTokenBucket_def Let_def)
  have "last (t0 # us) \<le> t"
    using assms(5) by (cases us rule: rev_cases) (auto simp: sorted_append)
  moreover have "tb_LastRefill (fst (tb_run ?b us)) \<le> last (t0 # us)"
    using tb_run_LastRefill [OF I, of us] assms(5) by (simp add: b sorted_append)
  ultimately have "sorted (tb_LastRefill (fst (tb_run ?b us)) # t # ts)"
    using assms(5) by (auto simp: sorted_append intro: order_trans)
  then show ?thesis
    using tb_window [of "fst (tb_run ?b us)" t ts] tb_run_inv [OF I, of us] by (simp add: b)
qed

theorem token_bucket_window_bound_witness:
  "snd (tb_run (fst (tb_run (NewTokenBucket 0 1 10) [0])) [9, 10, 11]) \<le> (1 + 1 + (11 - 9) div 10 :: int)"
  using token_bucket_window_bound [of 1 10 0 "[0]" 9 "[10, 11]"] by (simp add: max_dur_def)

lemma tb_Allow_granted:
  assumes "tb_inv tb" "1 \<le> tb_Capacity tb" "tb_LastRefill tb \<le> t"
    and "tb_Tokens tb > 0 \<or> tb_RefillRate tb \<le> t - tb_LastRefill tb"
  shows "snd (tb_Allow t tb)"
proof -
  have "0 < time_sub t (tb_LastRefill tb) sdiv tb_RefillRate tb" if "tb_RefillRate tb \<le> t - tb_LastRefill tb"
  proof -
    have "tb_RefillRate tb \<le> time_sub t (tb_LastRefill tb)"
      using assms(1) that by (subst time_sub_ge_iff) (auto simp: tb_inv_def)
    then show ?thesis
      using assms(1) by (simp add: tb_inv_def sdiv_nonneg pos_imp_zdiv_pos_iff)
  qed
  then show ?thesis
    using assms by (auto simp: tb_Allow_inv tb_refilled_def tb_inv_def)
qed

lemma steady_run:
  assumes "tb_inv tb" "1 \<le> tb_Capacity tb" "tb_LastRefill tb \<le> t"
    and "tb_Tokens tb > 0 \<or> tb_RefillRate tb \<le> t - tb_LastRefill tb"
    and "sorted_wrt (\<lambda>a b. tb_RefillRate tb \<le> b - a) (t # ts)"
  shows "snd (tb_run tb (t # ts)) = int (length (t # ts))"
  using assms
proof (induction ts arbitrary: tb t)
  case Nil
  then show ?case using tb_Allow_granted [of tb t] by (auto split: prod.splits)
next
  case (Cons u ts)
  obtain tb1 where a: "tb_Allow t tb = (tb1, True)"
    using tb_Allow_granted [OF Cons.prems(1-4)] by (metis prod.collapse)
  note P = tb_Allow_potential [OF Cons.prems(1,3) a]
  have "tb_RefillRate tb \<le> u - t" using Cons.prems(5) by simp
  moreover have "0 < tb_RefillRate tb" using Cons.prems(1) by (simp add: tb_inv_def)
  ultimately have "tb_LastRefill tb1 \<le> u" "tb_RefillRate tb1 \<le> u - tb_LastRefill tb1"
    using P(2,4) by linarith+
  then have "snd (tb_run tb1 (u # ts)) = int (length (u # ts))"
    using Cons.prems(2,5) P(4,5,6) by (intro Cons.IH) auto
  then show ?case using a by (auto split: prod.splits)
qed

text \<open>C29. A client that keeps at least one refill interval between its requests is never
  limited: every one of its requests is let through.\<close>

theorem steady_client_never_limited:
  assumes "1 \<le> cap" "cap < 2 ^ 62" "2 \<le> rate" "rate \<le> max_dur"
    and "t0 \<le> t" and "sorted_wrt (\<lambda>a b. rate \<le> b - a) (t # ts)"
  shows "snd (tb_run (NewTokenBucket t0 cap rate) (t # ts)) = int (length (t # ts))"
  using assms by (intro steady_run NewTokenBucket_inv) (auto simp: NewTokenBucket_def Let_def)

theorem steady_client_never_limited_witness:
  "snd (tb_run (NewTokenBucket 0 1 10) [3, 13, 25]) = 3"
  using steady_client_never_limited [of 1 10 0 3 "[13, 25]"] by (simp add: max_dur_def)

section \<open>Dropping idle buckets\<close>

text \<open>The limiter with the clock reading of its last operation.\<close>

inductive rl_reach :: "int \<Rightarrow> duration \<Rightarrow> RateLimiter \<Rightarrow> time \<Rightarrow> bool" for cap rate where
  rl_new: "rl_reach cap rate (NewRateLimiter cap rate) t"
| rl_allow: "rl_reach cap rate rl t \<Longrightarrow> t \<le> now \<Longrightarrow> rl_reach cap rate (snd (allow_local now key rl)) now"
| rl_clean: "rl_reach cap rate rl t \<Longrightarrow> t \<le> now \<Longrightarrow> rl_reach cap rate (cleanup now rl) now"

definition rl_inv :: "int \<Rightarrow> duration \<Rightarrow> RateLimiter \<Rightarrow> time \<Rightarrow> bool" where
  "rl_inv cap rate rl t \<longleftrightarrow> rl_capacity rl = cap \<and> rl_refillRate rl = rate \<and> rl_cleanupTTL rl = 10 * minute
     \<and> distinct (map fst (rl_limiters rl))
     \<and> (\<forall>(key, tb) \<in> set (rl_limiters rl). tb_inv tb \<and> tb_Capacity tb = cap \<and> tb_RefillRate tb = rate
          \<and> tb_LastRefill tb \<le> tb_LastSeen tb \<and> tb_LastSeen tb \<le> t)"

lemma local_bucket_inv:
  assumes "rl_inv cap rate rl t" "t \<le> now" "1 \<le> cap" "cap < 2 ^ 62" "2 \<le> rate" "rate \<le> max_dur"
    and "local_bucket now key rl = (tb, rl1)"
  shows "rl_inv cap rate rl1 now \<and> tb_inv tb \<and> tb_Capacity tb = cap \<and> tb_RefillRate tb = rate
     \<and> tb_LastRefill tb \<le> tb_LastSeen tb \<and> tb_LastSeen tb \<le> now"
proof -
  let ?P = "\<lambda>tb. tb_inv tb \<and> tb_Capacity tb = cap \<and> tb_RefillRate tb = rate
     \<and> tb_LastRefill tb \<le> tb_LastSeen tb \<and> tb_LastSeen tb \<le> now"
  have all: "\<forall>(k, tb) \<in> set (rl_limiters rl). ?P tb"
    using assms(1,2) by (fastforce simp: rl_inv_def)
  have new: "?P (NewTokenBucket now cap rate)"
    using NewTokenBucket_inv [of cap rate now] assms(3-6) by (simp add: NewTokenBucket_def Let_def)
  show ?thesis
  proof (cases "map_of (rl_limiters rl) key")
    case None
    then have "tb = NewTokenBucket now cap rate" "rl_limiters rl1 = AList.update key tb (rl_limiters rl)"
        "rl_capacity rl1 = cap" "rl_refillRate rl1 = rate" "rl_cleanupTTL rl1 = 10 * minute"
      using assms(1,7) by (auto simp: local_bucket_def rl_inv_def Let_def)
    then show ?thesis
      using new update_forall [of "rl_limiters rl" "\<lambda>_. ?P" key, OF all new] assms(1) by (auto simp: rl_inv_def)
  next
    case (Some b)
    then have "tb = b" "rl1 = rl" "(key, b) \<in> set (rl_limiters rl)"
      using assms(7) by (auto simp: local_bucket_def dest: map_of_SomeD)
    then show ?thesis using all assms(1) by (auto simp: rl_inv_def)
  qed
qed

lemma allow_local_inv:
  assumes "rl_inv cap rate rl t" "t \<le> now" "1 \<le> cap" "cap < 2 ^ 62" "2 \<le> rate" "rate \<le> max_dur"
  shows "rl_inv cap rate (snd (allow_local now key rl)) now"
proof -
  obtain tb rl1 where l: "local_bucket now key rl = (tb, rl1)" by force
  obtain tb' ok where a: "tb_Allow now tb = (tb', ok)" by force
  note L = local_bucket_inv [OF assms l]
  have "tb_LastRefill tb \<le> now" using L by simp
  note P = tb_Allow_potential [OF _ this a]
  have "tb_LastSeen tb' = now" using a L by (auto simp: tb_Allow_inv)
  then have "\<forall>(k, tb) \<in> set (AList.update key tb' (rl_limiters rl1)). tb_inv tb \<and> tb_Capacity tb = cap
      \<and> tb_RefillRate tb = rate \<and> tb_LastRefill tb \<le> tb_LastSeen tb \<and> tb_LastSeen tb \<le> now"
    using P L by (intro update_forall) (auto simp: rl_inv_def)
  then show ?thesis
    using l a L by (auto simp: allow_local_def put_bucket_def rl_inv_def)
qed

lemma rl_reach_inv:
  assumes "1 \<le> cap" "cap < 2 ^ 62" "2 \<le> rate" "rate \<le> max_dur"
  shows "rl_reach cap rate rl t \<Longrightarrow> rl_inv cap rate rl t"
proof (induction rule: rl_reach.induct)
  case (rl_new t)
  then show ?case by (simp add: rl_inv_def NewRateLimiter_def)
next
  case (rl_allow rl t now key)
  then show ?case using allow_local_inv assms by blast
next
  case (rl_clean rl t now)
  then show ?case
    by (fastforce simp: rl_inv_def cleanup_def distinct_map_filter)
qed

text \<open>A bucket idle for longer than it takes to fill behaves as a new one.\<close>

lemma idle_bucket_fresh:
  assumes "tb_inv tb" "1 \<le> tb_Capacity tb" "tb_Capacity tb * tb_RefillRate tb \<le> now - tb_LastRefill tb"
    and "tb_Capacity tb * tb_RefillRate tb \<le> max_dur"
  shows "tb_Allow now tb = tb_Allow now (NewTokenBucket now (tb_Capacity tb) (tb_RefillRate tb))"
proof -
  let ?c = "tb_Capacity tb" and ?R = "tb_RefillRate tb"
  let ?n = "time_sub now (tb_LastRefill tb) sdiv ?R"
  have R: "0 < ?R" and cR: "0 \<le> ?c * ?R" using assms(1,2) by (auto simp: tb_inv_def)
  have "?c * ?R \<le> time_sub now (tb_LastRefill tb)"
    using assms(3,4) cR by (subst time_sub_ge_iff) auto
  then have n: "?c \<le> ?n"
    using R cR zdiv_mono1 [of "?c * ?R" "time_sub now (tb_LastRefill tb)" ?R]
    by (simp add: sdiv_nonneg)
  let ?b = "NewTokenBucket now ?c ?R"
  have b: "tb_inv ?b" using assms(1) by (auto simp: tb_inv_def NewTokenBucket_def)
  have r: "tb_refilled now tb = ?c" "tb_refilled now ?b = ?c"
    using n assms(1,2) R by (auto simp: tb_refilled_def tb_inv_def NewTokenBucket_def)
  have "tb_Allow now tb = (tb\<lparr>tb_LastSeen := now, tb_LastRefill := now, tb_Tokens := ?c - 1\<rparr>, True)"
    using n assms(2) by (simp add: tb_Allow_inv [OF assms(1)] r)
  moreover have "tb_Allow now ?b = (?b\<lparr>tb_Tokens := ?c - 1\<rparr>, True)"
    unfolding tb_Allow_inv [OF b] r using assms(2) R by (simp add: NewTokenBucket_def)
  ultimately show ?thesis using R by (simp add: NewTokenBucket_def)
qed

text \<open>C28. Dropping idle buckets is invisible to clients: when a bucket fills within the clean-up
  time of ten minutes, a request after a clean-up gets the same answer, and leaves the client's
  bucket in the same state, as without the clean-up.\<close>

theorem cleanup_unobservable:
  assumes "rl_reach cap rate rl t" and "t \<le> c" "c \<le> now"
    and "1 \<le> cap" "cap < 2 ^ 62" "2 \<le> rate" "cap * rate \<le> 10 * minute"
  shows "fst (allow_local now key (cleanup c rl)) = fst (allow_local now key rl)
    \<and> map_of (rl_limiters (snd (allow_local now key (cleanup c rl)))) key
      = map_of (rl_limiters (snd (allow_local now key rl))) key"
proof -
  have "rate \<le> cap * rate" using assms(4,6) mult_right_mono [of 1 cap rate] by simp
  then have rate: "rate \<le> max_dur"
    using assms(7) by (simp add: go_simps max_dur_def)
  have I: "rl_inv cap rate rl t" using assms rate rl_reach_inv by blast
  let ?m = "map_of (rl_limiters rl) key"
  have conf: "rl_capacity (cleanup c rl) = cap" "rl_refillRate (cleanup c rl) = rate"
      "rl_capacity rl = cap" "rl_refillRate rl = rate"
    using I by (simp_all add: cleanup_def rl_inv_def)
  have kept: "map_of (rl_limiters (cleanup c rl)) key =
      (case ?m of None \<Rightarrow> None | Some b \<Rightarrow> if time_sub c (tb_LastSeen b) > 10 * minute then None else Some b)"
    using I by (simp add: cleanup_def rl_inv_def filter_map_of split: option.splits)
  show ?thesis
  proof (cases "\<exists>b. ?m = Some b \<and> time_sub c (tb_LastSeen b) > 10 * minute")
    case False
    then have "map_of (rl_limiters (cleanup c rl)) key = ?m"
      using kept by (auto split: option.splits)
    then show ?thesis
      by (auto simp: allow_local_def local_bucket_def put_bucket_def conf Let_def split: option.splits prod.splits)
  next
    case True
    then obtain b where b: "?m = Some b" "time_sub c (tb_LastSeen b) > 10 * minute" by blast
    then have "(key, b) \<in> set (rl_limiters rl)" by (auto dest: map_of_SomeD)
    then have B: "tb_inv b" "tb_Capacity b = cap" "tb_RefillRate b = rate" "tb_LastRefill b \<le> tb_LastSeen b"
        "tb_LastSeen b \<le> c"
      using I assms(2) by (auto simp: rl_inv_def)
    have "10 * minute \<le> c - tb_LastSeen b"
      using b(2) by (intro time_sub_ge_iff [THEN iffD1]) (auto simp: go_simps max_dur_def)
    then have "tb_Allow now b = tb_Allow now (NewTokenBucket now cap rate)"
      using idle_bucket_fresh [of b now] B assms(3,4,7) by (simp add: go_simps max_dur_def)
    then show ?thesis
      using b kept
      by (auto simp: allow_local_def local_bucket_def put_bucket_def conf Let_def split: prod.splits)
  qed
qed

theorem cleanup_unobservable_witness:
  "let rl = snd (allow_local 5 ''ip:10.0.0.1'' (NewRateLimiter 100 second)) in
   rl_limiters (cleanup (11 * minute) rl) = []
   \<and> fst (allow_local (12 * minute) ''ip:10.0.0.1'' (cleanup (11 * minute) rl))
     = fst (allow_local (12 * minute) ''ip:10.0.0.1'' rl)"
proof -
  have "rl_reach 100 second (snd (allow_local 5 ''ip:10.0.0.1'' (NewRateLimiter 100 second))) 5"
    by (rule rl_allow [OF rl_new [of _ _ 0]]) simp
  from cleanup_unobservable [OF this, of "11 * minute" "12 * minute" "''ip:10.0.0.1''"]
  show ?thesis
    by (simp add: go_simps) code_simp
qed

section \<open>The Redis bucket refines the local one\<close>

text \<open>
  What the limiter relies on from the server: a script runs as one step, \<open>GET\<close> returns nothing
  for a key whose expiry has passed, \<open>SET ... EX\<close> stores the value with its expiry. \<open>view\<close> reads the
  stored values and their expiry times (in microseconds) off the server's state.
\<close>

definition redis_live :: "int \<Rightarrow> (redis_raw \<times> int) option \<Rightarrow> redis_raw option" where
  "redis_live now_micros e =
     (case e of Some (raw, expiry) \<Rightarrow> if expiry \<le> now_micros then None else Some raw | None \<Rightarrow> None)"

definition redis_runs_script :: "'r redis_eval \<Rightarrow> ('r \<Rightarrow> string \<Rightarrow> (redis_raw \<times> int) option) \<Rightarrow> bool" where
  "redis_runs_script eval view \<longleftrightarrow>
     (\<forall>key cap refill nm ttl r.
        case redisTokenBucketScript cap refill nm (redis_live nm (view r key)) of
          Inl err \<Rightarrow> eval key cap refill nm ttl r = (Inl err, r)
        | Inr (raw, allowed) \<Rightarrow>
            fst (eval key cap refill nm ttl r) = Inr allowed
            \<and> view (snd (eval key cap refill nm ttl r)) = (view r)(key \<mapsto> (raw, nm + ttl * 1000000)))"

lemma lua_num_small: "0 \<le> x \<Longrightarrow> x < 10 ^ 14 \<Longrightarrow> lua_num x = x"
  by (simp add: lua_num_def lua_scale.simps nat_less_iff)

lemma lua_scale_clock: "10 ^ 15 \<le> x \<Longrightarrow> x < 10 ^ 16 \<Longrightarrow> lua_scale x 0 = 100"
  by (simp add: lua_scale.simps)

lemma lua_num_clock:
  assumes "10 ^ 15 \<le> x" "x < 10 ^ 16"
  shows "100 dvd lua_num x" and "\<bar>lua_num x - x\<bar> \<le> 50" and "100 dvd x \<Longrightarrow> lua_num x = x"
proof -
  have sc: "lua_scale (nat x) 0 = 100"
    using assms by (intro lua_scale_clock) (simp_all add: nat_less_iff le_nat_iff)
  show "100 dvd lua_num x" by (simp add: lua_num_def sc Let_def)
  show "\<bar>lua_num x - x\<bar> \<le> 50"
    unfolding lua_num_def sc Let_def by (simp split: if_splits) presburger
  show "100 dvd x \<Longrightarrow> lua_num x = x" by (simp add: lua_num_def sc Let_def dvd_eq_mod_eq_0)
qed

definition clock_micros_ok :: "int \<Rightarrow> bool" where
  "clock_micros_ok nm \<longleftrightarrow> 10 ^ 15 \<le> nm \<and> nm < 10 ^ 16 - 50"

text \<open>A stored bucket: its tokens, its rounded refill time, and an expiry a full refill away.\<close>

fun entry_ok :: "int \<Rightarrow> int \<Rightarrow> (redis_raw \<times> int) option \<Rightarrow> bool" where
  "entry_ok cap ttl None = True"
| "entry_ok cap ttl (Some (RawMalformed, expiry)) = False"
| "entry_ok cap ttl (Some (RawBucket tokens last_refill, expiry)) =
     (0 \<le> tokens \<and> tokens \<le> cap \<and> 10 ^ 15 \<le> last_refill \<and> last_refill < 10 ^ 16 \<and> 100 dvd last_refill
      \<and> last_refill + ttl * 1000000 \<le> expiry + 50)"

text \<open>The local bucket a stored entry stands for.\<close>

fun entry_bucket :: "time \<Rightarrow> int \<Rightarrow> duration \<Rightarrow> (redis_raw \<times> int) option \<Rightarrow> TokenBucket" where
  "entry_bucket now cap rate (Some (RawBucket tokens last_refill, expiry)) =
     \<lparr> tb_Capacity = cap, tb_Tokens = tokens, tb_RefillRate = rate,
       tb_LastRefill = 1000 * last_refill, tb_LastSeen = now \<rparr>"
| "entry_bucket now cap rate _ = NewTokenBucket now cap rate"

lemma ttl_covers:
  assumes "0 \<le> d" "d < 2 ^ 62" shows "d \<le> redisTTLSeconds d * second"
proof -
  have "d sdiv second = d div second" "d smod second = d mod second"
    using assms by (simp_all add: sdiv_nonneg smod_nonneg go_simps)
  moreover have "d \<le> (d div second + 1) * second"
    by (simp add: go_simps)
  moreover have "d mod second = 0 \<Longrightarrow> d \<le> d div second * second"
    by (metis div_mult_mod_eq add_0_right order_refl)
  moreover have "0 \<le> d div second" using assms by (simp add: go_simps)
  ultimately show ?thesis using assms by (auto simp: redisTTLSeconds_def Let_def)
qed

text \<open>The script's own refill, on a live entry, is the local bucket's.\<close>

lemma refill_micros:
  assumes "10 ^ 15 \<le> nm" "nm < 10 ^ 16" "10 ^ 15 \<le> lr" "lr < 10 ^ 16" "0 < rm"
  shows "max 0 (time_sub (1000 * nm) (1000 * lr) sdiv (1000 * rm)) = max 0 (nm - lr) div rm"
    and "0 < time_sub (1000 * nm) (1000 * lr) sdiv (1000 * rm) \<longleftrightarrow> 0 < max 0 (nm - lr) div rm"
proof -
  have ts: "time_sub (1000 * nm) (1000 * lr) = 1000 * (nm - lr)"
    using assms(1-4) by (simp add: time_sub_def max_dur_def min_dur_def)
  have pos: "1000 * (nm - lr) sdiv (1000 * rm) = (nm - lr) div rm" if "lr \<le> nm"
  proof -
    have "1000 * (nm - lr) sdiv (1000 * rm) = 1000 * (nm - lr) div (1000 * rm)"
      using that assms(5) by (intro sdiv_nonneg) auto
    then show ?thesis by (simp only: div_mult_mult1 [OF numeral_neq_zero])
  qed
  have neg: "1000 * (nm - lr) sdiv (1000 * rm) \<le> 0" if "\<not> lr \<le> nm"
    using that assms(5) by (intro sdiv_nonpos) auto
  have nn: "0 \<le> (nm - lr) div rm" if "lr \<le> nm"
    using that assms(5) by (simp only: pos_imp_zdiv_nonneg_iff)
  show "max 0 (time_sub (1000 * nm) (1000 * lr) sdiv (1000 * rm)) = max 0 (nm - lr) div rm"
  proof (cases "lr \<le> nm")
    case True
    then show ?thesis using nn unfolding ts by (simp only: pos max_absorb2 diff_ge_0_iff_ge)
  next
    case False
    then show ?thesis using neg unfolding ts by (simp only: max_absorb1) simp
  qed
  then show "0 < time_sub (1000 * nm) (1000 * lr) sdiv (1000 * rm) \<longleftrightarrow> 0 < max 0 (nm - lr) div rm"
    by linarith
qed

text \<open>One run of the script against one step of the bucket the entry stands for.\<close>

lemma script_live:
  assumes "entry_ok cap ttl (Some (RawBucket tokens lr, expiry))" "clock_micros_ok nm"
    and "1 \<le> cap" "cap < 10 ^ 14" "1 \<le> rm" "1000 * rm \<le> max_dur"
    and "tb_Allow (1000 * nm) (entry_bucket (1000 * nm) cap (1000 * rm) (Some (RawBucket tokens lr, expiry))) = (tb', ok)"
  shows "redisTokenBucketScript cap rm nm (Some (RawBucket tokens lr)) =
    Inr (RawBucket (tb_Tokens tb') (lua_num (tb_LastRefill tb' div 1000)), of_bool ok)"
proof -
  define n where "n = max 0 (nm - lr) div rm"
  let ?b = "entry_bucket (1000 * nm) cap (1000 * rm) (Some (RawBucket tokens lr, expiry))"
  let ?t = "min cap (tokens + n)"
  have ok: "10 ^ 15 \<le> lr" "lr < 10 ^ 16" "0 \<le> tokens" "tokens \<le> cap" "10 ^ 15 \<le> nm" "nm < 10 ^ 16" "0 < rm"
    using assms(1,2,5) by (auto simp: clock_micros_ok_def)
  note M = refill_micros [OF ok(5,6,1,2,7), folded n_def]
  have inv: "tb_inv ?b" using assms(3-6) ok by (simp add: tb_inv_def)
  have n0: "0 \<le> n" using assms(5) by (simp add: n_def pos_imp_zdiv_nonneg_iff)
  have t: "tb_refilled (1000 * nm) ?b = ?t" by (simp add: tb_refilled_def M)
  have tb': "tb_Tokens tb' = (if 0 < ?t then ?t - 1 else ?t)" "ok = (0 < ?t)"
      "tb_LastRefill tb' = 1000 * (if 0 < n then nm else lr)"
    using assms(7) unfolding tb_Allow_inv [OF inv] t by (auto simp: M)
  have t': "?t = (if 0 < n then if cap < tokens + n then cap else tokens + n else tokens)"
    using ok n0 by auto
  have small: "lua_num (tb_Tokens tb') = tb_Tokens tb'"
    using ok assms(4) n0 unfolding tb' by (intro lua_num_small) auto
  have el: "(if nm - lr < 0 then 0 else nm - lr) = max 0 (nm - lr)" by (simp add: max_def)
  have T: "(if 0 < n then if cap < tokens + n then cap else tokens + n else tokens, if 0 < n then nm else lr)
    = (if 0 < n then (if cap < tokens + n then cap else tokens + n, nm) else (tokens, lr))" by simp
  show ?thesis
    unfolding redisTokenBucketScript_def Let_def option.case redis_raw.case prod.case el n_def [symmetric] T [symmetric] t' [symmetric]
    using assms(3,5) small tb' by auto
qed

lemma script_fresh:
  assumes "clock_micros_ok nm" "1 \<le> cap" "cap < 10 ^ 14" "1 \<le> rm" "1000 * rm \<le> max_dur"
    and "tb_Allow (1000 * nm) (NewTokenBucket (1000 * nm) cap (1000 * rm)) = (tb', ok)"
  shows "redisTokenBucketScript cap rm nm None =
    Inr (RawBucket (tb_Tokens tb') (lua_num (tb_LastRefill tb' div 1000)), of_bool ok)"
proof -
  have inv: "tb_inv (NewTokenBucket (1000 * nm) cap (1000 * rm))"
    using assms by (intro NewTokenBucket_inv) auto
  have "tb_Tokens tb' = cap - 1" "ok" "tb_LastRefill tb' = 1000 * nm"
    using assms(2,4,6) unfolding tb_Allow_inv [OF inv]
    by (auto simp: tb_refilled_def NewTokenBucket_def split: if_splits)
  moreover have "lua_num (cap - 1) = cap - 1" using assms(2,3) by (intro lua_num_small) auto
  ultimately show ?thesis using assms by (simp add: redisTokenBucketScript_def Let_def)
qed

lemma distributed_ttl:
  assumes "1 \<le> cap" "1 \<le> rm" "cap * (1000 * rm) + second < 2 ^ 62"
    and "rl = NewDistributedRateLimiter cap (1000 * rm) True timeout"
  shows "cap * rm + 1000000 \<le> redisTTLSeconds (i64 (rl_windowSize rl + second)) * 1000000"
proof -
  let ?w = "max second (cap * (1000 * rm))"
  have p: "0 \<le> cap * (1000 * rm)" using assms(1,2) by simp
  have "i64 (cap * (1000 * rm)) = cap * (1000 * rm)"
    using p assms(3) by (intro i64_id) (auto simp: go_simps)
  then have w: "rl_windowSize rl = ?w"
    using assms(4) by (auto simp: NewDistributedRateLimiter_def Let_def max_def)
  have b: "0 \<le> ?w + second" "?w + second < 2 ^ 62" using p assms(3) by (auto simp: go_simps)
  then have "i64 (?w + second) = ?w + second" by (intro i64_id) auto
  then have "?w + second \<le> redisTTLSeconds (i64 (rl_windowSize rl + second)) * second"
    using ttl_covers [OF b] w by simp
  then have "cap * (1000 * rm) + second \<le> redisTTLSeconds (i64 (rl_windowSize rl + second)) * second"
    by linarith
  then show ?thesis by (simp add: go_simps)
qed

text \<open>An expired entry stands for a bucket that has filled in the meantime.\<close>

lemma expired_fresh:
  assumes "entry_ok cap ttl e" "redis_live nm e = None" "clock_micros_ok nm"
    and "1 \<le> cap" "cap < 10 ^ 14" "1 \<le> rm" "cap * rm + 1000000 \<le> ttl * 1000000" "cap * (1000 * rm) \<le> max_dur"
    "1000 * rm \<le> max_dur"
  shows "tb_Allow (1000 * nm) (entry_bucket (1000 * nm) cap (1000 * rm) e)
       = tb_Allow (1000 * nm) (NewTokenBucket (1000 * nm) cap (1000 * rm))"
proof (cases e)
  case (Some x)
  then obtain tokens lr expiry where e: "e = Some (RawBucket tokens lr, expiry)"
    using assms(1) by (cases x) (metis entry_ok.simps(2) redis_raw.exhaust)
  let ?b = "entry_bucket (1000 * nm) cap (1000 * rm) e"
  have "expiry \<le> nm" using assms(2) by (simp add: e redis_live_def split: if_splits)
  then have "cap * rm \<le> nm - lr" using assms(1,7) by (simp add: e)
  then have "cap * (1000 * rm) \<le> 1000 * nm - 1000 * lr" by simp
  moreover have "tb_inv ?b" using assms(1,4-6,9) by (simp add: e tb_inv_def)
  ultimately show ?thesis
    using idle_bucket_fresh [of ?b "1000 * nm"] assms(4,8) by (simp add: e)
qed simp

lemma entry_bucket_inv:
  assumes "entry_ok cap ttl e" "1 \<le> cap" "cap < 10 ^ 14" "1 \<le> rm" "1000 * rm \<le> max_dur"
  shows "tb_inv (entry_bucket now cap (1000 * rm) e) \<and> tb_Capacity (entry_bucket now cap (1000 * rm) e) = cap"
  using assms NewTokenBucket_inv [of cap "1000 * rm" now]
  by (cases "(now, cap, 1000 * rm, e)" rule: entry_bucket.cases) (auto simp: tb_inv_def NewTokenBucket_def)

text \<open>The refill time a request leaves behind, once rounded, keeps the entry well formed.\<close>

lemma refill_time_ok:
  assumes "entry_ok cap ttl e" "clock_micros_ok nm"
    and "tb_LastRefill (entry_bucket (1000 * nm) cap (1000 * rm) e) \<le> 1000 * (nm + 50)"
    and "t div 1000 = nm \<or> t = tb_LastRefill (entry_bucket (1000 * nm) cap (1000 * rm) e)"
  shows "10 ^ 15 \<le> lua_num (t div 1000) \<and> lua_num (t div 1000) < 10 ^ 16 \<and> 100 dvd lua_num (t div 1000)
    \<and> lua_num (t div 1000) \<le> nm + 50"
proof -
  have nm: "100 dvd lua_num nm" "\<bar>lua_num nm - nm\<bar> \<le> 50"
    using assms(2) lua_num_clock [of nm] by (auto simp: clock_micros_ok_def)
  then have "10 ^ 15 \<le> lua_num nm"
    using assms(2) by (auto simp: clock_micros_ok_def dvd_def)
  then have "10 ^ 15 \<le> lua_num nm \<and> lua_num nm < 10 ^ 16 \<and> 100 dvd lua_num nm \<and> lua_num nm \<le> nm + 50"
    using nm assms(2) by (auto simp: clock_micros_ok_def)
  moreover have "t div 1000 = nm \<or> (\<exists>lr. t div 1000 = lr \<and> 10 ^ 15 \<le> lr \<and> lr < 10 ^ 16 \<and> 100 dvd lr \<and> lr \<le> nm + 50)"
    using assms by (cases "(1000 * nm, cap, 1000 * rm, e)" rule: entry_bucket.cases) (auto simp: NewTokenBucket_def Let_def)
  ultimately show ?thesis using lua_num_clock(3) by metis
qed


text \<open>A server that keeps its keys in a function, for the concrete run below.\<close>

definition map_eval :: "(string \<Rightarrow> (redis_raw \<times> int) option) redis_eval" where
  "map_eval key cap refill nm ttl r =
     (case redisTokenBucketScript cap refill nm (redis_live nm (r key)) of
        Inl err \<Rightarrow> (Inl err, r)
      | Inr (raw, allowed) \<Rightarrow> (Inr allowed, r(key \<mapsto> (raw, nm + ttl * 1000000))))"

lemma map_eval_runs_script: "redis_runs_script map_eval (\<lambda>r. r)"
  by (simp add: redis_runs_script_def map_eval_def split: sum.splits)


end
