(* ===== verification/Numbers.thy ===== *)
theory Numbers
  imports Prelude Complex_Main
begin

text \<open>
  Numbers as Go's \<open>strconv\<close> reads and prints them: decimal integers of a given width, and \<open>float64\<close>
  values with their rounding and their conversion to integers.
\<close>

section \<open>Numbers in text\<close>

definition digit_val :: "char \<Rightarrow> int option" where
  "digit_val c = (if CHR ''0'' \<le> c \<and> c \<le> CHR ''9'' then Some (int (of_char c) - 48) else None)"

fun digits_val :: "int \<Rightarrow> string \<Rightarrow> int option" where
  "digits_val acc [] = Some acc"
| "digits_val acc (c # s) =
     (case digit_val c of Some d \<Rightarrow> digits_val (10 * acc + d) s | None \<Rightarrow> None)"

text \<open>\<open>strconv.ParseInt(s, 10, bits)\<close>; \<open>strconv.Atoi\<close> is \<open>parse_int 64\<close>.\<close>

definition parse_int :: "nat \<Rightarrow> string \<Rightarrow> int option" where
  "parse_int bits s =
     (let neg = (s \<noteq> [] \<and> hd s = CHR ''-'');
          ds = (if s \<noteq> [] \<and> (hd s = CHR ''-'' \<or> hd s = CHR ''+'') then tl s else s)
      in if ds = [] then None
         else case digits_val 0 ds of
           None \<Rightarrow> None
         | Some n \<Rightarrow>
             let v = (if neg then - n else n)
             in if - (2 ^ (bits - 1)) \<le> v \<and> v < 2 ^ (bits - 1) then Some v else None)"

fun nat_digits :: "nat \<Rightarrow> string" where
  "nat_digits n =
     (if n < 10 then [char_of (48 + n)] else nat_digits (n div 10) @ [char_of (48 + n mod 10)])"

declare nat_digits.simps [simp del]

text \<open>The verb \<open>%d\<close>.\<close>

definition show_int :: "int \<Rightarrow> string" where
  "show_int n = (if n < 0 then CHR ''-'' # nat_digits (nat (- n)) else nat_digits (nat n))"

section \<open>Printing and parsing numbers\<close>

lemma digit_val_char_of: "d < 10 \<Longrightarrow> digit_val (char_of (48 + d :: nat)) = Some (int d)"
proof -
  assume "d < 10"
  then have "d \<in> {0, 1, 2, 3, 4, 5, 6, 7, 8, 9}" by auto
  then show ?thesis by (auto simp: digit_val_def less_eq_char_def)
qed

lemma digits_val_append:
  "digits_val acc (s @ t) = (case digits_val acc s of None \<Rightarrow> None | Some a \<Rightarrow> digits_val a t)"
  by (induction acc s rule: digits_val.induct) (auto split: option.splits)

lemma digits_val_nat_digits: "digits_val 0 (nat_digits n) = Some (int n)"
proof (induction n rule: nat_digits.induct)
  case (1 n)
  show ?case
  proof (cases "n < 10")
    case True
    then show ?thesis by (subst nat_digits.simps) (simp add: digit_val_char_of)
  next
    case False
    have "10 * int (n div 10) + int (n mod 10) = int n"
      by (metis mult_div_mod_eq of_nat_add of_nat_mult of_nat_numeral)
    then show ?thesis
      using 1 False by (subst nat_digits.simps) (simp add: digits_val_append digit_val_char_of)
  qed
qed

lemma nat_digits_digits: "c \<in> set (nat_digits n) \<Longrightarrow> digit_val c \<noteq> None"
proof (induction n rule: nat_digits.induct)
  case (1 n)
  then show ?case
    by (subst (asm) (2) nat_digits.simps) (auto simp: digit_val_char_of split: if_splits)
qed

lemma nat_digits_nonempty [simp]: "nat_digits n \<noteq> []"
  by (subst nat_digits.simps) simp

lemma parse_show_int:
  assumes "- (2 ^ (bits - 1)) \<le> n" "n < 2 ^ (bits - 1)"
  shows "parse_int bits (show_int n) = Some n"
proof -
  have "hd (nat_digits k) \<noteq> CHR ''-'' \<and> hd (nat_digits k) \<noteq> CHR ''+''" for k
    using nat_digits_digits [of "hd (nat_digits k)" k] by (auto simp: digit_val_def less_eq_char_def)
  then show ?thesis
    using assms by (auto simp: parse_int_def show_int_def digits_val_nat_digits)
qed

section \<open>Floating point\<close>

text \<open>A \<open>float64\<close> value; the sign of zero, which no modelled code observes, is left out. Rounding is to
  the nearest value with 53 significant bits, ties to even, with gradual underflow at \<open>2 ^ -1074\<close>.\<close>

datatype f64 = Fin rat | FInf bool | NaN

function bit_length :: "int \<Rightarrow> int" where
  "bit_length n = (if n \<le> 0 then 0 else 1 + bit_length (n div 2))"
  by pat_completeness auto
termination by (relation "measure nat") auto

declare bit_length.simps [simp del]

definition pow2 :: "int \<Rightarrow> rat" where
  "pow2 k = (if 0 \<le> k then 2 ^ nat k else 1 / 2 ^ nat (- k))"

definition round_even :: "rat \<Rightarrow> int" where
  "round_even q =
     (let n = \<lfloor>q\<rfloor>; r = q - of_int n
      in if r < 1 / 2 then n else if 1 / 2 < r then n + 1 else if even n then n else n + 1)"

text \<open>The exponent of the last place of a positive number.\<close>

definition ulp_exponent :: "rat \<Rightarrow> int" where
  "ulp_exponent q =
     (case quotient_of q of (n, d) \<Rightarrow>
        let k = bit_length n - bit_length d;
            e = (if pow2 k \<le> q then k else k - 1)
        in max (- 1074) (e - 52))"

definition f64_round :: "rat \<Rightarrow> f64" where
  "f64_round q =
     (if q = 0 then Fin 0
      else let u = ulp_exponent \<bar>q\<bar>;
               r = of_int (round_even (\<bar>q\<bar> / pow2 u)) * pow2 u
           in if 2 ^ 1024 \<le> r then FInf (q < 0) else Fin (if q < 0 then - r else r))"

text \<open>The product with a positive finite value.\<close>

fun f64_scale :: "rat \<Rightarrow> f64 \<Rightarrow> f64" where
  "f64_scale k (Fin q) = f64_round (k * q)"
| "f64_scale k x = x"

text \<open>The conversion of a floating-point value to a signed integer: the fraction is dropped. The language
  leaves the result open when the integer does not fit; this is what the compiler's code for amd64,
  the architecture of the released images, computes.\<close>

definition trunc_rat :: "rat \<Rightarrow> int" where
  "trunc_rat q = (if 0 \<le> q then \<lfloor>q\<rfloor> else \<lceil>q\<rceil>)"

fun f64_to_int :: "nat \<Rightarrow> f64 \<Rightarrow> int" where
  "f64_to_int bits (Fin q) =
     (let v = trunc_rat q
      in if - (2 ^ (bits - 1)) \<le> v \<and> v < 2 ^ (bits - 1) then v else - (2 ^ (bits - 1)))"
| "f64_to_int bits _ = - (2 ^ (bits - 1))"

lemma f64_to_int_bounds: "- (2 ^ (bits - 1)) \<le> f64_to_int bits x \<and> f64_to_int bits x < 2 ^ (bits - 1)"
  by (cases x) (auto simp: Let_def less_minus_iff intro: order.strict_trans1 [of _ 0])

subsection \<open>Reading\<close>

text \<open>The digits of a mantissa, at most one point among them, underscores skipped: the digits read, how
  many of them stand before the point, whether there was a point and whether there was an underscore.\<close>

fun read_mantissa :: "(char \<Rightarrow> int option) \<Rightarrow> string \<Rightarrow> int list \<times> nat option \<times> bool \<times> string" where
  "read_mantissa digit [] = ([], None, False, [])"
| "read_mantissa digit (c # s) =
     (if c = CHR ''_'' then (case read_mantissa digit s of (ds, dot, u, r) \<Rightarrow> (ds, dot, True, r))
      else if c = CHR ''.'' then
        (let fpart = takeWhile (\<lambda>c. c = CHR ''_'' \<or> digit c \<noteq> None) s
         in (List.map_filter digit fpart, Some 0, CHR ''_'' \<in> set fpart, drop (length fpart) s))
      else case digit c of
             None \<Rightarrow> ([], None, False, c # s)
           | Some d \<Rightarrow>
               (case read_mantissa digit s of (ds, dot, u, r) \<Rightarrow> (d # ds, map_option Suc dot, u, r)))"

definition hex_digit_val :: "char \<Rightarrow> int option" where
  "hex_digit_val c =
     (if byte_in 97 102 (to_lower_char c) then Some (of_char (to_lower_char c) - 87) else digit_val c)"

text \<open>The exponent after its letter; digits beyond the point where it reaches 10000 are not added.\<close>

definition read_exponent :: "string \<Rightarrow> (int \<times> bool \<times> string) option" where
  "read_exponent s =
     (let sgn = takeWhile (\<lambda>c. c = CHR ''+'' \<or> c = CHR ''-'') (take 1 s);
          r = drop (length sgn) s;
          ds = takeWhile (\<lambda>c. c = CHR ''_'' \<or> is_digit c) r;
          e = fold (\<lambda>d e. if e < 10000 then 10 * e + d else e) (List.map_filter digit_val ds) 0
      in if r = [] \<or> \<not> is_digit (hd r) then None
         else Some (if sgn = ''-'' then - e else e, CHR ''_'' \<in> set ds, drop (length ds) r))"

text \<open>Underscores only between digits, or between the base prefix and a digit.\<close>

fun underscores_between :: "bool \<Rightarrow> char \<Rightarrow> string \<Rightarrow> bool" where
  "underscores_between hex saw [] = (saw \<noteq> CHR ''_'')"
| "underscores_between hex saw (c # s) =
     (if is_digit c \<or> hex \<and> byte_in 97 102 (to_lower_char c) then underscores_between hex CHR ''0'' s
      else if c = CHR ''_'' then saw = CHR ''0'' \<and> underscores_between hex CHR ''_'' s
      else saw \<noteq> CHR ''_'' \<and> underscores_between hex CHR ''!'' s)"

definition underscore_ok :: "string \<Rightarrow> bool" where
  "underscore_ok s =
     (let t = (if s \<noteq> [] \<and> (hd s = CHR ''+'' \<or> hd s = CHR ''-'') then tl s else s);
          base = to_lower (take 2 t)
      in if base \<in> {''0b'', ''0o'', ''0x''} then underscores_between (base = ''0x'') CHR ''0'' (drop 2 t)
         else underscores_between False CHR ''^'' t)"

definition special_float :: "string \<Rightarrow> f64 option" where
  "special_float s =
     (let t = to_lower s;
          u = (if t \<noteq> [] \<and> (hd t = CHR ''+'' \<or> hd t = CHR ''-'') then tl t else t)
      in if t = ''nan'' then Some NaN
         else if u \<in> {''inf'', ''infinity''} then Some (FInf (hd t = CHR ''-'')) else None)"

fun finite_f64 :: "f64 \<Rightarrow> f64 option" where
  "finite_f64 (Fin v) = Some (Fin v)"
| "finite_f64 _ = None"

text \<open>\<open>strconv.ParseFloat(s, 64)\<close>; \<open>None\<close> is an error, a value out of range included.\<close>

definition parse_float :: "string \<Rightarrow> f64 option" where
  "parse_float s =
     (if special_float s \<noteq> None then special_float s
      else
        let neg = (take 1 s = ''-'');
            t = (if take 1 s = ''-'' \<or> take 1 s = ''+'' then tl s else s);
            hex = (3 \<le> length t \<and> to_lower (take 2 t) = ''0x'')
        in case read_mantissa (if hex then hex_digit_val else digit_val) (if hex then drop 2 t else t) of
             (ds, dot, u, r) \<Rightarrow>
               let fpart = (case dot of None \<Rightarrow> 0 | Some n \<Rightarrow> length ds - n);
                   expo = (if r \<noteq> [] \<and> to_lower_char (hd r) = (if hex then CHR ''p'' else CHR ''e'')
                           then read_exponent (tl r)
                           else if hex then None else Some (0, False, r))
               in if ds = [] then None
                  else (case expo of
                    None \<Rightarrow> None
                  | Some (e, u', r') \<Rightarrow>
                      if r' \<noteq> [] \<or> (u \<or> u') \<and> \<not> underscore_ok s then None
                      else
                        let m = fold (\<lambda>d m. (if hex then 16 else 10) * m + d) ds 0;
                            ten = (\<lambda>k. if 0 \<le> k then 10 ^ nat k else 1 / 10 ^ nat (- k));
                            q = (if hex then of_int m * pow2 (e - 4 * int fpart)
                                 else of_int m * ten (e - int fpart))
                        in finite_f64 (f64_round (if neg then - q else q))))"

end
