(* ===== verification/Json.thy ===== *)
theory Json
  imports Numbers
begin

text \<open>
  The parts of \<open>encoding/json\<close> the gateway uses: how \<open>Marshal\<close> writes a string, the token stream of
  \<open>Decoder\<close> (\<open>Token\<close>, \<open>More\<close>), and whole values as \<open>Unmarshal\<close> reads them. Text is a list of bytes;
  invalid UTF-8 is replaced by U+FFFD on both sides, as the library does. An error is \<open>None\<close>: the
  callers only test whether there is one.
\<close>

section \<open>UTF-8\<close>

text \<open>The length of the well-formed character at the head of the text, 0 if there is none.\<close>

fun utf8_prefix :: "string \<Rightarrow> nat" where
  "utf8_prefix [] = 0"
| "utf8_prefix (a # s) =
     (if byte_in 0 127 a then 1
      else if byte_in 194 223 a \<and> s \<noteq> [] \<and> byte_in 128 191 (hd s) then 2
      else if byte_in 224 239 a \<and> 2 \<le> length s \<and> byte_in 128 191 (s ! 1)
           \<and> byte_in (if of_char a = (224 :: nat) then 160 else 128) (if of_char a = (237 :: nat) then 159 else 191) (s ! 0) then 3
      else if byte_in 240 244 a \<and> 3 \<le> length s \<and> byte_in 128 191 (s ! 1) \<and> byte_in 128 191 (s ! 2)
           \<and> byte_in (if of_char a = (240 :: nat) then 144 else 128) (if of_char a = (244 :: nat) then 143 else 191) (s ! 0) then 4
      else 0)"

definition utf8_encode :: "nat \<Rightarrow> string" where
  "utf8_encode r =
     (if r < 128 then [char_of r]
      else if r < 2048 then [char_of (192 + r div 64), char_of (128 + r mod 64)]
      else if r < 65536 then [char_of (224 + r div 4096), char_of (128 + r div 64 mod 64), char_of (128 + r mod 64)]
      else [char_of (240 + r div 262144), char_of (128 + r div 4096 mod 64), char_of (128 + r div 64 mod 64), char_of (128 + r mod 64)])"

definition replacement :: string where
  "replacement = [CHR 0xEF, CHR 0xBF, CHR 0xBD]"

section \<open>Writing strings\<close>

definition hex_digit :: "nat \<Rightarrow> char" where
  "hex_digit n = ''0123456789abcdef'' ! n"

definition escape_ascii :: "char \<Rightarrow> string" where
  "escape_ascii c =
     (if c = CHR 0x22 \<or> c = CHR 0x5C then [CHR 0x5C, c]
      else if c = CHR 0x08 then [CHR 0x5C, CHR ''b'']
      else if c = CHR 0x0C then [CHR 0x5C, CHR ''f'']
      else if c = CHR 0x0A then [CHR 0x5C, CHR ''n'']
      else if c = CHR 0x0D then [CHR 0x5C, CHR ''r'']
      else if c = CHR 0x09 then [CHR 0x5C, CHR ''t'']
      else if of_char c < (32 :: nat) \<or> c = CHR ''<'' \<or> c = CHR ''>'' \<or> c = CHR ''&'' then
        CHR 0x5C # ''u00'' @ [hex_digit (of_char c div 16), hex_digit (of_char c mod 16)]
      else [c])"

function json_escape :: "string \<Rightarrow> string" where
  "json_escape s =
     (if s = [] then []
      else if of_char (hd s) < (128 :: nat) then escape_ascii (hd s) @ json_escape (tl s)
      else if utf8_prefix s = 0 then CHR 0x5C # ''ufffd'' @ json_escape (tl s)
      else if take 3 s = [CHR 0xE2, CHR 0x80, CHR 0xA8] \<or> take 3 s = [CHR 0xE2, CHR 0x80, CHR 0xA9] then
        CHR 0x5C # ''u202'' @ [hex_digit (of_char (s ! 2) mod 16)] @ json_escape (drop 3 s)
      else take (utf8_prefix s) s @ json_escape (drop (utf8_prefix s) s))"
  by pat_completeness auto
termination by (relation "measure length") auto

declare json_escape.simps [simp del]

definition json_string :: "string \<Rightarrow> string" where
  "json_string s = CHR 0x22 # json_escape s @ [CHR 0x22]"

section \<open>Reading strings\<close>

definition hex_val :: "char \<Rightarrow> nat option" where
  "hex_val c =
     (if byte_in 48 57 c then Some (of_char c - 48)
      else if byte_in 97 102 c then Some (of_char c - 87)
      else if byte_in 65 70 c then Some (of_char c - 55)
      else None)"

fun hex4 :: "string \<Rightarrow> (nat \<times> string) option" where
  "hex4 (a # b # c # d # r) =
     (case (hex_val a, hex_val b, hex_val c, hex_val d) of
        (Some w, Some x, Some y, Some z) \<Rightarrow> Some (4096 * w + 256 * x + 16 * y + z, r)
      | _ \<Rightarrow> None)"
| "hex4 _ = None"

lemma hex4_rest: "hex4 s = Some (n, r) \<Longrightarrow> length s = length r + 4"
  by (cases s rule: hex4.cases) (auto split: option.splits)

text \<open>A \<open>\u\<close> escape, the low half of a surrogate pair included.\<close>

definition read_u :: "string \<Rightarrow> (string \<times> string) option" where
  "read_u s =
     (case hex4 s of
        None \<Rightarrow> None
      | Some (hi, r) \<Rightarrow>
          if hi < 0xD800 \<or> 0xDFFF < hi then Some (utf8_encode hi, r)
          else if take 2 r = [CHR 0x5C, CHR ''u''] then
            (case hex4 (drop 2 r) of
               Some (lo, r') \<Rightarrow>
                 if hi < 0xDC00 \<and> 0xDC00 \<le> lo \<and> lo \<le> 0xDFFF
                 then Some (utf8_encode (0x10000 + (hi - 0xD800) * 0x400 + (lo - 0xDC00)), r')
                 else Some (replacement, r)
             | None \<Rightarrow> None)
          else Some (replacement, r))"

lemma read_u_rest: "read_u s = Some (x, r) \<Longrightarrow> length r < length s"
  by (auto simp: read_u_def split: option.splits if_splits dest!: hex4_rest)

definition unescape :: "char \<Rightarrow> char option" where
  "unescape c =
     (if c = CHR 0x22 \<or> c = CHR 0x5C \<or> c = CHR ''/'' then Some c
      else if c = CHR ''b'' then Some CHR 0x08
      else if c = CHR ''f'' then Some CHR 0x0C
      else if c = CHR ''n'' then Some CHR 0x0A
      else if c = CHR ''r'' then Some CHR 0x0D
      else if c = CHR ''t'' then Some CHR 0x09
      else None)"

text \<open>One character of a string literal: its bytes and the text after it.\<close>

definition read_char :: "string \<Rightarrow> (string \<times> string) option" where
  "read_char s =
     (if s = [] \<or> of_char (hd s) < (32 :: nat) then None
      else if hd s = CHR 0x5C then
        if tl s = [] then None
        else if hd (tl s) = CHR ''u'' then read_u (tl (tl s))
        else map_option (\<lambda>c. ([c], tl (tl s))) (unescape (hd (tl s)))
      else if of_char (hd s) < (128 :: nat) then Some ([hd s], tl s)
      else if utf8_prefix s = 0 then Some (replacement, tl s)
      else Some (take (utf8_prefix s) s, drop (utf8_prefix s) s))"

lemma read_char_rest: "read_char s = Some (x, r) \<Longrightarrow> length r < length s"
  by (cases s) (auto simp: read_char_def split: if_splits dest!: read_u_rest)

text \<open>The text after an opening quote: the string and the text after its closing quote.\<close>

function json_unquote :: "string \<Rightarrow> (string \<times> string) option" where
  "json_unquote s =
     (if s \<noteq> [] \<and> hd s = CHR 0x22 then Some ([], tl s)
      else case read_char s of
             None \<Rightarrow> None
           | Some (x, r) \<Rightarrow> map_option (\<lambda>(y, r'). (x @ y, r')) (json_unquote r))"
  by pat_completeness auto
termination by (relation "measure length") (auto dest: read_char_rest)

declare json_unquote.simps [simp del]

lemma json_unquote_rest: "json_unquote s = Some (x, r) \<Longrightarrow> length r < length s"
proof (induction s arbitrary: x rule: json_unquote.induct)
  case (1 s)
  show ?case
  proof (cases "s \<noteq> [] \<and> hd s = CHR 0x22")
    case True
    then show ?thesis using "1.prems" by (subst (asm) json_unquote.simps) (cases s, auto)
  next
    case False
    then obtain y t z where "read_char s = Some (y, t)" "json_unquote t = Some (z, r)"
      using "1.prems" by (subst (asm) json_unquote.simps) (auto split: option.splits)
    then show ?thesis using "1.IH" [OF False] read_char_rest [of s y t] by fastforce
  qed
qed

section \<open>Scalars\<close>

text \<open>The optional fraction and exponent of a number: the text of the part and the rest.\<close>

definition scan_fraction :: "string \<Rightarrow> (string \<times> string) option" where
  "scan_fraction s =
     (if s \<noteq> [] \<and> hd s = CHR ''.'' then
        if takeWhile is_digit (tl s) = [] then None
        else Some (CHR ''.'' # takeWhile is_digit (tl s), dropWhile is_digit (tl s))
      else Some ([], s))"

definition scan_exponent :: "string \<Rightarrow> (string \<times> string) option" where
  "scan_exponent s =
     (if s \<noteq> [] \<and> (hd s = CHR ''e'' \<or> hd s = CHR ''E'') then
        let sign = takeWhile (\<lambda>c. c = CHR ''+'' \<or> c = CHR ''-'') (take 1 (tl s));
            r = drop (length sign) (tl s)
        in if takeWhile is_digit r = [] then None
           else Some (CHR ''e'' # sign @ takeWhile is_digit r, dropWhile is_digit r)
      else Some ([], s))"

definition number_head :: "string \<Rightarrow> string \<times> string \<times> string" where
  "number_head s =
     (let sign = takeWhile (\<lambda>c. c = CHR ''-'') (take 1 s);
          r = drop (length sign) s;
          whole = (if r \<noteq> [] \<and> hd r = CHR ''0'' then ''0'' else takeWhile is_digit r)
      in (sign, whole, drop (length whole) r))"

definition scan_number :: "string \<Rightarrow> ((string \<times> string \<times> string \<times> string) \<times> string) option" where
  "scan_number s =
     (case number_head s of (sign, whole, r) \<Rightarrow>
        if whole = [] then None
        else case scan_fraction r of
               None \<Rightarrow> None
             | Some (fpart, r) \<Rightarrow>
                 (case scan_exponent r of
                    None \<Rightarrow> None
                  | Some (ex, r) \<Rightarrow> Some ((sign, whole, fpart, ex), r)))"

definition number_text :: "string \<times> string \<times> string \<times> string \<Rightarrow> string" where
  "number_text = (\<lambda>(sign, whole, fpart, ex). sign @ whole @ fpart @ ex)"

definition decimal :: "string \<Rightarrow> int" where
  "decimal ds = (case digits_val 0 ds of Some n \<Rightarrow> n | None \<Rightarrow> 0)"

text \<open>A number decodes to a \<open>float64\<close> unless it is too large for one.\<close>

definition float_range :: "string \<times> string \<times> string \<times> string \<Rightarrow> bool" where
  "float_range = (\<lambda>(sign, whole, fpart, ex).
     let m = decimal (whole @ tl fpart);
         x = (if ex = [] then 0
              else if hd (tl ex) = CHR ''-'' then - decimal (tl (tl ex))
              else if hd (tl ex) = CHR ''+'' then decimal (tl (tl ex))
              else decimal (tl ex));
         e = x - int (length (tl fpart));
         limit = 2 ^ 1024 - 2 ^ 970
     in if 0 \<le> e then m * 10 ^ nat e < limit else m < limit * 10 ^ nat (- e))"

datatype token = TDelim char | TStr string | TNum string | TBool bool | TNull

definition scan_scalar :: "string \<Rightarrow> (token \<times> string) option" where
  "scan_scalar s =
     (if s \<noteq> [] \<and> hd s = CHR 0x22 then map_option (\<lambda>(x, r). (TStr x, r)) (json_unquote (tl s))
      else if take 4 s = ''true'' then Some (TBool True, drop 4 s)
      else if take 5 s = ''false'' then Some (TBool False, drop 5 s)
      else if take 4 s = ''null'' then Some (TNull, drop 4 s)
      else case scan_number s of
             None \<Rightarrow> None
           | Some (n, r) \<Rightarrow> if float_range n then Some (TNum (number_text n), r) else None)"

lemma number_head_rest:
  assumes "number_head s = (sign, whole, r)" "whole \<noteq> []" shows "length r < length s"
proof -
  have "length sign \<le> length s" if "sign = takeWhile (\<lambda>c. c = CHR ''-'') (take 1 s)" for sign
    using length_takeWhile_le [of "\<lambda>c. c = CHR ''-''" "take 1 s"] that by (simp add: min_def split: if_splits)
  then show ?thesis
    using assms by (cases s) (auto simp: number_head_def Let_def split: if_splits)
qed

lemma scan_fraction_rest: "scan_fraction s = Some (x, r) \<Longrightarrow> length r \<le> length s"
  using length_dropWhile_le [of is_digit "tl s"] by (auto simp: scan_fraction_def split: if_splits)

lemma scan_exponent_rest: "scan_exponent s = Some (x, r) \<Longrightarrow> length r \<le> length s"
  using length_dropWhile_le [of is_digit "drop (length (takeWhile (\<lambda>c. c = CHR ''+'' \<or> c = CHR ''-'') (take 1 (tl s)))) (tl s)"]
  by (auto simp: scan_exponent_def Let_def split: if_splits)

lemma scan_number_rest: "scan_number s = Some (n, r) \<Longrightarrow> length r < length s"
  by (auto simp: scan_number_def split: prod.splits if_splits option.splits
      dest!: number_head_rest scan_fraction_rest scan_exponent_rest)

lemma scan_scalar_rest: "scan_scalar s = Some (t, r) \<Longrightarrow> length r < length s"
  by (cases s) (auto simp: scan_scalar_def split: if_splits option.splits dest!: json_unquote_rest scan_number_rest)

section \<open>The token stream of a decoder\<close>

datatype token_state =
  TokenTopValue | TokenArrayStart | TokenArrayValue | TokenArrayComma
  | TokenObjectStart | TokenObjectKey | TokenObjectColon | TokenObjectValue | TokenObjectComma

record Decoder =
  dc_in :: string
  dc_state :: token_state
  dc_stack :: "token_state list"

definition NewDecoder :: "string \<Rightarrow> Decoder" where
  "NewDecoder s = \<lparr> dc_in = s, dc_state = TokenTopValue, dc_stack = [] \<rparr>"

definition json_space :: "char \<Rightarrow> bool" where
  "json_space c \<longleftrightarrow> c = CHR 0x20 \<or> c = CHR 0x09 \<or> c = CHR 0x0A \<or> c = CHR 0x0D"

definition value_allowed :: "token_state \<Rightarrow> bool" where
  "value_allowed st \<longleftrightarrow> st \<in> {TokenTopValue, TokenArrayStart, TokenArrayValue, TokenObjectValue}"

fun value_end :: "token_state \<Rightarrow> token_state" where
  "value_end TokenArrayStart = TokenArrayComma"
| "value_end TokenArrayValue = TokenArrayComma"
| "value_end TokenObjectValue = TokenObjectComma"
| "value_end st = st"

definition dec_open :: "char \<Rightarrow> token_state \<Rightarrow> string \<Rightarrow> Decoder \<Rightarrow> token option \<times> Decoder" where
  "dec_open c inside r d =
     (if value_allowed (dc_state d)
      then (Some (TDelim c), \<lparr> dc_in = r, dc_state = inside, dc_stack = dc_state d # dc_stack d \<rparr>)
      else (None, d))"

definition dec_close :: "char \<Rightarrow> token_state list \<Rightarrow> string \<Rightarrow> Decoder \<Rightarrow> token option \<times> Decoder" where
  "dec_close c from r d =
     (if dc_state d \<in> set from
      then (Some (TDelim c), \<lparr> dc_in = r, dc_state = value_end (hd (dc_stack d)), dc_stack = tl (dc_stack d) \<rparr>)
      else (None, d))"

definition dec_scalar :: "Decoder \<Rightarrow> token option \<times> Decoder" where
  "dec_scalar d =
     (case scan_scalar (dropWhile json_space (dc_in d)) of
        None \<Rightarrow> (None, d)
      | Some (t, r) \<Rightarrow>
          if dc_state d = TokenObjectStart \<or> dc_state d = TokenObjectKey then
            (case t of TStr k \<Rightarrow> (Some t, d\<lparr>dc_in := r, dc_state := TokenObjectColon\<rparr>) | _ \<Rightarrow> (None, d))
          else if value_allowed (dc_state d) then (Some t, d\<lparr>dc_in := r, dc_state := value_end (dc_state d)\<rparr>)
          else (None, d))"

function dec_token :: "Decoder \<Rightarrow> token option \<times> Decoder" where
  "dec_token d =
     (case dropWhile json_space (dc_in d) of
        [] \<Rightarrow> (None, d)
      | c # r \<Rightarrow>
          if c = CHR ''['' then dec_open c TokenArrayStart r d
          else if c = CHR '']'' then dec_close c [TokenArrayStart, TokenArrayComma] r d
          else if c = CHR ''{'' then dec_open c TokenObjectStart r d
          else if c = CHR ''}'' then dec_close c [TokenObjectStart, TokenObjectComma] r d
          else if c = CHR '':'' then
            if dc_state d = TokenObjectColon then dec_token (d\<lparr>dc_in := r, dc_state := TokenObjectValue\<rparr>) else (None, d)
          else if c = CHR '','' then
            if dc_state d = TokenArrayComma then dec_token (d\<lparr>dc_in := r, dc_state := TokenArrayValue\<rparr>)
            else if dc_state d = TokenObjectComma then dec_token (d\<lparr>dc_in := r, dc_state := TokenObjectKey\<rparr>)
            else (None, d)
          else dec_scalar d)"
  by pat_completeness auto
termination
  by (relation "measure (length \<circ> dc_in)")
    (auto simp: less_Suc_eq_le Suc_le_eq dest!: arg_cong [where f = length] intro: order.strict_trans2 [OF _ length_dropWhile_le [of json_space]])

declare dec_token.simps [simp del]

definition dec_more :: "Decoder \<Rightarrow> bool" where
  "dec_more d =
     (case dropWhile json_space (dc_in d) of [] \<Rightarrow> False | c # _ \<Rightarrow> c \<noteq> CHR '']'' \<and> c \<noteq> CHR ''}'')"

lemma dec_token_shrinks:
  "dec_token d = (t, d') \<Longrightarrow>
     length (dc_in d') \<le> length (dc_in d) \<and> (t \<noteq> None \<longrightarrow> length (dc_in d') < length (dc_in d))"
proof (induction d arbitrary: d' rule: dec_token.induct)
  case (1 d)
  let ?s = "dropWhile json_space (dc_in d)"
  let ?P = "length (dc_in d') \<le> length (dc_in d) \<and> (t \<noteq> None \<longrightarrow> length (dc_in d') < length (dc_in d))"
  have le: "length ?s \<le> length (dc_in d)" by (rule length_dropWhile_le)
  show ?case
  proof (cases ?s)
    case Nil
    then show ?thesis using "1.prems" by (subst (asm) dec_token.simps) (auto simp del: dropWhile_eq_Nil_conv)
  next
    case (Cons c r)
    have rec: "?P" if "length (dc_in d') \<le> length r \<and> (t \<noteq> None \<longrightarrow> length (dc_in d') < length r)"
      using that le Cons by auto
    have scal: "dec_scalar d = (t, d') \<Longrightarrow> ?P"
      using le by (auto simp: dec_scalar_def split: option.splits if_splits token.splits dest!: scan_scalar_rest)
    have op: "dec_open c st r d = (t, d') \<Longrightarrow> ?P" for st
      using le Cons by (auto simp: dec_open_def split: if_splits)
    have cl: "dec_close c st r d = (t, d') \<Longrightarrow> ?P" for st
      using le Cons by (auto simp: dec_close_def split: if_splits)
    note step = "1.prems" [unfolded dec_token.simps [of d] Cons list.case]
    consider "c = CHR ''['' \<or> c = CHR ''{''" | "c = CHR '']'' \<or> c = CHR ''}''" | "c = CHR '':''" | "c = CHR '',''"
      | "c \<notin> {CHR ''['', CHR ''{'', CHR '']'', CHR ''}'', CHR '':'', CHR '',''}" by blast
    then show ?thesis
    proof cases
      case 1
      then show ?thesis using step op by auto
    next
      case 2
      then show ?thesis using step cl by auto
    next
      case 3
      then show ?thesis using step "1.IH"(1) [OF Cons] rec by (auto split: if_splits)
    next
      case 4
      then show ?thesis using step "1.IH"(2,3) [OF Cons] rec by (auto split: if_splits)
    next
      case 5
      then show ?thesis using step scal by simp
    qed
  qed
qed

lemma dec_token_rest: "dec_token d = (Some t, d') \<Longrightarrow> length (dc_in d') < length (dc_in d)"
  using dec_token_shrinks by blast

lemma dec_token_le: "dec_token d = (t, d') \<Longrightarrow> length (dc_in d') \<le> length (dc_in d)"
  using dec_token_shrinks by blast

section \<open>Whole values\<close>

datatype jvalue =
  VNull | VBool bool | VNum string | VStr string | VArr "jvalue list" | VObj "(string \<times> jvalue) list"

text \<open>Reading one value, the fields of an object up to its closing brace, the elements of an array up
  to its closing bracket. Every second nested call starts with less text, so fuel beyond twice the
  length of the text is never used up.\<close>

fun dec_value :: "nat \<Rightarrow> Decoder \<Rightarrow> (jvalue \<times> Decoder) option"
and dec_fields :: "nat \<Rightarrow> Decoder \<Rightarrow> ((string \<times> jvalue) list \<times> Decoder) option"
and dec_elems :: "nat \<Rightarrow> Decoder \<Rightarrow> (jvalue list \<times> Decoder) option" where
  "dec_value 0 d = None"
| "dec_value (Suc n) d =
     (case dec_token d of
        (None, d) \<Rightarrow> None
      | (Some (TDelim c), d) \<Rightarrow>
          if c = CHR ''{'' then
            (case dec_fields n d of
               None \<Rightarrow> None
             | Some (fs, d) \<Rightarrow> (case dec_token d of (Some _, d) \<Rightarrow> Some (VObj fs, d) | (None, d) \<Rightarrow> None))
          else if c = CHR ''['' then
            (case dec_elems n d of
               None \<Rightarrow> None
             | Some (vs, d) \<Rightarrow> (case dec_token d of (Some _, d) \<Rightarrow> Some (VArr vs, d) | (None, d) \<Rightarrow> None))
          else None
      | (Some (TStr s), d) \<Rightarrow> Some (VStr s, d)
      | (Some (TNum s), d) \<Rightarrow> Some (VNum s, d)
      | (Some (TBool b), d) \<Rightarrow> Some (VBool b, d)
      | (Some TNull, d) \<Rightarrow> Some (VNull, d))"
| "dec_fields 0 d = None"
| "dec_fields (Suc n) d =
     (if dec_more d then
        (case dec_token d of
           (Some (TStr k), d) \<Rightarrow>
             (case dec_value n d of
                None \<Rightarrow> None
              | Some (v, d) \<Rightarrow> (case dec_fields n d of None \<Rightarrow> None | Some (fs, d) \<Rightarrow> Some ((k, v) # fs, d)))
         | _ \<Rightarrow> None)
      else Some ([], d))"
| "dec_elems 0 d = None"
| "dec_elems (Suc n) d =
     (if dec_more d then
        (case dec_value n d of
           None \<Rightarrow> None
         | Some (v, d) \<Rightarrow> (case dec_elems n d of None \<Rightarrow> None | Some (vs, d) \<Rightarrow> Some (v # vs, d)))
      else Some ([], d))"

text \<open>\<open>json.Unmarshal\<close> up to the conversion to the target type. The library does not convert numbers
  it skips, so it accepts out-of-range numbers there that this reader rejects.\<close>

definition unmarshal :: "string \<Rightarrow> jvalue option" where
  "unmarshal s =
     (case dec_value (Suc (2 * length s)) (NewDecoder s) of
        None \<Rightarrow> None
      | Some (v, d) \<Rightarrow> if dropWhile json_space (dc_in d) = [] then Some v else None)"

section \<open>Printing\<close>

fun json_text :: "jvalue \<Rightarrow> string"
and json_fields :: "(string \<times> jvalue) list \<Rightarrow> string"
and json_elems :: "jvalue list \<Rightarrow> string" where
  "json_text VNull = ''null''"
| "json_text (VBool b) = (if b then ''true'' else ''false'')"
| "json_text (VNum n) = n"
| "json_text (VStr s) = json_string s"
| "json_text (VArr vs) = CHR ''['' # json_elems vs @ '']''"
| "json_text (VObj fs) = CHR ''{'' # json_fields fs @ ''}''"
| "json_fields [] = ''''"
| "json_fields [(k, v)] = json_string k @ '':'' @ json_text v"
| "json_fields ((k, v) # f # fs) = json_string k @ '':'' @ json_text v @ '','' @ json_fields (f # fs)"
| "json_elems [] = ''''"
| "json_elems [v] = json_text v"
| "json_elems (v # w # vs) = json_text v @ '','' @ json_elems (w # vs)"

section \<open>Reading what was printed\<close>

text \<open>ASCII text, and numbers written without exponent in at most 300 digits.\<close>

definition ascii :: "string \<Rightarrow> bool" where
  "ascii s \<longleftrightarrow> (\<forall>c \<in> set s. of_char c < (128 :: nat))"

definition plain_number :: "string \<Rightarrow> bool" where
  "plain_number n \<longleftrightarrow> length n \<le> 300
     \<and> (case scan_number n of
           Some (p, r) \<Rightarrow> r = [] \<and> number_text p = n \<and> snd (snd (snd p)) = []
         | None \<Rightarrow> False)"

fun plain :: "jvalue \<Rightarrow> bool" where
  "plain (VNum n) = plain_number n"
| "plain (VStr s) = ascii s"
| "plain (VArr vs) = (\<forall>v \<in> set vs. plain v)"
| "plain (VObj fs) = (\<forall>(k, v) \<in> set fs. ascii k \<and> plain v)"
| "plain _ = True"

lemma hex_digit_val: "n < 16 \<Longrightarrow> hex_val (hex_digit n) = Some n"
proof -
  have "list_all (\<lambda>n. hex_val (hex_digit n) = Some n) [0..<16]" by code_simp
  then show "n < 16 \<Longrightarrow> hex_val (hex_digit n) = Some n" by (simp add: list_all_iff)
qed

lemma read_escaped:
  assumes "of_char c < (128 :: nat)"
  shows "read_char (escape_ascii c @ r) = Some ([c], r) \<and> hd (escape_ascii c @ r) \<noteq> CHR 0x22"
proof -
  have "of_char c div 16 < (16 :: nat)" using assms by simp
  then have "hex4 (''00'' @ [hex_digit (of_char c div 16), hex_digit (of_char c mod 16)] @ r)
      = Some (16 * (of_char c div 16) + of_char c mod 16, r)"
    by (simp add: hex_digit_val) (simp add: hex_val_def byte_in_def)
  then have u: "read_u (''00'' @ [hex_digit (of_char c div 16), hex_digit (of_char c mod 16)] @ r) = Some ([c], r)"
    unfolding mult_div_mod_eq using assms by (simp add: read_u_def utf8_encode_def)
  show ?thesis
    using u assms by (auto simp: escape_ascii_def read_char_def unescape_def)
qed

lemma json_escape_Cons: "of_char c < (128 :: nat) \<Longrightarrow> json_escape (c # s) = escape_ascii c @ json_escape s"
  by (subst json_escape.simps) simp

lemma unquote_escape: "ascii s \<Longrightarrow> json_unquote (json_escape s @ CHR 0x22 # r) = Some (s, r)"
proof (induction s)
  case Nil
  then show ?case by (subst json_unquote.simps) (simp add: json_escape.simps)
next
  case (Cons c s)
  then have c: "of_char c < (128 :: nat)" and s: "ascii s" by (auto simp: ascii_def)
  show ?case
    using read_escaped [OF c, of "json_escape s @ CHR 0x22 # r"] Cons.IH [OF s]
    by (subst json_unquote.simps) (simp add: json_escape_Cons [OF c])
qed

lemma scan_string: "ascii s \<Longrightarrow> scan_scalar (json_string s @ r) = Some (TStr s, r)"
  using unquote_escape [of s r] by (simp add: scan_scalar_def json_string_def)

text \<open>What may follow a value inside an object or an array, or at the end of the text.\<close>

definition delimited :: "string \<Rightarrow> bool" where
  "delimited r \<longleftrightarrow> r = [] \<or> hd r = CHR '','' \<or> hd r = CHR ''}'' \<or> hd r = CHR '']''"

lemma while_append:
  assumes "r = [] \<or> \<not> P (hd r)"
  shows "takeWhile P (s @ r) = takeWhile P s \<and> dropWhile P (s @ r) = dropWhile P s @ r"
  using assms by (induction s) (cases r, auto)+

lemma delimited_digit: "delimited r \<Longrightarrow> r = [] \<or> \<not> is_digit (hd r)"
  by (auto simp: delimited_def is_digit_def byte_in_def)

lemma number_head_append:
  assumes "number_head n = (sg, w, q)" "w \<noteq> []" "delimited r"
  shows "number_head (n @ r) = (sg, w, q @ r)"
proof -
  have n: "n \<noteq> []" using assms(1,2) by (auto simp: number_head_def Let_def)
  then have sg: "take 1 (n @ r) = take 1 n" by (cases n) auto
  let ?sg = "takeWhile (\<lambda>c. c = CHR ''-'') (take 1 n)"
  define m where "m = drop (length ?sg) n"
  have "length ?sg \<le> length n" using length_takeWhile_le [of _ "take 1 n"] n by (cases n) auto
  then have m: "drop (length ?sg) (n @ r) = m @ r" by (simp add: m_def)
  have w: "w = (if m \<noteq> [] \<and> hd m = CHR ''0'' then ''0'' else takeWhile is_digit m)" "q = drop (length w) m" "sg = ?sg"
    using assms(1) by (auto simp: number_head_def Let_def m_def)
  have "m \<noteq> []" using assms(2) w(1) by auto
  then have "length w \<le> length m" using w(1) length_takeWhile_le [of is_digit m] by (cases m) auto
  moreover have "takeWhile is_digit (m @ r) = takeWhile is_digit m"
    using while_append delimited_digit [OF assms(3)] by blast
  ultimately show ?thesis
    using w \<open>m \<noteq> []\<close> unfolding number_head_def Let_def sg m by auto
qed

lemma scan_fraction_append:
  assumes "scan_fraction q = Some (f, q')" "delimited r" shows "scan_fraction (q @ r) = Some (f, q' @ r)"
proof (cases q)
  case Nil
  then show ?thesis using assms by (cases r) (auto simp: scan_fraction_def delimited_def)
next
  case (Cons c s)
  then show ?thesis
    using assms(1) while_append [of r is_digit s, OF delimited_digit [OF assms(2)]] by (auto simp: scan_fraction_def split: if_splits)
qed

lemma scan_number_append:
  assumes "scan_number n = Some ((sg, w, f, []), [])" "delimited r"
  shows "scan_number (n @ r) = Some ((sg, w, f, []), r)"
proof -
  obtain q q' where h: "number_head n = (sg, w, q)" "w \<noteq> []" "scan_fraction q = Some (f, q')" "scan_exponent q' = Some ([], [])"
    using assms(1) by (auto simp: scan_number_def split: prod.splits if_splits option.splits)
  have "q' = []" using h(4) by (auto simp: scan_exponent_def Let_def split: if_splits)
  moreover have "scan_exponent r = Some ([], r)"
    using assms(2) by (auto simp: scan_exponent_def delimited_def)
  ultimately show ?thesis
    using number_head_append [OF h(1,2) assms(2)] scan_fraction_append [OF h(3) assms(2)] h(2)
    by (simp add: scan_number_def)
qed

lemma digits_val_bound:
  "digits_val a ds = Some n \<Longrightarrow> 0 \<le> a \<Longrightarrow> 0 \<le> n \<and> n < (a + 1) * 10 ^ length ds"
proof (induction ds arbitrary: a)
  case (Cons c ds)
  then obtain d where d: "digit_val c = Some d" "digits_val (10 * a + d) ds = Some n"
    by (auto split: option.splits)
  have d2: "0 \<le> d \<and> d \<le> 9" using d(1) by (auto simp: digit_val_def less_eq_char_def split: if_splits)
  then have "0 \<le> n \<and> n < (10 * a + d + 1) * 10 ^ length ds" using Cons.IH [OF d(2)] Cons.prems(2) by simp
  moreover have "(10 * a + d + 1) * 10 ^ length ds \<le> (10 * (a + 1)) * 10 ^ length ds"
    using d2 by (intro mult_right_mono) auto
  moreover have "(10 * (a + 1)) * 10 ^ length ds = (a + 1) * 10 ^ length (c # ds)" by simp
  ultimately show ?case by linarith
qed simp

lemma decimal_bound: "decimal ds < 10 ^ length ds"
  using digits_val_bound [of 0 ds] by (auto simp: decimal_def split: option.splits)

lemma plain_in_range:
  assumes "length (number_text (sg, w, f, [])) \<le> 300" shows "float_range (sg, w, f, [])"
proof -
  define limit :: int where "limit = 2 ^ 1024 - 2 ^ 970"
  have "decimal (w @ tl f) < 10 ^ length (w @ tl f)" by (rule decimal_bound)
  also have "(10 :: int) ^ length (w @ tl f) \<le> 10 ^ 300"
    using assms by (intro power_increasing) (auto simp: number_text_def)
  also have "(10 :: int) ^ 300 < limit" by (simp add: limit_def)
  finally have m: "decimal (w @ tl f) < limit" .
  have "0 \<le> limit" by (simp add: limit_def)
  then have "limit * 1 \<le> limit * 10 ^ k" for k by (intro mult_left_mono) simp_all
  then have "decimal (w @ tl f) < limit * 10 ^ k" for k using m by (metis less_le_trans mult_1_right)
  then show ?thesis using m unfolding float_range_def prod.case Let_def limit_def [symmetric] by simp
qed

lemma scan_plain_number:
  assumes "plain_number n" "delimited r" shows "scan_scalar (n @ r) = Some (TNum n, r)"
proof -
  obtain sg w f where p: "scan_number n = Some ((sg, w, f, []), [])" "number_text (sg, w, f, []) = n"
    using assms(1) by (auto simp: plain_number_def split: option.splits)
  have s: "scan_number (n @ r) = Some ((sg, w, f, []), r)" by (rule scan_number_append [OF p(1) assms(2)])
  have "scan_number t = None" if "hd t \<in> {CHR 0x22, CHR ''t'', CHR ''f'', CHR ''n''}" for t
    using that by (cases t) (auto simp: scan_number_def number_head_def is_digit_def byte_in_def)
  then have "hd (n @ r) \<notin> {CHR 0x22, CHR ''t'', CHR ''f'', CHR ''n''}" using s by force
  then have "\<not> (n @ r \<noteq> [] \<and> hd (n @ r) = CHR 0x22)" "take 4 (n @ r) \<noteq> ''true''" "take 5 (n @ r) \<noteq> ''false''"
    "take 4 (n @ r) \<noteq> ''null''"
    by (cases "n @ r"; auto)+
  moreover have "float_range (sg, w, f, [])"
    using assms(1) p(2) by (intro plain_in_range) (simp add: plain_number_def)
  ultimately show ?thesis unfolding scan_scalar_def using s p(2) by (simp del: append_is_Nil_conv)
qed

abbreviation dec :: "string \<Rightarrow> token_state \<Rightarrow> token_state list \<Rightarrow> Decoder" where
  "dec s st sk \<equiv> \<lparr> dc_in = s, dc_state = st, dc_stack = sk \<rparr>"

text \<open>The separator a state expects before the next token, and the state after it.\<close>

fun sep :: "token_state \<Rightarrow> string" where
  "sep TokenObjectColon = '':''"
| "sep TokenArrayComma = '',''"
| "sep TokenObjectComma = '',''"
| "sep _ = ''''"

fun after_sep :: "token_state \<Rightarrow> token_state" where
  "after_sep TokenObjectColon = TokenObjectValue"
| "after_sep TokenArrayComma = TokenArrayValue"
| "after_sep TokenObjectComma = TokenObjectKey"
| "after_sep st = st"

lemma dec_token_colon: "dec_token (dec (CHR '':'' # s) TokenObjectColon sk) = dec_token (dec s TokenObjectValue sk)"
  by (subst dec_token.simps) (simp add: json_space_def)

lemma dec_token_comma:
  "dec_token (dec (CHR '','' # s) TokenArrayComma sk) = dec_token (dec s TokenArrayValue sk)"
  "dec_token (dec (CHR '','' # s) TokenObjectComma sk) = dec_token (dec s TokenObjectKey sk)"
  by (subst dec_token.simps, simp add: json_space_def)+

lemma dec_token_sep: "dec_token (dec (sep st @ s) st sk) = dec_token (dec s (after_sep st) sk)"
  by (cases st) (simp_all add: dec_token_colon dec_token_comma)

lemma dec_token_scalar:
  assumes "s \<noteq> []" "\<not> json_space (hd s)" "hd s \<notin> set ''[]{}:,''" "scan_scalar s = Some (t, r)" "value_allowed st"
  shows "dec_token (dec s st sk) = (Some t, dec r (value_end st) sk)"
  using assms by (cases s) (auto simp: dec_token.simps dec_scalar_def value_allowed_def)

lemma dec_token_key:
  assumes "ascii k" "st \<in> {TokenObjectStart, TokenObjectKey}"
  shows "dec_token (dec (json_string k @ r) st sk) = (Some (TStr k), dec r TokenObjectColon sk)"
  using assms(2) scan_string [OF assms(1), of r]
  by (subst dec_token.simps) (auto simp: json_string_def json_space_def dec_scalar_def)

lemma dec_token_open:
  assumes "value_allowed st"
  shows "dec_token (dec (CHR ''{'' # s) st sk) = (Some (TDelim CHR ''{''), dec s TokenObjectStart (st # sk))"
    and "dec_token (dec (CHR ''['' # s) st sk) = (Some (TDelim CHR ''[''), dec s TokenArrayStart (st # sk))"
  using assms by (auto simp: dec_token.simps dec_open_def json_space_def)

lemma dec_token_close:
  shows "st \<in> {TokenObjectStart, TokenObjectComma} \<Longrightarrow>
      dec_token (dec (CHR ''}'' # s) st (st' # sk)) = (Some (TDelim CHR ''}''), dec s (value_end st') sk)"
    and "st \<in> {TokenArrayStart, TokenArrayComma} \<Longrightarrow>
      dec_token (dec (CHR '']'' # s) st (st' # sk)) = (Some (TDelim CHR '']''), dec s (value_end st') sk)"
  by (auto simp: dec_token.simps dec_close_def json_space_def)

lemma scan_number_None: "n = [] \<or> hd n \<noteq> CHR ''-'' \<and> \<not> is_digit (hd n) \<Longrightarrow> scan_number n = None"
  by (cases n) (auto simp: scan_number_def number_head_def Let_def is_digit_def byte_in_def)

lemma plain_number_head:
  assumes "plain_number n" shows "n \<noteq> [] \<and> (hd n = CHR ''-'' \<or> is_digit (hd n))"
proof (rule ccontr)
  assume "\<not> ?thesis"
  then have "scan_number n = None" by (intro scan_number_None) blast
  then show False using assms by (simp add: plain_number_def)
qed

lemma json_text_head:
  assumes "plain v"
  shows "json_text v \<noteq> [] \<and> \<not> json_space (hd (json_text v)) \<and> hd (json_text v) \<notin> set ''],}:''"
  using assms
proof (cases v)
  case (VNum n)
  then show ?thesis using assms plain_number_head [of n] by (auto simp: json_space_def is_digit_def byte_in_def)
qed (auto simp: json_string_def json_space_def)

lemma dec_more_text: "s \<noteq> [] \<Longrightarrow> \<not> json_space (hd s) \<Longrightarrow> dec_more (dec s st sk) \<longleftrightarrow> hd s \<noteq> CHR '']'' \<and> hd s \<noteq> CHR ''}''"
  by (cases s) (auto simp: dec_more_def)

lemma scalar_value:
  assumes "s \<noteq> []" "\<not> json_space (hd s)" "hd s \<notin> set ''[]{}:,''" "scan_scalar s = Some (t, r)" "value_allowed (after_sep st)"
  shows "dec_token (dec (sep st @ s) st sk) = (Some t, dec r (value_end (after_sep st)) sk)"
  using dec_token_scalar [OF assms] by (simp add: dec_token_sep)

lemma dec_value_scalar:
  assumes "scan_scalar (json_text v @ r) = Some (t, r)" "value_allowed (after_sep st)" "plain v"
    and "\<not> (\<exists>fs. v = VObj fs)" "\<not> (\<exists>vs. v = VArr vs)"
    and "t = (case v of VNull \<Rightarrow> TNull | VBool b \<Rightarrow> TBool b | VNum n \<Rightarrow> TNum n | VStr s \<Rightarrow> TStr s | _ \<Rightarrow> TNull)"
  shows "dec_value (Suc n) (dec (sep st @ json_text v @ r) st sk) = Some (v, dec r (value_end (after_sep st)) sk)"
proof -
  have "hd (json_text v) \<notin> set ''[{''"
  proof (cases v)
    case (VNum n)
    then show ?thesis using assms(3) plain_number_head [of n] by (auto simp: is_digit_def byte_in_def)
  qed (use assms(4,5) in \<open>auto simp: json_string_def\<close>)
  then have "dec_token (dec (sep st @ json_text v @ r) st sk) = (Some t, dec r (value_end (after_sep st)) sk)"
    using json_text_head [OF assms(3)] assms(1,2) by (intro scalar_value) auto
  then show ?thesis using assms(4-6) by (cases v) auto
qed

lemma dec_fields_step:
  assumes "ascii k" "st \<in> {TokenObjectStart, TokenObjectComma}"
    and "dec_value m (dec (CHR '':'' # s) TokenObjectColon sk) = Some (v, d)" "dec_fields m d = Some (fs, d')"
  shows "dec_fields (Suc m) (dec (sep st @ json_string k @ CHR '':'' # s) st sk) = Some ((k, v) # fs, d')"
proof -
  have "dec_more (dec (sep st @ json_string k @ CHR '':'' # s) st sk)"
    using assms(2) by (auto simp: dec_more_def json_string_def json_space_def)
  moreover have "dec_token (dec (sep st @ json_string k @ CHR '':'' # s) st sk)
      = (Some (TStr k), dec (CHR '':'' # s) TokenObjectColon sk)"
    using assms(2) by (auto simp: dec_token_sep intro!: dec_token_key assms(1))
  ultimately show ?thesis using assms(3,4) by simp
qed

lemma dec_elems_step:
  assumes "plain v" "st \<in> {TokenArrayStart, TokenArrayComma}"
    and "dec_value m (dec (sep st @ json_text v @ s) st sk) = Some (v, d)" "dec_elems m d = Some (vs, d')"
  shows "dec_elems (Suc m) (dec (sep st @ json_text v @ s) st sk) = Some (v # vs, d')"
proof -
  have "dec_more (dec (sep st @ json_text v @ s) st sk)"
    using assms(2) json_text_head [OF assms(1)]
    by (cases "json_text v") (auto simp: dec_more_def json_space_def)
  then show ?thesis using assms(3,4) by simp
qed

lemma dec_fields_end: "0 < n \<Longrightarrow> dec_fields n (dec (CHR ''}'' # r) st sk) = Some ([], dec (CHR ''}'' # r) st sk)"
  by (cases n) (auto simp: dec_more_def json_space_def)

lemma dec_elems_end: "0 < n \<Longrightarrow> dec_elems n (dec (CHR '']'' # r) st sk) = Some ([], dec (CHR '']'' # r) st sk)"
  by (cases n) (auto simp: dec_more_def json_space_def)

lemma json_string_length [simp]: "length (json_string k) = Suc (Suc (length (json_escape k)))"
  by (simp add: json_string_def)

lemma dec_value_print:
  "plain v \<Longrightarrow> value_allowed (after_sep st) \<Longrightarrow> delimited r \<Longrightarrow> 2 * length (sep st @ json_text v @ r) < n \<Longrightarrow>
     dec_value n (dec (sep st @ json_text v @ r) st sk) = Some (v, dec r (value_end (after_sep st)) sk)"
  and dec_fields_print:
  "plain (VObj fs) \<Longrightarrow> st \<in> {TokenObjectStart, TokenObjectComma} \<Longrightarrow>
     2 * length ((if fs = [] then [] else sep st @ json_fields fs) @ CHR ''}'' # r) + 1 < n \<Longrightarrow>
     dec_fields n (dec ((if fs = [] then [] else sep st @ json_fields fs) @ CHR ''}'' # r) st sk)
       = Some (fs, dec (CHR ''}'' # r) (if fs = [] then st else TokenObjectComma) sk)"
  and dec_elems_print:
  "plain (VArr vs) \<Longrightarrow> st \<in> {TokenArrayStart, TokenArrayComma} \<Longrightarrow>
     2 * length ((if vs = [] then [] else sep st @ json_elems vs) @ CHR '']'' # r) + 1 < n \<Longrightarrow>
     dec_elems n (dec ((if vs = [] then [] else sep st @ json_elems vs) @ CHR '']'' # r) st sk)
       = Some (vs, dec (CHR '']'' # r) (if vs = [] then st else TokenArrayComma) sk)"
proof (induction v and fs and vs arbitrary: n st sk r and n st sk r and n st sk r rule: json_text_json_fields_json_elems.induct)
  case 1
  then obtain m where n: "n = Suc m" by (cases n) auto
  show ?case unfolding n by (rule dec_value_scalar [where t = TNull]) (use 1 in \<open>simp_all add: scan_scalar_def\<close>)
next
  case (2 b)
  then obtain m where n: "n = Suc m" by (cases n) auto
  show ?case unfolding n by (rule dec_value_scalar [where t = "TBool b"]) (use 2 in \<open>simp_all add: scan_scalar_def\<close>)
next
  case (3 x)
  then obtain m where n: "n = Suc m" by (cases n) auto
  show ?case
    unfolding n using 3 scan_plain_number [of x r] by (intro dec_value_scalar [where t = "TNum x"]) simp_all
next
  case (4 s)
  then obtain m where n: "n = Suc m" by (cases n) auto
  show ?case
    unfolding n using 4 scan_string [of s r] by (intro dec_value_scalar [where t = "TStr s"]) simp_all
next
  case (5 vs)
  then obtain m where n: "n = Suc m" by (cases n) auto
  have "dec_elems m (dec (json_elems vs @ CHR '']'' # r) TokenArrayStart (after_sep st # sk))
      = Some (vs, dec (CHR '']'' # r) (if vs = [] then TokenArrayStart else TokenArrayComma) (after_sep st # sk))"
    using "5.IH" [of TokenArrayStart r m "after_sep st # sk"] "5.prems" n by (cases vs) auto
  then show ?case
    using "5.prems"(2) n dec_token_close(2) by (simp add: dec_token_sep dec_token_open)
next
  case (6 fs)
  then obtain m where n: "n = Suc m" by (cases n) auto
  have "dec_fields m (dec (json_fields fs @ CHR ''}'' # r) TokenObjectStart (after_sep st # sk))
      = Some (fs, dec (CHR ''}'' # r) (if fs = [] then TokenObjectStart else TokenObjectComma) (after_sep st # sk))"
    using "6.IH" [of TokenObjectStart r m "after_sep st # sk"] "6.prems" n by (cases fs) auto
  then show ?case
    using "6.prems"(2) n dec_token_close(1) by (simp add: dec_token_sep dec_token_open)
next
  case 7
  then show ?case by (simp add: dec_fields_end)
next
  case (8 k v)
  then obtain m where n: "n = Suc m" by (cases n) auto
  have "dec_value m (dec (CHR '':'' # json_text v @ CHR ''}'' # r) TokenObjectColon sk)
      = Some (v, dec (CHR ''}'' # r) TokenObjectComma sk)"
    using "8.IH" [of TokenObjectColon "CHR ''}'' # r" m sk] "8.prems" n
    by (auto simp: value_allowed_def delimited_def)
  moreover have "0 < m" "ascii k" using "8.prems" n by auto
  ultimately show ?case
    using dec_fields_step [OF _ "8.prems"(2)] dec_fields_end by (simp add: n del: dec_fields.simps)
next
  case (9 k v f fs)
  then obtain m where n: "n = Suc m" by (cases n) auto
  have "dec_value m (dec (CHR '':'' # json_text v @ CHR '','' # json_fields (f # fs) @ CHR ''}'' # r) TokenObjectColon sk)
      = Some (v, dec (CHR '','' # json_fields (f # fs) @ CHR ''}'' # r) TokenObjectComma sk)"
    using "9.IH"(1) [of TokenObjectColon "CHR '','' # json_fields (f # fs) @ CHR ''}'' # r" m sk] "9.prems" n
    by (auto simp: value_allowed_def delimited_def)
  moreover have "dec_fields m (dec (CHR '','' # json_fields (f # fs) @ CHR ''}'' # r) TokenObjectComma sk)
      = Some (f # fs, dec (CHR ''}'' # r) TokenObjectComma sk)"
    using "9.IH"(2) [of TokenObjectComma r m sk] "9.prems" n by auto
  moreover have "ascii k" using "9.prems" by auto
  ultimately show ?case
    using dec_fields_step [OF _ "9.prems"(2)] by (simp add: n del: dec_fields.simps)
next
  case 10
  then show ?case by (simp add: dec_elems_end)
next
  case (11 v)
  then obtain m where n: "n = Suc m" by (cases n) auto
  have "dec_value m (dec (sep st @ json_text v @ CHR '']'' # r) st sk) = Some (v, dec (CHR '']'' # r) TokenArrayComma sk)"
    using "11.IH" [of st "CHR '']'' # r" m sk] "11.prems" n
    by (auto simp: value_allowed_def delimited_def)
  moreover have "0 < m" "plain v" using "11.prems" n by auto
  ultimately show ?case
    using dec_elems_step [OF _ "11.prems"(2)] dec_elems_end by (simp add: n del: dec_elems.simps)
next
  case (12 v w vs)
  then obtain m where n: "n = Suc m" by (cases n) auto
  obtain l where len: "length (json_text v) = Suc l"
    using json_text_head [of v] "12.prems"(1) by (cases "json_text v") auto
  have "dec_value m (dec (sep st @ json_text v @ CHR '','' # json_elems (w # vs) @ CHR '']'' # r) st sk)
      = Some (v, dec (CHR '','' # json_elems (w # vs) @ CHR '']'' # r) TokenArrayComma sk)"
    using "12.IH"(1) [of st "CHR '','' # json_elems (w # vs) @ CHR '']'' # r" m sk] "12.prems" n
    by (auto simp: value_allowed_def delimited_def)
  moreover have "dec_elems m (dec (CHR '','' # json_elems (w # vs) @ CHR '']'' # r) TokenArrayComma sk)
      = Some (w # vs, dec (CHR '']'' # r) TokenArrayComma sk)"
    using "12.IH"(2) [of TokenArrayComma r m sk] "12.prems" n len by auto
  moreover have "plain v" using "12.prems" by auto
  ultimately show ?case
    using dec_elems_step [OF _ "12.prems"(2)] by (simp add: n del: dec_elems.simps)
qed

lemma unmarshal_print:
  assumes "plain v" shows "unmarshal (json_text v) = Some v"
proof -
  have "dec_value (Suc (2 * length (json_text v))) (NewDecoder (json_text v)) = Some (v, dec [] TokenTopValue [])"
    using dec_value_print [OF assms, of TokenTopValue "[]" "Suc (2 * length (json_text v))" "[]"]
    by (simp add: value_allowed_def delimited_def NewDecoder_def del: dec_value.simps)
  then show ?thesis by (simp add: unmarshal_def del: dec_value.simps)
qed

end
