(* ===== verification/Types.thy ===== *)
theory Types
  imports Json
begin

text \<open>
  The custom resource the operator, the gateway and the API server share (\<open>api/v1\<close>). A pointer field
  is an option; a slice or map for which nil and empty can differ is an option as well. A Go map is
  the association list of its entries in the order of their keys, so that equality of lists is
  equality of maps. Values of Kubernetes types that are only copied or compared (tolerations,
  affinities, containers, environment variables) are opaque texts. A \<open>resource.Quantity\<close> is its exact
  value in nano-units.
\<close>

section \<open>Decoded JSON\<close>

text \<open>What \<open>encoding/json\<close> stores in an \<open>interface{}\<close>: numbers are \<open>float64\<close> values, and of the fields
  with the same name in an object the last one counts.\<close>

datatype json =
    JNull
  | JBool bool
  | JNum rat
  | JStr string
  | JArr "json list"
  | JObj "(string \<times> json) list"

fun insert_key :: "string \<Rightarrow> 'a \<Rightarrow> (string \<times> 'a) list \<Rightarrow> (string \<times> 'a) list" where
  "insert_key k v [] = [(k, v)]"
| "insert_key k v ((l, w) # m) =
     (if k < l then (k, v) # (l, w) # m else if k = l then (k, v) # m else (l, w) # insert_key k v m)"

definition go_map :: "(string \<times> 'a) list \<Rightarrow> (string \<times> 'a) list" where
  "go_map kvs = fold (\<lambda>(k, v). insert_key k v) kvs []"

function json_of :: "jvalue \<Rightarrow> json" where
  "json_of VNull = JNull"
| "json_of (VBool b) = JBool b"
| "json_of (VNum t) = JNum (case parse_float t of Some (Fin q) \<Rightarrow> q | _ \<Rightarrow> 0)"
| "json_of (VStr s) = JStr s"
| "json_of (VArr vs) = JArr (map json_of vs)"
| "json_of (VObj fs) = JObj (go_map (map (\<lambda>kv. (fst kv, json_of (snd kv))) fs))"
  by pat_completeness auto
termination
proof (relation "measure size")
  fix kv :: "string \<times> jvalue" and fs assume "kv \<in> set fs"
  then have "size (snd kv) \<le> size_list (size_prod (\<lambda>x. 0) size) fs"
    by (induction fs) auto
  then show "(snd kv, VObj fs) \<in> measure size" by simp
qed (auto simp: less_Suc_eq_le size_list_estimation')

fun as_object :: "json option \<Rightarrow> (string \<times> json) list option" where
  "as_object (Some (JObj m)) = Some m"
| "as_object _ = None"

fun as_bool :: "json option \<Rightarrow> bool option" where
  "as_bool (Some (JBool b)) = Some b"
| "as_bool _ = None"

fun as_string :: "json option \<Rightarrow> string option" where
  "as_string (Some (JStr s)) = Some s"
| "as_string _ = None"

fun as_array :: "json option \<Rightarrow> json list option" where
  "as_array (Some (JArr vs)) = Some vs"
| "as_array _ = None"

text \<open>\<open>json.Unmarshal\<close> into a \<open>map[string]interface{}\<close>: an error, or the map, which \<open>null\<close> leaves nil.\<close>

definition unmarshal_map :: "string \<Rightarrow> (string \<times> json) list option option" where
  "unmarshal_map raw =
     (case unmarshal raw of
        None \<Rightarrow> None
      | Some v \<Rightarrow> (case json_of v of JObj m \<Rightarrow> Some (Some m) | JNull \<Rightarrow> Some None | _ \<Rightarrow> None))"

section \<open>Spec\<close>

type_synonym quantity = int
type_synonym opaque = string
type_synonym str_map = "(string \<times> string) list"
type_synonym ResourceList = "(string \<times> quantity) list"

record ResourceRequirements =
  rr_Requests :: ResourceList
  rr_Limits :: ResourceList

record RuntimeResourcesSpec =
  rs_Coordinator :: "ResourceRequirements option"
  rs_Worker :: "ResourceRequirements option"

record TopologySpreadConstraint =
  tc_TopologyKey :: string
  tc_Rest :: opaque

record RolePlacementSpec =
  rp_NodeSelector :: "str_map option"
  rp_Tolerations :: "opaque list option"
  rp_Affinity :: "opaque option"
  rp_TopologySpreadConstraints :: "TopologySpreadConstraint list option"

record ExistingNodePoolPlacementSpec =
  ep_Provider :: string
  ep_Name :: string

record PlacementSpec =
  ps_NodeSelector :: "str_map option"
  ps_ExistingNodePool :: "ExistingNodePoolPlacementSpec option"
  ps_Tolerations :: "opaque list option"
  ps_Affinity :: "opaque option"
  ps_Coordinator :: "RolePlacementSpec option"
  ps_Worker :: "RolePlacementSpec option"

record AzureNodePoolSpec =
  az_VMSize :: string
  az_OSDiskType :: string

record AWSNodePoolSpec =
  aw_InstanceType :: string
  aw_VolumeType :: string

record GCPNodePoolSpec =
  gc_MachineType :: string
  gc_DiskType :: string

definition NodePoolDeletionPolicyDelete :: string where "NodePoolDeletionPolicyDelete = ''Delete''"
definition NodePoolDeletionPolicyRetain :: string where "NodePoolDeletionPolicyRetain = ''Retain''"
definition NodePoolDeletionPolicyScaleToZero :: string where "NodePoolDeletionPolicyScaleToZero = ''ScaleToZero''"

record OperatorNodePoolDefaultsSpec =
  od_DefaultMinNodes :: "int option"
  od_DefaultMaxNodes :: "int option"
  od_DefaultOSDiskGB :: "int option"

record SpotSpec =
  sp_Enabled :: bool
  sp_MaxPrice :: string

record PrewarmSpec =
  pw_Nodes :: "int option"
  pw_TTL :: "duration option"

record NodePoolSpec =
  np_Name :: string
  np_Provider :: string
  np_MinNodes :: "int option"
  np_MaxNodes :: "int option"
  np_Zones :: "string list"
  np_OSDiskGB :: "int option"
  np_Spot :: "SpotSpec option"
  np_NodeLabels :: str_map
  np_SchedulePods :: bool
  np_NodeTaints :: "opaque list option"
  np_ResourceTags :: str_map
  np_Prewarm :: "PrewarmSpec option"
  np_ProvisioningTimeout :: "duration option"
  np_ResourceNotFoundRequeueInterval :: "duration option"
  np_StatusNotAvailableRequeueInterval :: "duration option"
  np_NoNodesReadyRequeueInterval :: "duration option"
  np_NodesReadyRequeueInterval :: "duration option"
  np_ErrorRequeueInterval :: "duration option"
  np_MinRequiredReplicasWhenMinNodesZero :: "int option"
  np_ClusterName :: string
  np_KubernetesVersion :: string
  np_BootstrapConfigRef :: "opaque option"
  np_ProviderMode :: string
  np_AutoscalerEnabled :: "bool option"
  np_ScaleDownOnSuspend :: "bool option"
  np_DeletionPolicy :: string
  np_Azure :: "AzureNodePoolSpec option"
  np_AWS :: "AWSNodePoolSpec option"
  np_GCP :: "GCPNodePoolSpec option"

record RoutingSpec =
  ro_RoutingGroup :: string
  ro_HostnameDomain :: string
  ro_Hostname :: string
  ro_Header :: string
  ro_Default :: bool
  ro_CapacityUnits :: "int option"

record JMXExporterSpec =
  jx_Enabled :: bool
  jx_Image :: string
  jx_Port :: "int option"
  jx_ConfigMap :: string

record KEDASpec =
  kd_Enabled :: "bool option"
  kd_ScalerType :: string
  kd_ScalingMetric :: string
  kd_Threshold :: "string option"
  kd_PrometheusServer :: "string option"
  kd_PrometheusQuery :: "string option"
  kd_HTTPEndpoint :: "string option"
  kd_HTTPValueLocation :: "string option"
  kd_ScaleDownCooldown :: "duration option"
  kd_ScaleUpCooldown :: "duration option"
  kd_JMXExporter :: "JMXExporterSpec option"

record ExchangeManagerSpec =
  em_Enabled :: "bool option"
  em_Name :: string
  em_BaseDirectories :: "string list option"
  em_Properties :: "str_map option"

record FaultTolerantExecutionSpec =
  ft_RetryPolicy :: string
  ft_ExchangeManager :: "ExchangeManagerSpec option"

record TLSSpec =
  tl_ServerSecretClass :: string
  tl_InternalSecretClass :: string

text \<open>\<open>intstr.IntOrString\<close>: the type is 0 for an integer and 1 for a string.\<close>

record IntOrString =
  io_Type :: int
  io_IntVal :: int
  io_StrVal :: string

record RollingUpdateStrategySpec =
  ru_MaxSurge :: "IntOrString option"
  ru_MaxUnavailable :: "IntOrString option"

record RolloutPolicySpec =
  rl_RevisionHistoryLimit :: "int option"
  rl_RollingUpdateStrategy :: "RollingUpdateStrategySpec option"

record SessionLimits =
  sl_MaxQueryMemory :: string
  sl_MaxTotalMemoryPerNode :: string

record LimitsSpec =
  lm_HardConcurrencyPerGroup :: "int option"
  lm_MaxQueuedPerGroup :: "int option"
  lm_Session :: "SessionLimits option"

record SecretKeySelector =
  sk_Name :: string
  sk_Key :: string
  sk_Optional :: "bool option"

record TrinoControlAuthSpec =
  ta_Username :: string
  ta_PasswordSecret :: "SecretKeySelector option"

subsection \<open>Chart settings\<close>

record AccessControlSpec =
  ac_Type :: string
  ac_RefreshPeriod :: string
  ac_ConfigFile :: string
  ac_Rules :: "str_map option"
  ac_Properties :: string

record SecretMountSpec =
  sm_Name :: string
  sm_SecretName :: string
  sm_Path :: string
  sm_SubPath :: string

record ServiceAccountSpec =
  sa_Create :: "bool option"
  sa_Name :: string
  sa_Annotations :: "str_map option"

record IngressPathSpec =
  ip_Path :: string
  ip_PathType :: string

record IngressHostSpec =
  ih_Host :: string
  ih_Paths :: "IngressPathSpec list option"

record IngressTLSSpec =
  it_SecretName :: string
  it_Hosts :: "string list option"

record IngressSpec =
  in_Enabled :: bool
  in_ClassName :: string
  in_Annotations :: "str_map option"
  in_Hosts :: "IngressHostSpec list option"
  in_TLS :: "IngressTLSSpec list option"

record LabelSelectorRequirement =
  lr_Key :: string
  lr_Operator :: string
  lr_Values :: "string list option"

record LabelSelector =
  ls_MatchLabels :: "str_map option"
  ls_MatchExpressions :: "LabelSelectorRequirement list option"

record NetworkPolicyPeerSpec =
  pe_PodSelector :: "LabelSelector option"
  pe_NamespaceSelector :: "LabelSelector option"
  pe_IPBlock :: "opaque option"

record NetworkPolicyPortSpec =
  po_Protocol :: "string option"
  po_Port :: "IntOrString option"

record NetworkPolicyIngressSpec =
  ni_From :: "NetworkPolicyPeerSpec list option"
  ni_Ports :: "NetworkPolicyPortSpec list option"

record NetworkPolicyEgressSpec =
  ne_To :: "NetworkPolicyPeerSpec list option"
  ne_Ports :: "NetworkPolicyPortSpec list option"

record NetworkPolicySpec =
  ny_Enabled :: bool
  ny_Ingress :: "NetworkPolicyIngressSpec list option"
  ny_Egress :: "NetworkPolicyEgressSpec list option"

record ServiceMonitorRoleSpec =
  mr_Enabled :: bool
  mr_Labels :: "str_map option"
  mr_ScrapeTimeout :: string

record ServiceMonitorSpec =
  mo_Enabled :: bool
  mo_APIVersion :: string
  mo_Labels :: "str_map option"
  mo_Interval :: string
  mo_ScrapeTimeout :: string
  mo_Coordinator :: "ServiceMonitorRoleSpec option"
  mo_Worker :: "ServiceMonitorRoleSpec option"

record CoordinatorHelmConfigSpec =
  ch_SecretMounts :: "SecretMountSpec list option"
  ch_AdditionalConfigFiles :: "str_map option"

record GracefulShutdownSpec =
  gr_Enabled :: bool
  gr_GracePeriodSeconds :: int

record WorkerHelmConfigSpec =
  wh_GracefulShutdown :: "GracefulShutdownSpec option"
  wh_SecretMounts :: "SecretMountSpec list option"
  wh_AdditionalConfigFiles :: "str_map option"
  wh_TopologySpreadConstraints :: "TopologySpreadConstraint list option"

record HelmChartConfigSpec =
  hc_AccessControl :: "AccessControlSpec option"
  hc_SecretMounts :: "SecretMountSpec list option"
  hc_ImagePullSecrets :: "string list option"
  hc_ServiceAccount :: "ServiceAccountSpec option"
  hc_Ingress :: "IngressSpec option"
  hc_NetworkPolicy :: "NetworkPolicySpec option"
  hc_ServiceMonitor :: "ServiceMonitorSpec option"
  hc_Coordinator :: "CoordinatorHelmConfigSpec option"
  hc_Worker :: "WorkerHelmConfigSpec option"
  hc_Env :: "opaque list option"
  hc_EnvFrom :: "opaque list option"
  hc_InitContainers :: "(string \<times> opaque list) list option"

subsection \<open>The whole spec\<close>

record XTrinodeSpec =
  xs_Size :: string
  xs_MaxWorkers :: "int option"
  xs_MinWorkers :: "int option"
  xs_Suspended :: bool
  xs_AutoSuspendAfter :: "duration option"
  xs_WakeMinWorkers :: "int option"
  xs_WakeTTL :: "duration option"
  xs_Resources :: "RuntimeResourcesSpec option"
  xs_Placement :: "PlacementSpec option"
  xs_NodePool :: "NodePoolSpec option"
  xs_Routing :: "RoutingSpec option"
  xs_CatalogSelector :: "LabelSelector option"
  xs_ResourceGroupsProfile :: string
  xs_CustomConfigMaps :: "string list"
  xs_Limits :: "LimitsSpec option"
  xs_ValuesOverlay :: "string option"
  xs_TrinoControlAuth :: "TrinoControlAuthSpec option"
  xs_FaultTolerantExecution :: "FaultTolerantExecutionSpec option"
  xs_KEDA :: "KEDASpec option"
  xs_TLS :: "TLSSpec option"
  xs_HelmChartConfig :: "HelmChartConfigSpec option"
  xs_OperatorNodePoolDefaults :: "OperatorNodePoolDefaultsSpec option"
  xs_RolloutPolicy :: "RolloutPolicySpec option"

section \<open>Status\<close>

record Condition =
  co_Type :: string
  co_Status :: string
  co_ObservedGeneration :: int
  co_LastTransitionTime :: time
  co_Reason :: string
  co_Message :: string

record WakeState =
  wk_MinWorkers :: int
  wk_ExpiresAt :: time

record ObservedRuntimeWorkersStatus =
  ow_Fixed :: "int option"
  ow_Min :: int
  ow_Max :: int
  ow_Quota :: int
  ow_Capacity :: int

record ObservedRuntimeNodePoolStatus =
  on_ProvisioningRequested :: bool
  on_Provider :: string
  on_ProviderMode :: string
  on_Name :: string
  on_SchedulePods :: bool
  on_DeletionPolicy :: string

record ObservedRuntimeShapeStatus =
  os_Version :: string
  os_Hash :: string
  os_Preset :: string
  os_AutoscalingMode :: string
  os_Coordinator :: ResourceRequirements
  os_Worker :: ResourceRequirements
  os_Workers :: ObservedRuntimeWorkersStatus
  os_CapacityUnits :: int
  os_NodePool :: ObservedRuntimeNodePoolStatus

record XTrinodeStatus =
  st_Phase :: string
  st_CoordinatorURL :: string
  st_Workers :: int
  st_LastActivity :: "time option"
  st_CurrentRevision :: string
  st_ObservedGeneration :: int
  st_BaseRevision :: string
  st_CoordinatorRolloutHash :: string
  st_WorkerRolloutHash :: string
  st_ObservedCatalogs :: "string list"
  st_ObservedCatalogDigest :: string
  st_ObservedAccessControlDigest :: string
  st_ObservedSessionPropsDigest :: string
  st_ObservedRuntimeShape :: "ObservedRuntimeShapeStatus option"
  st_Wake :: "WakeState option"
  st_Conditions :: "Condition list"

text \<open>The resource, with the metadata the sources read or write.\<close>

record XTrinode =
  xt_Name :: string
  xt_Namespace :: string
  xt_UID :: string
  xt_ResourceVersion :: string
  xt_Generation :: int
  xt_CreationTimestamp :: time
  xt_Labels :: str_map
  xt_Finalizers :: "string list"
  xt_Annotations :: str_map
  xt_DeletionTimestamp :: "time option"
  xt_Spec :: XTrinodeSpec
  xt_Status :: XTrinodeStatus

text \<open>The overlay is the raw text of a JSON value.\<close>

definition GetValuesOverlayMap :: "XTrinodeSpec \<Rightarrow> (string \<times> json) list option" where
  "GetValuesOverlayMap s =
     (case xs_ValuesOverlay s of
        None \<Rightarrow> None
      | Some raw \<Rightarrow>
          if raw = '''' then None
          else (case unmarshal_map raw of None \<Rightarrow> None | Some result \<Rightarrow> result))"

section \<open>Names and addresses\<close>

definition GatewayDefaultRoutingGroupSeparator :: string where
  "GatewayDefaultRoutingGroupSeparator = ''--''"

definition DefaultDedicatedRoutingGroup :: "string \<Rightarrow> string \<Rightarrow> string" where
  "DefaultDedicatedRoutingGroup namespace name =
     (if namespace = '''' then name else namespace @ GatewayDefaultRoutingGroupSeparator @ name)"

definition TrinoPortHTTP :: int where "TrinoPortHTTP = 8080"

fun parsePort :: "json option \<Rightarrow> int option" where
  "parsePort (Some (JNum v)) =
     (if v > 0 \<and> v = of_int (f64_to_int 64 (Fin v)) then Some (f64_to_int 64 (Fin v)) else None)"
| "parsePort (Some (JStr s)) =
     (case parse_int 64 s of Some p \<Rightarrow> if p > 0 then Some p else None | None \<Rightarrow> None)"
| "parsePort _ = None"

definition HTTPPort :: "XTrinode \<Rightarrow> int" where
  "HTTPPort xtrinode =
     (case GetValuesOverlayMap (xt_Spec xtrinode) of
        None \<Rightarrow> TrinoPortHTTP
      | Some values \<Rightarrow>
          (case as_object (map_of values ''service'') of
             None \<Rightarrow> TrinoPortHTTP
           | Some service \<Rightarrow>
               (case parsePort (map_of service ''port'') of Some p \<Rightarrow> p | None \<Rightarrow> TrinoPortHTTP)))"

definition BuildCoordinatorServiceName :: "string \<Rightarrow> string" where
  "BuildCoordinatorServiceName name = ''trino-'' @ name"

definition BuildCoordinatorURLWithPort :: "string \<Rightarrow> string \<Rightarrow> int \<Rightarrow> string" where
  "BuildCoordinatorURLWithPort name namespace port =
     ''http://'' @ BuildCoordinatorServiceName name @ ''.'' @ namespace
       @ ''.svc.cluster.local:'' @ show_int port"

definition CoordinatorURL :: "XTrinode \<Rightarrow> string" where
  "CoordinatorURL xtrinode =
     BuildCoordinatorURLWithPort (xt_Name xtrinode) (xt_Namespace xtrinode) (HTTPPort xtrinode)"

lemma HTTPPort_pos: "0 < HTTPPort x"
proof -
  have "parsePort j = Some p \<Longrightarrow> 0 < p" for j p
    by (cases j rule: parsePort.cases) (auto split: if_splits option.splits)
  then show ?thesis
    by (auto simp: HTTPPort_def TrinoPortHTTP_def split: option.splits)
qed

end
