(* ===== verification/RuntimeShape.thy ===== *)
theory RuntimeShape
  imports Types
begin

text \<open>
  Size presets (\<open>internal/sizing/presets.go\<close>) and the resolution of a runtime's shape
  (\<open>internal/runtimeshape/resolved.go\<close>). Parsing a quantity and reading it in units or milli-units are
  operations of a Kubernetes library: the record \<open>QuantityLib\<close> holds them, and \<open>Resolve\<close> takes it
  and the shape's hash function as arguments. Errors carry the fixed part of their message.
\<close>

section \<open>Presets\<close>

record SizePreset =
  sp_WorkerCPUReq :: string
  sp_WorkerMemReq :: string
  sp_WorkerCPULim :: string
  sp_WorkerMemLim :: string
  sp_MaxWorkers :: int
  sp_CoordinatorCPUReq :: string
  sp_CoordinatorMemReq :: string
  sp_CoordinatorCPULim :: string
  sp_CoordinatorMemLim :: string
  sp_Azure :: string
  sp_AWS :: string
  sp_GCP :: string

definition preset_of ::
    "string \<Rightarrow> string \<Rightarrow> string \<Rightarrow> string \<Rightarrow> int \<Rightarrow> string \<Rightarrow> string \<Rightarrow> string \<Rightarrow> SizePreset" where
  "preset_of cpuReq memReq cpuLim memLim maxW azure aws gcp =
     \<lparr> sp_WorkerCPUReq = cpuReq, sp_WorkerMemReq = memReq, sp_WorkerCPULim = cpuLim, sp_WorkerMemLim = memLim,
       sp_MaxWorkers = maxW, sp_CoordinatorCPUReq = ''1'', sp_CoordinatorMemReq = ''4Gi'',
       sp_CoordinatorCPULim = ''2'', sp_CoordinatorMemLim = ''8Gi'',
       sp_Azure = azure, sp_AWS = aws, sp_GCP = gcp \<rparr>"

definition Presets :: "(string \<times> SizePreset) list" where
  "Presets =
     [(''xs'', preset_of ''1'' ''4Gi'' ''2'' ''8Gi'' 5 ''Standard_D2as_v5'' ''m5.large'' ''n1-standard-2''),
      (''s'', preset_of ''2'' ''8Gi'' ''8'' ''32Gi'' 24 ''Standard_D8as_v5'' ''m5.2xlarge'' ''n1-standard-8''),
      (''m'', preset_of ''4'' ''16Gi'' ''16'' ''64Gi'' 50 ''Standard_D16as_v5'' ''m5.4xlarge'' ''n1-standard-16''),
      (''l'', preset_of ''8'' ''32Gi'' ''32'' ''128Gi'' 100 ''Standard_D32as_v5'' ''m5.8xlarge'' ''n1-standard-32''),
      (''xl'', preset_of ''16'' ''64Gi'' ''64'' ''256Gi'' 200 ''Standard_D64as_v5'' ''m5.16xlarge'' ''n1-standard-64'')]"

definition GetPreset :: "string \<Rightarrow> SizePreset option" where
  "GetPreset sz = map_of Presets sz"

definition GetRecommendedMachineType :: "string \<Rightarrow> string \<Rightarrow> string" where
  "GetRecommendedMachineType sz provider =
     (case map_of Presets sz of
        None \<Rightarrow> ''''
      | Some preset \<Rightarrow>
          if provider = ''azure'' then sp_Azure preset
          else if provider = ''aws'' then sp_AWS preset
          else if provider = ''gcp'' then sp_GCP preset
          else '''')"

section \<open>The resolved shape\<close>

record QuantityLib =
  ql_Parse :: "string \<Rightarrow> quantity option"
  ql_MilliValue :: "quantity \<Rightarrow> int"
  ql_Value :: "quantity \<Rightarrow> int"

record SchedulingShape =
  sc_NodeSelector :: "str_map option"
  sc_Tolerations :: "opaque list option"
  sc_Affinity :: "opaque option"
  sc_TopologySpreadConstraints :: "TopologySpreadConstraint list option"

record NodePoolShape =
  ns_ProvisioningRequested :: bool
  ns_Provider :: string
  ns_ProviderMode :: string
  ns_Name :: string
  ns_MinNodes :: int
  ns_MaxNodes :: int
  ns_MachineType :: string
  ns_SchedulePods :: bool
  ns_DeletionPolicy :: string

datatype ShapeSource = SourcePreset | SourceTyped | SourceOverlay

datatype AutoscalingMode = AutoscalingModeFixed | AutoscalingModeKEDA | AutoscalingModeHPA

record RuntimeShapeSource =
  so_CoordinatorResources :: ShapeSource
  so_WorkerResources :: ShapeSource
  so_WorkerCount :: ShapeSource
  so_Capacity :: ShapeSource
  so_Placement :: ShapeSource
  so_NodePool :: ShapeSource

record ResolvedRuntimeShape =
  sh_PresetName :: string
  sh_Preset :: SizePreset
  sh_Coordinator :: ResourceRequirements
  sh_Worker :: ResourceRequirements
  sh_MinWorkers :: int
  sh_MaxWorkers :: int
  sh_FixedWorkers :: "int option"
  sh_QuotaWorkers :: int
  sh_CapacityWorkers :: int
  sh_CapacityUnits :: int
  sh_AutoscalingMode :: AutoscalingMode
  sh_PlacementCoordinator :: SchedulingShape
  sh_PlacementWorker :: SchedulingShape
  sh_NodePool :: NodePoolShape
  sh_Source :: RuntimeShapeSource
  sh_Hash :: string

definition BaselineCPUMilliPerCapacityUnit :: int where "BaselineCPUMilliPerCapacityUnit = 2000"
definition DefaultWorkerReplicas :: int where "DefaultWorkerReplicas = 2"
definition DefaultHPAMinReplicas :: int where "DefaultHPAMinReplicas = 2"
definition DefaultHPAMaxReplicas :: int where "DefaultHPAMaxReplicas = 5"
definition DefaultHPACPUTargetPercentage :: int where "DefaultHPACPUTargetPercentage = 50"
definition DefaultHPAMemoryTargetPercentage :: int where "DefaultHPAMemoryTargetPercentage = 80"
definition KEDADefaultMaxWorkers :: int where "KEDADefaultMaxWorkers = 24"

lemmas shape_const_defs =
  BaselineCPUMilliPerCapacityUnit_def DefaultWorkerReplicas_def DefaultHPAMinReplicas_def
  DefaultHPAMaxReplicas_def DefaultHPACPUTargetPercentage_def DefaultHPAMemoryTargetPercentage_def
  KEDADefaultMaxWorkers_def

definition empty_scheduling :: SchedulingShape where
  "empty_scheduling = \<lparr> sc_NodeSelector = None, sc_Tolerations = None, sc_Affinity = None,
     sc_TopologySpreadConstraints = None \<rparr>"

definition empty_node_pool :: NodePoolShape where
  "empty_node_pool = \<lparr> ns_ProvisioningRequested = False, ns_Provider = '''', ns_ProviderMode = '''',
     ns_Name = '''', ns_MinNodes = 0, ns_MaxNodes = 0, ns_MachineType = '''', ns_SchedulePods = False,
     ns_DeletionPolicy = '''' \<rparr>"

section \<open>Resources\<close>

definition resourcesFromStrings ::
    "QuantityLib \<Rightarrow> string \<Rightarrow> string \<Rightarrow> string \<Rightarrow> string \<Rightarrow> string \<Rightarrow> string + ResourceRequirements" where
  "resourcesFromStrings ql cpuReq memReq cpuLimit memLimit role =
     (case ql_Parse ql cpuReq of
        None \<Rightarrow> Inl (''invalid '' @ role @ '' CPU request'')
      | Some parsedCPUReq \<Rightarrow>
     (case ql_Parse ql memReq of
        None \<Rightarrow> Inl (''invalid '' @ role @ '' memory request'')
      | Some parsedMemReq \<Rightarrow>
     (case ql_Parse ql cpuLimit of
        None \<Rightarrow> Inl (''invalid '' @ role @ '' CPU limit'')
      | Some parsedCPULimit \<Rightarrow>
     (case ql_Parse ql memLimit of
        None \<Rightarrow> Inl (''invalid '' @ role @ '' memory limit'')
      | Some parsedMemLimit \<Rightarrow>
          Inr \<lparr> rr_Requests = [(''cpu'', parsedCPUReq), (''memory'', parsedMemReq)],
                rr_Limits = [(''cpu'', parsedCPULimit), (''memory'', parsedMemLimit)] \<rparr>))))"

definition coordinatorResourcesFromPreset :: "QuantityLib \<Rightarrow> SizePreset \<Rightarrow> string + ResourceRequirements" where
  "coordinatorResourcesFromPreset ql preset =
     resourcesFromStrings ql (sp_CoordinatorCPUReq preset) (sp_CoordinatorMemReq preset)
       (sp_CoordinatorCPULim preset) (sp_CoordinatorMemLim preset) ''coordinator''"

definition workerResourcesFromPreset :: "QuantityLib \<Rightarrow> SizePreset \<Rightarrow> string + ResourceRequirements" where
  "workerResourcesFromPreset ql preset =
     resourcesFromStrings ql (sp_WorkerCPUReq preset) (sp_WorkerMemReq preset)
       (sp_WorkerCPULim preset) (sp_WorkerMemLim preset) ''worker''"

definition applyTypedResources :: "XTrinode \<Rightarrow> ResolvedRuntimeShape \<Rightarrow> ResolvedRuntimeShape" where
  "applyTypedResources xtrinode shape =
     (case xs_Resources (xt_Spec xtrinode) of
        None \<Rightarrow> shape
      | Some res \<Rightarrow>
          let shape = (case rs_Coordinator res of
                         None \<Rightarrow> shape
                       | Some c \<Rightarrow> shape\<lparr>sh_Coordinator := c,
                           sh_Source := (sh_Source shape)\<lparr>so_CoordinatorResources := SourceTyped\<rparr>\<rparr>)
          in (case rs_Worker res of
                None \<Rightarrow> shape
              | Some w \<Rightarrow> shape\<lparr>sh_Worker := w,
                  sh_Source := (sh_Source shape)\<lparr>so_WorkerResources := SourceTyped\<rparr>\<rparr>))"

section \<open>Placement\<close>

definition copyStringMap :: "str_map option \<Rightarrow> str_map option" where
  "copyStringMap m = (case m of Some (e # es) \<Rightarrow> Some (e # es) | _ \<Rightarrow> None)"

definition copyTolerations :: "opaque list option \<Rightarrow> opaque list option" where
  "copyTolerations ts = (case ts of Some (e # es) \<Rightarrow> Some (e # es) | _ \<Rightarrow> None)"

definition copyTopologySpreadConstraints :: "TopologySpreadConstraint list option \<Rightarrow> TopologySpreadConstraint list option" where
  "copyTopologySpreadConstraints ts = (case ts of Some (e # es) \<Rightarrow> Some (e # es) | _ \<Rightarrow> None)"

definition copySchedulingShape :: "SchedulingShape \<Rightarrow> SchedulingShape" where
  "copySchedulingShape s =
     \<lparr> sc_NodeSelector = copyStringMap (sc_NodeSelector s), sc_Tolerations = copyTolerations (sc_Tolerations s),
       sc_Affinity = sc_Affinity s,
       sc_TopologySpreadConstraints = copyTopologySpreadConstraints (sc_TopologySpreadConstraints s) \<rparr>"

definition applyRolePlacementSpec :: "RolePlacementSpec option \<Rightarrow> SchedulingShape \<Rightarrow> SchedulingShape" where
  "applyRolePlacementSpec spec shape =
     (case spec of
        None \<Rightarrow> shape
      | Some sp \<Rightarrow>
          let shape = (if rp_NodeSelector sp \<noteq> None
                       then shape\<lparr>sc_NodeSelector := copyStringMap (rp_NodeSelector sp)\<rparr> else shape);
              shape = (if rp_Tolerations sp \<noteq> None
                       then shape\<lparr>sc_Tolerations := copyTolerations (rp_Tolerations sp)\<rparr> else shape);
              shape = (if rp_Affinity sp \<noteq> None then shape\<lparr>sc_Affinity := rp_Affinity sp\<rparr> else shape)
          in (if rp_TopologySpreadConstraints sp \<noteq> None
              then shape\<lparr>sc_TopologySpreadConstraints :=
                     copyTopologySpreadConstraints (rp_TopologySpreadConstraints sp)\<rparr> else shape))"

definition ExistingNodePoolSelector :: "string \<Rightarrow> string \<Rightarrow> (string \<times> string) option" where
  "ExistingNodePoolSelector provider name =
     (let name = trim_space name
      in if name = '''' then None
         else let p = to_lower (trim_space provider)
              in if p = ''azure'' then Some (''kubernetes.azure.com/agentpool'', name)
                 else if p = ''aws'' then Some (''eks.amazonaws.com/nodegroup'', name)
                 else if p = ''gcp'' then Some (''cloud.google.com/gke-nodepool'', name)
                 else None)"

definition addSelectorWithConflict :: "string \<Rightarrow> string \<Rightarrow> SchedulingShape \<Rightarrow> string + SchedulingShape" where
  "addSelectorWithConflict key val shape =
     (let sel = (case sc_NodeSelector shape of None \<Rightarrow> [] | Some m \<Rightarrow> m)
      in case map_of sel key of
           Some existing \<Rightarrow>
             (if existing \<noteq> val then Inl (key @ '' does not match'')
              else Inr (shape\<lparr>sc_NodeSelector := Some (AList.update key val sel)\<rparr>))
         | None \<Rightarrow> Inr (shape\<lparr>sc_NodeSelector := Some (AList.update key val sel)\<rparr>))"

definition NodePoolSchedulingLabel :: string where
  "NodePoolSchedulingLabel = ''xtrinode.analytics.xtrinode.io/node-pool''"

definition addNodePoolSelector :: "string \<Rightarrow> SchedulingShape \<Rightarrow> string + SchedulingShape" where
  "addNodePoolSelector poolName shape = addSelectorWithConflict NodePoolSchedulingLabel poolName shape"

text \<open>Adding one selector to both roles, as the placement and the node-pool binding do.\<close>

definition bind_both :: "(SchedulingShape \<Rightarrow> string + SchedulingShape) \<Rightarrow> ResolvedRuntimeShape
    \<Rightarrow> string + ResolvedRuntimeShape" where
  "bind_both add shape =
     (case add (sh_PlacementCoordinator shape) of
        Inl err \<Rightarrow> Inl (''coordinator placement conflicts: '' @ err)
      | Inr c \<Rightarrow>
          (case add (sh_PlacementWorker shape) of
             Inl err \<Rightarrow> Inl (''worker placement conflicts: '' @ err)
           | Inr w \<Rightarrow> Inr (shape\<lparr>sh_PlacementCoordinator := c, sh_PlacementWorker := w\<rparr>)))"

definition placement_typed :: "ResolvedRuntimeShape \<Rightarrow> ResolvedRuntimeShape" where
  "placement_typed shape = shape\<lparr>sh_Source := (sh_Source shape)\<lparr>so_Placement := SourceTyped\<rparr>\<rparr>"

definition applyTypedPlacement :: "XTrinode \<Rightarrow> ResolvedRuntimeShape \<Rightarrow> string + ResolvedRuntimeShape" where
  "applyTypedPlacement xtrinode shape =
     (case xs_Placement (xt_Spec xtrinode) of
        None \<Rightarrow> Inr shape
      | Some placement \<Rightarrow>
          let common = \<lparr> sc_NodeSelector = copyStringMap (ps_NodeSelector placement),
                         sc_Tolerations = copyTolerations (ps_Tolerations placement),
                         sc_Affinity = ps_Affinity placement, sc_TopologySpreadConstraints = None \<rparr>;
              shape = shape\<lparr>
                sh_PlacementCoordinator := applyRolePlacementSpec (ps_Coordinator placement) (copySchedulingShape common),
                sh_PlacementWorker := applyRolePlacementSpec (ps_Worker placement) (copySchedulingShape common)\<rparr>
          in (case ps_ExistingNodePool placement of
               None \<Rightarrow> Inr (placement_typed shape)
             | Some pool \<Rightarrow>
                 (case ExistingNodePoolSelector (ep_Provider pool) (ep_Name pool) of
                    None \<Rightarrow> Inl ''unsupported existingNodePool provider''
                  | Some (key, val) \<Rightarrow>
                      map_sum id placement_typed (bind_both (addSelectorWithConflict key val) shape))))"

section \<open>Node pool\<close>

definition NodePoolNameSuffix :: string where "NodePoolNameSuffix = ''-pool''"

definition resolvedNodePoolDeletionPolicy :: "NodePoolSpec \<Rightarrow> string" where
  "resolvedNodePoolDeletionPolicy nodePool =
     (if np_DeletionPolicy nodePool = '''' then NodePoolDeletionPolicyDelete else np_DeletionPolicy nodePool)"

definition nodePoolMachineType :: "NodePoolSpec \<Rightarrow> string" where
  "nodePoolMachineType nodePool =
     (let p = to_lower (trim_space (np_Provider nodePool))
      in if p = ''azure'' then (case np_Azure nodePool of Some a \<Rightarrow> az_VMSize a | None \<Rightarrow> '''')
         else if p = ''aws'' then (case np_AWS nodePool of Some a \<Rightarrow> aw_InstanceType a | None \<Rightarrow> '''')
         else if p = ''gcp'' then (case np_GCP nodePool of Some g \<Rightarrow> gc_MachineType g | None \<Rightarrow> '''')
         else '''')"

definition applyNodePoolShape :: "XTrinode \<Rightarrow> ResolvedRuntimeShape \<Rightarrow> ResolvedRuntimeShape" where
  "applyNodePoolShape xtrinode shape =
     (case xs_NodePool (xt_Spec xtrinode) of
        None \<Rightarrow> shape
      | Some nodePool \<Rightarrow>
          let poolName = (if np_Name nodePool = '''' then xt_Name xtrinode @ NodePoolNameSuffix else np_Name nodePool)
          in shape\<lparr>sh_NodePool :=
               \<lparr> ns_ProvisioningRequested = True,
                 ns_Provider = to_lower (trim_space (np_Provider nodePool)),
                 ns_ProviderMode = to_lower (trim_space (np_ProviderMode nodePool)),
                 ns_Name = poolName,
                 ns_MinNodes = (case np_MinNodes nodePool of Some n \<Rightarrow> n | None \<Rightarrow> 0),
                 ns_MaxNodes = (case np_MaxNodes nodePool of Some n \<Rightarrow> n | None \<Rightarrow> 0),
                 ns_MachineType = nodePoolMachineType nodePool,
                 ns_SchedulePods = np_SchedulePods nodePool,
                 ns_DeletionPolicy = resolvedNodePoolDeletionPolicy nodePool \<rparr>,
               sh_Source := (sh_Source shape)\<lparr>so_NodePool := SourceTyped\<rparr>\<rparr>)"

definition applyNodePoolSchedulingBinding :: "ResolvedRuntimeShape \<Rightarrow> string + ResolvedRuntimeShape" where
  "applyNodePoolSchedulingBinding shape =
     (let pool = sh_NodePool shape
      in if \<not> ns_ProvisioningRequested pool \<or> \<not> ns_SchedulePods pool then Inr shape
         else if ns_Name pool = '''' then Inl ''nodePool.schedulePods requires a resolved node pool name''
         else map_sum id placement_typed (bind_both (addNodePoolSelector (ns_Name pool)) shape))"

section \<open>Worker counts\<close>

fun ParseInt32 :: "json option \<Rightarrow> int option" where
  "ParseInt32 (Some (JNum v)) = Some (f64_to_int 32 (Fin v))"
| "ParseInt32 (Some (JStr s)) = parse_int 32 (trim_space s)"
| "ParseInt32 _ = None"

definition hasKEDAMetricConfig :: "KEDASpec \<Rightarrow> bool" where
  "hasKEDAMetricConfig k =
     (let given = (\<lambda>p. case p of Some s \<Rightarrow> trim_space s \<noteq> '''' | None \<Rightarrow> False)
      in kd_ScalerType k \<noteq> '''' \<or> kd_ScalingMetric k \<noteq> ''''
         \<or> given (kd_PrometheusServer k) \<or> given (kd_PrometheusQuery k) \<or> given (kd_HTTPEndpoint k))"

definition IsKEDAActive :: "XTrinode \<Rightarrow> bool" where
  "IsKEDAActive xtrinode =
     (case xs_KEDA (xt_Spec xtrinode) of
        None \<Rightarrow> False
      | Some k \<Rightarrow> (case kd_Enabled k of None \<Rightarrow> False | Some e \<Rightarrow> e \<and> hasKEDAMetricConfig k))"

definition overlayServer :: "(string \<times> json) list option \<Rightarrow> (string \<times> json) list option" where
  "overlayServer valuesOverlay =
     (case valuesOverlay of None \<Rightarrow> None | Some m \<Rightarrow> as_object (map_of m ''server''))"

definition overlayAutoscaling :: "(string \<times> json) list option \<Rightarrow> (string \<times> json) list option" where
  "overlayAutoscaling valuesOverlay =
     (case overlayServer valuesOverlay of None \<Rightarrow> None | Some m \<Rightarrow> as_object (map_of m ''autoscaling''))"

text \<open>One utilization target of the overlay: a number, the default, or 0 for an empty string.\<close>

definition hpa_target :: "int \<Rightarrow> json option \<Rightarrow> int" where
  "hpa_target dflt v =
     (case ParseInt32 v of
        Some parsed \<Rightarrow> parsed
      | None \<Rightarrow> if v = Some (JStr '''') then 0 else dflt)"

definition IsNativeHPAActive :: "(string \<times> json) list option \<Rightarrow> bool" where
  "IsNativeHPAActive valuesOverlay =
     (case overlayAutoscaling valuesOverlay of
        None \<Rightarrow> False
      | Some autoscaling \<Rightarrow>
          (if as_bool (map_of autoscaling ''enabled'') \<noteq> Some True then False
           else hpa_target DefaultHPACPUTargetPercentage (map_of autoscaling ''targetCPUUtilizationPercentage'') > 0
             \<or> hpa_target DefaultHPAMemoryTargetPercentage (map_of autoscaling ''targetMemoryUtilizationPercentage'') > 0))"

definition resolveNativeHPAWorkers :: "(string \<times> json) list option \<Rightarrow> string + int \<times> int" where
  "resolveNativeHPAWorkers valuesOverlay =
     (case overlayServer valuesOverlay of
        None \<Rightarrow> Inl ''native HPA overlay server config is missing''
      | Some server \<Rightarrow>
     (case as_object (map_of server ''autoscaling'') of
        None \<Rightarrow> Inl ''native HPA autoscaling config is missing''
      | Some autoscaling \<Rightarrow>
          let maxWorkers = (case ParseInt32 (map_of autoscaling ''maxReplicas'') of
                              Some n \<Rightarrow> n | None \<Rightarrow> DefaultHPAMaxReplicas);
              minWorkers = (case ParseInt32 (map_of autoscaling ''minReplicas'') of
                              Some n \<Rightarrow> n | None \<Rightarrow> DefaultHPAMinReplicas)
          in if minWorkers < 0 then Inl ''native HPA minReplicas must be non-negative''
             else if maxWorkers < 1 then Inl ''native HPA maxReplicas must be at least 1''
             else if maxWorkers < minWorkers then Inl ''native HPA maxReplicas is less than minReplicas''
             else Inr (minWorkers, maxWorkers)))"

definition resolveFixedWorkers :: "XTrinode \<Rightarrow> string + int \<times> ShapeSource" where
  "resolveFixedWorkers xtrinode =
     (let (workers, source) =
            (case xs_MaxWorkers (xt_Spec xtrinode) of
               Some n \<Rightarrow> (n, SourceTyped) | None \<Rightarrow> (DefaultWorkerReplicas, SourcePreset));
          (workers, source) =
            (case xs_MinWorkers (xt_Spec xtrinode) of
               Some n \<Rightarrow> if n > workers then (n, SourceTyped) else (workers, source)
             | None \<Rightarrow> (workers, source))
      in if workers < 0 then Inl ''fixed worker count must be non-negative'' else Inr (workers, source))"

definition set_workers ::
    "int \<Rightarrow> int \<Rightarrow> int option \<Rightarrow> AutoscalingMode \<Rightarrow> ShapeSource \<Rightarrow> ResolvedRuntimeShape \<Rightarrow> ResolvedRuntimeShape" where
  "set_workers minW maxW fixed mode source shape =
     shape\<lparr>sh_MinWorkers := minW, sh_MaxWorkers := maxW, sh_FixedWorkers := fixed, sh_QuotaWorkers := maxW,
           sh_CapacityWorkers := maxW, sh_AutoscalingMode := mode,
           sh_Source := (sh_Source shape)\<lparr>so_WorkerCount := source\<rparr>\<rparr>"

definition resolveWorkerCounts ::
    "XTrinode \<Rightarrow> (string \<times> json) list option \<Rightarrow> ResolvedRuntimeShape \<Rightarrow> string + ResolvedRuntimeShape" where
  "resolveWorkerCounts xtrinode valuesOverlay shape =
     (if IsKEDAActive xtrinode then
        let minWorkers = (case xs_MinWorkers (xt_Spec xtrinode) of Some n \<Rightarrow> n | None \<Rightarrow> 0);
            maxWorkers = (case xs_MaxWorkers (xt_Spec xtrinode) of Some n \<Rightarrow> n | None \<Rightarrow> KEDADefaultMaxWorkers)
        in if maxWorkers < minWorkers then Inl ''keda maxWorkers is less than minWorkers''
           else Inr (set_workers minWorkers maxWorkers None AutoscalingModeKEDA SourceTyped shape)
      else if IsNativeHPAActive valuesOverlay then
        (case resolveNativeHPAWorkers valuesOverlay of
           Inl err \<Rightarrow> Inl err
         | Inr (minWorkers, maxWorkers) \<Rightarrow>
             Inr (set_workers minWorkers maxWorkers None AutoscalingModeHPA SourceOverlay shape))
      else
        (case resolveFixedWorkers xtrinode of
           Inl err \<Rightarrow> Inl err
         | Inr (fixedWorkers, source) \<Rightarrow>
             Inr (set_workers fixedWorkers fixedWorkers (Some fixedWorkers) AutoscalingModeFixed source shape)))"

section \<open>Capacity and validation\<close>

definition deriveCapacityUnits :: "QuantityLib \<Rightarrow> ResourceRequirements \<Rightarrow> int \<Rightarrow> int" where
  "deriveCapacityUnits ql worker workers =
     (if workers \<le> 0 then 1
      else case map_of (rr_Requests worker) ''cpu'' of
        None \<Rightarrow> 1
      | Some cpuRequest \<Rightarrow>
          if sgn cpuRequest \<le> 0 then 1
          else
            let totalMilli = i64 (ql_MilliValue ql cpuRequest * workers);
                units = i64 (totalMilli + BaselineCPUMilliPerCapacityUnit - 1) sdiv BaselineCPUMilliPerCapacityUnit
            in if units < 1 then 1 else i32 units)"

definition resolveCapacity :: "QuantityLib \<Rightarrow> XTrinode \<Rightarrow> ResolvedRuntimeShape \<Rightarrow> ResolvedRuntimeShape" where
  "resolveCapacity ql xtrinode shape =
     (let derived = shape\<lparr>sh_CapacityUnits := deriveCapacityUnits ql (sh_Worker shape) (sh_CapacityWorkers shape),
                          sh_Source := (sh_Source shape)\<lparr>so_Capacity := so_WorkerResources (sh_Source shape)\<rparr>\<rparr>
      in case xs_Routing (xt_Spec xtrinode) of
           None \<Rightarrow> derived
         | Some routing \<Rightarrow>
             (case ro_CapacityUnits routing of
                None \<Rightarrow> derived
              | Some n \<Rightarrow> shape\<lparr>sh_CapacityUnits := n, sh_Source := (sh_Source shape)\<lparr>so_Capacity := SourceTyped\<rparr>\<rparr>))"

text \<open>The checks of one resource of a role; \<open>None\<close>: passed.\<close>

definition check_resource :: "ResourceRequirements \<Rightarrow> string \<Rightarrow> string \<Rightarrow> string option" where
  "check_resource requirements role resourceName =
     (let request = map_of (rr_Requests requirements) resourceName;
          limit = map_of (rr_Limits requirements) resourceName
      in case (request, limit) of
           (Some r, _) \<Rightarrow>
             (if r < 0 then Some (role @ '' request must be non-negative'')
              else case limit of
                Some l \<Rightarrow> if l < 0 then Some (role @ '' limit must be non-negative'')
                          else if l < r then Some (role @ '' limit is less than request'') else None
              | None \<Rightarrow> None)
         | (None, Some l) \<Rightarrow> if l < 0 then Some (role @ '' limit must be non-negative'') else None
         | (None, None) \<Rightarrow> None)"

definition validateResourceRequirements :: "ResourceRequirements \<Rightarrow> string \<Rightarrow> string option" where
  "validateResourceRequirements requirements role =
     (case check_resource requirements role ''cpu'' of
        Some err \<Rightarrow> Some err
      | None \<Rightarrow> check_resource requirements role ''memory'')"

definition validate_shape :: "ResolvedRuntimeShape \<Rightarrow> string option" where
  "validate_shape shape =
     (case validateResourceRequirements (sh_Coordinator shape) ''coordinator'' of
        Some err \<Rightarrow> Some err
      | None \<Rightarrow>
     (case validateResourceRequirements (sh_Worker shape) ''worker'' of
        Some err \<Rightarrow> Some err
      | None \<Rightarrow>
          if sh_MinWorkers shape < 0 \<or> sh_MaxWorkers shape < 0 \<or> sh_QuotaWorkers shape < 0
             \<or> sh_CapacityWorkers shape < 0 then Some ''worker counts must be non-negative''
          else if sh_MaxWorkers shape < sh_MinWorkers shape then Some ''maxWorkers is less than minWorkers''
          else if sh_CapacityUnits shape < 1 then Some ''capacityUnits must be at least 1''
          else None))"

section \<open>Resolve\<close>

definition initial_shape :: "string \<Rightarrow> SizePreset \<Rightarrow> ResourceRequirements \<Rightarrow> ResourceRequirements \<Rightarrow> ResolvedRuntimeShape" where
  "initial_shape presetName preset coordinator worker =
     \<lparr> sh_PresetName = presetName, sh_Preset = preset, sh_Coordinator = coordinator, sh_Worker = worker,
       sh_MinWorkers = 0, sh_MaxWorkers = 0, sh_FixedWorkers = None, sh_QuotaWorkers = 0,
       sh_CapacityWorkers = 0, sh_CapacityUnits = 0, sh_AutoscalingMode = AutoscalingModeFixed,
       sh_PlacementCoordinator = empty_scheduling, sh_PlacementWorker = empty_scheduling,
       sh_NodePool = empty_node_pool,
       sh_Source = \<lparr> so_CoordinatorResources = SourcePreset, so_WorkerResources = SourcePreset,
                     so_WorkerCount = SourcePreset, so_Capacity = SourcePreset,
                     so_Placement = SourcePreset, so_NodePool = SourcePreset \<rparr>,
       sh_Hash = '''' \<rparr>"

definition Resolve ::
    "QuantityLib \<Rightarrow> (ResolvedRuntimeShape \<Rightarrow> string + string) \<Rightarrow> XTrinode \<Rightarrow> string + ResolvedRuntimeShape" where
  "Resolve ql hashShape xtrinode =
     (let presetName = to_lower (trim_space (xs_Size (xt_Spec xtrinode)));
          valuesOverlay = GetValuesOverlayMap (xt_Spec xtrinode)
      in res_bind (some_or ''invalid size preset'' (GetPreset presetName)) (\<lambda>preset.
         res_bind (coordinatorResourcesFromPreset ql preset) (\<lambda>coordinatorResources.
         res_bind (workerResourcesFromPreset ql preset) (\<lambda>workerResources.
         res_bind (applyTypedPlacement xtrinode
                     (applyTypedResources xtrinode
                        (initial_shape presetName preset coordinatorResources workerResources))) (\<lambda>shape.
         res_bind (resolveWorkerCounts xtrinode valuesOverlay (applyNodePoolShape xtrinode shape)) (\<lambda>shape.
         res_bind (applyNodePoolSchedulingBinding shape) (\<lambda>shape.
         let shape = resolveCapacity ql xtrinode shape in
         res_bind (no_error (validate_shape shape)) (\<lambda>_.
         res_bind (hashShape shape) (\<lambda>hash.
         Inr (shape\<lparr>sh_Hash := hash\<rparr>))))))))))"

fun mode_text :: "AutoscalingMode \<Rightarrow> string" where
  "mode_text AutoscalingModeFixed = ''fixed''"
| "mode_text AutoscalingModeKEDA = ''keda''"
| "mode_text AutoscalingModeHPA = ''hpa''"

definition ObservedRuntimeShapeStatusVersion :: string where "ObservedRuntimeShapeStatusVersion = ''v1''"

definition ObservedStatus :: "ResolvedRuntimeShape \<Rightarrow> ObservedRuntimeShapeStatus" where
  "ObservedStatus shape =
     \<lparr> os_Version = ObservedRuntimeShapeStatusVersion, os_Hash = sh_Hash shape, os_Preset = sh_PresetName shape,
       os_AutoscalingMode = mode_text (sh_AutoscalingMode shape),
       os_Coordinator = sh_Coordinator shape, os_Worker = sh_Worker shape,
       os_Workers = \<lparr> ow_Fixed = sh_FixedWorkers shape, ow_Min = sh_MinWorkers shape, ow_Max = sh_MaxWorkers shape,
                      ow_Quota = sh_QuotaWorkers shape, ow_Capacity = sh_CapacityWorkers shape \<rparr>,
       os_CapacityUnits = sh_CapacityUnits shape,
       os_NodePool = (let p = sh_NodePool shape in
          \<lparr> on_ProvisioningRequested = ns_ProvisioningRequested p, on_Provider = ns_Provider p,
            on_ProviderMode = ns_ProviderMode p, on_Name = ns_Name p, on_SchedulePods = ns_SchedulePods p,
            on_DeletionPolicy = ns_DeletionPolicy p \<rparr>) \<rparr>"

section \<open>What a resolved shape satisfies\<close>

lemma bind_both_fields:
  assumes "bind_both add s = Inr s'"
  shows "\<exists>c w. add (sh_PlacementCoordinator s) = Inr c \<and> add (sh_PlacementWorker s) = Inr w
    \<and> s' = s\<lparr>sh_PlacementCoordinator := c, sh_PlacementWorker := w\<rparr>"
  using assms by (auto simp: bind_both_def split: sum.splits)

lemma addSelector_result:
  assumes "addSelectorWithConflict k v s = Inr s'"
  shows "\<exists>m. sc_NodeSelector s' = Some m \<and> map_of m k = Some v
    \<and> (\<forall>j u old. sc_NodeSelector s = Some old \<longrightarrow> map_of old j = Some u \<longrightarrow> map_of m j = Some u)"
  using assms by (auto simp: addSelectorWithConflict_def Let_def split: option.splits if_splits)

definition node_bound :: "string \<Rightarrow> SchedulingShape \<Rightarrow> bool" where
  "node_bound pool s \<longleftrightarrow> (\<exists>m. sc_NodeSelector s = Some m \<and> map_of m NodePoolSchedulingLabel = Some pool)"

lemma binding_result:
  assumes "applyNodePoolSchedulingBinding s = Inr s'"
  shows "\<exists>c w so. s' = s\<lparr>sh_PlacementCoordinator := c, sh_PlacementWorker := w, sh_Source := so\<rparr>
    \<and> (ns_ProvisioningRequested (sh_NodePool s) \<and> ns_SchedulePods (sh_NodePool s) \<longrightarrow>
        node_bound (ns_Name (sh_NodePool s)) c \<and> node_bound (ns_Name (sh_NodePool s)) w)"
proof (cases "ns_ProvisioningRequested (sh_NodePool s) \<and> ns_SchedulePods (sh_NodePool s)")
  case True
  then obtain t where t: "bind_both (addNodePoolSelector (ns_Name (sh_NodePool s))) s = Inr t" "s' = placement_typed t"
    using assms
    by (cases "bind_both (addNodePoolSelector (ns_Name (sh_NodePool s))) s")
      (auto simp: applyNodePoolSchedulingBinding_def Let_def split: if_splits)
  from bind_both_fields [OF t(1)] obtain c w where
    cw: "addNodePoolSelector (ns_Name (sh_NodePool s)) (sh_PlacementCoordinator s) = Inr c"
      "addNodePoolSelector (ns_Name (sh_NodePool s)) (sh_PlacementWorker s) = Inr w"
      "t = s\<lparr>sh_PlacementCoordinator := c, sh_PlacementWorker := w\<rparr>" by blast
  have "node_bound (ns_Name (sh_NodePool s)) c" "node_bound (ns_Name (sh_NodePool s)) w"
    using addSelector_result cw(1,2) unfolding node_bound_def addNodePoolSelector_def by blast+
  then show ?thesis
    using t(2) cw(3)
    by (intro exI [of _ c] exI [of _ w] exI [of _ "(sh_Source s)\<lparr>so_Placement := SourceTyped\<rparr>"])
      (simp add: placement_typed_def)
next
  case False
  then have "s' = s" using assms by (auto simp: applyNodePoolSchedulingBinding_def Let_def)
  then show ?thesis
    using False by (intro exI [of _ "sh_PlacementCoordinator s"] exI [of _ "sh_PlacementWorker s"] exI [of _ "sh_Source s"]) auto
qed

definition workers_consistent :: "ResolvedRuntimeShape \<Rightarrow> bool" where
  "workers_consistent s \<longleftrightarrow> sh_QuotaWorkers s = sh_MaxWorkers s \<and> sh_CapacityWorkers s = sh_MaxWorkers s
     \<and> (case sh_FixedWorkers s of
          Some n \<Rightarrow> sh_AutoscalingMode s = AutoscalingModeFixed \<and> sh_MinWorkers s = n \<and> sh_MaxWorkers s = n
        | None \<Rightarrow> sh_AutoscalingMode s \<noteq> AutoscalingModeFixed)"

lemma resolveWorkerCounts_consistent:
  "resolveWorkerCounts x v s = Inr s' \<Longrightarrow> workers_consistent s' \<and> sh_NodePool s' = sh_NodePool s"
  by (auto simp: resolveWorkerCounts_def set_workers_def workers_consistent_def Let_def
      split: if_splits sum.splits prod.splits)

lemma resolveCapacity_fields:
  "sh_MinWorkers (resolveCapacity ql x s) = sh_MinWorkers s" "sh_MaxWorkers (resolveCapacity ql x s) = sh_MaxWorkers s"
  "sh_FixedWorkers (resolveCapacity ql x s) = sh_FixedWorkers s" "sh_QuotaWorkers (resolveCapacity ql x s) = sh_QuotaWorkers s"
  "sh_CapacityWorkers (resolveCapacity ql x s) = sh_CapacityWorkers s"
  "sh_AutoscalingMode (resolveCapacity ql x s) = sh_AutoscalingMode s"
  "sh_PlacementCoordinator (resolveCapacity ql x s) = sh_PlacementCoordinator s"
  "sh_PlacementWorker (resolveCapacity ql x s) = sh_PlacementWorker s" "sh_NodePool (resolveCapacity ql x s) = sh_NodePool s"
  by (auto simp: resolveCapacity_def Let_def split: option.splits)

lemma validate_shape_ok:
  assumes "validate_shape s = None"
  shows "0 \<le> sh_MinWorkers s \<and> sh_MinWorkers s \<le> sh_MaxWorkers s \<and> 1 \<le> sh_CapacityUnits s
    \<and> validateResourceRequirements (sh_Coordinator s) ''coordinator'' = None
    \<and> validateResourceRequirements (sh_Worker s) ''worker'' = None"
  using assms by (auto simp: validate_shape_def split: option.splits if_splits)

lemma Resolve_steps:
  assumes "Resolve ql h x = Inr s"
  obtains s0 s1 s2 s3 hash where "resolveWorkerCounts x (GetValuesOverlayMap (xt_Spec x)) s0 = Inr s1"
    "applyNodePoolSchedulingBinding s1 = Inr s2" "s3 = resolveCapacity ql x s2" "validate_shape s3 = None"
    "h s3 = Inr hash" "s = s3\<lparr>sh_Hash := hash\<rparr>"
  using assms that unfolding Resolve_def Let_def res_bind_Inr no_error_Inr by blast

lemma check_resource_ok:
  assumes "validateResourceRequirements rr role = None" "n = ''cpu'' \<or> n = ''memory''"
    and "map_of (rr_Requests rr) n = Some r" "map_of (rr_Limits rr) n = Some l"
  shows "0 \<le> r \<and> r \<le> l"
  using assms by (auto simp: validateResourceRequirements_def check_resource_def split: option.splits if_splits)


section \<open>Counts stay within 32 bits\<close>

definition fits32 :: "int \<Rightarrow> bool" where
  "fits32 n \<longleftrightarrow> - (2 ^ 31) \<le> n \<and> n < 2 ^ 31"

lemma parse_int_fits32: "parse_int 32 s = Some n \<Longrightarrow> fits32 n"
  by (auto simp: parse_int_def fits32_def Let_def split: option.splits if_splits)

lemma ParseInt32_fits32:
  assumes "ParseInt32 v = Some n"
  shows "fits32 n"
  using assms
proof (cases v rule: ParseInt32.cases)
  case (1 q)
  have "n = f64_to_int 32 (Fin q)" using 1 assms by (simp del: f64_to_int.simps)
  then show ?thesis using f64_to_int_bounds [of 32 "Fin q"] by (simp add: fits32_def del: f64_to_int.simps)
qed (simp_all add: parse_int_fits32)

lemma deriveCapacityUnits_fits32: "fits32 (deriveCapacityUnits ql w n)"
proof -
  have "fits32 (if u < 1 then 1 else i32 u)" for u using i32_bounds [of u] by (simp add: fits32_def)
  moreover have "fits32 1" by (simp add: fits32_def)
  ultimately show ?thesis unfolding deriveCapacityUnits_def Let_def by (simp split: option.split)
qed

lemma hpa_workers_fits32:
  assumes "resolveNativeHPAWorkers v = Inr (a, b)"
  shows "fits32 a \<and> fits32 b"
proof -
  have "fits32 DefaultHPAMaxReplicas" "fits32 DefaultHPAMinReplicas"
    by (simp_all add: fits32_def shape_const_defs)
  then show ?thesis
    using assms ParseInt32_fits32 unfolding resolveNativeHPAWorkers_def Let_def by (auto split: option.splits if_splits)
qed


section \<open>Capacity units\<close>

text \<open>C36. Without wrap-around the derived capacity is the number of baseline units (2000 milli-CPU)
  that the workers' CPU requests fill, rounded up, and at least one.\<close>

theorem capacity_units_ceiling:
  assumes "0 < workers" and "map_of (rr_Requests w) ''cpu'' = Some q" and "0 < q"
    and "m = ql_MilliValue ql q" and "0 \<le> m" and "m * workers \<le> 2000 * (2 ^ 31 - 1)"
  shows "1 \<le> deriveCapacityUnits ql w workers
    \<and> m * workers \<le> 2000 * deriveCapacityUnits ql w workers
    \<and> (deriveCapacityUnits ql w workers = 1 \<or> 2000 * (deriveCapacityUnits ql w workers - 1) < m * workers)"
proof -
  define t where "t = m * workers"
  have t: "0 \<le> t" "t \<le> 2000 * (2 ^ 31 - 1)" using assms(1,5,6) by (simp_all add: t_def)
  have w: "i64 t = t" "i64 (t + 1999) = t + 1999"
    using t by (auto intro!: i64_id)
  define u where "u = (t + 1999) div 2000"
  define r where "r = (t + 1999) mod 2000"
  have r: "2000 * u + r = t + 1999" "0 \<le> r" "r < 2000"
    unfolding u_def r_def by (rule mult_div_mod_eq) simp_all
  have "u \<le> 2000 * (2 ^ 31 - 1) div 2000" unfolding u_def using t(2) by simp
  then have u: "t \<le> 2000 * u" "2000 * (u - 1) < t" "0 \<le> u" "u \<le> 2 ^ 31 - 1"
    using t(1) r by simp_all
  have "i64 (t + 1999) sdiv 2000 = u" using t w by (simp add: sdiv_nonneg u_def)
  then have d: "deriveCapacityUnits ql w workers = (if u < 1 then 1 else i32 u)"
    using assms(1-3) w t_def [unfolded assms(4), symmetric]
    by (simp add: deriveCapacityUnits_def shape_const_defs Let_def add.commute)
  have "i32 u = u" using u(3,4) by (intro i32_id) auto
  then have d: "deriveCapacityUnits ql w workers = max 1 u" unfolding d by simp
  have "t \<le> 2000 * max 1 u" "max 1 u = 1 \<or> 2000 * (max 1 u - 1) < t" using u(1,2) by linarith+
  then show ?thesis unfolding d t_def [symmetric] by simp
qed

text \<open>What the sources rely on from the quantity library: a plain number (the presets use
  small ones) is that many units, the
  suffix \<open>Gi\<close> multiplies by 2^30, and the value in units or in milli-units rounds up.\<close>

definition quantity_lib_ok :: "QuantityLib \<Rightarrow> bool" where
  "quantity_lib_ok ql \<longleftrightarrow>
     (\<forall>n. 0 \<le> n \<and> n < 1000 \<longrightarrow> ql_Parse ql (show_int n) = Some (n * 10 ^ 9)
        \<and> ql_Parse ql (show_int n @ ''Gi'') = Some (n * 2 ^ 30 * 10 ^ 9))
     \<and> (\<forall>q. ql_MilliValue ql q = - ((- q) div 10 ^ 6) \<and> ql_Value ql q = - ((- q) div 10 ^ 9))"

definition bare_spec :: "string \<Rightarrow> XTrinodeSpec" where
  "bare_spec sz =
     \<lparr> xs_Size = sz, xs_MaxWorkers = None, xs_MinWorkers = None, xs_Suspended = False,
       xs_AutoSuspendAfter = None, xs_WakeMinWorkers = None, xs_WakeTTL = None, xs_Resources = None,
       xs_Placement = None, xs_NodePool = None, xs_Routing = None, xs_CatalogSelector = None,
       xs_ResourceGroupsProfile = '''', xs_CustomConfigMaps = [], xs_Limits = None, xs_ValuesOverlay = None,
       xs_TrinoControlAuth = None, xs_FaultTolerantExecution = None, xs_KEDA = None, xs_TLS = None,
       xs_HelmChartConfig = None, xs_OperatorNodePoolDefaults = None, xs_RolloutPolicy = None \<rparr>"

lemma preset_texts:
  "show_int 1 = ''1''" "show_int 2 = ''2''" "show_int 4 = ''4''" "show_int 8 = ''8''" "show_int 16 = ''16''"
  "show_int 32 = ''32''" "show_int 64 = ''64''" "show_int 128 = ''128''" "show_int 256 = ''256''"
  by code_simp+

lemma quantity_lib_parse:
  assumes "quantity_lib_ok ql" "0 \<le> n" "n < 1000"
  shows "ql_Parse ql (show_int n) = Some (n * 10 ^ 9)" "ql_Parse ql (show_int n @ ''Gi'') = Some (n * 2 ^ 30 * 10 ^ 9)"
  using assms by (simp_all add: quantity_lib_ok_def)

lemma preset_parses:
  assumes "quantity_lib_ok ql" "0 \<le> a" "0 \<le> b" "0 \<le> c" "0 \<le> d" "a < 1000" "b < 1000" "c < 1000" "d < 1000"
  shows "resourcesFromStrings ql (show_int a) (show_int b @ ''Gi'') (show_int c) (show_int d @ ''Gi'') role =
    Inr \<lparr> rr_Requests = [(''cpu'', a * 10 ^ 9), (''memory'', b * 2 ^ 30 * 10 ^ 9)],
          rr_Limits = [(''cpu'', c * 10 ^ 9), (''memory'', d * 2 ^ 30 * 10 ^ 9)] \<rparr>"
  using assms by (simp add: resourcesFromStrings_def quantity_lib_parse)

lemma preset_resolve:
  assumes "quantity_lib_ok ql" "xt_Spec x = bare_spec sz" "to_lower (trim_space sz) = sz"
    and "GetPreset sz = Some (preset_of (show_int a) (show_int b @ ''Gi'') (show_int c) (show_int d @ ''Gi'') mw p1 p2 p3)"
    and "0 < a" "a \<le> c" "0 \<le> b" "b \<le> d" "c < 1000" "d < 1000" and "\<forall>s. \<exists>t. h s = Inr t"
  shows "\<exists>s. Resolve ql h x = Inr s \<and> sh_CapacityUnits s = a \<and> sh_MinWorkers s = 2 \<and> sh_MaxWorkers s = 2"
proof -
  define p where "p = preset_of (show_int a) (show_int b @ ''Gi'') (show_int c) (show_int d @ ''Gi'') mw p1 p2 p3"
  define wr where "wr = \<lparr> rr_Requests = [(''cpu'', a * 10 ^ 9), (''memory'', b * 2 ^ 30 * 10 ^ 9)],
          rr_Limits = [(''cpu'', c * 10 ^ 9), (''memory'', d * 2 ^ 30 * 10 ^ 9)] \<rparr>"
  define cr :: ResourceRequirements where "cr = \<lparr> rr_Requests = [(''cpu'', 1 * 10 ^ 9), (''memory'', 4 * 2 ^ 30 * 10 ^ 9)],
          rr_Limits = [(''cpu'', 2 * 10 ^ 9), (''memory'', 8 * 2 ^ 30 * 10 ^ 9)] \<rparr>"
  have w: "workerResourcesFromPreset ql p = Inr wr"
    using preset_parses [OF assms(1), of a b c d] assms(5-10)
    by (simp add: workerResourcesFromPreset_def preset_of_def p_def wr_def)
  have c: "coordinatorResourcesFromPreset ql p = Inr cr"
    using preset_parses [OF assms(1), of 1 4 2 8]
    by (simp add: coordinatorResourcesFromPreset_def preset_of_def preset_texts p_def cr_def)
  have m: "ql_MilliValue ql (a * 10 ^ 9) = a * 1000"
    using assms(1) by (simp add: quantity_lib_ok_def)
  define s0 where "s0 = initial_shape sz p cr wr"
  define s1 where "s1 = set_workers 2 2 (Some 2) AutoscalingModeFixed SourcePreset s0"
  define s2 where "s2 = resolveCapacity ql x s1"
  have sel: "sh_Worker s1 = wr" "sh_Coordinator s1 = cr" "sh_CapacityWorkers s1 = 2" "sh_MinWorkers s1 = 2"
      "sh_MaxWorkers s1 = 2" "sh_QuotaWorkers s1 = 2" "sh_NodePool s1 = empty_node_pool"
    by (simp_all add: s1_def s0_def set_workers_def initial_shape_def)
  have units: "deriveCapacityUnits ql wr 2 = a"
    using assms(5,6,9) m
    by (simp add: deriveCapacityUnits_def shape_const_defs Let_def i64_id i32_id sdiv_nonneg sgn_if wr_def)
  have s2: "sh_CapacityUnits s2 = a" "sh_MinWorkers s2 = 2" "sh_MaxWorkers s2 = 2"
    using assms(2) sel units by (simp_all add: s2_def resolveCapacity_def bare_spec_def Let_def)
  have val: "validate_shape s2 = None"
    using assms(2,5-8) sel units
    by (simp add: s2_def resolveCapacity_def bare_spec_def validate_shape_def validateResourceRequirements_def
        check_resource_def Let_def wr_def cr_def)
  have rw: "resolveWorkerCounts x (GetValuesOverlayMap (xt_Spec x)) s0 = Inr s1"
    using assms(2) by (simp add: resolveWorkerCounts_def IsKEDAActive_def IsNativeHPAActive_def overlayAutoscaling_def
        overlayServer_def GetValuesOverlayMap_def bare_spec_def resolveFixedWorkers_def shape_const_defs s1_def)
  obtain t where t: "h s2 = Inr t" using assms(11) by blast
  have pre: "applyTypedResources x y = y" "applyTypedPlacement x y = Inr y" "applyNodePoolShape x y = y" "xs_Size (xt_Spec x) = sz" for y
    using assms(2) by (simp_all add: bare_spec_def applyTypedPlacement_def applyTypedResources_def applyNodePoolShape_def)
  have bind: "applyNodePoolSchedulingBinding s1 = Inr s1"
    using sel(7) by (simp add: applyNodePoolSchedulingBinding_def empty_node_pool_def)
  have "Resolve ql h x = Inr (s2\<lparr>sh_Hash := t\<rparr>)"
    unfolding Resolve_def Let_def pre assms(3) assms(4) [folded p_def] some_or.simps res_bind.simps c w
      s0_def [symmetric] rw bind s2_def [symmetric] val no_error.simps t ..
  then show ?thesis using s2 by simp
qed

lemma preset_lower:
  "to_lower (trim_space ''xs'') = ''xs''" "to_lower (trim_space ''s'') = ''s''" "to_lower (trim_space ''m'') = ''m''"
  "to_lower (trim_space ''l'') = ''l''" "to_lower (trim_space ''xl'') = ''xl''"
  by code_simp+

lemma preset_entry:
  "GetPreset ''xs'' = Some (preset_of (show_int 1) (show_int 4 @ ''Gi'') (show_int 2) (show_int 8 @ ''Gi'') 5
     ''Standard_D2as_v5'' ''m5.large'' ''n1-standard-2'')"
  "GetPreset ''s'' = Some (preset_of (show_int 2) (show_int 8 @ ''Gi'') (show_int 8) (show_int 32 @ ''Gi'') 24
     ''Standard_D8as_v5'' ''m5.2xlarge'' ''n1-standard-8'')"
  "GetPreset ''m'' = Some (preset_of (show_int 4) (show_int 16 @ ''Gi'') (show_int 16) (show_int 64 @ ''Gi'') 50
     ''Standard_D16as_v5'' ''m5.4xlarge'' ''n1-standard-16'')"
  "GetPreset ''l'' = Some (preset_of (show_int 8) (show_int 32 @ ''Gi'') (show_int 32) (show_int 128 @ ''Gi'') 100
     ''Standard_D32as_v5'' ''m5.8xlarge'' ''n1-standard-32'')"
  "GetPreset ''xl'' = Some (preset_of (show_int 16) (show_int 64 @ ''Gi'') (show_int 64) (show_int 256 @ ''Gi'') 200
     ''Standard_D64as_v5'' ''m5.16xlarge'' ''n1-standard-64'')"
  by (simp_all add: GetPreset_def Presets_def preset_texts)

text \<open>A runtime given only by its size resolves to two workers and to the fixed route capacity of
  its size: 1, 2, 4, 8 and 16 units for xs, s, m, l and xl.\<close>

lemma preset_capacities:
  assumes "quantity_lib_ok ql" and "\<forall>s. \<exists>t. h s = Inr t"
    and "(sz, units) \<in> {(''xs'', 1), (''s'', 2), (''m'', 4), (''l'', 8), (''xl'', 16)}"
    and "xt_Spec x = bare_spec sz"
  shows "\<exists>s. Resolve ql h x = Inr s \<and> sh_CapacityUnits s = units \<and> sh_MinWorkers s = 2 \<and> sh_MaxWorkers s = 2"
proof -
  note R = preset_resolve [OF assms(1,4) _ _ _ _ _ _ _ _ assms(2)]
  from assms(3) consider "sz = ''xs''" "units = 1" | "sz = ''s''" "units = 2" | "sz = ''m''" "units = 4"
    | "sz = ''l''" "units = 8" | "sz = ''xl''" "units = 16" by auto
  then show ?thesis
  proof cases
    case 1 show ?thesis unfolding 1(2) by (rule R [unfolded 1(1), OF preset_lower(1) preset_entry(1)]) simp_all
  next
    case 2 show ?thesis unfolding 2(2) by (rule R [unfolded 2(1), OF preset_lower(2) preset_entry(2)]) simp_all
  next
    case 3 show ?thesis unfolding 3(2) by (rule R [unfolded 3(1), OF preset_lower(3) preset_entry(3)]) simp_all
  next
    case 4 show ?thesis unfolding 4(2) by (rule R [unfolded 4(1), OF preset_lower(4) preset_entry(4)]) simp_all
  next
    case 5 show ?thesis unfolding 5(2) by (rule R [unfolded 5(1), OF preset_lower(5) preset_entry(5)]) simp_all
  qed
qed


text \<open>The sizes of the presets, read as the library reads them.\<close>

definition demo_lib :: QuantityLib where
  "demo_lib =
     \<lparr> ql_Parse = (\<lambda>s. if has_suffix s ''Gi''
           then map_option (\<lambda>n. n * 2 ^ 30 * 10 ^ 9) (parse_int 64 (take (length s - 2) s))
           else map_option (\<lambda>n. n * 10 ^ 9) (parse_int 64 s)),
       ql_MilliValue = (\<lambda>q. - ((- q) div 10 ^ 6)), ql_Value = (\<lambda>q. - ((- q) div 10 ^ 9)) \<rparr>"

lemma show_int_no_suffix: "0 \<le> n \<Longrightarrow> \<not> has_suffix (show_int n) ''Gi''"
proof
  assume n: "0 \<le> n" and "has_suffix (show_int n) ''Gi''"
  then have "CHR ''i'' \<in> set (show_int n)"
    unfolding has_suffix_def by (metis in_set_dropD list.set_intros(1,2))
  then have "digit_val (CHR ''i'') \<noteq> None"
    using n nat_digits_digits by (auto simp: show_int_def)
  then show False by (simp add: digit_val_def less_eq_char_def)
qed

lemma demo_lib_ok: "quantity_lib_ok demo_lib"
  by (auto simp: quantity_lib_ok_def demo_lib_def show_int_no_suffix parse_show_int)
    (simp_all add: has_suffix_def parse_show_int)

definition demo_xtrinode :: "string \<Rightarrow> string \<Rightarrow> XTrinodeSpec \<Rightarrow> XTrinode" where
  "demo_xtrinode ns name spec =
     \<lparr> xt_Name = name, xt_Namespace = ns, xt_UID = '''', xt_ResourceVersion = ''1'', xt_Generation = 1,
       xt_CreationTimestamp = 0, xt_Labels = [], xt_Finalizers = [], xt_Annotations = [], xt_DeletionTimestamp = None,
       xt_Spec = spec,
       xt_Status = \<lparr> st_Phase = ''Ready'', st_CoordinatorURL = '''', st_Workers = 0, st_LastActivity = None,
         st_CurrentRevision = '''', st_ObservedGeneration = 0, st_BaseRevision = '''',
         st_CoordinatorRolloutHash = '''', st_WorkerRolloutHash = '''', st_ObservedCatalogs = [],
         st_ObservedCatalogDigest = '''', st_ObservedAccessControlDigest = '''',
         st_ObservedSessionPropsDigest = '''', st_ObservedRuntimeShape = None, st_Wake = None, st_Conditions = [] \<rparr> \<rparr>"



theorem capacity_units_ceiling_witness:
  "deriveCapacityUnits demo_lib \<lparr> rr_Requests = [(''cpu'', 3 * 10 ^ 9)], rr_Limits = [] \<rparr> 3 \<ge> 5"
  using capacity_units_ceiling [of 3 "\<lparr> rr_Requests = [(''cpu'', 3 * 10 ^ 9)], rr_Limits = [] \<rparr>" "3 * 10 ^ 9" 3000 demo_lib]
  by (simp add: demo_lib_def)

theorem preset_capacities_witness:
  "\<exists>s. Resolve demo_lib (\<lambda>_. Inr ''h'') (demo_xtrinode ''ns'' ''r'' (bare_spec ''xl'')) = Inr s \<and> sh_CapacityUnits s = 16"
  using preset_capacities [OF demo_lib_ok, of "\<lambda>_. Inr ''h''" "''xl''" 16 "demo_xtrinode ''ns'' ''r'' (bare_spec ''xl'')"]
  by (auto simp: demo_xtrinode_def)

end
