(* ===== verification/Kube.thy ===== *)
theory Kube
  imports Prelude
begin

text \<open>
  Errors of the Kubernetes API, the client operations on one ConfigMap as an interface, and the
  conflict retry loops (\<open>internal/retry/retry.go\<close>). The API server and \<open>wait.ExponentialBackoff\<close> are
  parameters: the loops take the back-off function \<open>eb\<close> as an argument. A world \<open>'w\<close> holds
  everything outside the process, so that another writer may act between two calls.
\<close>

section \<open>Errors\<close>

text \<open>\<open>StatusErr code\<close> is any other API status; \<open>WrapErr\<close> is \<open>fmt.Errorf\<close> with \<open>%w\<close>.\<close>

datatype api_error =
    NotFoundErr
  | AlreadyExistsErr
  | ConflictErr
  | TooManyRequestsErr
  | StatusErr int
  | PlainErr string
  | WrapErr string api_error

fun IsConflict :: "api_error \<Rightarrow> bool" where
  "IsConflict ConflictErr = True"
| "IsConflict (WrapErr _ e) = IsConflict e"
| "IsConflict _ = False"

fun IsNotFound :: "api_error \<Rightarrow> bool" where
  "IsNotFound NotFoundErr = True"
| "IsNotFound (WrapErr _ e) = IsNotFound e"
| "IsNotFound _ = False"

fun IsAlreadyExists :: "api_error \<Rightarrow> bool" where
  "IsAlreadyExists AlreadyExistsErr = True"
| "IsAlreadyExists (WrapErr _ e) = IsAlreadyExists e"
| "IsAlreadyExists _ = False"

fun IsTooManyRequests :: "api_error \<Rightarrow> bool" where
  "IsTooManyRequests TooManyRequestsErr = True"
| "IsTooManyRequests (WrapErr _ e) = IsTooManyRequests e"
| "IsTooManyRequests _ = False"

text \<open>The HTTP status of an unwrapped API status error.\<close>

fun status_code :: "api_error \<Rightarrow> int option" where
  "status_code NotFoundErr = Some 404"
| "status_code AlreadyExistsErr = Some 409"
| "status_code ConflictErr = Some 409"
| "status_code TooManyRequestsErr = Some 429"
| "status_code (StatusErr c) = Some c"
| "status_code _ = None"

definition IsRetryableError :: "api_error option \<Rightarrow> bool" where
  "IsRetryableError err =
     (case err of
        None \<Rightarrow> False
      | Some e \<Rightarrow>
          if IsConflict e then True
          else if (case status_code e of Some c \<Rightarrow> c \<ge> 500 \<and> c < 600 | None \<Rightarrow> False) then True
          else IsTooManyRequests e)"

section \<open>Retry on conflict\<close>

text \<open>The factor and the jitter are in tenths.\<close>

record RetryConfig =
  rc_Steps :: int
  rc_Duration :: duration
  rc_Factor :: int
  rc_Jitter :: int
  rc_Cap :: duration

definition DefaultConfig :: RetryConfig where
  "DefaultConfig = \<lparr> rc_Steps = 5, rc_Duration = 10 * millisecond, rc_Factor = 20, rc_Jitter = 1, rc_Cap = 1 * second \<rparr>"

definition FastConfig :: RetryConfig where
  "FastConfig = \<lparr> rc_Steps = 3, rc_Duration = 5 * millisecond, rc_Factor = 20, rc_Jitter = 1, rc_Cap = 100 * millisecond \<rparr>"

definition SlowConfig :: RetryConfig where
  "SlowConfig = \<lparr> rc_Steps = 10, rc_Duration = 50 * millisecond, rc_Factor = 20, rc_Jitter = 1, rc_Cap = 5 * second \<rparr>"

record RetryVars =
  rv_lastErr :: "api_error option"
  rv_nonConflictErr :: "api_error option"
  rv_attempt :: int

definition no_attempt :: RetryVars where
  "no_attempt = \<lparr> rv_lastErr = None, rv_nonConflictErr = None, rv_attempt = 0 \<rparr>"

text \<open>A condition function of the back-off: an error, or whether it is done.\<close>

type_synonym 's condition = "RetryVars \<times> 's \<Rightarrow> (api_error + bool) \<times> RetryVars \<times> 's"
type_synonym 's backoff = "RetryConfig \<Rightarrow> 's condition \<Rightarrow> RetryVars \<times> 's \<Rightarrow> api_error option \<times> RetryVars \<times> 's"

definition canceled :: "api_error \<Rightarrow> api_error" where
  "canceled e = WrapErr ''context canceled'' e"

text \<open>After a failed call: stop on other errors, note a conflict, stop when the context is done.\<close>

definition after_failure ::
    "('s \<Rightarrow> api_error option) \<Rightarrow> api_error \<Rightarrow> RetryVars \<Rightarrow> 's \<Rightarrow> (api_error + bool) \<times> RetryVars \<times> 's" where
  "after_failure ctxErr err v s =
     (if \<not> IsConflict err then (Inl err, v\<lparr>rv_nonConflictErr := Some err\<rparr>, s)
      else
        let v = v\<lparr>rv_lastErr := Some err\<rparr>
        in case ctxErr s of
             Some ce \<Rightarrow> (Inl (canceled ce), v, s)
           | None \<Rightarrow> (Inr False, v, s))"

definition conflict_attempt ::
    "('s \<Rightarrow> api_error option) \<Rightarrow> ('s \<Rightarrow> api_error option \<times> 's) \<Rightarrow> 's condition" where
  "conflict_attempt ctxErr fn = (\<lambda>(v, s).
     let v = v\<lparr>rv_attempt := rv_attempt v + 1\<rparr>
     in case fn s of
          (None, s1) \<Rightarrow> (Inr True, v, s1)
        | (Some err, s1) \<Rightarrow> after_failure ctxErr err v s1)"

definition refresh_attempt ::
    "('s \<Rightarrow> api_error option) \<Rightarrow> ('s \<Rightarrow> api_error option \<times> 's) \<Rightarrow> ('s \<Rightarrow> api_error option \<times> 's) \<Rightarrow> 's condition" where
  "refresh_attempt ctxErr refreshFn modifyFn = (\<lambda>(v, s).
     let v = v\<lparr>rv_attempt := rv_attempt v + 1\<rparr>
     in if rv_attempt v > 1 \<and> ctxErr s \<noteq> None then (Inl (canceled (the (ctxErr s))), v, s)
        else case refreshFn s of
          (Some err, s1) \<Rightarrow> (Inl (WrapErr ''failed to refresh object'' err), v, s1)
        | (None, s1) \<Rightarrow>
            (case modifyFn s1 of
               (None, s2) \<Rightarrow> (Inr True, v, s2)
             | (Some err, s2) \<Rightarrow> after_failure ctxErr err v s2))"

text \<open>The error the loops return, from what the back-off returned.\<close>

definition retry_result ::
    "('s \<Rightarrow> api_error option) \<Rightarrow> api_error option \<times> RetryVars \<times> 's \<Rightarrow> api_error option \<times> 's" where
  "retry_result ctxErr = (\<lambda>(res, v, s).
     case res of
       None \<Rightarrow> (None, s)
     | Some err \<Rightarrow>
         (case rv_nonConflictErr v of
            Some e \<Rightarrow> (Some e, s)
          | None \<Rightarrow>
              (case ctxErr s of
                 Some ce \<Rightarrow> (Some (canceled ce), s)
               | None \<Rightarrow>
                   (case rv_lastErr v of
                      Some le \<Rightarrow> (Some (WrapErr ''exhausted retries'' le), s)
                    | None \<Rightarrow> (Some err, s)))))"

definition OnConflict ::
    "'s backoff \<Rightarrow> RetryConfig \<Rightarrow> ('s \<Rightarrow> api_error option) \<Rightarrow> ('s \<Rightarrow> api_error option \<times> 's) \<Rightarrow> 's
      \<Rightarrow> api_error option \<times> 's" where
  "OnConflict eb config ctxErr fn s =
     retry_result ctxErr (eb config (conflict_attempt ctxErr fn) (no_attempt, s))"

definition OnConflictWithRefresh ::
    "'s backoff \<Rightarrow> RetryConfig \<Rightarrow> ('s \<Rightarrow> api_error option) \<Rightarrow> ('s \<Rightarrow> api_error option \<times> 's)
      \<Rightarrow> ('s \<Rightarrow> api_error option \<times> 's) \<Rightarrow> 's \<Rightarrow> api_error option \<times> 's" where
  "OnConflictWithRefresh eb config ctxErr refreshFn modifyFn s =
     retry_result ctxErr (eb config (refresh_attempt ctxErr refreshFn modifyFn) (no_attempt, s))"

section \<open>What the loops rely on from the back-off\<close>

text \<open>
  \<open>ExponentialBackoff\<close> calls the condition until it is done or fails, at most \<open>Steps\<close> times, and
  reports a time-out when it gives up. (Sleeping between the calls is not part of the state.)
\<close>

fun backoff_run :: "nat \<Rightarrow> 's condition \<Rightarrow> RetryVars \<times> 's \<Rightarrow> api_error option \<times> RetryVars \<times> 's" where
  "backoff_run 0 c vs = (Some (PlainErr ''timed out waiting for the condition''), vs)"
| "backoff_run (Suc n) c vs =
     (case c vs of
        (Inl err, vs') \<Rightarrow> (Some err, vs')
      | (Inr True, vs') \<Rightarrow> (None, vs')
      | (Inr False, vs') \<Rightarrow> backoff_run n c vs')"

definition backoff_ok :: "'s backoff \<Rightarrow> bool" where
  "backoff_ok eb \<longleftrightarrow>
     (\<forall>config c vs. 1 \<le> rc_Steps config \<longrightarrow>
        (\<exists>k. 1 \<le> k \<and> int k \<le> rc_Steps config \<and> eb config c vs = backoff_run k c vs))"

lemma backoff_run_done:
  "backoff_run k c vs = (None, vs') \<Longrightarrow> \<exists>vs1. c vs1 = (Inr True, vs')"
  by (induction k arbitrary: vs) (auto split: prod.splits sum.splits bool.splits)

lemma refresh_attempt_done:
  assumes "refresh_attempt ctxErr refreshFn modifyFn vs = (Inr True, (v', s'))"
  shows "\<exists>s s1. refreshFn s = (None, s1) \<and> modifyFn s1 = (None, s')"
  using assms
  by (cases vs) (auto simp: refresh_attempt_def after_failure_def Let_def split: if_splits prod.splits option.splits)

lemma refresh_success:
  assumes "backoff_ok eb" "1 \<le> rc_Steps config"
    and "OnConflictWithRefresh eb config ctxErr refreshFn modifyFn s = (None, s')"
  shows "\<exists>s0 s1. refreshFn s0 = (None, s1) \<and> modifyFn s1 = (None, s')"
proof -
  let ?c = "refresh_attempt ctxErr refreshFn modifyFn"
  obtain k where k: "eb config ?c (no_attempt, s) = backoff_run k ?c (no_attempt, s)"
    using assms(1,2) unfolding backoff_ok_def by blast
  obtain res v s2 where e: "eb config ?c (no_attempt, s) = (res, v, s2)" using prod_cases3 by blast
  then have "res = None" "s2 = s'"
    using assms(3) by (auto simp: OnConflictWithRefresh_def retry_result_def split: option.splits)
  then obtain vs1 where "?c vs1 = (Inr True, (v, s'))"
    using backoff_run_done [of k ?c "(no_attempt, s)" "(v, s')"] k e by metis
  then show ?thesis by (rule refresh_attempt_done)
qed

section \<open>One ConfigMap and its client\<close>

record ConfigMap =
  cm_Data :: "(string \<times> string) list option"
  cm_ResourceVersion :: int

text \<open>\<open>Get\<close>, \<open>Create\<close> and \<open>Update\<close> for the one ConfigMap in use; a successful write returns the
  object with the version the server gave it.\<close>

record 'w CMClient =
  cli_Get :: "'w \<Rightarrow> (api_error + ConfigMap) \<times> 'w"
  cli_Create :: "ConfigMap \<Rightarrow> 'w \<Rightarrow> (api_error + ConfigMap) \<times> 'w"
  cli_Update :: "ConfigMap \<Rightarrow> 'w \<Rightarrow> (api_error + ConfigMap) \<times> 'w"

text \<open>
  The documented contract of the API server: a read returns the stored object, and an update is a
  compare-and-swap. A successful update is made at a state \<open>w1\<close> in which the stored object is still
  the one that was read, and puts the new data in its place. \<open>view\<close> is the stored object.
\<close>

definition cas_client :: "'w CMClient \<Rightarrow> ('w \<Rightarrow> ConfigMap option) \<Rightarrow> bool" where
  "cas_client cli view \<longleftrightarrow>
     (\<forall>w cm w' cm' new w''.
        cli_Get cli w = (Inr cm, w') \<longrightarrow>
        cm_ResourceVersion cm' = cm_ResourceVersion cm \<longrightarrow>
        cli_Update cli cm' w' = (Inr new, w'') \<longrightarrow>
        (\<exists>w1. view w1 = Some cm) \<and> map_option cm_Data (view w'') = Some (cm_Data cm'))
     \<and> (\<forall>w cm w'. cli_Get cli w = (Inr cm, w') \<longrightarrow> view w' = Some cm)"

end
