(* ===== verification/Routes.thy ===== *)
theory Routes
  imports RuntimeShape Kube
begin

text \<open>
  The route table and its three writers (\<open>pkg/gateway/gateway.go\<close>, \<open>pkg/gateway/helpers.go\<close>):
  registering, draining and removing a backend. The table is stored as YAML in a ConfigMap; the YAML
  library is a parameter (a pair of functions), and so are the ConfigMap client and the back-off of
  the retry loop. Error texts are their fixed parts.
\<close>

section \<open>Data\<close>

type_synonym BackendState = string

definition StateRunning :: BackendState where "StateRunning = ''RUNNING''"
definition StatePaused :: BackendState where "StatePaused = ''PAUSED''"
definition StateResuming :: BackendState where "StateResuming = ''RESUMING''"
definition StateDraining :: BackendState where "StateDraining = ''DRAINING''"
definition StateRemoved :: BackendState where "StateRemoved = ''REMOVED''"

lemmas state_defs = StateRunning_def StatePaused_def StateResuming_def StateDraining_def StateRemoved_def

record Backend =
  be_Name :: string
  be_Namespace :: string
  be_CoordinatorURL :: string
  be_State :: BackendState
  be_Active :: bool
  be_Tier :: string
  be_CapacityUnits :: int
  be_RuntimeShapeVersion :: string
  be_RuntimeShapeHash :: string
  be_ObservedGeneration :: int
  be_DrainUntil :: string

record RouteEntry =
  re_Name :: string
  re_RoutingGroup :: string
  re_Backends :: "Backend list"
  re_Header :: string
  re_Hostname :: string
  re_Default :: bool

definition GatewayConfigMapKey :: string where "GatewayConfigMapKey = ''routes.yaml''"
definition GatewayDrainDuration :: duration where "GatewayDrainDuration = 5 * minute"

section \<open>Routing identity of a runtime\<close>

definition defaultDedicatedRoutingGroup :: "XTrinode \<Rightarrow> string" where
  "defaultDedicatedRoutingGroup xtrinode = DefaultDedicatedRoutingGroup (xt_Namespace xtrinode) (xt_Name xtrinode)"

definition extractRoutingGroup :: "XTrinode \<Rightarrow> string" where
  "extractRoutingGroup xtrinode =
     (case xs_Routing (xt_Spec xtrinode) of
        Some r \<Rightarrow> if ro_RoutingGroup r \<noteq> '''' then ro_RoutingGroup r else defaultDedicatedRoutingGroup xtrinode
      | None \<Rightarrow> defaultDedicatedRoutingGroup xtrinode)"

definition isDedicatedRoutingGroup :: "XTrinode \<Rightarrow> string \<Rightarrow> bool" where
  "isDedicatedRoutingGroup xtrinode routingGroup =
     (case xs_Routing (xt_Spec xtrinode) of
        None \<Rightarrow> True
      | Some r \<Rightarrow> if ro_RoutingGroup r = '''' then True else routingGroup = defaultDedicatedRoutingGroup xtrinode)"

definition buildHostname :: "XTrinode \<Rightarrow> string" where
  "buildHostname xtrinode =
     (case xs_Routing (xt_Spec xtrinode) of
        None \<Rightarrow> ''''
      | Some r \<Rightarrow>
          if ro_Hostname r \<noteq> '''' then ro_Hostname r
          else if ro_HostnameDomain r \<noteq> '''' then extractRoutingGroup xtrinode @ ''.'' @ ro_HostnameDomain r
          else '''')"

definition normalizeHostname :: "string \<Rightarrow> string" where
  "normalizeHostname hostname =
     (let hostname = to_lower hostname
      in case split_host_port hostname of Some h \<Rightarrow> h | None \<Rightarrow> hostname)"

definition parseHeaderValue :: "string \<Rightarrow> string" where
  "parseHeaderValue headerSpec =
     (let value_at = (\<lambda>c. case index_byte headerSpec c of
                      Some idx \<Rightarrow> if Suc idx < length headerSpec then Some (drop (Suc idx) headerSpec) else None
                    | None \<Rightarrow> None)
      in case value_at CHR ''='' of
           Some v \<Rightarrow> trim_space v
         | None \<Rightarrow> (case value_at CHR '':'' of Some v \<Rightarrow> trim_space v | None \<Rightarrow> trim_space headerSpec))"

definition computeBackendState :: "XTrinode \<Rightarrow> BackendState" where
  "computeBackendState xtrinode =
     (if xs_Suspended (xt_Spec xtrinode) then StatePaused
      else
        let phase = st_Phase (xt_Status xtrinode)
        in if phase = ''Suspended'' then StatePaused
           else if phase = ''Reconciling'' then StateResuming
           else if phase = ''Ready'' then StateRunning
           else if phase = ''Error'' then StatePaused
           else StateResuming)"

section \<open>Operations on the table\<close>

definition same_backend :: "string \<Rightarrow> string \<Rightarrow> Backend \<Rightarrow> bool" where
  "same_backend name ns b \<longleftrightarrow> be_Name b = name \<and> be_Namespace b = ns"

text \<open>Position of the first route of a group; \<open>None\<close> for the index -1.\<close>

fun findRouteByRoutingGroup :: "RouteEntry list \<Rightarrow> string \<Rightarrow> nat option" where
  "findRouteByRoutingGroup [] routingGroup = None"
| "findRouteByRoutingGroup (r # rs) routingGroup =
     (if re_RoutingGroup r = routingGroup then Some 0 else map_option Suc (findRouteByRoutingGroup rs routingGroup))"

fun replace_first :: "Backend \<Rightarrow> Backend list \<Rightarrow> Backend list option" where
  "replace_first b [] = None"
| "replace_first b (x # xs) =
     (if same_backend (be_Name b) (be_Namespace b) x then Some (b # xs) else map_option ((#) x) (replace_first b xs))"

definition updateBackendInRouteWithMode ::
    "RouteEntry \<Rightarrow> Backend \<Rightarrow> string \<Rightarrow> string \<Rightarrow> bool \<Rightarrow> bool \<Rightarrow> string + RouteEntry" where
  "updateBackendInRouteWithMode route backend header hostname defaultRoute dedicatedRoute =
     res_bind
       (case replace_first backend (re_Backends route) of
          Some bs \<Rightarrow> Inr (route\<lparr>re_Backends := bs\<rparr>)
        | None \<Rightarrow>
            if dedicatedRoute \<and> length (re_Backends route) > 0 then Inl ''dedicated runtime exclusivity violated''
            else Inr (route\<lparr>re_Backends := re_Backends route @ [backend]\<rparr>))
       (\<lambda>route.
          if length (re_Backends route) = 1
             \<and> same_backend (be_Name backend) (be_Namespace backend) (re_Backends route ! 0)
          then Inr (route\<lparr>re_Header := header, re_Hostname := hostname, re_Default := defaultRoute\<rparr>)
          else
            let route = (if header \<noteq> '''' then route\<lparr>re_Header := header\<rparr> else route);
                route = (if hostname \<noteq> '''' then route\<lparr>re_Hostname := hostname\<rparr> else route);
                route = (if defaultRoute then route\<lparr>re_Default := True\<rparr> else route)
            in Inr route)"

definition createRouteEntry :: "string \<Rightarrow> string \<Rightarrow> string \<Rightarrow> string \<Rightarrow> Backend \<Rightarrow> bool \<Rightarrow> RouteEntry" where
  "createRouteEntry name routingGroup header hostname backend defaultRoute =
     \<lparr> re_Name = name, re_RoutingGroup = routingGroup, re_Backends = [backend], re_Header = header,
       re_Hostname = hostname, re_Default = defaultRoute \<rparr>"

text \<open>The checks against one other route; \<open>None\<close>: no conflict.\<close>

definition route_conflict :: "string \<Rightarrow> string \<Rightarrow> bool \<Rightarrow> RouteEntry \<Rightarrow> string option" where
  "route_conflict normalizedNewHostname newHeader newDefault route =
     (if normalizedNewHostname \<noteq> '''' \<and> re_Hostname route \<noteq> ''''
         \<and> normalizeHostname (re_Hostname route) = normalizedNewHostname then Some ''hostname conflict''
      else if newHeader \<noteq> '''' \<and> re_Header route \<noteq> '''' \<and> re_Header route = newHeader then Some ''header conflict''
      else if newDefault \<and> re_Default route then Some ''default route conflict''
      else None)"

fun uniqueness_loop :: "string \<Rightarrow> string \<Rightarrow> string \<Rightarrow> bool \<Rightarrow> RouteEntry list \<Rightarrow> string option" where
  "uniqueness_loop rg host header dflt [] = None"
| "uniqueness_loop rg host header dflt (r # rs) =
     (if re_RoutingGroup r = rg then uniqueness_loop rg host header dflt rs
      else case route_conflict host header dflt r of
        Some err \<Rightarrow> Some err
      | None \<Rightarrow> uniqueness_loop rg host header dflt rs)"

definition validateRouteUniqueness ::
    "RouteEntry list \<Rightarrow> string \<Rightarrow> string \<Rightarrow> string \<Rightarrow> bool \<Rightarrow> string option" where
  "validateRouteUniqueness routes newRoutingGroup newHostname newHeader newDefault =
     (let normalizedNewHostname = (if newHostname \<noteq> '''' then normalizeHostname newHostname else '''')
      in uniqueness_loop newRoutingGroup normalizedNewHostname newHeader newDefault routes)"

fun filterBackendFromRoutes ::
    "string \<Rightarrow> string \<Rightarrow> (RouteEntry \<Rightarrow> bool) \<Rightarrow> RouteEntry list \<Rightarrow> RouteEntry list \<times> bool" where
  "filterBackendFromRoutes name ns shouldFilter [] = ([], False)"
| "filterBackendFromRoutes name ns shouldFilter (route # routes) =
     (let (rest, changed) = filterBackendFromRoutes name ns shouldFilter routes
      in if \<not> shouldFilter route then (route # rest, changed)
         else
           let backends = filter (\<lambda>b. \<not> same_backend name ns b) (re_Backends route);
               changed = (changed \<or> (\<exists>b \<in> set (re_Backends route). same_backend name ns b))
           in if backends = [] then (rest, changed)
              else (route\<lparr>re_Backends := backends\<rparr> # rest, changed))"

definition removeBackendFromOtherRoutes :: "RouteEntry list \<Rightarrow> string \<Rightarrow> string \<Rightarrow> string \<Rightarrow> RouteEntry list" where
  "removeBackendFromOtherRoutes routes targetRoutingGroup name ns =
     fst (filterBackendFromRoutes name ns (\<lambda>route. re_RoutingGroup route \<noteq> targetRoutingGroup) routes)"

definition removeBackendFromAllRoutes :: "RouteEntry list \<Rightarrow> string \<Rightarrow> string \<Rightarrow> RouteEntry list \<times> bool" where
  "removeBackendFromAllRoutes routes name ns = filterBackendFromRoutes name ns (\<lambda>_. True) routes"

definition needs_drain :: "string \<Rightarrow> string \<Rightarrow> Backend \<Rightarrow> bool" where
  "needs_drain name ns b \<longleftrightarrow>
     same_backend name ns b \<and> \<not> (be_State b = StateDraining \<and> \<not> be_Active b \<and> be_DrainUntil b \<noteq> '''')"

text \<open>\<open>rfc3339\<close> formats the end of the drain window.\<close>

definition setBackendDrainingAllRoutes ::
    "(time \<Rightarrow> string) \<Rightarrow> time \<Rightarrow> duration \<Rightarrow> string \<Rightarrow> string \<Rightarrow> RouteEntry list \<Rightarrow> RouteEntry list \<times> bool" where
  "setBackendDrainingAllRoutes rfc3339 now drainDuration name ns routes =
     (let drainDuration = (if drainDuration \<le> 0 then GatewayDrainDuration else drainDuration);
          drainUntil = rfc3339 (now + drainDuration);
          drain = (\<lambda>b. if needs_drain name ns b
                       then b\<lparr>be_State := StateDraining, be_DrainUntil := drainUntil, be_Active := False\<rparr> else b)
      in (map (\<lambda>route. route\<lparr>re_Backends := map drain (re_Backends route)\<rparr>) routes,
          \<exists>route \<in> set routes. \<exists>b \<in> set (re_Backends route). needs_drain name ns b))"

section \<open>The stored table\<close>

record Yaml =
  ym_Unmarshal :: "string \<Rightarrow> string + RouteEntry list"
  ym_Marshal :: "RouteEntry list \<Rightarrow> string + string"

definition parseRoutes :: "Yaml \<Rightarrow> string \<Rightarrow> string + RouteEntry list" where
  "parseRoutes y yamlData = (if yamlData = '''' then Inr [] else ym_Unmarshal y yamlData)"

definition serializeRoutes :: "Yaml \<Rightarrow> RouteEntry list \<Rightarrow> string" where
  "serializeRoutes y routes =
     (if routes = [] then ''routes: []'' @ [CHR 0x0A]
      else case ym_Marshal y routes of
        Inl err \<Rightarrow> ''# Error marshaling YAML: '' @ err @ [CHR 0x0A] @ ''routes: []'' @ [CHR 0x0A]
      | Inr text \<Rightarrow> text)"

definition cm_text :: "ConfigMap \<Rightarrow> string" where
  "cm_text cm =
     (case cm_Data cm of None \<Rightarrow> '''' | Some d \<Rightarrow> (case map_of d GatewayConfigMapKey of Some t \<Rightarrow> t | None \<Rightarrow> ''''))"

definition set_cm_text :: "string \<Rightarrow> ConfigMap \<Rightarrow> ConfigMap" where
  "set_cm_text t cm =
     cm\<lparr>cm_Data := Some (AList.update GatewayConfigMapKey t (case cm_Data cm of None \<Rightarrow> [] | Some d \<Rightarrow> d))\<rparr>"

definition init_data :: "ConfigMap \<Rightarrow> ConfigMap" where
  "init_data cm = (if cm_Data cm = None then cm\<lparr>cm_Data := Some []\<rparr> else cm)"

definition ensureConfigMapData :: "ConfigMap \<Rightarrow> ConfigMap" where
  "ensureConfigMapData cm =
     (let cm = init_data cm
      in case map_of (the (cm_Data cm)) GatewayConfigMapKey of
           Some _ \<Rightarrow> cm
         | None \<Rightarrow> set_cm_text '''' cm)"

definition getConfigMap :: "'w CMClient \<Rightarrow> 'w \<Rightarrow> (api_error + ConfigMap) \<times> 'w" where
  "getConfigMap cli w = (case cli_Get cli w of (Inl err, w') \<Rightarrow> (Inl err, w') | (Inr cm, w') \<Rightarrow> (Inr (init_data cm), w'))"

definition getOrCreateConfigMap :: "'w CMClient \<Rightarrow> 'w \<Rightarrow> (api_error + ConfigMap) \<times> 'w" where
  "getOrCreateConfigMap cli w =
     (case cli_Get cli w of
        (Inr cm, w1) \<Rightarrow> (Inr (init_data cm), w1)
      | (Inl err, w1) \<Rightarrow>
          if \<not> IsNotFound err then (Inl (WrapErr ''failed to get gateway ConfigMap'' err), w1)
          else
            (case cli_Create cli \<lparr> cm_Data = Some [(GatewayConfigMapKey, '''')], cm_ResourceVersion = 0 \<rparr> w1 of
               (Inr cm, w2) \<Rightarrow> (Inr (init_data cm), w2)
             | (Inl err, w2) \<Rightarrow>
                 if IsAlreadyExists err then
                   (case cli_Get cli w2 of
                      (Inl getErr, w3) \<Rightarrow> (Inl (WrapErr ''failed to get ConfigMap after AlreadyExists'' getErr), w3)
                    | (Inr cm, w3) \<Rightarrow> (Inr (init_data cm), w3))
                 else (Inl (WrapErr ''failed to create gateway ConfigMap'' err), w2)))"

text \<open>
  The shape of the three writers: refresh the ConfigMap, apply a change to the parsed table, write
  it back unless nothing changed. \<open>change\<close> returns an error, or the new table and whether to write.
\<close>

definition table_refresh :: "'w CMClient \<Rightarrow> ConfigMap \<times> 'w \<Rightarrow> api_error option \<times> ConfigMap \<times> 'w" where
  "table_refresh cli = (\<lambda>(cm, w).
     case cli_Get cli w of (Inl err, w') \<Rightarrow> (Some err, cm, w') | (Inr cm', w') \<Rightarrow> (None, cm', w'))"

definition table_modify ::
    "Yaml \<Rightarrow> 'w CMClient \<Rightarrow> (string \<Rightarrow> RouteEntry list \<Rightarrow> string + RouteEntry list \<times> bool)
      \<Rightarrow> ConfigMap \<times> 'w \<Rightarrow> api_error option \<times> ConfigMap \<times> 'w" where
  "table_modify y cli change = (\<lambda>(cm, w).
     let cm = ensureConfigMapData cm
     in case parseRoutes y (cm_text cm) of
          Inl err \<Rightarrow> (Some (PlainErr ''cannot update routes due to parse error''), cm, w)
        | Inr routes \<Rightarrow>
            (case change (cm_text cm) routes of
               Inl err \<Rightarrow> (Some (PlainErr err), cm, w)
             | Inr (routes', changed) \<Rightarrow>
                 if \<not> changed then (None, cm, w)
                 else
                   let cm = set_cm_text (serializeRoutes y routes') cm
                   in (case cli_Update cli cm w of
                         (Inl err, w') \<Rightarrow> (Some err, cm, w')
                       | (Inr cm', w') \<Rightarrow> (None, cm', w'))))"

definition update_table ::
    "Yaml \<Rightarrow> 'w CMClient \<Rightarrow> (ConfigMap \<times> 'w) backoff \<Rightarrow> (ConfigMap \<times> 'w \<Rightarrow> api_error option)
      \<Rightarrow> (string \<Rightarrow> RouteEntry list \<Rightarrow> string + RouteEntry list \<times> bool) \<Rightarrow> ConfigMap \<Rightarrow> 'w \<Rightarrow> api_error option \<times> 'w" where
  "update_table y cli eb ctxErr change cm w =
     (let (err, cm', w') = OnConflictWithRefresh eb DefaultConfig ctxErr
            (table_refresh cli) (table_modify y cli change) (cm, w)
      in (err, w'))"

section \<open>Registering a backend\<close>

definition apply_register ::
    "string \<Rightarrow> Backend \<Rightarrow> string \<Rightarrow> string \<Rightarrow> bool \<Rightarrow> bool \<Rightarrow> RouteEntry list \<Rightarrow> string + RouteEntry list" where
  "apply_register routingGroup backend header hostname defaultRoute dedicatedRoute routes =
     (let routes = removeBackendFromOtherRoutes routes routingGroup (be_Name backend) (be_Namespace backend)
      in res_bind (no_error (validateRouteUniqueness routes routingGroup hostname header defaultRoute)) (\<lambda>_.
         case findRouteByRoutingGroup routes routingGroup of
           Some i \<Rightarrow>
             res_bind (updateBackendInRouteWithMode (routes ! i) backend header hostname defaultRoute dedicatedRoute)
               (\<lambda>route. Inr (routes[i := route]))
         | None \<Rightarrow>
             Inr (routes @ [createRouteEntry routingGroup routingGroup header hostname backend defaultRoute])))"

definition register_backend :: "XTrinode \<Rightarrow> ResolvedRuntimeShape \<Rightarrow> Backend" where
  "register_backend xtrinode shape =
     \<lparr> be_Name = xt_Name xtrinode, be_Namespace = xt_Namespace xtrinode,
       be_CoordinatorURL = CoordinatorURL xtrinode, be_State = computeBackendState xtrinode, be_Active = True,
       be_Tier = sh_PresetName shape, be_CapacityUnits = sh_CapacityUnits shape,
       be_RuntimeShapeVersion = ObservedRuntimeShapeStatusVersion, be_RuntimeShapeHash = sh_Hash shape,
       be_ObservedGeneration = xt_Generation xtrinode, be_DrainUntil = '''' \<rparr>"

definition route_header :: "XTrinode \<Rightarrow> string" where
  "route_header xtrinode =
     (case xs_Routing (xt_Spec xtrinode) of
        Some r \<Rightarrow> if ro_Header r \<noteq> '''' then parseHeaderValue (ro_Header r) else ''''
      | None \<Rightarrow> '''')"

definition route_default :: "XTrinode \<Rightarrow> bool" where
  "route_default xtrinode = (case xs_Routing (xt_Spec xtrinode) of Some r \<Rightarrow> ro_Default r | None \<Rightarrow> False)"

definition register_change ::
    "Yaml \<Rightarrow> XTrinode \<Rightarrow> Backend \<Rightarrow> string \<Rightarrow> RouteEntry list \<Rightarrow> string + RouteEntry list \<times> bool" where
  "register_change y xtrinode backend text routes =
     (let routingGroup = extractRoutingGroup xtrinode
      in res_bind (apply_register routingGroup backend (route_header xtrinode) (buildHostname xtrinode)
                     (route_default xtrinode) (isDedicatedRoutingGroup xtrinode routingGroup) routes)
           (\<lambda>routes'. Inr (routes', text \<noteq> serializeRoutes y routes')))"

definition RegisterRoute ::
    "Yaml \<Rightarrow> 'w CMClient \<Rightarrow> (ConfigMap \<times> 'w) backoff \<Rightarrow> (ConfigMap \<times> 'w \<Rightarrow> api_error option)
      \<Rightarrow> QuantityLib \<Rightarrow> (ResolvedRuntimeShape \<Rightarrow> string + string) \<Rightarrow> XTrinode \<Rightarrow> 'w \<Rightarrow> api_error option \<times> 'w" where
  "RegisterRoute y cli eb ctxErr ql hashShape xtrinode w =
     (case getOrCreateConfigMap cli w of
        (Inl err, w1) \<Rightarrow> (Some err, w1)
      | (Inr cm, w1) \<Rightarrow>
          (case Resolve ql hashShape xtrinode of
             Inl err \<Rightarrow> (Some (PlainErr ''failed to resolve runtime shape for gateway route''), w1)
           | Inr shape \<Rightarrow>
               update_table y cli eb ctxErr (register_change y xtrinode (register_backend xtrinode shape)) cm w1))"

section \<open>Draining and removing a backend\<close>

definition drain_change ::
    "(time \<Rightarrow> string) \<Rightarrow> time \<Rightarrow> duration \<Rightarrow> XTrinode \<Rightarrow> string \<Rightarrow> RouteEntry list \<Rightarrow> string + RouteEntry list \<times> bool" where
  "drain_change rfc3339 now drainDuration xtrinode text routes =
     Inr (setBackendDrainingAllRoutes rfc3339 now drainDuration (xt_Name xtrinode) (xt_Namespace xtrinode) routes)"

definition DrainRouteWithDuration ::
    "Yaml \<Rightarrow> 'w CMClient \<Rightarrow> (ConfigMap \<times> 'w) backoff \<Rightarrow> (ConfigMap \<times> 'w \<Rightarrow> api_error option)
      \<Rightarrow> (time \<Rightarrow> string) \<Rightarrow> time \<Rightarrow> duration \<Rightarrow> XTrinode \<Rightarrow> 'w \<Rightarrow> api_error option \<times> 'w" where
  "DrainRouteWithDuration y cli eb ctxErr rfc3339 now drainDuration xtrinode w =
     (case getConfigMap cli w of
        (Inl err, w1) \<Rightarrow> if IsNotFound err then (None, w1) else (Some err, w1)
      | (Inr cm, w1) \<Rightarrow> update_table y cli eb ctxErr (drain_change rfc3339 now drainDuration xtrinode) cm w1)"

definition DrainRoute ::
    "Yaml \<Rightarrow> 'w CMClient \<Rightarrow> (ConfigMap \<times> 'w) backoff \<Rightarrow> (ConfigMap \<times> 'w \<Rightarrow> api_error option)
      \<Rightarrow> (time \<Rightarrow> string) \<Rightarrow> time \<Rightarrow> XTrinode \<Rightarrow> 'w \<Rightarrow> api_error option \<times> 'w" where
  "DrainRoute y cli eb ctxErr rfc3339 now xtrinode w =
     DrainRouteWithDuration y cli eb ctxErr rfc3339 now GatewayDrainDuration xtrinode w"

definition deregister_change :: "XTrinode \<Rightarrow> string \<Rightarrow> RouteEntry list \<Rightarrow> string + RouteEntry list \<times> bool" where
  "deregister_change xtrinode text routes =
     Inr (removeBackendFromAllRoutes routes (xt_Name xtrinode) (xt_Namespace xtrinode))"

definition DeregisterRoute ::
    "Yaml \<Rightarrow> 'w CMClient \<Rightarrow> (ConfigMap \<times> 'w) backoff \<Rightarrow> (ConfigMap \<times> 'w \<Rightarrow> api_error option)
      \<Rightarrow> XTrinode \<Rightarrow> 'w \<Rightarrow> api_error option \<times> 'w" where
  "DeregisterRoute y cli eb ctxErr xtrinode w =
     (case getConfigMap cli w of
        (Inl err, w1) \<Rightarrow> if IsNotFound err then (None, w1) else (Some err, w1)
      | (Inr cm, w1) \<Rightarrow> update_table y cli eb ctxErr (deregister_change xtrinode) cm w1)"

section \<open>Well-formed tables\<close>

definition backend_id :: "Backend \<Rightarrow> string \<times> string" where
  "backend_id b = (be_Name b, be_Namespace b)"

lemma same_backend_id: "same_backend name ns b \<longleftrightarrow> backend_id b = (name, ns)"
  by (auto simp: same_backend_def backend_id_def)

definition host_key :: "RouteEntry \<Rightarrow> string" where
  "host_key r = (if re_Hostname r = '''' then '''' else normalizeHostname (re_Hostname r))"

definition route_ids :: "RouteEntry \<Rightarrow> (string \<times> string) set" where
  "route_ids r = backend_id ` set (re_Backends r)"

text \<open>Two routes that can stand in one table.\<close>

definition compatible :: "RouteEntry \<Rightarrow> RouteEntry \<Rightarrow> bool" where
  "compatible r s \<longleftrightarrow> re_RoutingGroup r \<noteq> re_RoutingGroup s
     \<and> (host_key r \<noteq> '''' \<longrightarrow> host_key r \<noteq> host_key s)
     \<and> (re_Header r \<noteq> '''' \<longrightarrow> re_Header r \<noteq> re_Header s)
     \<and> \<not> (re_Default r \<and> re_Default s) \<and> route_ids r \<inter> route_ids s = {}"

definition route_ok :: "RouteEntry \<Rightarrow> bool" where
  "route_ok r \<longleftrightarrow> re_Backends r \<noteq> [] \<and> distinct (map backend_id (re_Backends r))"

definition wf_routes :: "RouteEntry list \<Rightarrow> bool" where
  "wf_routes rs \<longleftrightarrow> sorted_wrt compatible rs \<and> (\<forall>r \<in> set rs. route_ok r)"

definition route_entries :: "RouteEntry list \<Rightarrow> (string \<times> Backend) set" where
  "route_entries rs = (\<Union>r \<in> set rs. Pair (re_RoutingGroup r) ` set (re_Backends r))"

lemma compatible_sym: "compatible r s \<Longrightarrow> compatible s r"
  by (auto simp: compatible_def)

lemma sorted_wrt_update:
  assumes "sorted_wrt P xs" "i < length xs" "\<And>x y. P x y \<Longrightarrow> P y x"
    and "\<And>j. j < length xs \<Longrightarrow> j \<noteq> i \<Longrightarrow> P (xs ! j) y"
  shows "sorted_wrt P (xs[i := y])"
  using assms unfolding sorted_wrt_iff_nth_less
  by (auto simp: nth_list_update)

text \<open>Removing a backend's entries.\<close>

definition strip :: "string \<Rightarrow> string \<Rightarrow> (RouteEntry \<Rightarrow> bool) \<Rightarrow> RouteEntry \<Rightarrow> RouteEntry" where
  "strip name ns sf r =
     (if sf r then r\<lparr>re_Backends := filter (\<lambda>b. \<not> same_backend name ns b) (re_Backends r)\<rparr> else r)"

lemma filterBackend_strip:
  "fst (filterBackendFromRoutes name ns sf rs) =
     filter (\<lambda>r. re_Backends r \<noteq> []) (map (strip name ns sf) (filter (\<lambda>r. sf r \<or> re_Backends r \<noteq> []) rs))"
  if "\<forall>r \<in> set rs. re_Backends r \<noteq> []"
  using that by (induction rs) (auto simp: strip_def Let_def split: prod.splits)

lemma strip_compatible: "compatible r s \<Longrightarrow> compatible (strip name ns sf r) (strip name ns sf s)"
  by (auto simp: compatible_def strip_def host_key_def route_ids_def)

lemma strip_ok: "route_ok r \<Longrightarrow> re_Backends (strip name ns sf r) \<noteq> [] \<Longrightarrow> route_ok (strip name ns sf r)"
  by (auto simp: route_ok_def strip_def distinct_map_filter)

lemma filterBackend_wf:
  assumes "wf_routes rs" shows "wf_routes (fst (filterBackendFromRoutes name ns sf rs))"
proof -
  have ne: "\<forall>r \<in> set rs. re_Backends r \<noteq> []" using assms by (auto simp: wf_routes_def route_ok_def)
  have "sorted_wrt (\<lambda>r s. compatible (strip name ns sf r) (strip name ns sf s)) rs"
    using assms sorted_wrt_mono_rel [of rs compatible] by (auto simp: wf_routes_def strip_compatible)
  then have "sorted_wrt compatible (map (strip name ns sf) rs)"
    by (simp add: sorted_wrt_map)
  then show ?thesis
    using assms ne unfolding filterBackend_strip [OF ne] wf_routes_def
    by (auto simp: sorted_wrt_filter sorted_wrt_map strip_ok)
qed

lemma route_entries_Cons [simp]:
  "route_entries (r # rs) = Pair (re_RoutingGroup r) ` set (re_Backends r) \<union> route_entries rs"
  "route_entries [] = {}"
  by (simp_all add: route_entries_def)

lemma filterBackend_entries:
  "route_entries (fst (filterBackendFromRoutes name ns (\<lambda>r. P (re_RoutingGroup r)) rs)) =
    {(g, b) \<in> route_entries rs. \<not> (P g \<and> same_backend name ns b)}"
  by (induction rs) (auto simp: Let_def filter_empty_conv split: prod.splits)

lemma filterBackend_changed:
  "snd (filterBackendFromRoutes name ns (\<lambda>r. P (re_RoutingGroup r)) rs) \<longleftrightarrow>
     (\<exists>(g, b) \<in> route_entries rs. P g \<and> same_backend name ns b)"
  by (induction rs) (auto simp: Let_def split: prod.splits)

section \<open>Registering keeps the table well formed\<close>

lemma replace_first_None: "replace_first b bs = None \<longleftrightarrow> (\<forall>x \<in> set bs. backend_id x \<noteq> backend_id b)"
  by (induction bs) (auto simp: same_backend_id backend_id_def)

lemma replace_first_ids: "replace_first b bs = Some bs' \<Longrightarrow> map backend_id bs' = map backend_id bs"
  by (induction bs arbitrary: bs') (auto simp: same_backend_id backend_id_def split: if_splits)

lemma replace_first_set:
  "replace_first b bs = Some bs' \<Longrightarrow> distinct (map backend_id bs) \<Longrightarrow>
     set bs' = insert b {x \<in> set bs. backend_id x \<noteq> backend_id b}"
proof (induction bs arbitrary: bs')
  case (Cons x xs)
  show ?case
  proof (cases "backend_id x = backend_id b")
    case True
    then have "\<forall>y \<in> set xs. backend_id y \<noteq> backend_id b"
      using Cons.prems(2) by (auto simp: image_iff)
    then show ?thesis using Cons.prems(1) True by (auto simp: same_backend_id backend_id_def)
  next
    case False
    then have "\<not> same_backend (be_Name b) (be_Namespace b) x" by (auto simp: same_backend_id backend_id_def)
    then obtain ys where "replace_first b xs = Some ys" "bs' = x # ys" using Cons.prems(1) by auto
    then show ?thesis using Cons.IH [of ys] Cons.prems(2) False by auto
  qed
qed simp

lemma updateBackend_result:
  assumes "updateBackendInRouteWithMode route b h hn d ded = Inr r'" and "route_ok route"
  shows "route_ok r' \<and> re_RoutingGroup r' = re_RoutingGroup route
    \<and> set (re_Backends r') = insert b {x \<in> set (re_Backends route). backend_id x \<noteq> backend_id b}
    \<and> (re_Header r' = h \<or> re_Header r' = re_Header route)
    \<and> (re_Hostname r' = hn \<or> re_Hostname r' = re_Hostname route)
    \<and> (re_Default r' \<longrightarrow> d \<or> re_Default route)"
proof -
  obtain bs where r: "re_Backends r' = bs" "bs \<noteq> []" "distinct (map backend_id bs)"
    "set bs = insert b {x \<in> set (re_Backends route). backend_id x \<noteq> backend_id b}"
  proof (cases "replace_first b (re_Backends route)")
    case None
    then have n: "\<forall>x \<in> set (re_Backends route). backend_id x \<noteq> backend_id b"
      by (simp add: replace_first_None)
    have "re_Backends r' = re_Backends route @ [b]"
      using assms None by (auto simp: updateBackendInRouteWithMode_def Let_def split: if_splits)
    moreover have "backend_id b \<notin> backend_id ` set (re_Backends route)"
        "{x \<in> set (re_Backends route). backend_id x \<noteq> backend_id b} = set (re_Backends route)"
      using n by (auto simp: image_iff)
    ultimately show ?thesis using that [of "re_Backends route @ [b]"] assms(2) by (simp add: route_ok_def)
  next
    case (Some bs)
    then have "re_Backends r' = bs"
      using assms by (auto simp: updateBackendInRouteWithMode_def Let_def split: if_splits)
    moreover have "distinct (map backend_id bs)" "bs \<noteq> []"
      using replace_first_ids [OF Some] assms(2) by (auto simp: route_ok_def)
    ultimately show ?thesis using that [of bs] replace_first_set [OF Some] assms(2) by (auto simp: route_ok_def)
  qed
  moreover have "re_RoutingGroup r' = re_RoutingGroup route" "re_Header r' = h \<or> re_Header r' = re_Header route"
      "re_Hostname r' = hn \<or> re_Hostname r' = re_Hostname route" "re_Default r' \<longrightarrow> d \<or> re_Default route"
    using assms(1)
    by (auto simp: updateBackendInRouteWithMode_def res_bind_Inr Let_def split: if_splits option.splits)
  ultimately show ?thesis by (simp add: route_ok_def)
qed

lemma uniqueness_loop_None:
  "uniqueness_loop rg host header dflt rs = None \<longleftrightarrow>
     (\<forall>r \<in> set rs. re_RoutingGroup r \<noteq> rg \<longrightarrow> route_conflict host header dflt r = None)"
  by (induction rs) (auto split: option.splits)

lemma findRoute_Some:
  "findRouteByRoutingGroup rs rg = Some i \<Longrightarrow> i < length rs \<and> re_RoutingGroup (rs ! i) = rg"
  by (induction rs arbitrary: i) (auto split: if_splits)

lemma findRoute_None:
  "findRouteByRoutingGroup rs rg = None \<longleftrightarrow> (\<forall>r \<in> set rs. re_RoutingGroup r \<noteq> rg)"
  by (induction rs) auto

text \<open>A route carrying the new selectors fits beside a route that passed the uniqueness check.\<close>

lemma validated_compatible:
  assumes "route_conflict (if hn \<noteq> '''' then normalizeHostname hn else '''') h d s = None"
    and "re_RoutingGroup s \<noteq> re_RoutingGroup r" "route_ids s \<inter> route_ids r = {}"
    and "re_Header r = h \<or> compatible s r0 \<and> re_Header r = re_Header r0"
    and "re_Hostname r = hn \<or> compatible s r0 \<and> re_Hostname r = re_Hostname r0"
    and "re_Default r \<longrightarrow> d \<or> compatible s r0 \<and> re_Default r0"
  shows "compatible s r"
proof -
  have "host_key s \<noteq> '''' \<longrightarrow> host_key s \<noteq> host_key r"
    using assms(1,5) by (auto simp: compatible_def host_key_def route_conflict_def split: if_splits)
  moreover have "re_Header s \<noteq> '''' \<longrightarrow> re_Header s \<noteq> re_Header r"
    using assms(1,4) by (auto simp: compatible_def route_conflict_def split: if_splits)
  moreover have "\<not> (re_Default s \<and> re_Default r)"
    using assms(1,6) by (auto simp: compatible_def route_conflict_def split: if_splits)
  ultimately show ?thesis using assms(2,3) by (simp add: compatible_def)
qed

lemma wf_nth_compatible:
  assumes "wf_routes rs" "i < length rs" "j < length rs" "i \<noteq> j" shows "compatible (rs ! j) (rs ! i)"
  using assms unfolding wf_routes_def sorted_wrt_iff_nth_less
  by (metis compatible_sym linorder_neqE_nat)

lemma route_entries_update:
  assumes "i < length rs" "re_RoutingGroup r = re_RoutingGroup (rs ! i)"
    and "\<forall>j < length rs. j \<noteq> i \<longrightarrow> re_RoutingGroup (rs ! j) \<noteq> re_RoutingGroup r"
  shows "route_entries (rs[i := r]) =
    {(g, x) \<in> route_entries rs. g \<noteq> re_RoutingGroup r} \<union> Pair (re_RoutingGroup r) ` set (re_Backends r)"
proof -
  have eq: "route_entries xs = {(re_RoutingGroup (xs ! j), x) | j x. j < length xs \<and> x \<in> set (re_Backends (xs ! j))}" for xs
    by (force simp: route_entries_def in_set_conv_nth)
  show ?thesis
    unfolding eq using assms by (auto simp: nth_list_update)
qed

text \<open>What a successful registration leaves, from a table without the backend in other groups.\<close>

lemma register_core:
  assumes "wf_routes rs" and "\<forall>(g, x) \<in> route_entries rs. g \<noteq> rg \<longrightarrow> backend_id x \<noteq> backend_id b"
    and "validateRouteUniqueness rs rg hn h d = None"
    and "(case findRouteByRoutingGroup rs rg of
           Some i \<Rightarrow> res_bind (updateBackendInRouteWithMode (rs ! i) b h hn d ded) (\<lambda>route. Inr (rs[i := route]))
         | None \<Rightarrow> Inr (rs @ [createRouteEntry rg rg h hn b d])) = Inr rs'"
  shows "wf_routes rs' \<and>
    route_entries rs' = {(g, x) \<in> route_entries rs. backend_id x \<noteq> backend_id b} \<union> {(rg, b)}"
proof -
  have val: "route_conflict (if hn \<noteq> '''' then normalizeHostname hn else '''') h d s = None"
    if "s \<in> set rs" "re_RoutingGroup s \<noteq> rg" for s
    using assms(3) that by (auto simp: validateRouteUniqueness_def Let_def uniqueness_loop_None)
  have other: "backend_id b \<notin> route_ids s" if "s \<in> set rs" "re_RoutingGroup s \<noteq> rg" for s
    using assms(2) that by (force simp: route_entries_def route_ids_def)
  show ?thesis
  proof (cases "findRouteByRoutingGroup rs rg")
    case None
    let ?r = "createRouteEntry rg rg h hn b d"
    have rs': "rs' = rs @ [?r]" using assms(4) None by simp
    have g: "\<forall>s \<in> set rs. re_RoutingGroup s \<noteq> rg" using None by (simp add: findRoute_None)
    have "compatible s ?r" if "s \<in> set rs" for s
      using val [OF that] other [OF that] g that
      by (intro validated_compatible [where r0 = ?r]) (auto simp: createRouteEntry_def route_ids_def)
    moreover have "route_entries rs \<subseteq> {(g, x). backend_id x \<noteq> backend_id b}"
      using assms(2) g by (force simp: route_entries_def)
    ultimately show ?thesis
      using assms(1) by (auto simp: rs' wf_routes_def sorted_wrt_append route_ok_def createRouteEntry_def route_entries_def)
  next
    case (Some i)
    obtain r where r: "updateBackendInRouteWithMode (rs ! i) b h hn d ded = Inr r" "rs' = rs[i := r]"
      using assms(4) Some by (auto simp: res_bind_Inr)
    have i: "i < length rs" "re_RoutingGroup (rs ! i) = rg" using findRoute_Some [OF Some] by auto
    have ok: "route_ok (rs ! i)" using assms(1) i by (auto simp: wf_routes_def)
    note U = updateBackend_result [OF r(1) ok]
    have cmp: "compatible (rs ! j) (rs ! i)" if "j < length rs" "j \<noteq> i" for j
      using wf_nth_compatible [OF assms(1) i(1) that(1)] that(2) by simp
    then have gj: "re_RoutingGroup (rs ! j) \<noteq> rg" if "j < length rs" "j \<noteq> i" for j
      using that i(2) by (auto simp: compatible_def)
    have new: "compatible (rs ! j) r" if "j < length rs" "j \<noteq> i" for j
    proof (rule validated_compatible [of hn h d "rs ! j" r "rs ! i"])
      have mem: "rs ! j \<in> set rs" using that by simp
      show "route_conflict (if hn \<noteq> '''' then normalizeHostname hn else '''') h d (rs ! j) = None"
        using val [OF mem gj [OF that]] .
      show "re_RoutingGroup (rs ! j) \<noteq> re_RoutingGroup r" using gj [OF that] U i(2) by simp
      have "route_ids r = insert (backend_id b) (backend_id ` {x \<in> set (re_Backends (rs ! i)). backend_id x \<noteq> backend_id b})"
        using U by (simp add: route_ids_def)
      then have "route_ids r \<subseteq> insert (backend_id b) (route_ids (rs ! i))" by (auto simp: route_ids_def)
      then show "route_ids (rs ! j) \<inter> route_ids r = {}"
        using cmp [OF that] other [OF mem gj [OF that]] by (auto simp: compatible_def)
    qed (use U cmp [OF that] in auto)
    have "sorted_wrt compatible rs'"
      using assms(1) i(1) compatible_sym new unfolding r(2) wf_routes_def by (intro sorted_wrt_update) auto
    moreover have "\<forall>s \<in> set rs'. route_ok s"
      using assms(1) U i(1) unfolding r(2) wf_routes_def by (auto dest: set_update_subset_insert [THEN subsetD])
    moreover have "route_entries rs' = {(g, x) \<in> route_entries rs. g \<noteq> rg} \<union> Pair rg ` set (re_Backends r)"
      using route_entries_update [of i rs r] i U gj by (simp add: r(2))
    moreover have "(rg, x) \<in> route_entries rs \<longleftrightarrow> x \<in> set (re_Backends (rs ! i))" for x
      using i gj by (force simp: route_entries_def in_set_conv_nth)
    ultimately show ?thesis
      using U assms(2) by (auto simp: wf_routes_def)
  qed
qed

lemma register_table:
  assumes "wf_routes rs"
    and "apply_register rg b header hostname dflt dedicated rs = Inr rs'"
  shows "wf_routes rs' \<and>
    route_entries rs' = {(g, x) \<in> route_entries rs. backend_id x \<noteq> backend_id b} \<union> {(rg, b)}"
proof -
  let ?rs = "removeBackendFromOtherRoutes rs rg (be_Name b) (be_Namespace b)"
  have e: "route_entries ?rs = {(g, x) \<in> route_entries rs. \<not> (g \<noteq> rg \<and> backend_id x = backend_id b)}"
    using filterBackend_entries [of "be_Name b" "be_Namespace b" "\<lambda>g. g \<noteq> rg" rs]
    by (simp add: removeBackendFromOtherRoutes_def same_backend_id backend_id_def)
  have "wf_routes ?rs" using assms(1) by (simp add: removeBackendFromOtherRoutes_def filterBackend_wf)
  moreover have "\<forall>(g, x) \<in> route_entries ?rs. g \<noteq> rg \<longrightarrow> backend_id x \<noteq> backend_id b" by (auto simp: e)
  moreover have "validateRouteUniqueness ?rs rg hostname header dflt = None"
    using assms(2) by (auto simp: apply_register_def Let_def res_bind_Inr no_error_Inr)
  moreover have "(case findRouteByRoutingGroup ?rs rg of
      Some i \<Rightarrow> res_bind (updateBackendInRouteWithMode (?rs ! i) b header hostname dflt dedicated) (\<lambda>route. Inr (?rs[i := route]))
    | None \<Rightarrow> Inr (?rs @ [createRouteEntry rg rg header hostname b dflt])) = Inr rs'"
    using assms(2) by (auto simp: apply_register_def Let_def res_bind_Inr no_error_Inr)
  ultimately have "wf_routes rs' \<and>
      route_entries rs' = {(g, x) \<in> route_entries ?rs. backend_id x \<noteq> backend_id b} \<union> {(rg, b)}"
    by (rule register_core)
  then show ?thesis unfolding e by auto
qed

text \<open>C6. Registering a backend keeps the route table well formed (distinct groups, host names, headers,
  at most one default, every backend in one route only) and changes exactly this backend: its old
  entries leave every group, the new one is in its routing group, and all other backends keep their
  entries and groups.\<close>

theorem register_keeps_table:
  assumes "wf_routes rs"
    and "apply_register rg b header hostname dflt dedicated rs = Inr rs'"
  shows "wf_routes rs' \<and>
    route_entries rs' = {(g, x) \<in> route_entries rs. backend_id x \<noteq> backend_id b} \<union> {(rg, b)}"
  using assms by (rule register_table)

definition demo_backend :: "string \<Rightarrow> string \<Rightarrow> Backend" where
  "demo_backend ns name =
     \<lparr> be_Name = name, be_Namespace = ns, be_CoordinatorURL = ''http://'' @ name, be_State = StateRunning,
       be_Active = True, be_Tier = ''s'', be_CapacityUnits = 2, be_RuntimeShapeVersion = ''v1'',
       be_RuntimeShapeHash = ''h'', be_ObservedGeneration = 1, be_DrainUntil = '''' \<rparr>"

theorem register_keeps_table_witness:
  "\<exists>rs'. apply_register ''pool'' (demo_backend ''ns'' ''b'') '''' ''p.example.com'' False False
       [createRouteEntry ''ns--b'' ''ns--b'' ''x'' '''' (demo_backend ''ns'' ''b'') False] = Inr rs'
     \<and> wf_routes rs' \<and> route_entries rs' = {(''pool'', demo_backend ''ns'' ''b'')}"
proof -
  let ?rs = "[createRouteEntry ''ns--b'' ''ns--b'' ''x'' '''' (demo_backend ''ns'' ''b'') False]"
  let ?rs' = "[createRouteEntry ''pool'' ''pool'' '''' ''p.example.com'' (demo_backend ''ns'' ''b'') False]"
  have wf: "wf_routes ?rs" by (simp add: wf_routes_def route_ok_def createRouteEntry_def)
  have "apply_register ''pool'' (demo_backend ''ns'' ''b'') '''' ''p.example.com'' False False ?rs = Inr ?rs'"
    by code_simp
  with register_keeps_table [OF wf this] show ?thesis
    by (auto simp: createRouteEntry_def)
qed

section \<open>Draining and removing\<close>

lemma drain_routes_wf:
  assumes "wf_routes rs" and "\<And>b. backend_id (f b) = backend_id b"
  shows "wf_routes (map (\<lambda>route. route\<lparr>re_Backends := map f (re_Backends route)\<rparr>) rs)"
proof -
  have ids: "backend_id \<circ> f = backend_id" using assms(2) by auto
  have "compatible r s \<Longrightarrow> compatible (r\<lparr>re_Backends := map f (re_Backends r)\<rparr>) (s\<lparr>re_Backends := map f (re_Backends s)\<rparr>)" for r s
    by (auto simp: compatible_def host_key_def route_ids_def image_comp ids)
  then have "sorted_wrt (\<lambda>r s. compatible (r\<lparr>re_Backends := map f (re_Backends r)\<rparr>) (s\<lparr>re_Backends := map f (re_Backends s)\<rparr>)) rs"
    using assms(1) sorted_wrt_mono_rel [of rs compatible] by (auto simp: wf_routes_def)
  then show ?thesis
    using assms(1) by (auto simp: wf_routes_def sorted_wrt_map route_ok_def ids)
qed

lemma map_routes_entries:
  "route_entries (map (\<lambda>route. route\<lparr>re_Backends := map f (re_Backends route)\<rparr>) rs) = (\<lambda>(g, b). (g, f b)) ` route_entries rs"
  by (induction rs) (auto simp: image_Un image_image)



text \<open>C31. Deregistering a backend removes exactly its entries from every group, keeps the table well
  formed, and reports a change exactly when the backend was present.\<close>

theorem deregister_route_spec:
  assumes "wf_routes rs" and "removeBackendFromAllRoutes rs name ns = (rs', changed)"
  shows "wf_routes rs' \<and> route_entries rs' = {(g, b) \<in> route_entries rs. backend_id b \<noteq> (name, ns)}
    \<and> (changed \<longleftrightarrow> (\<exists>(g, b) \<in> route_entries rs. backend_id b = (name, ns)))"
  using assms filterBackend_wf [OF assms(1), of name ns "\<lambda>_. True"]
    filterBackend_entries [of name ns "\<lambda>_. True" rs] filterBackend_changed [of name ns "\<lambda>_. True" rs]
  by (simp add: removeBackendFromAllRoutes_def same_backend_id)

theorem deregister_route_spec_witness:
  "removeBackendFromAllRoutes [createRouteEntry ''g'' ''g'' '''' '''' (demo_backend ''ns'' ''b'') False] ''b'' ''ns'' = ([], True)
   \<and> route_entries [] = {(g, b) \<in> route_entries [createRouteEntry ''g'' ''g'' '''' '''' (demo_backend ''ns'' ''b'') False].
        backend_id b \<noteq> (''b'', ''ns'')}"
proof -
  have "wf_routes [createRouteEntry ''g'' ''g'' '''' '''' (demo_backend ''ns'' ''b'') False]"
    by (simp add: wf_routes_def route_ok_def createRouteEntry_def)
  moreover have r: "removeBackendFromAllRoutes [createRouteEntry ''g'' ''g'' '''' '''' (demo_backend ''ns'' ''b'') False] ''b'' ''ns'' = ([], True)"
    by code_simp
  ultimately show ?thesis using deregister_route_spec by blast
qed

end
