(* ===== verification/RouteUpdates.thy ===== *)
theory RouteUpdates
  imports Routes "HOL-Library.Countable"
begin

text \<open>
  The writers of the route table against concurrent writers: with the API server's compare-and-swap
  and the retry loop, a writer that returns without an error has applied its change to the table as
  it stood at one moment, and no other writer's change is lost.
\<close>

section \<open>The writers as atomic changes\<close>

text \<open>What the writers rely on from the YAML library: a table survives being written and read.\<close>

definition yaml_ok :: "Yaml \<Rightarrow> bool" where
  "yaml_ok y \<longleftrightarrow>
     (\<forall>rs. rs \<noteq> [] \<longrightarrow> (\<exists>t. ym_Marshal y rs = Inr t \<and> t \<noteq> '''' \<and> ym_Unmarshal y t = Inr rs))
     \<and> ym_Unmarshal y (''routes: []'' @ [CHR 0x0A]) = Inr []"

lemma yaml_roundtrip: "yaml_ok y \<Longrightarrow> parseRoutes y (serializeRoutes y rs) = Inr rs"
  by (cases "rs = []") (auto simp: yaml_ok_def parseRoutes_def serializeRoutes_def)

definition stored_table :: "Yaml \<Rightarrow> ('w \<Rightarrow> ConfigMap option) \<Rightarrow> 'w \<Rightarrow> RouteEntry list option" where
  "stored_table y view w =
     (case view w of
        None \<Rightarrow> None
      | Some cm \<Rightarrow> (case parseRoutes y (cm_text cm) of Inl _ \<Rightarrow> None | Inr rs \<Rightarrow> Some rs))"

lemma cm_text_ensure [simp]: "cm_text (ensureConfigMapData cm) = cm_text cm"
  by (auto simp: ensureConfigMapData_def cm_text_def set_cm_text_def init_data_def Let_def split: option.splits)

lemma cm_text_set: "cm_Data cm' = cm_Data (set_cm_text t cm) \<Longrightarrow> cm_text cm' = t"
  by (simp add: cm_text_def set_cm_text_def)

lemma cm_version [simp]:
  "cm_ResourceVersion (ensureConfigMapData cm) = cm_ResourceVersion cm"
  "cm_ResourceVersion (set_cm_text t cm) = cm_ResourceVersion cm"
  by (auto simp: ensureConfigMapData_def set_cm_text_def init_data_def Let_def split: option.splits)

text \<open>One attempt that ends without an error.\<close>

lemma table_attempt:
  assumes "cas_client cli view" "table_refresh cli s0 = (None, s1)"
    and "table_modify y cli change s1 = (None, (cm', w'))"
  shows "\<exists>w1 cm rs rs' changed. view w1 = Some cm \<and> parseRoutes y (cm_text cm) = Inr rs
    \<and> change (cm_text cm) rs = Inr (rs', changed)
    \<and> (if changed then map_option cm_text (view w') = Some (serializeRoutes y rs') else view w' = Some cm)"
proof -
  obtain cm0 w0 where s0: "s0 = (cm0, w0)" by force
  obtain cm w1 where get: "cli_Get cli w0 = (Inr cm, w1)" and s1: "s1 = (cm, w1)"
    using assms(2) by (auto simp: table_refresh_def s0 split: prod.splits sum.splits)
  have v1: "view w1 = Some cm" using assms(1) get unfolding cas_client_def by blast
  obtain rs where rs: "parseRoutes y (cm_text cm) = Inr rs"
    using assms(3) by (auto simp: table_modify_def s1 Let_def split: sum.splits)
  obtain rs' changed where ch: "change (cm_text cm) rs = Inr (rs', changed)"
    using assms(3) by (auto simp: table_modify_def s1 Let_def rs split: sum.splits)
  show ?thesis
  proof (cases changed)
    case False
    then have "w' = w1" using assms(3) by (auto simp: table_modify_def s1 Let_def rs ch)
    then show ?thesis using v1 rs ch False
      by (intro exI [of _ w1] exI [of _ cm] exI [of _ rs] exI [of _ rs'] exI [of _ changed]) simp
  next
    case True
    let ?cm = "set_cm_text (serializeRoutes y rs') (ensureConfigMapData cm)"
    obtain new where up: "cli_Update cli ?cm w1 = (Inr new, w')"
      using assms(3) True by (auto simp: table_modify_def s1 Let_def rs ch split: prod.splits sum.splits)
    have "map_option cm_Data (view w') = Some (cm_Data ?cm)"
      using assms(1) get up unfolding cas_client_def by (metis cm_version)
    then obtain cmf where "view w' = Some cmf" "cm_Data cmf = cm_Data ?cm" by auto
    then have "map_option cm_text (view w') = Some (serializeRoutes y rs')" using cm_text_set by simp
    then show ?thesis using v1 rs ch True
      by (intro exI [of _ w1] exI [of _ cm] exI [of _ rs] exI [of _ rs'] exI [of _ changed]) simp
  qed
qed

lemma update_table_atomic:
  assumes "cas_client cli view" "backoff_ok eb" "update_table y cli eb ctxErr change cm0 w = (None, w')"
  shows "\<exists>w1 cm rs rs' changed. view w1 = Some cm \<and> parseRoutes y (cm_text cm) = Inr rs
    \<and> change (cm_text cm) rs = Inr (rs', changed)
    \<and> (if changed then map_option cm_text (view w') = Some (serializeRoutes y rs') else view w' = Some cm)"
proof -
  have steps: "1 \<le> rc_Steps DefaultConfig" by (simp add: DefaultConfig_def)
  obtain cm' where r: "OnConflictWithRefresh eb DefaultConfig ctxErr (table_refresh cli) (table_modify y cli change) (cm0, w) = (None, (cm', w'))"
    using assms(3) by (auto simp: update_table_def split: prod.splits)
  from refresh_success [OF assms(2) steps r] obtain s0 s1 where
    "table_refresh cli s0 = (None, s1)" "table_modify y cli change s1 = (None, (cm', w'))" by blast
  then show ?thesis using table_attempt [OF assms(1)] by blast
qed


section \<open>A concrete run\<close>

text \<open>A server holding one ConfigMap, a back-off without sleeping, and a YAML stand-in that numbers the
  tables.\<close>

instance Backend_ext :: (countable) countable
proof (rule countable_classI [of "\<lambda>b. to_nat (be_Name b, be_Namespace b, be_CoordinatorURL b, be_State b, be_Active b,
    be_Tier b, be_CapacityUnits b, be_RuntimeShapeVersion b, be_RuntimeShapeHash b, be_ObservedGeneration b,
    be_DrainUntil b, Backend.more b)"])
qed simp

instance RouteEntry_ext :: (countable) countable
proof (rule countable_classI [of "\<lambda>r. to_nat (re_Name r, re_RoutingGroup r, re_Backends r, re_Header r, re_Hostname r,
    re_Default r, RouteEntry.more r)"])
qed simp

definition demo_yaml :: Yaml where
  "demo_yaml =
     \<lparr> ym_Unmarshal = (\<lambda>t. if hd t = CHR ''r'' then Inr [] else Inr (from_nat (length t - 1))),
       ym_Marshal = (\<lambda>rs. Inr (CHR ''y'' # replicate (to_nat rs) CHR ''x'')) \<rparr>"

lemma demo_yaml_ok: "yaml_ok demo_yaml"
  by (simp add: yaml_ok_def demo_yaml_def)

definition demo_client :: "ConfigMap CMClient" where
  "demo_client =
     \<lparr> cli_Get = (\<lambda>w. (Inr w, w)),
       cli_Create = (\<lambda>cm w. (Inl AlreadyExistsErr, w)),
       cli_Update = (\<lambda>cm w. if cm_ResourceVersion cm = cm_ResourceVersion w
          then (Inr (cm\<lparr>cm_ResourceVersion := cm_ResourceVersion cm + 1\<rparr>), cm\<lparr>cm_ResourceVersion := cm_ResourceVersion cm + 1\<rparr>)
          else (Inl ConflictErr, w)) \<rparr>"

lemma demo_client_cas: "cas_client demo_client Some"
  by (auto simp: cas_client_def demo_client_def split: if_splits)

definition demo_backoff :: "'s backoff" where
  "demo_backoff config = backoff_run (nat (rc_Steps config))"

lemma demo_backoff_ok: "backoff_ok demo_backoff"
  unfolding backoff_ok_def demo_backoff_def
proof (intro allI impI)
  fix config :: RetryConfig and c :: "'a condition" and vs
  assume "1 \<le> rc_Steps config"
  then show "\<exists>k\<ge>1. int k \<le> rc_Steps config \<and> backoff_run (nat (rc_Steps config)) c vs = backoff_run k c vs"
    by (intro exI [of _ "nat (rc_Steps config)"]) auto
qed


end
