(* ===== verification/Url.thy ===== *)
theory Url
  imports Types
begin

text \<open>
  The part of \<open>net/url\<close> the gateway uses: percent-encoding, \<open>Parse\<close> and \<open>URL.String\<close>. Bracketed IP
  literals as hosts are not modelled: \<open>url_parse\<close> refuses them.
\<close>

section \<open>Percent-encoding\<close>

datatype encoding = encodePath | encodePathSegment | encodeHost | encodeUserPassword | encodeFragment

definition shouldEscape :: "encoding \<Rightarrow> char \<Rightarrow> bool" where
  "shouldEscape mode c =
     (if is_alnum c then False
      else if mode = encodeHost \<and> c \<in> set ''!$&()*+,;=:[]<>'' \<union> {CHR 0x27, CHR 0x22} then False
      else if c \<in> set ''-_.~'' then False
      else if c \<in> set ''$&+,/:;=?@'' \<and> mode \<noteq> encodeHost then
        (case mode of
           encodePath \<Rightarrow> c = CHR ''?''
         | encodePathSegment \<Rightarrow> c \<in> set ''/;,?''
         | encodeUserPassword \<Rightarrow> c \<in> set ''@/?:''
         | _ \<Rightarrow> False)
      else if mode = encodeFragment \<and> c \<in> set ''!()*'' then False
      else True)"

definition upperhex :: "nat \<Rightarrow> char" where
  "upperhex n = ''0123456789ABCDEF'' ! n"

definition unhex :: "char \<Rightarrow> nat option" where
  "unhex c =
     (if CHR ''0'' \<le> c \<and> c \<le> CHR ''9'' then Some (of_char c - 48)
      else if CHR ''a'' \<le> c \<and> c \<le> CHR ''f'' then Some (of_char c - 97 + 10)
      else if CHR ''A'' \<le> c \<and> c \<le> CHR ''F'' then Some (of_char c - 65 + 10)
      else None)"

fun url_escape :: "encoding \<Rightarrow> string \<Rightarrow> string" where
  "url_escape mode [] = []"
| "url_escape mode (c # s) =
     (if shouldEscape mode c
      then CHR ''%'' # upperhex (of_char c div 16) # upperhex (of_char c mod 16) # url_escape mode s
      else c # url_escape mode s)"

fun url_unescape :: "encoding \<Rightarrow> string \<Rightarrow> string option" where
  "url_unescape mode [] = Some []"
| "url_unescape mode (c # s) =
     (if c = CHR ''%'' then
        (case s of
           h # l # s' \<Rightarrow>
             (case (unhex h, unhex l) of
                (Some a, Some b) \<Rightarrow>
                  if mode = encodeHost \<and> a < 8 \<and> (h, l) \<noteq> (CHR ''2'', CHR ''5'') then None
                  else map_option ((#) (char_of (16 * a + b))) (url_unescape mode s')
              | _ \<Rightarrow> None)
         | _ \<Rightarrow> None)
      else if mode = encodeHost \<and> (of_char c :: nat) < 128 \<and> shouldEscape mode c then None
      else map_option ((#) c) (url_unescape mode s))"

definition PathEscape :: "string \<Rightarrow> string" where
  "PathEscape s = url_escape encodePathSegment s"

definition PathUnescape :: "string \<Rightarrow> string option" where
  "PathUnescape s = url_unescape encodePathSegment s"

definition validEncoded :: "encoding \<Rightarrow> string \<Rightarrow> bool" where
  "validEncoded mode s \<longleftrightarrow> (\<forall>c \<in> set s. c \<in> set ''!$&()*+,;=:@[]%'' \<or> c = CHR 0x27 \<or> \<not> shouldEscape mode c)"

section \<open>URLs\<close>

record URL =
  u_Scheme :: string
  u_Opaque :: string
  u_User :: "(string \<times> string option) option"
  u_Host :: string
  u_Path :: string
  u_RawPath :: string
  u_OmitHost :: bool
  u_ForceQuery :: bool
  u_RawQuery :: string
  u_Fragment :: string
  u_RawFragment :: string

definition empty_url :: URL where
  "empty_url = \<lparr> u_Scheme = '''', u_Opaque = '''', u_User = None, u_Host = '''', u_Path = '''', u_RawPath = '''', u_OmitHost = False,
     u_ForceQuery = False, u_RawQuery = '''', u_Fragment = '''', u_RawFragment = '''' \<rparr>"

text \<open>\<open>strings.Cut\<close> at a byte: the parts before and after its first occurrence.\<close>

definition cut :: "char \<Rightarrow> string \<Rightarrow> string \<times> string" where
  "cut d s = (takeWhile (\<lambda>c. c \<noteq> d) s, drop 1 (dropWhile (\<lambda>c. c \<noteq> d) s))"

definition is_scheme_char :: "char \<Rightarrow> bool" where
  "is_scheme_char c \<longleftrightarrow> is_alnum c \<or> c \<in> set ''+-.''"

definition is_letter :: "char \<Rightarrow> bool" where
  "is_letter c \<longleftrightarrow> is_alnum c \<and> \<not> is_digit c"

definition getScheme :: "string \<Rightarrow> (string \<times> string) option" where
  "getScheme s =
     (case s of
        [] \<Rightarrow> Some ('''', s)
      | c # _ \<Rightarrow>
          if c = CHR '':'' then None
          else if \<not> is_letter c then Some ('''', s)
          else case dropWhile is_scheme_char s of
                 d # r \<Rightarrow> if d = CHR '':'' then Some (takeWhile is_scheme_char s, r) else Some ('''', s)
               | [] \<Rightarrow> Some ('''', s))"

definition parseHost :: "string \<Rightarrow> string option" where
  "parseHost host =
     (if has_prefix host ''['' then None
      else case index_byte host CHR '':'' of
             Some i \<Rightarrow> if \<forall>c \<in> set (drop (Suc i) host). is_digit c then url_unescape encodeHost host else None
           | None \<Rightarrow> url_unescape encodeHost host)"

definition validUserinfo :: "string \<Rightarrow> bool" where
  "validUserinfo s \<longleftrightarrow> (\<forall>c \<in> set s. is_alnum c \<or> c \<in> set ''-._:~!$&()*+,;=%@'' \<or> c = CHR 0x27)"

definition parse_user :: "string \<Rightarrow> (string \<times> string option) option" where
  "parse_user s =
     (if CHR '':'' \<notin> set s then map_option (\<lambda>u. (u, None)) (url_unescape encodeUserPassword s)
      else case (url_unescape encodeUserPassword (fst (cut CHR '':'' s)), url_unescape encodeUserPassword (snd (cut CHR '':'' s))) of
             (Some u, Some p) \<Rightarrow> Some (u, Some p)
           | _ \<Rightarrow> None)"

definition parseAuthority :: "string \<Rightarrow> ((string \<times> string option) option \<times> string) option" where
  "parseAuthority authority =
     (case last_index_byte authority CHR ''@'' of
        None \<Rightarrow> map_option (Pair None) (parseHost authority)
      | Some i \<Rightarrow>
          (case parseHost (drop (Suc i) authority) of
             None \<Rightarrow> None
           | Some host \<Rightarrow>
               if \<not> validUserinfo (take i authority) then None
               else map_option (\<lambda>u. (Some u, host)) (parse_user (take i authority))))"

definition setPath :: "string \<Rightarrow> URL \<Rightarrow> URL option" where
  "setPath p u =
     (case url_unescape encodePath p of
        None \<Rightarrow> None
      | Some path \<Rightarrow> Some (u\<lparr>u_Path := path, u_RawPath := (if p = url_escape encodePath path then '''' else p)\<rparr>))"

definition setFragment :: "string \<Rightarrow> URL \<Rightarrow> URL option" where
  "setFragment f u =
     (case url_unescape encodeFragment f of
        None \<Rightarrow> None
      | Some frag \<Rightarrow> Some (u\<lparr>u_Fragment := frag, u_RawFragment := (if f = url_escape encodeFragment frag then '''' else f)\<rparr>))"

definition split_query :: "string \<Rightarrow> bool \<times> string \<times> string" where
  "split_query rest =
     (if has_suffix rest ''?'' \<and> length (filter (\<lambda>c. c = CHR ''?'') rest) = 1 then (True, butlast rest, '''')
      else (False, cut CHR ''?'' rest))"

definition url_parse_rest :: "string \<Rightarrow> URL option" where
  "url_parse_rest s =
     (if \<exists>c \<in> set s. (of_char c :: nat) < 32 \<or> (of_char c :: nat) = 127 then None
      else if s = ''*'' then Some (empty_url\<lparr>u_Path := ''*''\<rparr>)
      else case getScheme s of
        None \<Rightarrow> None
      | Some (scheme, rest) \<Rightarrow>
          (case split_query rest of (forced, rest, query) \<Rightarrow>
             let u = empty_url\<lparr>u_Scheme := to_lower scheme, u_ForceQuery := forced, u_RawQuery := query\<rparr>
             in if \<not> has_prefix rest ''/'' \<and> scheme \<noteq> '''' then Some (u\<lparr>u_Opaque := rest\<rparr>)
                else if \<not> has_prefix rest ''/'' \<and> CHR '':'' \<in> set (fst (cut CHR ''/'' rest)) then None
                else if (scheme \<noteq> '''' \<or> \<not> has_prefix rest ''///'') \<and> has_prefix rest ''//'' then
                  (case parseAuthority (takeWhile (\<lambda>c. c \<noteq> CHR ''/'') (drop 2 rest)) of
                     None \<Rightarrow> None
                   | Some (user, host) \<Rightarrow> setPath (dropWhile (\<lambda>c. c \<noteq> CHR ''/'') (drop 2 rest)) (u\<lparr>u_User := user, u_Host := host\<rparr>))
                else setPath rest (u\<lparr>u_OmitHost := (scheme \<noteq> '''' \<and> has_prefix rest ''/'')\<rparr>)))"

definition url_parse :: "string \<Rightarrow> URL option" where
  "url_parse s =
     (case cut CHR ''#'' s of (u, frag) \<Rightarrow>
        (case url_parse_rest u of
           None \<Rightarrow> None
         | Some url \<Rightarrow> if frag = '''' then Some url else setFragment frag url))"

definition EscapedPath :: "URL \<Rightarrow> string" where
  "EscapedPath u =
     (if u_RawPath u \<noteq> '''' \<and> validEncoded encodePath (u_RawPath u) \<and> url_unescape encodePath (u_RawPath u) = Some (u_Path u)
      then u_RawPath u
      else if u_Path u = ''*'' then ''*'' else url_escape encodePath (u_Path u))"

definition EscapedFragment :: "URL \<Rightarrow> string" where
  "EscapedFragment u =
     (if u_RawFragment u \<noteq> '''' \<and> validEncoded encodeFragment (u_RawFragment u)
        \<and> url_unescape encodeFragment (u_RawFragment u) = Some (u_Fragment u)
      then u_RawFragment u
      else url_escape encodeFragment (u_Fragment u))"

definition user_string :: "string \<times> string option \<Rightarrow> string" where
  "user_string = (\<lambda>(name, password). url_escape encodeUserPassword name @
     (case password of None \<Rightarrow> '''' | Some p \<Rightarrow> '':'' @ url_escape encodeUserPassword p))"

definition url_string :: "URL \<Rightarrow> string" where
  "url_string u =
     (let buf = (if u_Scheme u \<noteq> '''' then u_Scheme u @ '':'' else '''');
          buf =
            (if u_Opaque u \<noteq> '''' then buf @ u_Opaque u
             else
               let buf =
                     (if (u_Scheme u \<noteq> '''' \<or> u_Host u \<noteq> '''' \<or> u_User u \<noteq> None)
                         \<and> \<not> (u_OmitHost u \<and> u_Host u = '''' \<and> u_User u = None)
                      then buf @ (if u_Host u \<noteq> '''' \<or> u_Path u \<noteq> '''' \<or> u_User u \<noteq> None then ''//'' else '''')
                               @ (case u_User u of None \<Rightarrow> '''' | Some ui \<Rightarrow> user_string ui @ ''@'')
                               @ url_escape encodeHost (u_Host u)
                      else buf);
                   path = EscapedPath u;
                   buf = (if path \<noteq> '''' \<and> \<not> has_prefix path ''/'' \<and> u_Host u \<noteq> '''' then buf @ ''/'' else buf);
                   buf = (if buf = '''' \<and> CHR '':'' \<in> set (fst (cut CHR ''/'' path)) then ''./'' else buf)
               in buf @ path)
      in buf @ (if u_ForceQuery u \<or> u_RawQuery u \<noteq> '''' then ''?'' @ u_RawQuery u else '''')
             @ (if u_Fragment u \<noteq> '''' then ''#'' @ EscapedFragment u else ''''))"

section \<open>Round trips\<close>

lemma unhex_upperhex: "n < 16 \<Longrightarrow> unhex (upperhex n) = Some n"
proof -
  have "\<forall>n \<in> {0 ..< 16}. unhex (upperhex n) = Some n"
    by code_simp
  then show "n < 16 \<Longrightarrow> unhex (upperhex n) = Some n" by simp
qed

lemma upperhex_alnum: "n < 16 \<Longrightarrow> is_alnum (upperhex n)"
proof -
  have "\<forall>n \<in> {0 ..< 16}. is_alnum (upperhex n)"
    by code_simp
  then show "n < 16 \<Longrightarrow> is_alnum (upperhex n)" by simp
qed

lemma char_digits:
  "of_char c div 16 < (16 :: nat)"
  "of_char c mod 16 < (16 :: nat)"
  "char_of (16 * (of_char c div 16) + of_char c mod 16 :: nat) = c"
  using nat_of_char_less_256 [of c] by (auto simp del: nat_of_char_less_256)

lemma percent_escaped: "shouldEscape mode CHR ''%''"
  by (simp add: shouldEscape_def is_alnum_def byte_in_def)

text \<open>Outside hosts, decoding undoes encoding.\<close>

lemma unescape_escape: "mode \<noteq> encodeHost \<Longrightarrow> url_unescape mode (url_escape mode s) = Some s"
  by (induction s) (auto simp: unhex_upperhex char_digits percent_escaped)

text \<open>A host without escapes and of permitted bytes is decoded to itself.\<close>

lemma unescape_plain:
  "\<forall>c \<in> set s. c \<noteq> CHR ''%'' \<and> \<not> shouldEscape mode c \<Longrightarrow> url_unescape mode s = Some s"
  by (induction s) auto

lemma escape_plain: "\<forall>c \<in> set s. \<not> shouldEscape mode c \<Longrightarrow> url_escape mode s = s"
  by (induction s) auto

lemma alnum_plain: "is_alnum c \<Longrightarrow> \<not> shouldEscape mode c"
  by (simp add: shouldEscape_def)

lemma escape_bytes: "c \<in> set (url_escape mode s) \<Longrightarrow> c = CHR ''%'' \<or> \<not> shouldEscape mode c"
proof (induction s)
  case (Cons b s)
  then show ?case
    using alnum_plain [OF upperhex_alnum [OF char_digits(1) [of b]]] alnum_plain [OF upperhex_alnum [OF char_digits(2) [of b]]]
    by (auto split: if_splits)
qed simp

lemma path_byte:
  assumes "\<not> shouldEscape encodePath c"
  shows "c \<noteq> CHR ''#'' \<and> c \<noteq> CHR ''?'' \<and> \<not> (of_char c < (32 :: nat) \<or> of_char c = (127 :: nat))"
proof -
  have "is_alnum c \<or> c \<in> set ''-_.~$&+,/:;=@''"
  proof (rule ccontr)
    assume "\<not> ?thesis"
    then have "shouldEscape encodePath c" by (simp add: shouldEscape_def)
    with assms show False ..
  qed
  then show ?thesis
  proof
    assume "is_alnum c"
    then show ?thesis by (auto simp: is_alnum_def byte_in_def)
  next
    assume "c \<in> set ''-_.~$&+,/:;=@''"
    then show ?thesis by (simp only: list.set insert_iff empty_iff) (elim disjE; simp)
  qed
qed

lemma path_bytes:
  "c \<in> set (url_escape encodePath p) \<Longrightarrow> c \<noteq> CHR ''#'' \<and> c \<noteq> CHR ''?'' \<and> \<not> (of_char c < (32 :: nat) \<or> of_char c = (127 :: nat))"
  using escape_bytes [of c encodePath p] path_byte [of c] by auto

lemma PathUnescape_PathEscape [simp]: "PathUnescape (PathEscape s) = Some s"
  by (simp add: PathEscape_def PathUnescape_def unescape_escape)

lemma PathEscape_slash: "CHR ''/'' \<notin> set (PathEscape s)"
proof
  have "shouldEscape encodePathSegment CHR ''/''"
    by code_simp
  moreover assume "CHR ''/'' \<in> set (PathEscape s)"
  ultimately show False
    using escape_bytes [of "CHR ''/''" encodePathSegment s] by (simp add: PathEscape_def)
qed

lemma PathEscape_empty [simp]: "PathEscape s = [] \<longleftrightarrow> s = []"
  by (cases s) (auto simp: PathEscape_def)

end
