(* ===== verification/QueryExtraction.thy ===== *)
theory QueryExtraction
  imports Json Http
begin

text \<open>
  Finding the Trino query ID of a request and the ID and state of a response
  (\<open>pkg/gateway/query_extraction.go\<close>). A response body is the bytes it delivers and whether reading
  it fails after them. Errors are booleans: the caller only logs them.
\<close>

section \<open>Request paths\<close>

text \<open>A match of \<open>\d{8}_\d{6}_\d{5}_[a-zA-Z0-9]+(?:/|$)\<close> at the head of the text.\<close>

definition match_digits :: "nat \<Rightarrow> string \<Rightarrow> string option" where
  "match_digits n s =
     (if length s > n \<and> (\<forall>c \<in> set (take n s). is_digit c) \<and> s ! n = CHR ''_'' then Some (drop (Suc n) s) else None)"

definition match_query_id :: "string \<Rightarrow> string option" where
  "match_query_id s =
     (case match_digits 8 s of
        None \<Rightarrow> None
      | Some r \<Rightarrow>
          (case match_digits 6 r of
             None \<Rightarrow> None
           | Some r \<Rightarrow>
               (case match_digits 5 r of
                  None \<Rightarrow> None
                | Some r \<Rightarrow>
                    let w = takeWhile is_alnum r; t = dropWhile is_alnum r
                    in if w \<noteq> [] \<and> (t = [] \<or> hd t = CHR ''/'') then Some (take (22 + length w) s) else None)))"

fun extractQueryIdFromRequest :: "string \<Rightarrow> string" where
  "extractQueryIdFromRequest [] = ''''"
| "extractQueryIdFromRequest (c # s) =
     (if c = CHR ''/'' then (case match_query_id s of Some i \<Rightarrow> i | None \<Rightarrow> extractQueryIdFromRequest s)
      else extractQueryIdFromRequest s)"

section \<open>Skipping values\<close>

text \<open>Whether there was no error, and the decoder after the call; \<open>None\<close> when the fuel is used up, which
  the fuel of \<open>skip_value\<close> excludes.\<close>

fun skipJSONValue :: "nat \<Rightarrow> Decoder \<Rightarrow> (bool \<times> Decoder) option"
and skip_fields :: "nat \<Rightarrow> Decoder \<Rightarrow> (bool \<times> Decoder) option"
and skip_elems :: "nat \<Rightarrow> Decoder \<Rightarrow> (bool \<times> Decoder) option" where
  "skipJSONValue 0 d = None"
| "skipJSONValue (Suc n) d =
     (case dec_token d of
        (None, d) \<Rightarrow> Some (False, d)
      | (Some (TDelim c), d) \<Rightarrow>
          if c = CHR ''{'' then
            (case skip_fields n d of
               None \<Rightarrow> None
             | Some (False, d) \<Rightarrow> Some (False, d)
             | Some (True, d) \<Rightarrow> (case dec_token d of (t, d) \<Rightarrow> Some (t \<noteq> None, d)))
          else if c = CHR ''['' then
            (case skip_elems n d of
               None \<Rightarrow> None
             | Some (False, d) \<Rightarrow> Some (False, d)
             | Some (True, d) \<Rightarrow> (case dec_token d of (t, d) \<Rightarrow> Some (t \<noteq> None, d)))
          else Some (True, d)
      | (Some _, d) \<Rightarrow> Some (True, d))"
| "skip_fields 0 d = None"
| "skip_fields (Suc n) d =
     (if dec_more d then
        (case dec_token d of
           (None, d) \<Rightarrow> Some (False, d)
         | (Some _, d) \<Rightarrow>
             (case skipJSONValue n d of
                None \<Rightarrow> None
              | Some (False, d) \<Rightarrow> Some (False, d)
              | Some (True, d) \<Rightarrow> skip_fields n d))
      else Some (True, d))"
| "skip_elems 0 d = None"
| "skip_elems (Suc n) d =
     (if dec_more d then
        (case skipJSONValue n d of
           None \<Rightarrow> None
         | Some (False, d) \<Rightarrow> Some (False, d)
         | Some (True, d) \<Rightarrow> skip_elems n d)
      else Some (True, d))"

lemma skip_rest:
  "skipJSONValue n d = Some (True, d') \<Longrightarrow> length (dc_in d') < length (dc_in d)"
  "skip_fields n d = Some (True, d') \<Longrightarrow> length (dc_in d') \<le> length (dc_in d)"
  "skip_elems n d = Some (True, d') \<Longrightarrow> length (dc_in d') \<le> length (dc_in d)"
  by (induction n d and n d and n d arbitrary: d' and d' and d' rule: skipJSONValue_skip_fields_skip_elems.induct)
    (fastforce split: prod.splits option.splits token.splits bool.splits if_splits dest!: dec_token_rest)+

lemma skip_enough:
  "2 * length (dc_in d) < n \<Longrightarrow> skipJSONValue n d \<noteq> None"
  "2 * length (dc_in d) + 1 < n \<Longrightarrow> skip_fields n d \<noteq> None"
  "2 * length (dc_in d) + 1 < n \<Longrightarrow> skip_elems n d \<noteq> None"
proof (induction n arbitrary: d)
  case (Suc n)
  {
    case 1
    obtain t d1 where t: "dec_token d = (t, d1)" by force
    show ?case
    proof (cases t)
      case (Some a)
      then have n: "2 * length (dc_in d1) + 1 < n" using 1 t dec_token_rest by fastforce
      obtain b d2 b' d2' where "skip_fields n d1 = Some (b, d2)" "skip_elems n d1 = Some (b', d2')"
        using Suc.IH(2,3) [OF n] by auto
      then show ?thesis
        by (cases a; cases b; cases b') (auto simp: t Some split: prod.split)
    qed (auto simp: t)
  next
    case 2
    obtain t d1 where t: "dec_token d = (t, d1)" by force
    show ?case
    proof (cases t)
      case (Some a)
      then have l: "length (dc_in d1) < length (dc_in d)" using t dec_token_rest by simp
      obtain b d2 where s: "skipJSONValue n d1 = Some (b, d2)"
        using Suc.IH(1) [of d1] l 2 by fastforce
      moreover have "b \<Longrightarrow> skip_fields n d2 \<noteq> None"
        using Suc.IH(2) [of d2] skip_rest(1) [of n d1 d2] s l 2 by simp
      ultimately show ?thesis by (cases b) (auto simp: t Some)
    qed (auto simp: t)
  next
    case 3
    obtain b d2 where s: "skipJSONValue n d = Some (b, d2)"
      using Suc.IH(1) [of d] 3 by fastforce
    moreover have "b \<Longrightarrow> skip_elems n d2 \<noteq> None"
      using Suc.IH(3) [of d2] skip_rest(1) [of n d d2] s 3 by simp
    ultimately show ?case by (cases b) auto
  }
qed simp_all

definition skip_value :: "Decoder \<Rightarrow> bool \<times> Decoder" where
  "skip_value d = the (skipJSONValue (Suc (2 * length (dc_in d))) d)"

lemma skip_value_rest: "skip_value d = (True, d') \<Longrightarrow> length (dc_in d') < length (dc_in d)"
  using skip_enough(1) [of d "Suc (2 * length (dc_in d))"] skip_rest(1) [of "Suc (2 * length (dc_in d))" d d']
  by (auto simp: skip_value_def simp del: skipJSONValue.simps)

lemma skip_le:
  "skipJSONValue n d = Some (b, d') \<Longrightarrow> length (dc_in d') \<le> length (dc_in d)"
  "skip_fields n d = Some (b, d') \<Longrightarrow> length (dc_in d') \<le> length (dc_in d)"
  "skip_elems n d = Some (b, d') \<Longrightarrow> length (dc_in d') \<le> length (dc_in d)"
proof (induction n arbitrary: d b d')
  case (Suc n)
  {
    case 1
    obtain t d1 where t: "dec_token d = (t, d1)" by force
    have close: "length (dc_in d2) \<le> length (dc_in d1) \<Longrightarrow> dec_token d2 = (x, d') \<Longrightarrow> length (dc_in d') \<le> length (dc_in d)"
      for d2 x using dec_token_le [OF t] dec_token_le [of d2 x d'] by simp
    have inner: "length (dc_in d2) \<le> length (dc_in d1)" if "skip_fields n d1 = Some (c, d2) \<or> skip_elems n d1 = Some (c, d2)"
      for c d2 using that Suc.IH(2,3) by blast
    show ?case
      using 1 dec_token_le [OF t] inner close
      by (auto simp: t split: option.splits token.splits if_splits bool.splits prod.splits dest: le_trans)
  next
    case 2
    obtain t d1 where t: "dec_token d = (t, d1)" by force
    show ?case
    proof (cases "dec_more d \<and> t \<noteq> None")
      case True
      then obtain c d2 where "skipJSONValue n d1 = Some (c, d2)" "c \<and> skip_fields n d2 = Some (b, d') \<or> d' = d2"
        using 2 by (auto simp: t split: option.splits bool.splits)
      then show ?thesis using Suc.IH(1,2) dec_token_le [OF t] by (meson le_trans)
    qed (use 2 dec_token_le [OF t] in \<open>auto simp: t split: if_splits\<close>)
  next
    case 3
    show ?case
    proof (cases "dec_more d")
      case True
      then obtain c d2 where "skipJSONValue n d = Some (c, d2)" "c \<and> skip_elems n d2 = Some (b, d') \<or> d' = d2"
        using 3 by (auto split: option.splits bool.splits)
      then show ?thesis using Suc.IH(1,3) by (meson le_trans)
    qed (use 3 in auto)
  }
qed simp_all

lemma skip_value_le: "skip_value d = (b, d') \<Longrightarrow> length (dc_in d') \<le> length (dc_in d)"
  using skip_enough(1) [of d "Suc (2 * length (dc_in d))"] skip_le(1) [of "Suc (2 * length (dc_in d))" d b d']
  by (auto simp: skip_value_def simp del: skipJSONValue.simps)

section \<open>Reading the response\<close>

text \<open>The loop of \<open>extractStatsState\<close>: the state found, whether an error is returned, the decoder.\<close>

definition stats_stop :: "string \<Rightarrow> string \<times> bool" where
  "stats_stop state = (if state \<noteq> '''' then (state, False) else ('''', True))"

definition stats_step :: "string \<Rightarrow> Decoder \<Rightarrow> ((string \<times> bool) \<times> Decoder) + (string \<times> Decoder)" where
  "stats_step state d =
     (case dec_token d of
        (Some (TStr key), d) \<Rightarrow>
          if key = ''state'' then
            (case dec_token d of
               (None, d) \<Rightarrow> Inl (stats_stop state, d)
             | (Some (TStr statsState), d) \<Rightarrow> Inr (statsState, d)
             | (Some _, d) \<Rightarrow> Inr (state, d))
          else
            (case skip_value d of
               (False, d) \<Rightarrow> Inl (stats_stop state, d)
             | (True, d) \<Rightarrow> Inr (state, d))
      | (_, d) \<Rightarrow> Inl (stats_stop state, d))"

lemma stats_step_rest:
  "stats_step state d = Inr (s, d') \<Longrightarrow> length (dc_in d') < length (dc_in d)"
  "stats_step state d = Inl (x, d') \<Longrightarrow> length (dc_in d') \<le> length (dc_in d)"
proof -
  obtain t d1 t2 d2 b d3 where p: "dec_token d = (t, d1)" "dec_token d1 = (t2, d2)" "skip_value d1 = (b, d3)"
    by (metis surj_pair)
  note le = dec_token_le [OF p(1)] dec_token_le [OF p(2)] skip_value_le [OF p(3)]
  show "stats_step state d = Inr (s, d') \<Longrightarrow> length (dc_in d') < length (dc_in d)"
  proof -
    assume a: "stats_step state d = Inr (s, d')"
    then obtain k where k: "t = Some (TStr k)" by (auto simp: stats_step_def p split: option.splits token.splits)
    then have "length (dc_in d1) < length (dc_in d)" using dec_token_rest p(1) by simp
    moreover have "d' = d2 \<or> d' = d3"
      using a k by (auto simp: stats_step_def p split: option.splits token.splits if_splits bool.splits)
    ultimately show ?thesis using le by auto
  qed
  assume "stats_step state d = Inl (x, d')"
  then have "d' = d1 \<or> d' = d2 \<or> d' = d3"
    by (auto simp: stats_step_def p split: option.splits token.splits if_splits bool.splits)
  then show "length (dc_in d') \<le> length (dc_in d)" using le by auto
qed

function stats_loop :: "string \<Rightarrow> Decoder \<Rightarrow> (string \<times> bool) \<times> Decoder" where
  "stats_loop state d =
     (if dec_more d then
        (case stats_step state d of Inl result \<Rightarrow> result | Inr (state, d) \<Rightarrow> stats_loop state d)
      else
        (case dec_token d of
           (None, d) \<Rightarrow> (stats_stop state, d)
         | (Some _, d) \<Rightarrow> ((state, False), d)))"
  by pat_completeness auto
termination
  by (relation "measure (length \<circ> dc_in \<circ> snd)") (auto dest!: stats_step_rest(1))

declare stats_loop.simps [simp del]

definition extractStatsState :: "Decoder \<Rightarrow> (string \<times> bool) \<times> Decoder" where
  "extractStatsState d =
     (case dec_token d of
        (None, d) \<Rightarrow> (('''', True), d)
      | (Some (TDelim c), d) \<Rightarrow> if c = CHR ''{'' then stats_loop '''' d else (('''', False), d)
      | (Some _, d) \<Rightarrow> (('''', False), d))"

lemma stats_loop_le: "stats_loop state d = (x, d') \<Longrightarrow> length (dc_in d') \<le> length (dc_in d)"
proof (induction state d arbitrary: x rule: stats_loop.induct)
  case (1 state d)
  show ?case
  proof (cases "dec_more d")
    case more: True
    show ?thesis
    proof (cases "stats_step state d")
      case (Inl y)
      then show ?thesis using "1.prems" more stats_step_rest(2) [of state d x d'] by (subst (asm) stats_loop.simps) simp
    next
      case (Inr y)
      obtain s d1 where y: "y = (s, d1)" by force
      then have "stats_loop s d1 = (x, d')" using "1.prems" more Inr by (subst (asm) stats_loop.simps) simp
      then show ?thesis using "1.IH" [OF more Inr y [symmetric]] stats_step_rest(1) [OF Inr [unfolded y]] by simp
    qed
  next
    case False
    then show ?thesis using "1.prems" by (subst (asm) stats_loop.simps) (auto split: prod.splits option.splits dest!: dec_token_le)
  qed
qed

lemma extractStatsState_le: "extractStatsState d = (x, d') \<Longrightarrow> length (dc_in d') \<le> length (dc_in d)"
  by (auto simp: extractStatsState_def split: prod.splits option.splits token.splits if_splits
      dest!: dec_token_le stats_loop_le)

text \<open>The loop of \<open>extractQueryInfoFromJSONPrefix\<close>: query ID, state, whether an error is returned.\<close>

definition info_stop :: "string \<Rightarrow> string \<Rightarrow> string \<times> string \<times> bool" where
  "info_stop queryID state = (if queryID \<noteq> '''' then (queryID, state, False) else ('''', '''', True))"

text \<open>One iteration: the new ID and state and the decoder, or the value returned.\<close>

definition info_step :: "string \<Rightarrow> string \<Rightarrow> Decoder \<Rightarrow> (string \<times> string \<times> bool) + (string \<times> string \<times> Decoder)" where
  "info_step queryID state d =
     (case dec_token d of
        (Some (TStr key), d) \<Rightarrow>
          if key = ''id'' then
            (case dec_token d of
               (None, d) \<Rightarrow> Inl (info_stop queryID state)
             | (Some (TStr i), d) \<Rightarrow> Inr (i, state, d)
             | (Some _, d) \<Rightarrow> Inr (queryID, state, d))
          else if key = ''state'' then
            (case dec_token d of
               (None, d) \<Rightarrow> Inl (info_stop queryID state)
             | (Some (TStr topLevelState), d) \<Rightarrow> Inr (queryID, if state = '''' then topLevelState else state, d)
             | (Some _, d) \<Rightarrow> Inr (queryID, state, d))
          else if key = ''stats'' then
            (case extractStatsState d of
               ((statsState, err), d) \<Rightarrow>
                 let state = (if statsState \<noteq> '''' then statsState else state)
                 in if err then Inl (info_stop queryID state) else Inr (queryID, state, d))
          else
            (case skip_value d of
               (False, d) \<Rightarrow> Inl (info_stop queryID state)
             | (True, d) \<Rightarrow> Inr (queryID, state, d))
      | (_, d) \<Rightarrow> Inl (info_stop queryID state))"

lemma info_step_rest:
  assumes "info_step queryID state d = Inr (q, s, d')" shows "length (dc_in d') < length (dc_in d)"
proof -
  obtain key d1 where k: "dec_token d = (Some (TStr key), d1)"
    using assms by (auto simp: info_step_def split: prod.splits option.splits token.splits)
  have l: "length (dc_in d1) < length (dc_in d)" by (rule dec_token_rest [OF k])
  obtain t d2 x d3 b d4 where p: "dec_token d1 = (t, d2)" "extractStatsState d1 = (x, d3)" "skip_value d1 = (b, d4)"
    by (metis surj_pair)
  have "d' \<in> {d2, d3, d4}"
    using assms k p by (auto simp: info_step_def Let_def split: if_splits option.splits token.splits bool.splits prod.splits)
  then show ?thesis
    using l dec_token_le [OF p(1)] extractStatsState_le [OF p(2)] skip_value_le [OF p(3)] by auto
qed

function info_loop :: "string \<Rightarrow> string \<Rightarrow> Decoder \<Rightarrow> string \<times> string \<times> bool" where
  "info_loop queryID state d =
     (if dec_more d then
        (case info_step queryID state d of
           Inl result \<Rightarrow> result
         | Inr (queryID, state, d) \<Rightarrow>
             if queryID \<noteq> '''' \<and> state \<noteq> '''' then (queryID, state, False) else info_loop queryID state d)
      else (queryID, state, False))"
  by pat_completeness auto
termination
  by (relation "measure (length \<circ> dc_in \<circ> snd \<circ> snd)") (auto dest!: info_step_rest)

declare info_loop.simps [simp del]

definition extractQueryInfoFromJSONPrefix :: "string \<Rightarrow> string \<times> string \<times> bool" where
  "extractQueryInfoFromJSONPrefix prefix =
     (case dec_token (NewDecoder prefix) of
        (Some (TDelim c), d) \<Rightarrow> if c = CHR ''{'' then info_loop '''' '''' d else ('''', '''', True)
      | _ \<Rightarrow> ('''', '''', True))"

definition sniffSize :: nat where
  "sniffSize = 64 * 1024"

text \<open>The ID and state, and the body the client still gets.\<close>

definition extractQueryInfoFromResponse :: "string \<times> bool \<Rightarrow> (string \<times> string) \<times> (string \<times> bool)" where
  "extractQueryInfoFromResponse body =
     (case body of (bytes, fails) \<Rightarrow>
        if length bytes < sniffSize \<and> fails then (('''', ''''), ([], fails))
        else case extractQueryInfoFromJSONPrefix (take sniffSize bytes) of
               (queryID, state, err) \<Rightarrow> ((queryID, state), (bytes, fails)))"

definition extractQueryIdFromResponse :: "string \<times> bool \<Rightarrow> string \<times> (string \<times> bool)" where
  "extractQueryIdFromResponse body =
     (case extractQueryInfoFromResponse body of ((queryID, state), body) \<Rightarrow> (queryID, body))"

section \<open>Extraction from printed documents\<close>

lemma skip_of_value:
  "dec_value n d = Some (v, d') \<Longrightarrow> skipJSONValue n d = Some (True, d')"
  "dec_fields n d = Some (fs, d') \<Longrightarrow> skip_fields n d = Some (True, d')"
  "dec_elems n d = Some (vs, d') \<Longrightarrow> skip_elems n d = Some (True, d')"
proof (induction n arbitrary: d v fs vs d')
  case (Suc n)
  {
    case 1
    then show ?case
      by (auto split: prod.splits option.splits token.splits if_splits dest!: Suc.IH(2,3))
  next
    case 2
    then show ?case
      by (auto split: prod.splits option.splits token.splits if_splits dest!: Suc.IH(1,2))
  next
    case 3
    then show ?case by (auto split: prod.splits option.splits if_splits dest!: Suc.IH(1,3))
  }
qed simp_all

text \<open>The rest of an object whose fields \<open>fs\<close> are still to be read.\<close>

definition rest_text :: "token_state \<Rightarrow> (string \<times> jvalue) list \<Rightarrow> string \<Rightarrow> string" where
  "rest_text st fs r = (if fs = [] then [] else sep st @ json_fields fs) @ CHR ''}'' # r"

lemma rest_text_Cons:
  "rest_text st ((k, v) # fs) r = sep st @ json_string k @ CHR '':'' # json_text v @ rest_text TokenObjectComma fs r"
  by (cases fs) (auto simp: rest_text_def)

lemma rest_delimited: "delimited (rest_text TokenObjectComma fs r)"
  by (auto simp: delimited_def rest_text_def)

lemma rest_more:
  "st \<in> {TokenObjectStart, TokenObjectComma} \<Longrightarrow> dec_more (dec (rest_text st fs r) st sk) \<longleftrightarrow> fs \<noteq> []"
proof (cases fs)
  case (Cons f fs')
  then show "st \<in> {TokenObjectStart, TokenObjectComma} \<Longrightarrow> ?thesis"
    by (cases f) (auto simp: rest_text_Cons dec_more_def json_string_def json_space_def)
qed (auto simp: rest_text_def dec_more_def json_space_def)

lemma rest_key:
  assumes "ascii k" "st \<in> {TokenObjectStart, TokenObjectComma}"
  shows "dec_token (dec (rest_text st ((k, v) # fs) r) st sk)
    = (Some (TStr k), dec (CHR '':'' # json_text v @ rest_text TokenObjectComma fs r) TokenObjectColon sk)"
  using assms(2) unfolding rest_text_Cons by (auto simp: dec_token_sep intro!: dec_token_key assms(1))

lemma rest_string:
  assumes "ascii s"
  shows "dec_token (dec (CHR '':'' # json_text (VStr s) @ rest_text TokenObjectComma fs r) TokenObjectColon sk)
    = (Some (TStr s), dec (rest_text TokenObjectComma fs r) TokenObjectComma sk)"
  using dec_token_scalar [of "json_string s @ rest_text TokenObjectComma fs r" "TStr s" _ TokenObjectValue sk]
    scan_string [OF assms]
  by (simp add: dec_token_colon json_string_def json_space_def value_allowed_def)

lemma rest_skip:
  assumes "plain v"
  shows "skip_value (dec (CHR '':'' # json_text v @ rest_text TokenObjectComma fs r) TokenObjectColon sk)
    = (True, dec (rest_text TokenObjectComma fs r) TokenObjectComma sk)"
proof -
  let ?r = "rest_text TokenObjectComma fs r"
  let ?n = "Suc (2 * length (CHR '':'' # json_text v @ ?r))"
  have "dec_value ?n (dec (CHR '':'' # json_text v @ ?r) TokenObjectColon sk) = Some (v, dec ?r TokenObjectComma sk)"
    using dec_value_print [OF assms, of TokenObjectColon ?r ?n sk]
    by (simp add: value_allowed_def rest_delimited del: dec_value.simps)
  from skip_of_value(1) [OF this] show ?thesis
    by (simp add: skip_value_def del: skipJSONValue.simps)
qed

lemma stats_loop_print:
  assumes "plain (VObj ss)" "\<forall>(k, v) \<in> set ss. k = ''state'' \<longrightarrow> v = VStr x" "st \<in> {TokenObjectStart, TokenObjectComma}"
    and "state = x \<or> ''state'' \<in> fst ` set ss"
  shows "stats_loop state (dec (rest_text st ss r) st (st' # sk)) = ((x, False), dec r (value_end st') sk)"
  using assms
proof (induction ss arbitrary: state st)
  case Nil
  then have "\<not> dec_more (dec (rest_text st [] r) st (st' # sk))" by (simp add: rest_more)
  moreover have "dec_token (dec (rest_text st [] r) st (st' # sk)) = (Some (TDelim CHR ''}''), dec r (value_end st') sk)"
    using Nil.prems(3) dec_token_close(1) by (simp add: rest_text_def)
  ultimately show ?case using Nil.prems(4) by (subst stats_loop.simps) simp
next
  case (Cons f ss)
  obtain k v where f: "f = (k, v)" by force
  have k: "ascii k" "plain v" and ss: "plain (VObj ss)" "\<forall>(k, v) \<in> set ss. k = ''state'' \<longrightarrow> v = VStr x"
    using Cons.prems(1,2) by (auto simp: f)
  have more: "dec_more (dec (rest_text st (f # ss) r) st (st' # sk))" using rest_more [OF Cons.prems(3)] by simp
  show ?case
  proof (cases "k = ''state''")
    case True
    then have v: "v = VStr x" using Cons.prems(2) f by auto
    then have "stats_step state (dec (rest_text st (f # ss) r) st (st' # sk))
        = Inr (x, dec (rest_text TokenObjectComma ss r) TokenObjectComma (st' # sk))"
      using True k rest_string [of x ss r "st' # sk"]
      by (simp add: stats_step_def f rest_key [OF _ Cons.prems(3)])
    then show ?thesis using more Cons.IH [OF ss, of TokenObjectComma x] by (subst stats_loop.simps) simp
  next
    case False
    then have "stats_step state (dec (rest_text st (f # ss) r) st (st' # sk))
        = Inr (state, dec (rest_text TokenObjectComma ss r) TokenObjectComma (st' # sk))"
      by (simp add: stats_step_def f rest_key [OF k(1) Cons.prems(3)] rest_skip [OF k(2)])
    moreover have "state = x \<or> ''state'' \<in> fst ` set ss" using Cons.prems(4) False f by auto
    ultimately show ?thesis using more Cons.IH [OF ss, of TokenObjectComma state] by (subst stats_loop.simps) simp
  qed
qed

lemma extractStatsState_print:
  assumes "plain (VObj ss)" "\<forall>(k, v) \<in> set ss. k = ''state'' \<longrightarrow> v = VStr x" "''state'' \<in> fst ` set ss"
  shows "extractStatsState (dec (CHR '':'' # json_text (VObj ss) @ rest_text TokenObjectComma fs r) TokenObjectColon sk)
    = ((x, False), dec (rest_text TokenObjectComma fs r) TokenObjectComma sk)"
proof -
  have "dec_token (dec (CHR '':'' # json_text (VObj ss) @ rest_text TokenObjectComma fs r) TokenObjectColon sk)
      = (Some (TDelim CHR ''{''),
         dec (rest_text TokenObjectStart ss (rest_text TokenObjectComma fs r)) TokenObjectStart (TokenObjectValue # sk))"
    by (cases ss) (simp_all add: dec_token_colon dec_token_open value_allowed_def rest_text_def)
  then show ?thesis
    using stats_loop_print [OF assms(1,2), of TokenObjectStart "''''" "rest_text TokenObjectComma fs r" TokenObjectValue sk] assms(3)
    by (simp add: extractStatsState_def)
qed

lemma info_loop_print:
  assumes "plain (VObj fs)" "st \<in> {TokenObjectStart, TokenObjectComma}"
    and "\<forall>(k, v) \<in> set fs. (k = ''id'' \<longrightarrow> v = VStr i) \<and> k \<noteq> ''state''
      \<and> (k = ''stats'' \<longrightarrow> (\<exists>ss. v = VObj ss \<and> ''state'' \<in> fst ` set ss \<and> (\<forall>(k, v) \<in> set ss. k = ''state'' \<longrightarrow> v = VStr x)))"
    and "i \<noteq> ''''" "x \<noteq> ''''" "q = i \<and> s = '''' \<or> q = '''' \<and> s = x \<or> q = '''' \<and> s = ''''"
    and "q = '''' \<longrightarrow> ''id'' \<in> fst ` set fs" "s = '''' \<longrightarrow> ''stats'' \<in> fst ` set fs"
  shows "info_loop q s (dec (rest_text st fs r) st sk) = (i, x, False)"
  using assms
proof (induction fs arbitrary: q s st)
  case (Cons f fs)
  obtain k v where f: "f = (k, v)" by force
  let ?d = "dec (rest_text TokenObjectComma fs r) TokenObjectComma sk"
  have k: "ascii k" "plain v" and fs: "plain (VObj fs)" using Cons.prems(1) by (auto simp: f)
  note key = rest_key [OF _ Cons.prems(2)]
  have more: "dec_more (dec (rest_text st (f # fs) r) st sk)" using rest_more [OF Cons.prems(2)] by simp
  define q' where "q' = (if k = ''id'' then i else q)"
  define s' where "s' = (if k = ''stats'' then x else s)"
  have "info_step q s (dec (rest_text st (f # fs) r) st sk) = Inr (q', s', ?d)"
  proof -
    consider "k = ''id''" | "k = ''stats''" | "k \<noteq> ''id''" "k \<noteq> ''stats''" "k \<noteq> ''state''"
      using Cons.prems(3) f by auto
    then show ?thesis
    proof cases
      case 1
      then have "v = VStr i" using Cons.prems(3) f by auto
      then show ?thesis using 1 k rest_string [of i fs r sk] by (simp add: info_step_def f key q'_def s'_def)
    next
      case 2
      then obtain ss where ss: "v = VObj ss" "''state'' \<in> fst ` set ss" "\<forall>(k, v) \<in> set ss. k = ''state'' \<longrightarrow> v = VStr x"
        using Cons.prems(3) f by auto
      show ?thesis
        using 2 k ss(1) extractStatsState_print [OF _ ss(3,2), of fs r sk] Cons.prems(5)
        by (simp add: info_step_def f key q'_def s'_def)
    next
      case 3
      then show ?thesis using k by (simp add: info_step_def f key rest_skip q'_def s'_def)
    qed
  qed
  moreover have "info_loop q' s' ?d = (i, x, False)" if "\<not> (q' \<noteq> '''' \<and> s' \<noteq> '''')"
    using Cons.prems that by (intro Cons.IH fs) (auto simp: q'_def s'_def f split: if_splits)
  moreover have "q' = i \<and> s' = x" if "q' \<noteq> '''' \<and> s' \<noteq> ''''"
    using Cons.prems(6) that by (auto simp: q'_def s'_def split: if_splits)
  ultimately show ?case using more by (subst info_loop.simps) auto
qed auto


definition demo_response :: "(string \<times> jvalue) list" where
  "demo_response =
     [(''id'', VStr ''20250115_123456_00001_abc12''), (''columns'', VArr [VObj [(''name'', VStr ''a<b'')], VNum ''-1.5'']),
      (''stats'', VObj [(''nodes'', VNum ''3''), (''state'', VStr ''RUNNING''), (''queued'', VBool False)])]"


text \<open>C40. Skipping a value ends on every input: fuel beyond twice the length of the unread text is enough
  for \<open>skipJSONValue\<close> to return, whatever the text and the state of the decoder, and a value it
  skips without error consumes text.\<close>

theorem skip_terminates:
  assumes "2 * length (dc_in d) < n"
  shows "\<exists>ok d'. skipJSONValue n d = Some (ok, d') \<and> length (dc_in d') \<le> length (dc_in d)
    \<and> (ok \<longrightarrow> length (dc_in d') < length (dc_in d))"
proof -
  obtain ok d' where "skipJSONValue n d = Some (ok, d')" using skip_enough(1) [OF assms] by auto
  then show ?thesis using skip_le(1) [of n d ok d'] skip_rest(1) [of n d d'] by (cases ok) auto
qed

theorem skip_terminates_witness:
  "\<exists>ok d'. skipJSONValue 21 (NewDecoder ''[1,{[}]x'') = Some (ok, d') \<and> length (dc_in d') \<le> 8"
  using skip_terminates [of "NewDecoder ''[1,{[}]x''" 21] by (auto simp: NewDecoder_def simp del: skipJSONValue.simps)

end
