(* ===== verification/ConnErrors.thy ===== *)
theory ConnErrors
  imports Prelude
begin

text \<open>
  Classification of proxy errors (\<open>pkg/gateway/connection_errors.go\<close>). A Go error value is a
  chain: every node carries its text (\<open>Error()\<close>) and, where it wraps one, the inner error;
  \<open>errors.As\<close> finds the outermost node of a type in the chain.
\<close>

datatype go_error =
    UrlError string go_error
  | DNSError string
  | OpError string string bool "go_error option"
  | WrapError string go_error
  | PlainError string

text \<open>\<open>OpError text op timeout inner\<close>: \<open>op\<close> is the field \<open>Op\<close>, \<open>timeout\<close> the result of \<open>Timeout()\<close>.\<close>

fun error_text :: "go_error \<Rightarrow> string" where
  "error_text (UrlError m _) = m"
| "error_text (DNSError m) = m"
| "error_text (OpError m _ _ _) = m"
| "error_text (WrapError m _) = m"
| "error_text (PlainError m) = m"

fun as_url_error :: "go_error \<Rightarrow> go_error option" where
  "as_url_error (UrlError _ e) = Some e"
| "as_url_error (OpError _ _ _ (Some e)) = as_url_error e"
| "as_url_error (WrapError _ e) = as_url_error e"
| "as_url_error _ = None"

fun as_dns_error :: "go_error \<Rightarrow> bool" where
  "as_dns_error (DNSError _) = True"
| "as_dns_error (UrlError _ e) = as_dns_error e"
| "as_dns_error (OpError _ _ _ (Some e)) = as_dns_error e"
| "as_dns_error (WrapError _ e) = as_dns_error e"
| "as_dns_error _ = False"

fun as_op_error :: "go_error \<Rightarrow> (string \<times> bool \<times> go_error option) option" where
  "as_op_error (OpError _ op timeout inner) = Some (op, timeout, inner)"
| "as_op_error (UrlError _ e) = as_op_error e"
| "as_op_error (WrapError _ e) = as_op_error e"
| "as_op_error _ = None"

lemma as_url_error_size: "as_url_error e = Some i \<Longrightarrow> size i < size e"
  by (induction e rule: as_url_error.induct) auto

definition str_contains_lower :: "string \<Rightarrow> string \<Rightarrow> bool" where
  "str_contains_lower s p = str_contains (to_lower s) p"

function isConnectionError :: "go_error \<Rightarrow> bool" where
  "isConnectionError err =
     (case as_url_error err of
        Some inner \<Rightarrow> isConnectionError inner
      | None \<Rightarrow>
          if as_dns_error err then True
          else case as_op_error err of
            Some (op, timeout, inner) \<Rightarrow>
              (if timeout then op = ''dial''
               else case inner of
                 Some e \<Rightarrow>
                   (if str_contains (error_text e) ''connection refused'' then True
                    else str_contains (error_text e) ''connection reset'' \<and> op = ''dial'')
               | None \<Rightarrow> False)
          | None \<Rightarrow>
              str_contains_lower (error_text err) ''no such host''
              \<or> str_contains_lower (error_text err) ''connection refused''
              \<or> (str_contains_lower (error_text err) ''dial tcp''
                 \<and> str_contains_lower (error_text err) ''i/o timeout''))"
  by pat_completeness auto
termination
  by (relation "measure size") (auto simp: as_url_error_size)

declare isConnectionError.simps [simp del]

datatype ErrorType = ErrorTypePaused | ErrorTypeOverload | ErrorTypeOther

definition classifyError :: "go_error option \<Rightarrow> int \<Rightarrow> ErrorType" where
  "classifyError err statusCode =
     (if (case err of Some e \<Rightarrow> isConnectionError e | None \<Rightarrow> False) then ErrorTypePaused
      else if statusCode \<noteq> 503 then ErrorTypeOther
      else case err of
        None \<Rightarrow> ErrorTypeOverload
      | Some e \<Rightarrow>
          (if str_contains_lower (error_text e) ''too many queries''
              \<or> str_contains_lower (error_text e) ''server overloaded''
              \<or> str_contains_lower (error_text e) ''queue full'' then ErrorTypeOverload
           else if str_contains_lower (error_text e) ''connection refused'' then ErrorTypePaused
           else ErrorTypeOverload))"

text \<open>A DNS failure counts as a connection error however deeply it is wrapped.\<close>

lemma as_dns_inner: "as_url_error e = Some i \<Longrightarrow> as_dns_error i = as_dns_error e"
  by (induction e rule: as_url_error.induct) auto

lemma dns_is_connection_error: "as_dns_error e \<Longrightarrow> isConnectionError e"
proof (induction e rule: isConnectionError.induct)
  case (1 err)
  then show ?case
    by (subst isConnectionError.simps) (auto simp: as_dns_inner split: option.splits)
qed

text \<open>A timeout of an established connection (any operation but a dial) is not one.\<close>

lemma read_timeout_not_connection_error:
  "op \<noteq> ''dial'' \<Longrightarrow> \<not> isConnectionError (OpError m op True (Some (PlainError p)))"
  by (simp add: isConnectionError.simps)

lemma url_error_transparent [simp]: "isConnectionError (UrlError m e) = isConnectionError e"
  by (simp add: isConnectionError.simps [of "UrlError m e"])

end
