(* ===== verification/Health.thy ===== *)
theory Health
  imports ConnErrors "HOL-Library.Multiset"
begin

text \<open>
  The active health checker (\<open>pkg/gateway/health.go\<close>): the status map, the three recording
  operations, the reset after a route reload, the queries, and a round of concurrent checks. The
  answer of a backend's \<open>/v1/info\<close> is a parameter: building the URL or the request can fail, the
  request can fail, or a status code comes back.
\<close>

datatype HealthState =
  HealthStateUnknown | HealthStateHealthy | HealthStateUnhealthy | HealthStateSleeping

record BackendHealth =
  bh_URL :: string
  bh_State :: HealthState
  bh_LastCheck :: time
  bh_LastSuccess :: time
  bh_LastError :: string
  bh_LastStatus :: int
  bh_ConsecutiveFailures :: int

record BackendHealthChecker =
  hc_healthStatus :: "(string \<times> BackendHealth) list"
  hc_interval :: duration
  hc_timeout :: duration
  hc_failureThreshold :: int
  hc_maxConcurrent :: int
  hc_staleThreshold :: duration

definition NewBackendHealthChecker :: "duration \<Rightarrow> duration \<Rightarrow> int \<Rightarrow> BackendHealthChecker" where
  "NewBackendHealthChecker interval timeout failureThreshold =
     \<lparr> hc_healthStatus = [], hc_interval = interval, hc_timeout = timeout,
       hc_failureThreshold = failureThreshold, hc_maxConcurrent = 20,
       hc_staleThreshold = i64 (interval * 3) \<rparr>"

definition new_health :: "string \<Rightarrow> HealthState \<Rightarrow> BackendHealth" where
  "new_health url st =
     \<lparr> bh_URL = url, bh_State = st, bh_LastCheck = zero_time, bh_LastSuccess = zero_time,
       bh_LastError = '''', bh_LastStatus = 0, bh_ConsecutiveFailures = 0 \<rparr>"

definition hc_put :: "string \<Rightarrow> BackendHealth \<Rightarrow> BackendHealthChecker \<Rightarrow> BackendHealthChecker" where
  "hc_put url h hc = hc\<lparr>hc_healthStatus := AList.update url h (hc_healthStatus hc)\<rparr>"

definition hc_recordSuccess :: "time \<Rightarrow> string \<Rightarrow> BackendHealthChecker \<Rightarrow> BackendHealthChecker" where
  "hc_recordSuccess now backendURL hc =
     (let health = (case map_of (hc_healthStatus hc) backendURL of
                      Some h \<Rightarrow> h | None \<Rightarrow> new_health backendURL HealthStateHealthy);
          health = health\<lparr>bh_LastCheck := now, bh_LastSuccess := now, bh_ConsecutiveFailures := 0,
                          bh_LastError := '''', bh_LastStatus := 200\<rparr>;
          health = (if bh_State health \<noteq> HealthStateHealthy
                    then health\<lparr>bh_State := HealthStateHealthy\<rparr> else health)
      in hc_put backendURL health hc)"

definition hc_recordFailure ::
    "time \<Rightarrow> string \<Rightarrow> int \<Rightarrow> string \<Rightarrow> BackendHealthChecker \<Rightarrow> BackendHealthChecker" where
  "hc_recordFailure now backendURL statusCode errMsg hc =
     (let health = (case map_of (hc_healthStatus hc) backendURL of
                      Some h \<Rightarrow> h | None \<Rightarrow> new_health backendURL HealthStateUnknown);
          health = health\<lparr>bh_LastCheck := now,
                          bh_ConsecutiveFailures := bh_ConsecutiveFailures health + 1,
                          bh_LastError := errMsg, bh_LastStatus := statusCode\<rparr>;
          health = (if bh_ConsecutiveFailures health \<ge> hc_failureThreshold hc
                    then (if bh_State health \<noteq> HealthStateUnhealthy
                          then health\<lparr>bh_State := HealthStateUnhealthy\<rparr> else health)
                    else health)
      in hc_put backendURL health hc)"

definition hc_recordSleeping :: "time \<Rightarrow> string \<Rightarrow> string \<Rightarrow> BackendHealthChecker \<Rightarrow> BackendHealthChecker" where
  "hc_recordSleeping now backendURL errMsg hc =
     (let health = (case map_of (hc_healthStatus hc) backendURL of
                      Some h \<Rightarrow> h | None \<Rightarrow> new_health backendURL HealthStateSleeping);
          health = health\<lparr>bh_LastCheck := now,
                          bh_ConsecutiveFailures := bh_ConsecutiveFailures health + 1,
                          bh_LastError := errMsg, bh_LastStatus := 0\<rparr>;
          health = (if bh_State health \<noteq> HealthStateSleeping
                    then health\<lparr>bh_State := HealthStateSleeping\<rparr> else health)
      in hc_put backendURL health hc)"

fun resetSleeping :: "string list \<Rightarrow> BackendHealthChecker \<Rightarrow> BackendHealthChecker" where
  "resetSleeping [] hc = hc"
| "resetSleeping (backendURL # urls) hc =
     (case map_of (hc_healthStatus hc) backendURL of
        None \<Rightarrow> resetSleeping urls hc
      | Some health \<Rightarrow>
          if bh_State health \<noteq> HealthStateSleeping then resetSleeping urls hc
          else resetSleeping urls
                 (hc_put backendURL
                    (health\<lparr>bh_State := HealthStateUnknown, bh_ConsecutiveFailures := 0,
                            bh_LastError := '''', bh_LastStatus := 0\<rparr>) hc))"

definition IsHealthy :: "time \<Rightarrow> BackendHealthChecker \<Rightarrow> string \<Rightarrow> bool" where
  "IsHealthy now hc backendURL =
     (case map_of (hc_healthStatus hc) backendURL of
        None \<Rightarrow> True
      | Some health \<Rightarrow>
          if time_sub now (bh_LastCheck health) > hc_staleThreshold hc then True
          else bh_State health = HealthStateHealthy \<or> bh_State health = HealthStateUnknown)"

definition IsSleeping :: "time \<Rightarrow> BackendHealthChecker \<Rightarrow> string \<Rightarrow> bool" where
  "IsSleeping now hc backendURL =
     (case map_of (hc_healthStatus hc) backendURL of
        None \<Rightarrow> False
      | Some health \<Rightarrow>
          if time_sub now (bh_LastCheck health) > hc_staleThreshold hc then False
          else bh_State health = HealthStateSleeping)"

definition hc_GetState :: "time \<Rightarrow> BackendHealthChecker \<Rightarrow> string \<Rightarrow> HealthState" where
  "hc_GetState now hc backendURL =
     (case map_of (hc_healthStatus hc) backendURL of
        None \<Rightarrow> HealthStateUnknown
      | Some health \<Rightarrow>
          if time_sub now (bh_LastCheck health) > hc_staleThreshold hc then HealthStateUnknown
          else bh_State health)"

definition GetHealthStatus :: "BackendHealthChecker \<Rightarrow> string \<Rightarrow> BackendHealth" where
  "GetHealthStatus hc backendURL =
     (case map_of (hc_healthStatus hc) backendURL of
        None \<Rightarrow> new_health backendURL HealthStateUnknown
      | Some health \<Rightarrow> health)"

section \<open>Probing\<close>

datatype probe_result = ProbeBadURL string | ProbeError go_error | ProbeStatus int

definition probeBackend ::
    "(string \<Rightarrow> probe_result) \<Rightarrow> time \<Rightarrow> string \<Rightarrow> BackendHealthChecker \<Rightarrow> bool \<times> BackendHealthChecker" where
  "probeBackend get now backendURL hc =
     (case get backendURL of
        ProbeBadURL msg \<Rightarrow> (False, hc_recordFailure now backendURL 0 msg hc)
      | ProbeError err \<Rightarrow>
          (if isConnectionError err
           then (False, hc_recordSleeping now backendURL (error_text err) hc)
           else (False, hc_recordFailure now backendURL 0 (error_text err) hc))
      | ProbeStatus code \<Rightarrow>
          (if code \<ge> 200 \<and> code < 300 then (True, hc_recordSuccess now backendURL hc)
           else (False, hc_recordFailure now backendURL code ''non-2xx status'' hc)))"

definition checkBackend ::
    "(string \<Rightarrow> probe_result) \<Rightarrow> time \<Rightarrow> string \<Rightarrow> BackendHealthChecker \<Rightarrow> BackendHealthChecker" where
  "checkBackend get now backendURL hc = snd (probeBackend get now backendURL hc)"

text \<open>
  One round of checks: the goroutines record their results in some order; the list gives that
  order, \<open>clock u\<close> the time at which the check of \<open>u\<close> records.
\<close>

fun checkAllBackends ::
    "(string \<Rightarrow> probe_result) \<Rightarrow> (string \<Rightarrow> time) \<Rightarrow> string list \<Rightarrow> BackendHealthChecker \<Rightarrow> BackendHealthChecker" where
  "checkAllBackends get clock [] hc = hc"
| "checkAllBackends get clock (u # us) hc =
     checkAllBackends get clock us (checkBackend get (clock u) u hc)"

section \<open>Checks of one round do not interfere\<close>

text \<open>The entry a check leaves depends only on the entry of the same backend.\<close>

definition check_entry ::
    "(string \<Rightarrow> probe_result) \<Rightarrow> time \<Rightarrow> int \<Rightarrow> string \<Rightarrow> BackendHealth option \<Rightarrow> BackendHealth" where
  "check_entry get now threshold u e =
     (let fail = (\<lambda>code msg.
            let h = (case e of Some h \<Rightarrow> h | None \<Rightarrow> new_health u HealthStateUnknown);
                n = bh_ConsecutiveFailures h + 1
            in h\<lparr>bh_LastCheck := now, bh_ConsecutiveFailures := n, bh_LastError := msg, bh_LastStatus := code,
                 bh_State := (if threshold \<le> n then HealthStateUnhealthy else bh_State h)\<rparr>)
      in case get u of
           ProbeBadURL msg \<Rightarrow> fail 0 msg
         | ProbeError err \<Rightarrow>
             (if isConnectionError err then
                let h = (case e of Some h \<Rightarrow> h | None \<Rightarrow> new_health u HealthStateSleeping)
                in h\<lparr>bh_LastCheck := now, bh_ConsecutiveFailures := bh_ConsecutiveFailures h + 1,
                     bh_LastError := error_text err, bh_LastStatus := 0, bh_State := HealthStateSleeping\<rparr>
              else fail 0 (error_text err))
         | ProbeStatus code \<Rightarrow>
             (if 200 \<le> code \<and> code < 300 then
                let h = (case e of Some h \<Rightarrow> h | None \<Rightarrow> new_health u HealthStateHealthy)
                in h\<lparr>bh_LastCheck := now, bh_LastSuccess := now, bh_ConsecutiveFailures := 0,
                     bh_LastError := '''', bh_LastStatus := 200, bh_State := HealthStateHealthy\<rparr>
              else fail code ''non-2xx status''))"

lemmas record_defs = hc_recordSuccess_def hc_recordFailure_def hc_recordSleeping_def

lemma record_config [simp]:
  "hc_failureThreshold (hc_put u h hc) = hc_failureThreshold hc"
  "hc_staleThreshold (hc_put u h hc) = hc_staleThreshold hc"
  by (simp_all add: hc_put_def)

lemma hc_put_lookup [simp]:
  "map_of (hc_healthStatus (hc_put u h hc)) = (map_of (hc_healthStatus hc))(u \<mapsto> h)"
  by (simp add: hc_put_def)

lemma checkBackend_entry:
  "checkBackend get now u hc =
     hc_put u (check_entry get now (hc_failureThreshold hc) u (map_of (hc_healthStatus hc) u)) hc"
  by (auto simp: checkBackend_def probeBackend_def check_entry_def record_defs Let_def new_health_def
      intro!: arg_cong [where f = "\<lambda>h. hc_put u h hc"] BackendHealth.equality
      split: probe_result.splits option.splits)

lemma checkAll_lookup:
  "distinct us \<Longrightarrow> map_of (hc_healthStatus (checkAllBackends get clock us hc)) v =
     (if v \<in> set us
      then Some (check_entry get (clock v) (hc_failureThreshold hc) v (map_of (hc_healthStatus hc) v))
      else map_of (hc_healthStatus hc) v)"
  by (induction us arbitrary: hc) (auto simp: checkBackend_entry)

text \<open>The goroutines of one round of health checks do not interfere: whatever order they record
  their results in, the status map ends up the same.\<close>

lemma health_round_order_irrelevant:
  assumes "distinct us" and "mset us = mset vs"
  shows "map_of (hc_healthStatus (checkAllBackends get clock us hc))
       = map_of (hc_healthStatus (checkAllBackends get clock vs hc))"
proof -
  have "distinct vs" "set us = set vs"
    using assms by (metis mset_eq_imp_distinct_iff, metis mset_eq_setD)
  then show ?thesis
    using assms(1) by (intro ext) (simp add: checkAll_lookup)
qed

section \<open>Invariant of the status map\<close>

inductive hc_reach :: "int \<Rightarrow> BackendHealthChecker \<Rightarrow> bool" for threshold where
  hc_new: "hc_reach threshold (NewBackendHealthChecker interval timeout threshold)"
| hc_success: "hc_reach threshold hc \<Longrightarrow> hc_reach threshold (hc_recordSuccess now u hc)"
| hc_failure: "hc_reach threshold hc \<Longrightarrow> hc_reach threshold (hc_recordFailure now u code msg hc)"
| hc_sleeping: "hc_reach threshold hc \<Longrightarrow> hc_reach threshold (hc_recordSleeping now u msg hc)"
| hc_reset: "hc_reach threshold hc \<Longrightarrow> hc_reach threshold (resetSleeping us hc)"

definition bh_inv :: "int \<Rightarrow> string \<Rightarrow> BackendHealth \<Rightarrow> bool" where
  "bh_inv threshold u h \<longleftrightarrow> bh_URL h = u \<and> 0 \<le> bh_ConsecutiveFailures h
     \<and> (bh_State h = HealthStateHealthy \<or> bh_State h = HealthStateUnknown \<longrightarrow> bh_ConsecutiveFailures h < threshold)
     \<and> (bh_State h = HealthStateUnhealthy \<longrightarrow> threshold \<le> bh_ConsecutiveFailures h)
     \<and> (bh_State h = HealthStateSleeping \<longrightarrow> 1 \<le> bh_ConsecutiveFailures h)"

definition hc_inv :: "int \<Rightarrow> BackendHealthChecker \<Rightarrow> bool" where
  "hc_inv threshold hc \<longleftrightarrow> hc_failureThreshold hc = threshold
     \<and> (\<forall>u h. map_of (hc_healthStatus hc) u = Some h \<longrightarrow> bh_inv threshold u h)"

lemma hc_inv_put: "hc_inv threshold hc \<Longrightarrow> bh_inv threshold u h \<Longrightarrow> hc_inv threshold (hc_put u h hc)"
  by (simp add: hc_inv_def)

lemma hc_inv_reset: "1 \<le> threshold \<Longrightarrow> hc_inv threshold hc \<Longrightarrow> hc_inv threshold (resetSleeping us hc)"
proof (induction us hc rule: resetSleeping.induct)
  case (2 u us hc)
  show ?case
  proof (cases "map_of (hc_healthStatus hc) u")
    case None
    then show ?thesis using 2 by simp
  next
    case (Some h)
    have "hc_inv threshold (hc_put u (h\<lparr>bh_State := HealthStateUnknown, bh_ConsecutiveFailures := 0,
        bh_LastError := '''', bh_LastStatus := 0\<rparr>) hc)"
      using "2.prems" Some by (intro hc_inv_put) (auto simp: bh_inv_def hc_inv_def)
    then show ?thesis using 2 Some by simp
  qed
qed simp

lemma hc_reach_inv:
  assumes "1 \<le> threshold" shows "hc_reach threshold hc \<Longrightarrow> hc_inv threshold hc"
proof (induction rule: hc_reach.induct)
  case (hc_new interval timeout)
  then show ?case by (simp add: hc_inv_def NewBackendHealthChecker_def)
next
  case (hc_success hc now u)
  then show ?case
    using assms unfolding hc_recordSuccess_def Let_def
    by (intro hc_inv_put) (auto simp: bh_inv_def hc_inv_def new_health_def split: option.splits)
next
  case (hc_failure hc now u code msg)
  then show ?case
    using assms unfolding hc_recordFailure_def Let_def
    by (intro hc_inv_put) (force simp: bh_inv_def hc_inv_def new_health_def split: option.splits)+
next
  case (hc_sleeping hc now u msg)
  then show ?case
    using assms unfolding hc_recordSleeping_def Let_def
    by (intro hc_inv_put) (force simp: bh_inv_def hc_inv_def new_health_def split: option.splits)+
next
  case (hc_reset hc us)
  then show ?case using assms by (simp add: hc_inv_reset)
qed



end
