(* ===== verification/QueryActivity.thy ===== *)
theory QueryActivity
  imports Prelude
begin

text \<open>
  Trino query states (\<open>internal/trino/querystate\<close>) and the tracker of recently seen queries
  (\<open>pkg/gateway/query_activity.go\<close>), whose per-backend loads feed backend selection. The
  exported gauge vector is a field of the state: its value for each label tuple.
\<close>

section \<open>Query states\<close>

definition qs_Normalize :: "string \<Rightarrow> string" where
  "qs_Normalize state = (let state = to_upper (trim_space state) in if state = '''' then ''UNKNOWN'' else state)"

definition IsTerminal :: "string \<Rightarrow> bool" where
  "IsTerminal state \<longleftrightarrow> qs_Normalize state \<in> {''FINISHED'', ''FAILED'', ''CANCELED'', ''CANCELLED''}"

definition IsActive :: "string \<Rightarrow> bool" where
  "IsActive state \<longleftrightarrow> \<not> IsTerminal state"

section \<open>The tracker\<close>

record queryActivity =
  qa_namespace :: string
  qa_xtrinode :: string
  qa_routingGroup :: string
  qa_backendURL :: string
  qa_state :: string
  qa_lastSeen :: time

record BackendLoad =
  bl_RunningQueries :: int
  bl_QueuedQueries :: int
  bl_LastUpdate :: time

type_synonym gauge_labels = "string \<times> string \<times> string \<times> string"

record QueryActivityTracker =
  qt_queries :: "(string \<times> queryActivity) list"
  qt_ttl :: duration
  qt_gauges :: "(gauge_labels \<times> int) list"

definition defaultQueryActivityTTL :: duration where
  "defaultQueryActivityTTL = 10 * minute"

definition NewQueryActivityTracker :: "duration \<Rightarrow> QueryActivityTracker" where
  "NewQueryActivityTracker ttl =
     \<lparr> qt_queries = [], qt_ttl = (if ttl \<le> 0 then defaultQueryActivityTTL else ttl), qt_gauges = [] \<rparr>"

definition gauge_key :: "queryActivity \<Rightarrow> gauge_labels" where
  "gauge_key a = (qa_namespace a, qa_xtrinode a, qa_routingGroup a, qa_state a)"

definition bump :: "'k \<Rightarrow> ('k \<times> int) list \<Rightarrow> ('k \<times> int) list" where
  "bump k m = AList.update k ((case map_of m k of Some n \<Rightarrow> n | None \<Rightarrow> 0) + 1) m"

definition recomputeGaugesLocked :: "QueryActivityTracker \<Rightarrow> QueryActivityTracker" where
  "recomputeGaugesLocked t =
     t\<lparr>qt_gauges := fold (\<lambda>(queryID, activity). bump (gauge_key activity)) (qt_queries t) []\<rparr>"

definition Observe ::
    "time \<Rightarrow> string \<Rightarrow> string \<Rightarrow> string \<Rightarrow> string \<Rightarrow> string \<Rightarrow> string \<Rightarrow> QueryActivityTracker \<Rightarrow> QueryActivityTracker" where
  "Observe now queryID namespace xtrinode routingGroup backendURL state t =
     (if queryID = '''' \<or> namespace = '''' \<or> xtrinode = '''' then t
      else
        let state = qs_Normalize state
        in if IsTerminal state then
             recomputeGaugesLocked (t\<lparr>qt_queries := AList.delete queryID (qt_queries t)\<rparr>)
           else
             recomputeGaugesLocked (t\<lparr>qt_queries := AList.update queryID
               \<lparr> qa_namespace = namespace, qa_xtrinode = xtrinode, qa_routingGroup = routingGroup,
                 qa_backendURL = backendURL, qa_state = state, qa_lastSeen = now \<rparr> (qt_queries t)\<rparr>))"

definition expired :: "time \<Rightarrow> duration \<Rightarrow> queryActivity \<Rightarrow> bool" where
  "expired now ttl a \<longleftrightarrow> time_sub now (qa_lastSeen a) > ttl"

definition zero_load :: BackendLoad where
  "zero_load = \<lparr> bl_RunningQueries = 0, bl_QueuedQueries = 0, bl_LastUpdate = zero_time \<rparr>"

text \<open>The loop of \<open>BackendLoads\<close>: queries left, the map as it shrinks, \<open>changed\<close>, the loads so far.\<close>

fun loads_loop ::
    "time \<Rightarrow> duration \<Rightarrow> (string \<times> queryActivity) list
      \<Rightarrow> (string \<times> queryActivity) list \<times> bool \<times> (string \<times> BackendLoad) list
      \<Rightarrow> (string \<times> queryActivity) list \<times> bool \<times> (string \<times> BackendLoad) list" where
  "loads_loop now ttl [] acc = acc"
| "loads_loop now ttl ((queryID, activity) # qs) (queries, changed, loads) =
     loads_loop now ttl qs
       (if time_sub now (qa_lastSeen activity) > ttl then (AList.delete queryID queries, True, loads)
        else if qa_backendURL activity = '''' then (queries, changed, loads)
        else
          let load = (case map_of loads (qa_backendURL activity) of Some l \<Rightarrow> l | None \<Rightarrow> zero_load);
              load = (if qa_state activity = ''QUEUED''
                      then load\<lparr>bl_QueuedQueries := bl_QueuedQueries load + 1\<rparr>
                      else load\<lparr>bl_RunningQueries := bl_RunningQueries load + 1\<rparr>);
              load = load\<lparr>bl_LastUpdate := now\<rparr>
          in (queries, changed, AList.update (qa_backendURL activity) load loads))"

definition BackendLoads ::
    "time \<Rightarrow> QueryActivityTracker \<Rightarrow> (string \<times> BackendLoad) list \<times> QueryActivityTracker" where
  "BackendLoads now t =
     (let (queries, changed, loads) = loads_loop now (qt_ttl t) (qt_queries t) (qt_queries t, False, []);
          t1 = t\<lparr>qt_queries := queries\<rparr>
      in (loads, if changed then recomputeGaugesLocked t1 else t1))"

fun expire_loop ::
    "time \<Rightarrow> duration \<Rightarrow> (string \<times> queryActivity) list \<Rightarrow> (string \<times> queryActivity) list \<times> bool
      \<Rightarrow> (string \<times> queryActivity) list \<times> bool" where
  "expire_loop now ttl [] acc = acc"
| "expire_loop now ttl ((queryID, activity) # qs) (queries, changed) =
     expire_loop now ttl qs
       (if time_sub now (qa_lastSeen activity) > ttl then (AList.delete queryID queries, True)
        else (queries, changed))"

definition CleanupExpired :: "time \<Rightarrow> QueryActivityTracker \<Rightarrow> QueryActivityTracker" where
  "CleanupExpired now t =
     (let (queries, changed) = expire_loop now (qt_ttl t) (qt_queries t) (qt_queries t, False);
          t1 = t\<lparr>qt_queries := queries\<rparr>
      in if changed then recomputeGaugesLocked t1 else t1)"

text \<open>The interval at which \<open>StartCleanup\<close> runs \<open>CleanupExpired\<close>.\<close>

definition cleanup_interval :: "QueryActivityTracker \<Rightarrow> duration" where
  "cleanup_interval t =
     (let interval = qt_ttl t sdiv 3 in if interval \<le> 0 \<or> interval > 5 * minute then 5 * minute else interval)"

section \<open>What the loops compute\<close>

lemma loads_loop_queries:
  assumes "distinct (map fst (pre @ qs))" and "\<forall>(k, a) \<in> set pre. \<not> expired now ttl a"
  shows "fst (loads_loop now ttl qs (pre @ qs, ch, loads)) = filter (\<lambda>(k, a). \<not> expired now ttl a) (pre @ qs)
    \<and> fst (snd (loads_loop now ttl qs (pre @ qs, ch, loads))) = (ch \<or> (\<exists>(k, a) \<in> set qs. expired now ttl a))"
  using assms
proof (induction qs arbitrary: pre ch loads)
  case (Cons q qs)
  obtain k a where q: "q = (k, a)" by force
  show ?case
  proof (cases "expired now ttl a")
    case True
    have "AList.delete k (pre @ q # qs) = pre @ qs"
      using Cons.prems(1) q by (auto simp: delete_append delete_absent)
    then show ?thesis
      using Cons.IH [of pre True loads] Cons.prems True q by (simp add: expired_def)
  next
    case False
    then show ?thesis
      using Cons.IH [of "pre @ [q]"] Cons.prems q by (simp add: expired_def Let_def)
  qed
qed (auto simp: filter_id_conv)

definition running_on :: "time \<Rightarrow> duration \<Rightarrow> string \<Rightarrow> (string \<times> queryActivity) list \<Rightarrow> int" where
  "running_on now ttl u qs =
     int (length (filter (\<lambda>(k, a). \<not> expired now ttl a \<and> qa_backendURL a = u \<and> qa_state a \<noteq> ''QUEUED'') qs))"

definition queued_on :: "time \<Rightarrow> duration \<Rightarrow> string \<Rightarrow> (string \<times> queryActivity) list \<Rightarrow> int" where
  "queued_on now ttl u qs =
     int (length (filter (\<lambda>(k, a). \<not> expired now ttl a \<and> qa_backendURL a = u \<and> qa_state a = ''QUEUED'') qs))"

definition load_of :: "(string \<times> BackendLoad) list \<Rightarrow> string \<Rightarrow> BackendLoad" where
  "load_of loads u = (case map_of loads u of Some l \<Rightarrow> l | None \<Rightarrow> zero_load)"

lemma load_of_update [simp]: "load_of (AList.update k v m) u = (if u = k then v else load_of m u)"
  by (simp add: load_of_def)

lemma loads_loop_loads:
  assumes "u \<noteq> ''''"
  shows "bl_RunningQueries (load_of (snd (snd (loads_loop now ttl qs (m, ch, loads)))) u)
           = bl_RunningQueries (load_of loads u) + running_on now ttl u qs
       \<and> bl_QueuedQueries (load_of (snd (snd (loads_loop now ttl qs (m, ch, loads)))) u)
           = bl_QueuedQueries (load_of loads u) + queued_on now ttl u qs"
proof (induction qs arbitrary: m ch loads)
  case Nil
  then show ?case by (simp add: running_on_def queued_on_def)
next
  case (Cons q qs)
  obtain k a where q: "q = (k, a)" by force
  show ?case
    using assms
    by (auto simp: q Cons.IH Let_def load_of_def [symmetric] expired_def [symmetric] running_on_def queued_on_def)
qed

lemma count_gauges:
  "(case map_of (fold (\<lambda>(k, a). bump (gauge_key a)) qs m) l of Some n \<Rightarrow> n | None \<Rightarrow> 0)
   = (case map_of m l of Some n \<Rightarrow> n | None \<Rightarrow> 0) + int (length (filter (\<lambda>(k, a). gauge_key a = l) qs))"
  by (induction qs arbitrary: m) (auto simp: bump_def)

lemma expire_loop_loads:
  "expire_loop now ttl qs (m, ch) =
     (fst (loads_loop now ttl qs (m, ch, ls)), fst (snd (loads_loop now ttl qs (m, ch, ls))))"
proof (induction qs arbitrary: m ch ls)
  case (Cons q qs)
  then show ?case by (cases q) (simp add: Let_def)
qed simp

lemma loops_result:
  assumes "distinct (map fst (qt_queries t))"
  shows "qt_queries (snd (BackendLoads now t)) = filter (\<lambda>(k, a). \<not> expired now (qt_ttl t) a) (qt_queries t)"
    and "CleanupExpired now t = snd (BackendLoads now t)"
proof -
  obtain q ch ls where l: "loads_loop now (qt_ttl t) (qt_queries t) (qt_queries t, False, []) = (q, ch, ls)"
    using prod_cases3 by blast
  show "qt_queries (snd (BackendLoads now t)) = filter (\<lambda>(k, a). \<not> expired now (qt_ttl t) a) (qt_queries t)"
    using loads_loop_queries [of "[]" "qt_queries t" now "qt_ttl t" False "[]"] assms
    by (simp add: BackendLoads_def recomputeGaugesLocked_def Let_def l)
  show "CleanupExpired now t = snd (BackendLoads now t)"
    using expire_loop_loads [of now "qt_ttl t" "qt_queries t" "qt_queries t" False "[]"]
    by (simp add: BackendLoads_def CleanupExpired_def Let_def l)
qed

text \<open>C23. The loads that selection uses are exact: for every backend, the reported running and queued
  counts are the numbers of tracked queries of that backend seen within the retention time, by
  state, for every order in which the map is visited; expired queries leave the tracker.\<close>

theorem backend_loads_exact:
  assumes "distinct (map fst (qt_queries t))" and "u \<noteq> ''''"
  shows "bl_RunningQueries (load_of (fst (BackendLoads now t)) u) = running_on now (qt_ttl t) u (qt_queries t)
    \<and> bl_QueuedQueries (load_of (fst (BackendLoads now t)) u) = queued_on now (qt_ttl t) u (qt_queries t)
    \<and> qt_queries (snd (BackendLoads now t)) = filter (\<lambda>(k, a). \<not> expired now (qt_ttl t) a) (qt_queries t)"
proof -
  have "fst (BackendLoads now t) = snd (snd (loads_loop now (qt_ttl t) (qt_queries t) (qt_queries t, False, [])))"
    by (simp add: BackendLoads_def Let_def split: prod.splits)
  moreover have "load_of [] u = zero_load" by (simp add: load_of_def)
  ultimately show ?thesis
    using loads_loop_loads [OF assms(2), of now "qt_ttl t" "qt_queries t" "qt_queries t" False "[]"]
      loops_result(1) [OF assms(1), of now]
    by (simp add: zero_load_def)
qed

theorem backend_loads_exact_witness:
  "bl_RunningQueries (load_of (fst (BackendLoads 9
      (Observe 5 ''q2'' ''ns'' ''x'' ''g'' ''u'' ''queued''
        (Observe 3 ''q1'' ''ns'' ''x'' ''g'' ''u'' '' running'' (NewQueryActivityTracker 0))))) ''u'') = 1"
proof -
  let ?t = "Observe 5 ''q2'' ''ns'' ''x'' ''g'' ''u'' ''queued''
        (Observe 3 ''q1'' ''ns'' ''x'' ''g'' ''u'' '' running'' (NewQueryActivityTracker 0))"
  have "distinct (map fst (qt_queries ?t))" and "running_on 9 (qt_ttl ?t) ''u'' (qt_queries ?t) = 1"
    by code_simp+
  then show ?thesis using backend_loads_exact [of ?t "''u''" 9] by simp
qed

section \<open>Invariant of the tracker\<close>

inductive qt_reach :: "QueryActivityTracker \<Rightarrow> bool" where
  qt_new: "qt_reach (NewQueryActivityTracker ttl)"
| qt_observe: "qt_reach t \<Longrightarrow> qt_reach (Observe now q ns x rg u st t)"
| qt_loads: "qt_reach t \<Longrightarrow> qt_reach (snd (BackendLoads now t))"
| qt_clean: "qt_reach t \<Longrightarrow> qt_reach (CleanupExpired now t)"

definition gauge_value :: "QueryActivityTracker \<Rightarrow> gauge_labels \<Rightarrow> int" where
  "gauge_value t l = (case map_of (qt_gauges t) l of Some n \<Rightarrow> n | None \<Rightarrow> 0)"

definition qt_inv :: "QueryActivityTracker \<Rightarrow> bool" where
  "qt_inv t \<longleftrightarrow> distinct (map fst (qt_queries t)) \<and> 0 < qt_ttl t
     \<and> (\<forall>(k, a) \<in> set (qt_queries t). k \<noteq> '''' \<and> \<not> IsTerminal (qa_state a))
     \<and> (\<forall>l. gauge_value t l = int (length (filter (\<lambda>(k, a). gauge_key a = l) (qt_queries t))))"

lemma recompute_inv:
  assumes "distinct (map fst (qt_queries t))" "0 < qt_ttl t"
    and "\<forall>(k, a) \<in> set (qt_queries t). k \<noteq> '''' \<and> \<not> IsTerminal (qa_state a)"
  shows "qt_inv (recomputeGaugesLocked t)"
  using assms count_gauges [of "qt_queries t" "[]"]
  by (simp add: qt_inv_def recomputeGaugesLocked_def gauge_value_def)

lemma Observe_inv:
  assumes "qt_inv t" shows "qt_inv (Observe now q ns x rg u st t)"
proof -
  have "qt_inv (recomputeGaugesLocked (t\<lparr>qt_queries := AList.delete q (qt_queries t)\<rparr>))"
    using assms set_delete [of q "qt_queries t"] by (intro recompute_inv) (auto simp: qt_inv_def)
  moreover have "qt_inv (recomputeGaugesLocked (t\<lparr>qt_queries := AList.update q a (qt_queries t)\<rparr>))"
    if "q \<noteq> []" "\<not> IsTerminal (qa_state a)" for a
    using assms that update_forall [of "qt_queries t" "\<lambda>k a. k \<noteq> [] \<and> \<not> IsTerminal (qa_state a)" q a]
    by (intro recompute_inv) (simp_all add: qt_inv_def)
  ultimately show ?thesis using assms by (auto simp: Observe_def Let_def)
qed

lemma BackendLoads_inv:
  assumes "qt_inv t" shows "qt_inv (snd (BackendLoads now t))"
proof -
  let ?q = "filter (\<lambda>(k, a). \<not> expired now (qt_ttl t) a) (qt_queries t)"
  have d: "distinct (map fst (qt_queries t))" using assms by (simp add: qt_inv_def)
  note L = loads_loop_queries [of "[]" "qt_queries t" now "qt_ttl t" False "[]", simplified, OF d]
  have "qt_inv (recomputeGaugesLocked (t\<lparr>qt_queries := ?q\<rparr>))"
    using assms by (intro recompute_inv) (auto simp: qt_inv_def distinct_map_filter)
  moreover have "qt_inv (t\<lparr>qt_queries := ?q\<rparr>)" if "\<not> (\<exists>(k, a) \<in> set (qt_queries t). expired now (qt_ttl t) a)"
  proof -
    have "?q = qt_queries t" using that by (auto simp: filter_id_conv)
    then show ?thesis using assms by simp
  qed
  ultimately show ?thesis
    using L by (cases "\<exists>(k, a) \<in> set (qt_queries t). expired now (qt_ttl t) a")
      (simp_all add: BackendLoads_def Let_def case_prod_beta)
qed

text \<open>C24. The tracker never holds a query in a terminal state or one query id twice, and the exported
  in-flight gauge of every label tuple is exactly the number of tracked queries with these labels.\<close>

theorem tracker_consistent:
  assumes "qt_reach t"
  shows "distinct (map fst (qt_queries t))
    \<and> (\<forall>(k, a) \<in> set (qt_queries t). \<not> IsTerminal (qa_state a))
    \<and> (\<forall>l. gauge_value t l = int (length (filter (\<lambda>(k, a). gauge_key a = l) (qt_queries t))))"
proof -
  from assms have "qt_inv t"
  proof (induction rule: qt_reach.induct)
    case (qt_new ttl)
    then show ?case
      by (simp add: qt_inv_def NewQueryActivityTracker_def gauge_value_def defaultQueryActivityTTL_def go_simps)
  next
    case (qt_clean t now)
    then show ?case using loops_result(2) [of t now] BackendLoads_inv by (simp add: qt_inv_def)
  qed (simp_all add: Observe_inv BackendLoads_inv)
  then show ?thesis by (auto simp: qt_inv_def)
qed

theorem tracker_consistent_witness:
  "gauge_value (Observe 3 ''q1'' ''ns'' ''x'' ''g'' ''u'' ''running'' (NewQueryActivityTracker 0))
     (''ns'', ''x'', ''g'', ''RUNNING'') = 1"
proof -
  let ?t = "Observe 3 ''q1'' ''ns'' ''x'' ''g'' ''u'' ''running'' (NewQueryActivityTracker 0)"
  have "qt_reach ?t" by (intro qt_reach.intros)
  moreover have "int (length (filter (\<lambda>(k, a). gauge_key a = (''ns'', ''x'', ''g'', ''RUNNING'')) (qt_queries ?t))) = 1"
    by code_simp
  ultimately show ?thesis using tracker_consistent [of ?t] by simp
qed

end
