(* ===== verification/CircuitBreaker.thy ===== *)
theory CircuitBreaker
  imports Prelude
begin

text \<open>
  The per-backend circuit breaker of the gateway (\<open>pkg/gateway/circuitbreaker.go\<close>): the breaker
  record, its operations \<open>Allow\<close>, \<open>Selectable\<close> and the four recording methods, the manager that
  keeps one breaker per backend URL, and the breaker's state machine with its invariant. Every
  operation runs under the breaker's mutex in the source, so it is one atomic step here; the
  clock reading it makes is the argument \<open>now\<close>. Log calls are left out. The event counters are
  mathematical integers: they grow by one per recorded response.
\<close>

section \<open>State\<close>

datatype CircuitState = CircuitClosed | CircuitOpen | CircuitHalfOpen

record CircuitBreaker =
  cb_BackendURL :: string
  cb_State :: CircuitState
  cb_FailureThreshold :: int
  cb_SuccessThreshold :: int
  cb_Timeout :: duration
  cb_ConsecutiveFailures :: int
  cb_ConsecutiveSuccesses :: int
  cb_ConsecutiveOverloads :: int
  cb_LastFailure :: time
  cb_LastSuccess :: time
  cb_halfOpenProbeActive :: bool

definition OverloadThresholdMultiplier :: int where
  "OverloadThresholdMultiplier = 3"

section \<open>Operations\<close>

definition new_breaker :: "string \<Rightarrow> int \<Rightarrow> int \<Rightarrow> duration \<Rightarrow> CircuitBreaker" where
  "new_breaker backendURL failureThreshold successThreshold timeout =
     \<lparr> cb_BackendURL = backendURL,
       cb_State = CircuitClosed,
       cb_FailureThreshold = failureThreshold,
       cb_SuccessThreshold = successThreshold,
       cb_Timeout = timeout,
       cb_ConsecutiveFailures = 0,
       cb_ConsecutiveSuccesses = 0,
       cb_ConsecutiveOverloads = 0,
       cb_LastFailure = zero_time,
       cb_LastSuccess = zero_time,
       cb_halfOpenProbeActive = False \<rparr>"

definition cb_Allow :: "time \<Rightarrow> CircuitBreaker \<Rightarrow> CircuitBreaker \<times> bool" where
  "cb_Allow now cb =
     (case cb_State cb of
        CircuitClosed \<Rightarrow> (cb, True)
      | CircuitOpen \<Rightarrow>
          if time_sub now (cb_LastFailure cb) \<ge> cb_Timeout cb
          then (cb\<lparr>cb_State := CircuitHalfOpen, cb_ConsecutiveSuccesses := 0,
                   cb_halfOpenProbeActive := True\<rparr>, True)
          else (cb, False)
      | CircuitHalfOpen \<Rightarrow>
          if cb_halfOpenProbeActive cb then (cb, False)
          else (cb\<lparr>cb_halfOpenProbeActive := True\<rparr>, True))"

definition RecordSuccess :: "time \<Rightarrow> CircuitBreaker \<Rightarrow> CircuitBreaker" where
  "RecordSuccess now cb =
     (let cb1 = cb\<lparr>cb_LastSuccess := now, cb_ConsecutiveFailures := 0, cb_ConsecutiveOverloads := 0,
                    cb_ConsecutiveSuccesses := cb_ConsecutiveSuccesses cb + 1\<rparr>
      in if cb_State cb1 = CircuitHalfOpen then
           let cb2 = cb1\<lparr>cb_halfOpenProbeActive := False\<rparr>
           in if cb_ConsecutiveSuccesses cb2 \<ge> cb_SuccessThreshold cb2
              then cb2\<lparr>cb_State := CircuitClosed\<rparr> else cb2
         else cb1)"

definition RecordOverload :: "time \<Rightarrow> CircuitBreaker \<Rightarrow> CircuitBreaker" where
  "RecordOverload now cb =
     (let cb1 = cb\<lparr>cb_ConsecutiveOverloads := cb_ConsecutiveOverloads cb + 1,
                    cb_ConsecutiveSuccesses := 0\<rparr>;
          overloadThreshold = cb_FailureThreshold cb1 * OverloadThresholdMultiplier
      in case cb_State cb1 of
           CircuitClosed \<Rightarrow>
             if cb_ConsecutiveOverloads cb1 \<ge> overloadThreshold
             then cb1\<lparr>cb_State := CircuitOpen, cb_LastFailure := now\<rparr> else cb1
         | CircuitHalfOpen \<Rightarrow>
             cb1\<lparr>cb_halfOpenProbeActive := False, cb_State := CircuitOpen, cb_LastFailure := now\<rparr>
         | CircuitOpen \<Rightarrow> cb1)"

definition recordFailureLocked :: "time \<Rightarrow> CircuitBreaker \<Rightarrow> CircuitBreaker" where
  "recordFailureLocked now cb =
     (let cb1 = cb\<lparr>cb_LastFailure := now, cb_ConsecutiveSuccesses := 0, cb_ConsecutiveOverloads := 0,
                    cb_ConsecutiveFailures := cb_ConsecutiveFailures cb + 1\<rparr>
      in case cb_State cb1 of
           CircuitClosed \<Rightarrow>
             if cb_ConsecutiveFailures cb1 \<ge> cb_FailureThreshold cb1
             then cb1\<lparr>cb_State := CircuitOpen\<rparr> else cb1
         | CircuitHalfOpen \<Rightarrow>
             cb1\<lparr>cb_halfOpenProbeActive := False, cb_State := CircuitOpen\<rparr>
         | CircuitOpen \<Rightarrow> cb1)"

definition RecordFailure :: "time \<Rightarrow> CircuitBreaker \<Rightarrow> CircuitBreaker" where
  "RecordFailure now cb = recordFailureLocked now cb"

definition RecordProxyFailure :: "time \<Rightarrow> bool \<Rightarrow> CircuitBreaker \<Rightarrow> CircuitBreaker" where
  "RecordProxyFailure now countFailure cb =
     (if cb_State cb = CircuitHalfOpen \<or> countFailure then recordFailureLocked now cb else cb)"

definition cb_GetState :: "CircuitBreaker \<Rightarrow> CircuitState" where
  "cb_GetState cb = cb_State cb"

definition Selectable :: "time \<Rightarrow> CircuitBreaker \<Rightarrow> bool" where
  "Selectable now cb =
     (case cb_State cb of
        CircuitClosed \<Rightarrow> True
      | CircuitOpen \<Rightarrow> time_sub now (cb_LastFailure cb) \<ge> cb_Timeout cb
      | CircuitHalfOpen \<Rightarrow> \<not> cb_halfOpenProbeActive cb)"

lemmas breaker_op_defs =
  cb_Allow_def RecordSuccess_def RecordOverload_def recordFailureLocked_def
  RecordFailure_def RecordProxyFailure_def Let_def

text \<open>\<open>GetStats\<close> reports the fields by name; the state is reported as its string.\<close>

datatype stat_value = StatString string | StatInt int | StatTime time

fun circuit_state_string :: "CircuitState \<Rightarrow> string" where
  "circuit_state_string CircuitClosed = ''closed''"
| "circuit_state_string CircuitOpen = ''open''"
| "circuit_state_string CircuitHalfOpen = ''half-open''"

definition cb_GetStats :: "CircuitBreaker \<Rightarrow> (string \<times> stat_value) list" where
  "cb_GetStats cb =
     [(''state'', StatString (circuit_state_string (cb_State cb))),
      (''consecutiveFailures'', StatInt (cb_ConsecutiveFailures cb)),
      (''consecutiveSuccesses'', StatInt (cb_ConsecutiveSuccesses cb)),
      (''consecutiveOverloads'', StatInt (cb_ConsecutiveOverloads cb)),
      (''lastFailure'', StatTime (cb_LastFailure cb)),
      (''lastSuccess'', StatTime (cb_LastSuccess cb))]"

section \<open>The manager\<close>

record CircuitBreakerManager =
  cbm_breakers :: "(string \<times> CircuitBreaker) list"

definition NewCircuitBreakerManager :: CircuitBreakerManager where
  "NewCircuitBreakerManager = \<lparr>cbm_breakers = []\<rparr>"

definition GetOrCreateBreaker ::
    "string \<Rightarrow> int \<Rightarrow> int \<Rightarrow> duration \<Rightarrow> CircuitBreakerManager \<Rightarrow> CircuitBreaker \<times> CircuitBreakerManager" where
  "GetOrCreateBreaker backendURL failureThreshold successThreshold timeout cbm =
     (case map_of (cbm_breakers cbm) backendURL of
        Some breaker \<Rightarrow> (breaker, cbm)
      | None \<Rightarrow>
          let breaker = new_breaker backendURL failureThreshold successThreshold timeout
          in (breaker, cbm\<lparr>cbm_breakers := AList.update backendURL breaker (cbm_breakers cbm)\<rparr>))"

text \<open>A method call on the returned pointer updates the breaker that the map stores.\<close>

definition put_breaker :: "string \<Rightarrow> CircuitBreaker \<Rightarrow> CircuitBreakerManager \<Rightarrow> CircuitBreakerManager" where
  "put_breaker backendURL breaker cbm =
     cbm\<lparr>cbm_breakers := AList.update backendURL breaker (cbm_breakers cbm)\<rparr>"

text \<open>The thresholds every call site of the gateway passes (\<open>internal/config\<close>).\<close>

definition GatewayCircuitBreakerFailureThreshold :: int where
  "GatewayCircuitBreakerFailureThreshold = 5"

definition GatewayCircuitBreakerSuccessThreshold :: int where
  "GatewayCircuitBreakerSuccessThreshold = 2"

definition GatewayCircuitBreakerTimeout :: duration where
  "GatewayCircuitBreakerTimeout = 30 * second"

definition gateway_breaker :: "string \<Rightarrow> CircuitBreakerManager \<Rightarrow> CircuitBreaker \<times> CircuitBreakerManager" where
  "gateway_breaker backendURL cbm =
     GetOrCreateBreaker backendURL GatewayCircuitBreakerFailureThreshold
       GatewayCircuitBreakerSuccessThreshold GatewayCircuitBreakerTimeout cbm"

definition fresh_gateway_breaker :: "string \<Rightarrow> CircuitBreaker" where
  "fresh_gateway_breaker backendURL =
     new_breaker backendURL GatewayCircuitBreakerFailureThreshold
       GatewayCircuitBreakerSuccessThreshold GatewayCircuitBreakerTimeout"

interpretation cbreg: keyed_registry
  "\<lambda>cbm. map_of (cbm_breakers cbm)" "\<lambda>_. fresh_gateway_breaker" gateway_breaker put_breaker
  by unfold_locales
    (auto simp: gateway_breaker_def GetOrCreateBreaker_def put_breaker_def fresh_gateway_breaker_def
      Let_def fun_eq_iff split: option.splits)


section \<open>The state machine\<close>

text \<open>
  One event per method call, with what the call returned. \<open>cb_step\<close> is one call at one clock
  reading, \<open>cb_reach\<close> the (clock, breaker) pairs that calls in clock order can produce from a
  breaker the manager has just created.
\<close>

datatype cb_event = EvAllow bool | EvSuccess | EvOverload | EvFailure | EvProxyFailure bool

inductive cb_step :: "CircuitBreaker \<Rightarrow> time \<Rightarrow> cb_event \<Rightarrow> CircuitBreaker \<Rightarrow> bool" where
  step_allow: "cb_Allow now cb = (cb', ok) \<Longrightarrow> cb_step cb now (EvAllow ok) cb'"
| step_success: "cb_step cb now EvSuccess (RecordSuccess now cb)"
| step_overload: "cb_step cb now EvOverload (RecordOverload now cb)"
| step_failure: "cb_step cb now EvFailure (RecordFailure now cb)"
| step_proxy: "cb_step cb now (EvProxyFailure c) (RecordProxyFailure now c cb)"

inductive_simps cb_step_simps:
  "cb_step cb now (EvAllow ok) cb'"
  "cb_step cb now EvSuccess cb'"
  "cb_step cb now EvOverload cb'"
  "cb_step cb now EvFailure cb'"
  "cb_step cb now (EvProxyFailure c) cb'"

inductive cb_reach :: "CircuitBreaker \<Rightarrow> time \<Rightarrow> CircuitBreaker \<Rightarrow> bool" for cb0 where
  reach_init: "zero_time \<le> now \<Longrightarrow> cb_reach cb0 now cb0"
| reach_step: "cb_reach cb0 t cb \<Longrightarrow> t \<le> now \<Longrightarrow> cb_step cb now e cb' \<Longrightarrow> cb_reach cb0 now cb'"

text \<open>No operation changes the configuration of a breaker.\<close>

definition cb_config :: "CircuitBreaker \<Rightarrow> string \<times> int \<times> int \<times> duration" where
  "cb_config cb = (cb_BackendURL cb, cb_FailureThreshold cb, cb_SuccessThreshold cb, cb_Timeout cb)"

lemma cb_step_config: "cb_step cb now e cb' \<Longrightarrow> cb_config cb' = cb_config cb"
  by (induction rule: cb_step.induct)
    (auto simp: breaker_op_defs cb_config_def split: CircuitState.splits if_splits)

text \<open>
  The invariant: the probe slot is taken only in the half-open state; while the breaker is closed
  both failure counters are below the threshold that would have opened it; while it is half-open
  the successes are below the closing threshold; the last failure lies in the past; counters are
  not negative.
\<close>

definition cb_inv :: "time \<Rightarrow> CircuitBreaker \<Rightarrow> bool" where
  "cb_inv t cb \<longleftrightarrow>
     (cb_halfOpenProbeActive cb \<longrightarrow> cb_State cb = CircuitHalfOpen)
   \<and> (cb_State cb = CircuitClosed \<longrightarrow>
        cb_ConsecutiveFailures cb < cb_FailureThreshold cb
      \<and> cb_ConsecutiveOverloads cb < cb_FailureThreshold cb * OverloadThresholdMultiplier)
   \<and> (cb_State cb = CircuitHalfOpen \<longrightarrow> cb_ConsecutiveSuccesses cb < cb_SuccessThreshold cb)
   \<and> cb_LastFailure cb \<le> t \<and> cb_LastSuccess cb \<le> t
   \<and> 0 \<le> cb_ConsecutiveFailures cb \<and> 0 \<le> cb_ConsecutiveSuccesses cb \<and> 0 \<le> cb_ConsecutiveOverloads cb
   \<and> 0 < cb_FailureThreshold cb \<and> 0 < cb_SuccessThreshold cb"

lemma cb_inv_mono: "cb_inv t cb \<Longrightarrow> t \<le> u \<Longrightarrow> cb_inv u cb"
  by (auto simp: cb_inv_def)

lemma cb_inv_Allow: "cb_inv now cb \<Longrightarrow> cb_inv now (fst (cb_Allow now cb))"
  by (auto simp: cb_inv_def cb_Allow_def split: CircuitState.splits)

lemma cb_inv_RecordSuccess: "cb_inv now cb \<Longrightarrow> cb_inv now (RecordSuccess now cb)"
  by (auto simp: cb_inv_def RecordSuccess_def Let_def OverloadThresholdMultiplier_def)

lemma cb_inv_RecordOverload: "cb_inv now cb \<Longrightarrow> cb_inv now (RecordOverload now cb)"
  by (auto simp: cb_inv_def RecordOverload_def Let_def split: CircuitState.splits)

lemma cb_inv_recordFailureLocked: "cb_inv now cb \<Longrightarrow> cb_inv now (recordFailureLocked now cb)"
  by (auto simp: cb_inv_def recordFailureLocked_def Let_def OverloadThresholdMultiplier_def
      split: CircuitState.splits)

lemma cb_inv_step: "cb_step cb now e cb' \<Longrightarrow> cb_inv now cb \<Longrightarrow> cb_inv now cb'"
proof (induction rule: cb_step.induct)
  case (step_allow now cb cb' ok)
  then show ?case using cb_inv_Allow [of now cb] by simp
qed (auto simp: RecordFailure_def RecordProxyFailure_def
    intro: cb_inv_RecordSuccess cb_inv_RecordOverload cb_inv_recordFailureLocked)

lemma cb_inv_new:
  "0 < ft \<Longrightarrow> 0 < st \<Longrightarrow> zero_time \<le> t \<Longrightarrow> cb_inv t (new_breaker url ft st to)"
  by (auto simp: cb_inv_def new_breaker_def OverloadThresholdMultiplier_def)

lemma cb_reach_inv:
  "cb_reach cb0 t cb \<Longrightarrow> (\<And>u. zero_time \<le> u \<Longrightarrow> cb_inv u cb0) \<Longrightarrow> cb_inv t cb"
proof (induction rule: cb_reach.induct)
  case (reach_step t cb now e cb')
  then show ?case using cb_inv_step cb_inv_mono by blast
qed simp

section \<open>Properties\<close>

text \<open>C13. The breaker invariant: in every state that method calls in clock order produce from a
  breaker the manager created, the probe slot is taken only while half-open, the failure and
  overload counters of a closed breaker are below their thresholds, the success counter of a
  half-open breaker is below its threshold, and no timestamp lies in the future.\<close>

theorem breaker_invariant:
  assumes "0 < ft" "0 < st" and "cb_reach (new_breaker url ft st to) t cb"
  shows "cb_inv t cb"
  using cb_reach_inv [OF assms(3)] cb_inv_new [OF assms(1,2)] by blast

theorem breaker_invariant_witness:
  "cb_reach (new_breaker ''u'' 5 2 30) 7 (RecordFailure 7 (new_breaker ''u'' 5 2 30))
   \<and> cb_inv 7 (RecordFailure 7 (new_breaker ''u'' 5 2 30))"
proof -
  have "cb_reach (new_breaker ''u'' 5 2 30) 7 (new_breaker ''u'' 5 2 30)"
    by (rule reach_init) (simp add: zero_time_def)
  then have r: "cb_reach (new_breaker ''u'' 5 2 30) 7 (RecordFailure 7 (new_breaker ''u'' 5 2 30))"
    by (rule reach_step) (auto intro: step_failure)
  show ?thesis using r breaker_invariant [OF _ _ r] by simp
qed

text \<open>\<open>Selectable\<close> predicts \<open>Allow\<close>: at one clock reading the side-effect-free filter used
  for candidate selection answers exactly what the reserving call would answer.\<close>

lemma selectable_iff_allow: "Selectable now cb = snd (cb_Allow now cb)"
  by (simp add: Selectable_def cb_Allow_def split: CircuitState.splits)

text \<open>A run of \<open>Allow\<close> calls with nothing recorded in between.\<close>

fun allow_run :: "CircuitBreaker \<Rightarrow> time list \<Rightarrow> bool list" where
  "allow_run cb [] = []"
| "allow_run cb (t # ts) = (case cb_Allow t cb of (cb', ok) \<Rightarrow> ok # allow_run cb' ts)"

lemma allow_run_probe_taken:
  "cb_State cb = CircuitHalfOpen \<Longrightarrow> cb_halfOpenProbeActive cb \<Longrightarrow> allow_run cb ts = replicate (length ts) False"
  by (induction ts) (auto simp: cb_Allow_def)

lemma allow_granted:
  "cb_State cb \<noteq> CircuitClosed \<Longrightarrow> cb_Allow t cb = (cb', True)
   \<Longrightarrow> cb_State cb' = CircuitHalfOpen \<and> cb_halfOpenProbeActive cb'"
  by (auto simp: cb_Allow_def split: CircuitState.splits if_splits)

lemma allow_refused: "cb_Allow t cb = (cb', False) \<Longrightarrow> cb' = cb"
  by (auto simp: cb_Allow_def split: CircuitState.splits if_splits)

text \<open>C12. At most one probe: while the breaker is not closed, any sequence of concurrent
  \<open>Allow\<close> calls with no outcome recorded between them lets at most one request through.\<close>

theorem single_half_open_probe:
  assumes "cb_State cb \<noteq> CircuitClosed"
  shows "length (filter id (allow_run cb ts)) \<le> 1"
  using assms
proof (induction ts arbitrary: cb)
  case (Cons t ts)
  obtain cb' ok where a: "cb_Allow t cb = (cb', ok)" by force
  show ?case
  proof (cases ok)
    case True
    with a Cons.prems have "allow_run cb' ts = replicate (length ts) False"
      using allow_granted [of cb t cb'] by (simp add: allow_run_probe_taken)
    then show ?thesis using a True by simp
  next
    case False
    with a have "cb' = cb" using allow_refused [of t cb cb'] by simp
    then show ?thesis using a False Cons by simp
  qed
qed simp

theorem single_half_open_probe_witness:
  "length (filter id (allow_run (RecordFailure 0 (new_breaker ''u'' 1 2 30)) [10, 40, 40, 50])) \<le> 1
   \<and> allow_run (RecordFailure 0 (new_breaker ''u'' 1 2 30)) [10, 40, 40, 50] = [False, True, False, False]"
proof -
  have "cb_State (RecordFailure 0 (new_breaker ''u'' 1 2 30)) \<noteq> CircuitClosed"
    by (simp add: breaker_op_defs new_breaker_def)
  note single_half_open_probe [OF this, of "[10, 40, 40, 50]"]
  then show ?thesis
    by (simp add: breaker_op_defs new_breaker_def time_sub_def max_dur_def min_dur_def)
qed

text \<open>Consecutive hard failures, recorded at the given times.\<close>

definition record_failures :: "time list \<Rightarrow> CircuitBreaker \<Rightarrow> CircuitBreaker" where
  "record_failures ts cb = fold RecordFailure ts cb"

lemma record_failures_closed:
  assumes "cb_State cb = CircuitClosed" "0 \<le> cb_ConsecutiveFailures cb"
    and "cb_ConsecutiveFailures cb + int (length ts) < cb_FailureThreshold cb"
  shows "cb_State (record_failures ts cb) = CircuitClosed
    \<and> cb_ConsecutiveFailures (record_failures ts cb) = cb_ConsecutiveFailures cb + int (length ts)
    \<and> cb_FailureThreshold (record_failures ts cb) = cb_FailureThreshold cb
    \<and> cb_Timeout (record_failures ts cb) = cb_Timeout cb"
  using assms
proof (induction ts arbitrary: cb)
  case (Cons t ts)
  let ?cb = "RecordFailure t cb"
  have "cb_State ?cb = CircuitClosed" "cb_ConsecutiveFailures ?cb = cb_ConsecutiveFailures cb + 1"
    "cb_FailureThreshold ?cb = cb_FailureThreshold cb" "cb_Timeout ?cb = cb_Timeout cb"
    using Cons.prems by (simp_all add: breaker_op_defs)
  then show ?case using Cons.IH [of ?cb] Cons.prems by (simp add: record_failures_def)
qed (simp add: record_failures_def)

text \<open>C26. Tripping and blocking: a closed breaker with no recorded failure stays closed through
  fewer than \<open>FailureThreshold\<close> consecutive failures, is open after exactly that many, then
  refuses every request for less than \<open>Timeout\<close> after the last failure and grants the probe as
  soon as \<open>Timeout\<close> has passed.\<close>

theorem breaker_trips_and_blocks:
  assumes "cb_State cb = CircuitClosed" "cb_ConsecutiveFailures cb = 0"
    and "int (length ts) < cb_FailureThreshold cb"
    and "0 \<le> cb_Timeout cb" "cb_Timeout cb \<le> max_dur"
  shows "cb_State (record_failures ts cb) = CircuitClosed
    \<and> (int (length ts) + 1 = cb_FailureThreshold cb \<longrightarrow>
         (let tripped = record_failures (ts @ [t]) cb
          in cb_State tripped = CircuitOpen
           \<and> (\<forall>now. snd (cb_Allow now tripped) \<longleftrightarrow> cb_Timeout cb \<le> now - t)))"
proof -
  note c = record_failures_closed [of cb ts]
  have "record_failures (ts @ [t]) cb = RecordFailure t (record_failures ts cb)"
    by (simp add: record_failures_def)
  then show ?thesis
    using c assms by (auto simp: breaker_op_defs time_sub_ge_iff)
qed

theorem breaker_trips_and_blocks_witness:
  "cb_State (record_failures [1, 2] (new_breaker ''u'' 3 2 30)) = CircuitClosed
   \<and> cb_State (record_failures [1, 2, 3] (new_breaker ''u'' 3 2 30)) = CircuitOpen
   \<and> \<not> snd (cb_Allow 32 (record_failures [1, 2, 3] (new_breaker ''u'' 3 2 30)))
   \<and> snd (cb_Allow 33 (record_failures [1, 2, 3] (new_breaker ''u'' 3 2 30)))"
proof -
  have "cb_State (new_breaker ''u'' 3 2 30) = CircuitClosed"
    "cb_ConsecutiveFailures (new_breaker ''u'' 3 2 30) = 0"
    "int (length [1, 2 :: time]) < cb_FailureThreshold (new_breaker ''u'' 3 2 30)"
    "0 \<le> cb_Timeout (new_breaker ''u'' 3 2 30)" "cb_Timeout (new_breaker ''u'' 3 2 30) \<le> max_dur"
    by (simp_all add: new_breaker_def max_dur_def)
  from breaker_trips_and_blocks [OF this, of 3]
  show ?thesis by (simp add: new_breaker_def Let_def)
qed

text \<open>One successful probe: the reserving call followed by a recorded success.\<close>

definition probe_success :: "time \<Rightarrow> CircuitBreaker \<Rightarrow> CircuitBreaker" where
  "probe_success now cb = RecordSuccess now (fst (cb_Allow now cb))"

definition half_open_after :: "int \<Rightarrow> CircuitBreaker \<Rightarrow> bool" where
  "half_open_after k cb \<longleftrightarrow>
     cb_State cb = CircuitHalfOpen \<and> \<not> cb_halfOpenProbeActive cb \<and> cb_ConsecutiveSuccesses cb = k"

lemma probe_success_half_open:
  "half_open_after k cb \<Longrightarrow> k + 1 < cb_SuccessThreshold cb \<Longrightarrow>
   half_open_after (k + 1) (probe_success t cb)
   \<and> cb_SuccessThreshold (probe_success t cb) = cb_SuccessThreshold cb"
  by (auto simp: half_open_after_def probe_success_def breaker_op_defs)

lemma probe_success_closes:
  "half_open_after k cb \<Longrightarrow> cb_SuccessThreshold cb \<le> k + 1 \<Longrightarrow>
   cb_State (probe_success t cb) = CircuitClosed
   \<and> cb_ConsecutiveFailures (probe_success t cb) = 0 \<and> cb_ConsecutiveOverloads (probe_success t cb) = 0"
  by (auto simp: half_open_after_def probe_success_def breaker_op_defs)

lemma probe_success_run:
  assumes "half_open_after k cb" "k + int (length ts) + 1 = cb_SuccessThreshold cb"
  shows "half_open_after (k + int (length ts)) (fold probe_success ts cb)
    \<and> cb_SuccessThreshold (fold probe_success ts cb) = cb_SuccessThreshold cb"
  using assms
proof (induction ts arbitrary: k cb)
  case (Cons t ts)
  then show ?case
    using probe_success_half_open [of k cb t] Cons.IH [of "k + 1" "probe_success t cb"]
    by (auto simp: algebra_simps)
qed simp



end
