(* ===== verification/RouteCache.thy ===== *)
theory RouteCache
  imports Routes Http Health QueryActivity CircuitBreaker
begin

text \<open>
  The gateway's in-memory state (\<open>pkg/gateway/service.go\<close>) and its route cache
  (\<open>pkg/gateway/route_cache.go\<close>, the reload bookkeeping of \<open>pkg/gateway/status.go\<close>, and
  \<open>collectHealthCheckBackendURLs\<close> of \<open>pkg/gateway/health_loop.go\<close>): loading the stored table, finding
  the route of a request, and the polling loop that watches the ConfigMap. The answer of the API
  server to a read is an argument; recorded error texts are cut to their fixed part. Map values are the routes themselves: nothing writes through
  the pointers the Go map holds.
\<close>

section \<open>State\<close>

record routeReloadState =
  rr_LastAttempt :: time
  rr_LastSuccess :: time
  rr_LastFailure :: time
  rr_LastError :: string
  rr_ConfigMapResourceVersion :: "int option"
  rr_RoutesLoaded :: int
  rr_InvalidRoutes :: int

record GatewayService =
  gs_routes :: "(string \<times> RouteEntry) list"
  gs_defaultRoute :: "RouteEntry option"
  gs_healthChecker :: "BackendHealthChecker option"
  gs_circuitBreaker :: "CircuitBreakerManager option"
  gs_queryActivity :: QueryActivityTracker
  gs_reloadState :: routeReloadState

definition recordRouteReloadAttempt :: "time \<Rightarrow> GatewayService \<Rightarrow> GatewayService" where
  "recordRouteReloadAttempt now gs = gs\<lparr>gs_reloadState := (gs_reloadState gs)\<lparr>rr_LastAttempt := now\<rparr>\<rparr>"

definition recordRouteReloadSuccess :: "time \<Rightarrow> int \<Rightarrow> int \<Rightarrow> int \<Rightarrow> GatewayService \<Rightarrow> GatewayService" where
  "recordRouteReloadSuccess now resourceVersion routesLoaded invalidRoutes gs =
     gs\<lparr>gs_reloadState := (gs_reloadState gs)\<lparr>rr_LastSuccess := now, rr_LastError := '''',
          rr_ConfigMapResourceVersion := Some resourceVersion, rr_RoutesLoaded := routesLoaded,
          rr_InvalidRoutes := invalidRoutes\<rparr>\<rparr>"

definition recordRouteReloadFailure ::
    "time \<Rightarrow> int option \<Rightarrow> int \<Rightarrow> int \<Rightarrow> string \<Rightarrow> GatewayService \<Rightarrow> GatewayService" where
  "recordRouteReloadFailure now resourceVersion routesLoaded invalidRoutes msg gs =
     gs\<lparr>gs_reloadState := (gs_reloadState gs)\<lparr>rr_LastFailure := now, rr_LastError := msg,
          rr_ConfigMapResourceVersion := resourceVersion, rr_RoutesLoaded := routesLoaded,
          rr_InvalidRoutes := invalidRoutes\<rparr>\<rparr>"

section \<open>Loading routes\<close>

definition isLoadableRoute :: "RouteEntry \<Rightarrow> bool" where
  "isLoadableRoute route \<longleftrightarrow>
     \<not> (re_Name route = '''' \<or> re_Backends route = [])
     \<and> \<not> (re_RoutingGroup route = '''' \<and> re_Hostname route = '''' \<and> re_Header route = '''' \<and> \<not> re_Default route)
     \<and> (\<forall>b \<in> set (re_Backends route). be_Name b \<noteq> '''' \<and> be_Namespace b \<noteq> '''' \<and> be_CoordinatorURL b \<noteq> '''')"

text \<open>The validation loop; its arguments are the group, host and header values seen so far.\<close>

fun valid_routes :: "string list \<Rightarrow> string list \<Rightarrow> string list \<Rightarrow> RouteEntry list \<Rightarrow> RouteEntry list" where
  "valid_routes groups hosts headers [] = []"
| "valid_routes groups hosts headers (r # rs) =
     (if \<not> isLoadableRoute r then valid_routes groups hosts headers rs
      else
        let (valid, groups) =
              (if re_RoutingGroup r \<noteq> '''' then
                 if re_RoutingGroup r \<in> set groups then (False, groups) else (True, re_RoutingGroup r # groups)
               else (True, groups));
            (valid, hosts) =
              (if valid \<and> re_Hostname r \<noteq> '''' then
                 let hostname = normalizeHostname (re_Hostname r)
                 in if hostname \<in> set hosts then (False, hosts) else (True, hostname # hosts)
               else (valid, hosts));
            (valid, headers) =
              (if valid \<and> re_Header r \<noteq> '''' then
                 if re_Header r \<in> set headers then (False, headers) else (True, re_Header r # headers)
               else (valid, headers))
        in if valid then r # valid_routes groups hosts headers rs else valid_routes groups hosts headers rs)"

definition running_urls :: "RouteEntry list \<Rightarrow> string list" where
  "running_urls routes =
     concat (map (\<lambda>r. map be_CoordinatorURL
       (filter (\<lambda>b. be_Active b \<and> (be_State b = '''' \<or> be_State b = StateRunning)) (re_Backends r))) routes)"

text \<open>The index keys of one route, written in this order.\<close>

definition index_route :: "RouteEntry \<Rightarrow> (string \<times> RouteEntry) list \<Rightarrow> (string \<times> RouteEntry) list" where
  "index_route r m =
     (let m = (if re_RoutingGroup r \<noteq> '''' then AList.update (''rg:'' @ re_RoutingGroup r) r m else m);
          m = (if re_Hostname r \<noteq> '''' then AList.update (''host:'' @ normalizeHostname (re_Hostname r)) r m else m)
      in (if re_Header r \<noteq> '''' then AList.update (''hdr:'' @ re_Header r) r m else m))"

fun install_routes ::
    "RouteEntry list \<Rightarrow> (string \<times> RouteEntry) list \<times> RouteEntry option \<Rightarrow> (string \<times> RouteEntry) list \<times> RouteEntry option" where
  "install_routes [] acc = acc"
| "install_routes (r # rs) (m, dflt) =
     install_routes rs
       (index_route r m,
        (if re_Default r then (case dflt of Some d \<Rightarrow> Some d | None \<Rightarrow> Some r) else dflt))"

definition loadRoutes ::
    "Yaml \<Rightarrow> time \<Rightarrow> api_error + ConfigMap \<Rightarrow> GatewayService \<Rightarrow> api_error option \<times> GatewayService" where
  "loadRoutes y now answer gs =
     (let gs = recordRouteReloadAttempt now gs
      in case answer of
           Inl err \<Rightarrow>
             (Some (WrapErr ''failed to get gateway ConfigMap'' err),
              recordRouteReloadFailure now None 0 0 ''failed to get gateway ConfigMap'' gs)
         | Inr configMap \<Rightarrow>
             (case map_of (case cm_Data configMap of Some d \<Rightarrow> d | None \<Rightarrow> []) GatewayConfigMapKey of
                None \<Rightarrow>
                  (None, recordRouteReloadFailure now (Some (cm_ResourceVersion configMap)) 0 0 ''ConfigMap key missing'' gs)
              | Some yamlData \<Rightarrow>
                  (case parseRoutes y yamlData of
                     Inl err \<Rightarrow>
                       (None, recordRouteReloadFailure now (Some (cm_ResourceVersion configMap)) 0 0 ''failed to parse routes'' gs)
                   | Inr routes \<Rightarrow>
                       let validRoutes = valid_routes [] [] [] routes
                       in if routes \<noteq> [] \<and> validRoutes = [] then
                            (None, recordRouteReloadFailure now (Some (cm_ResourceVersion configMap)) 0
                                     (int (length routes)) ''all parsed routes were invalid'' gs)
                          else
                            let loadedRunningBackends = running_urls validRoutes;
                                (m, dflt) = install_routes validRoutes ([], None);
                                gs = gs\<lparr>gs_routes := m, gs_defaultRoute := dflt,
                                        gs_healthChecker := map_option (resetSleeping loadedRunningBackends) (gs_healthChecker gs)\<rparr>
                            in (None, recordRouteReloadSuccess now (cm_ResourceVersion configMap)
                                  (int (length validRoutes)) (int (length routes) - int (length validRoutes)) gs))))"

section \<open>Finding the route of a request\<close>

definition findRoute :: "GatewayService \<Rightarrow> HttpRequest \<Rightarrow> RouteEntry option" where
  "findRoute gs r =
     (let hostname = normalizeHostname (rq_Host r);
          by_host = (if hostname \<noteq> '''' then map_of (gs_routes gs) (''host:'' @ hostname) else None)
      in case by_host of
           Some route \<Rightarrow> Some route
         | None \<Rightarrow>
             let header = header_get (rq_Header r) ''X-Trino-XTrinode''
             in if header \<noteq> '''' then map_of (gs_routes gs) (''hdr:'' @ header)
                else gs_defaultRoute gs)"

section \<open>Watching the ConfigMap\<close>

text \<open>Result and new value of \<open>lastResourceVersion\<close>.\<close>

definition hasConfigMapChanged :: "api_error + ConfigMap \<Rightarrow> int option \<Rightarrow> (api_error + bool) \<times> int option" where
  "hasConfigMapChanged answer lastVersion =
     (case answer of
        Inl err \<Rightarrow> (Inl err, lastVersion)
      | Inr configMap \<Rightarrow>
          let currentVersion = Some (cm_ResourceVersion configMap)
          in if currentVersion = lastVersion then (Inr False, lastVersion) else (Inr True, currentVersion))"

text \<open>One tick of \<open>watchRoutes\<close>: the answer to the version check and the answer to the load.\<close>

definition watch_tick ::
    "Yaml \<Rightarrow> time \<Rightarrow> api_error + ConfigMap \<Rightarrow> api_error + ConfigMap \<Rightarrow> int option \<times> GatewayService \<Rightarrow> int option \<times> GatewayService" where
  "watch_tick y now check_answer load_answer = (\<lambda>(lastResourceVersion, gs).
     case hasConfigMapChanged check_answer lastResourceVersion of
       (Inl err, v) \<Rightarrow> (v, gs)
     | (Inr False, v) \<Rightarrow> (v, gs)
     | (Inr True, v) \<Rightarrow> (v, snd (loadRoutes y now load_answer gs)))"

section \<open>Backends to check\<close>

definition collectHealthCheckBackendURLs :: "GatewayService \<Rightarrow> string list" where
  "collectHealthCheckBackendURLs gs =
     remdups (running_urls (map snd (gs_routes gs)) @ running_urls (case gs_defaultRoute gs of Some r \<Rightarrow> [r] | None \<Rightarrow> []))"

section \<open>What loading does\<close>

definition route_keys :: "RouteEntry \<Rightarrow> string set" where
  "route_keys r =
     (if re_RoutingGroup r \<noteq> '''' then {''rg:'' @ re_RoutingGroup r} else {})
     \<union> (if re_Hostname r \<noteq> '''' then {''host:'' @ normalizeHostname (re_Hostname r)} else {})
     \<union> (if re_Header r \<noteq> '''' then {''hdr:'' @ re_Header r} else {})"

lemma index_route_lookup: "map_of (index_route r m) k = (if k \<in> route_keys r then Some r else map_of m k)"
  by (auto simp: index_route_def route_keys_def Let_def)

lemma install_lookup:
  "map_of (fst (install_routes rs (m, d))) k =
     (case filter (\<lambda>r. k \<in> route_keys r) rs of [] \<Rightarrow> map_of m k | x # xs \<Rightarrow> Some (last (x # xs)))"
  by (induction rs arbitrary: m d) (auto simp: index_route_lookup split: list.splits)

lemma install_default:
  "snd (install_routes rs (m, d)) = (case d of Some x \<Rightarrow> Some x | None \<Rightarrow> List.find re_Default rs)"
  by (induction rs arbitrary: m d) (auto split: option.splits)

lemma install_sound:
  assumes "map_of (fst (install_routes rs ([], None))) k = Some r" shows "r \<in> set rs \<and> k \<in> route_keys r"
proof -
  obtain x xs where f: "filter (\<lambda>r. k \<in> route_keys r) rs = x # xs" "r = last (x # xs)"
    using assms by (auto simp: install_lookup split: list.splits)
  then have "r \<in> set (filter (\<lambda>r. k \<in> route_keys r) rs)" by (metis last_in_set list.discI)
  then show ?thesis by simp
qed

lemma valid_routes_subset: "set (valid_routes gs hs ds rs) \<subseteq> set rs"
proof (induction rs arbitrary: gs hs ds)
  case (Cons r rs)
  have "set (valid_routes a b c rs) \<subseteq> insert r (set rs)" for a b c
    by (rule subset_insertI2 [OF Cons.IH])
  then show ?case by (simp add: Let_def case_prod_beta)
qed simp

text \<open>A well-formed table of loadable routes passes the validation loop as a whole.\<close>

lemma valid_routes_all:
  assumes "sorted_wrt compatible rs" "\<forall>r \<in> set rs. isLoadableRoute r"
    and "\<forall>r \<in> set rs. re_Hostname r \<noteq> '''' \<longrightarrow> normalizeHostname (re_Hostname r) \<noteq> ''''"
    and "\<forall>r \<in> set rs. re_RoutingGroup r \<notin> set gs \<and> normalizeHostname (re_Hostname r) \<notin> set hs \<and> re_Header r \<notin> set ds"
  shows "valid_routes gs hs ds rs = rs"
  using assms
proof (induction rs arbitrary: gs hs ds)
  case (Cons r rs)
  define gs' where "gs' = (if re_RoutingGroup r \<noteq> '''' then re_RoutingGroup r # gs else gs)"
  define hs' where "hs' = (if re_Hostname r \<noteq> '''' then normalizeHostname (re_Hostname r) # hs else hs)"
  define ds' where "ds' = (if re_Header r \<noteq> '''' then re_Header r # ds else ds)"
  have norm: "normalizeHostname '''' = ''''"
    by (simp add: normalizeHostname_def to_lower_def split_host_port_def)
  have "re_RoutingGroup s \<notin> set gs' \<and> normalizeHostname (re_Hostname s) \<notin> set hs' \<and> re_Header s \<notin> set ds'"
    if s: "s \<in> set rs" for s
  proof -
    have "compatible r s" using Cons.prems(1) s by simp
    moreover have "re_Hostname r \<noteq> '''' \<Longrightarrow> normalizeHostname (re_Hostname s) \<noteq> normalizeHostname (re_Hostname r)"
      using calculation Cons.prems(3) norm by (cases "re_Hostname s = ''''") (auto simp: compatible_def host_key_def)
    ultimately show ?thesis
      using Cons.prems(4) s by (auto simp: compatible_def gs'_def hs'_def ds'_def)
  qed
  then have "valid_routes gs' hs' ds' rs = rs" using Cons.prems by (intro Cons.IH) auto
  moreover have "valid_routes gs hs ds (r # rs) = r # valid_routes gs' hs' ds' rs"
    using Cons.prems(2,4) by (simp add: Let_def gs'_def hs'_def ds'_def)
  ultimately show ?case by simp
qed simp

lemma route_keys_iff:
  "k \<in> route_keys r \<longleftrightarrow>
     re_RoutingGroup r \<noteq> '''' \<and> k = ''rg:'' @ re_RoutingGroup r
     \<or> re_Hostname r \<noteq> '''' \<and> k = ''host:'' @ normalizeHostname (re_Hostname r)
     \<or> re_Header r \<noteq> '''' \<and> k = ''hdr:'' @ re_Header r"
  by (simp add: route_keys_def)

lemma unique_key:
  assumes "sorted_wrt compatible rs" "r \<in> set rs" "s \<in> set rs" "k \<in> route_keys r" "k \<in> route_keys s"
    and "\<forall>r \<in> set rs. re_Hostname r \<noteq> '''' \<longrightarrow> normalizeHostname (re_Hostname r) \<noteq> ''''"
  shows "r = s"
proof (rule ccontr)
  assume "r \<noteq> s"
  obtain i j where ij: "i < length rs" "j < length rs" "r = rs ! i" "s = rs ! j"
    using assms(2,3) by (auto simp: in_set_conv_nth)
  then have "i \<noteq> j" using \<open>r \<noteq> s\<close> by auto
  then have c: "compatible r s"
    using assms(1) ij compatible_sym unfolding sorted_wrt_iff_nth_less by (metis linorder_neqE_nat)
  have h: "re_Hostname r \<noteq> '''' \<Longrightarrow> normalizeHostname (re_Hostname r) \<noteq> ''''" using assms(2,6) by blast
  show False
    using assms(4,5) c h unfolding route_keys_iff compatible_def host_key_def
    by (elim disjE conjE) simp_all
qed

lemma install_complete:
  assumes "sorted_wrt compatible rs" "r \<in> set rs" "k \<in> route_keys r"
    and "\<forall>r \<in> set rs. re_Hostname r \<noteq> '''' \<longrightarrow> normalizeHostname (re_Hostname r) \<noteq> ''''"
  shows "map_of (fst (install_routes rs ([], None))) k = Some r"
proof (cases "map_of (fst (install_routes rs ([], None))) k")
  case None
  then have "filter (\<lambda>r. k \<in> route_keys r) rs = []" by (auto simp: install_lookup split: list.splits)
  then show ?thesis using assms(2,3) by (simp add: filter_empty_conv)
next
  case (Some s)
  then show ?thesis using install_sound [OF Some] unique_key [OF assms(1,2) _ assms(3) _ assms(4)] by metis
qed

text \<open>What an answer of the API server gives: routes to install, or \<open>None\<close> when the cached ones are kept.\<close>

definition stored_routes :: "Yaml \<Rightarrow> ConfigMap \<Rightarrow> RouteEntry list option" where
  "stored_routes y cm =
     (case map_of (case cm_Data cm of Some d \<Rightarrow> d | None \<Rightarrow> []) GatewayConfigMapKey of
        None \<Rightarrow> None
      | Some t \<Rightarrow> (case parseRoutes y t of Inl _ \<Rightarrow> None | Inr rs \<Rightarrow> Some rs))"

definition loadable :: "Yaml \<Rightarrow> api_error + ConfigMap \<Rightarrow> RouteEntry list option" where
  "loadable y answer =
     (case answer of
        Inl _ \<Rightarrow> None
      | Inr cm \<Rightarrow>
          (case stored_routes y cm of
             None \<Rightarrow> None
           | Some rs \<Rightarrow> if rs \<noteq> [] \<and> valid_routes [] [] [] rs = [] then None else Some (valid_routes [] [] [] rs)))"

lemmas reload_defs = recordRouteReloadAttempt_def recordRouteReloadFailure_def recordRouteReloadSuccess_def

lemma loadRoutes_keeps:
  assumes "loadable y answer = None"
  shows "gs_routes (snd (loadRoutes y now answer gs)) = gs_routes gs
    \<and> gs_defaultRoute (snd (loadRoutes y now answer gs)) = gs_defaultRoute gs"
proof (cases answer)
  case (Inl err)
  then show ?thesis by (simp add: loadRoutes_def reload_defs)
next
  case (Inr cm)
  consider "map_of (case cm_Data cm of Some d \<Rightarrow> d | None \<Rightarrow> []) GatewayConfigMapKey = None"
    | t e where "map_of (case cm_Data cm of Some d \<Rightarrow> d | None \<Rightarrow> []) GatewayConfigMapKey = Some t" "parseRoutes y t = Inl e"
    | t rs where "map_of (case cm_Data cm of Some d \<Rightarrow> d | None \<Rightarrow> []) GatewayConfigMapKey = Some t" "parseRoutes y t = Inr rs"
    by (metis not_None_eq sum.exhaust)
  then show ?thesis
    using assms Inr
    by cases (simp_all add: loadRoutes_def loadable_def stored_routes_def reload_defs Let_def split: if_splits)
qed

lemma loadRoutes_installs:
  assumes "loadable y answer = Some vs"
  shows "(gs_routes (snd (loadRoutes y now answer gs)), gs_defaultRoute (snd (loadRoutes y now answer gs)))
    = install_routes vs ([], None)"
proof -
  obtain cm t rs where a: "answer = Inr cm"
    "map_of (case cm_Data cm of Some d \<Rightarrow> d | None \<Rightarrow> []) GatewayConfigMapKey = Some t" "parseRoutes y t = Inr rs"
    using assms by (auto simp: loadable_def stored_routes_def split: sum.splits option.splits)
  moreover have "vs = valid_routes [] [] [] rs" "\<not> (rs \<noteq> [] \<and> valid_routes [] [] [] rs = [])"
    using assms a by (auto simp: loadable_def stored_routes_def split: if_splits)
  ultimately show ?thesis
    by (auto simp add: loadRoutes_def reload_defs Let_def case_prod_beta)
qed

lemma valid_routes_loadable: "\<forall>r \<in> set (valid_routes gs hs ds rs). isLoadableRoute r"
  by (induction rs arbitrary: gs hs ds) (simp_all add: Let_def case_prod_beta)

section \<open>The route of a request\<close>

text \<open>
  The order of the selectors: a configured host, then the \<open>X-Trino-XTrinode\<close> header, which is final
  when present, then the default route.
\<close>

definition matches_host :: "HttpRequest \<Rightarrow> RouteEntry \<Rightarrow> bool" where
  "matches_host rq r \<longleftrightarrow> re_Hostname r \<noteq> '''' \<and> normalizeHostname (re_Hostname r) = normalizeHostname (rq_Host rq)"

definition select_route :: "HttpRequest \<Rightarrow> RouteEntry list \<Rightarrow> RouteEntry option" where
  "select_route rq rs =
     (case List.find (matches_host rq) rs of
        Some r \<Rightarrow> Some r
      | None \<Rightarrow>
          let h = header_get (rq_Header rq) ''X-Trino-XTrinode''
          in if h \<noteq> '''' then List.find (\<lambda>r. re_Header r = h) rs else List.find re_Default rs)"

definition route_matches :: "HttpRequest \<Rightarrow> RouteEntry \<Rightarrow> bool" where
  "route_matches rq r \<longleftrightarrow> matches_host rq r
     \<or> header_get (rq_Header rq) ''X-Trino-XTrinode'' \<noteq> '''' \<and> re_Header r = header_get (rq_Header rq) ''X-Trino-XTrinode''
     \<or> header_get (rq_Header rq) ''X-Trino-XTrinode'' = '''' \<and> re_Default r"

lemma host_key_match:
  "(''host:'' @ normalizeHostname h) \<in> route_keys r \<longleftrightarrow>
     re_Hostname r \<noteq> '''' \<and> normalizeHostname (re_Hostname r) = normalizeHostname h"
  by (auto simp: route_keys_iff)

lemma header_key_match: "h \<noteq> '''' \<Longrightarrow> (''hdr:'' @ h) \<in> route_keys r \<longleftrightarrow> re_Header r = h"
  by (auto simp: route_keys_iff)

lemmas key_match = host_key_match [simplified] header_key_match [simplified]

lemma findRoute_cong:
  assumes "gs_routes a = gs_routes b" "gs_defaultRoute a = gs_defaultRoute b"
  shows "findRoute a rq = findRoute b rq"
  unfolding findRoute_def assms by (rule refl)

lemma find_SomeD: "Some r = List.find P xs \<Longrightarrow> r \<in> set xs \<and> P r"
  by (metis find_Some_iff nth_mem)

lemma install_find:
  assumes "sorted_wrt compatible rs"
    and "\<forall>r \<in> set rs. re_Hostname r \<noteq> '''' \<longrightarrow> normalizeHostname (re_Hostname r) \<noteq> ''''"
  shows "map_of (fst (install_routes rs ([], None))) k = List.find (\<lambda>r. k \<in> route_keys r) rs"
proof (cases "List.find (\<lambda>r. k \<in> route_keys r) rs")
  case None
  then have "filter (\<lambda>r. k \<in> route_keys r) rs = []" by (simp add: find_None_iff filter_empty_conv)
  then show ?thesis using None by (simp add: install_lookup)
next
  case (Some r)
  then have "r \<in> set rs" "k \<in> route_keys r" by (auto simp: find_Some_iff)
  then show ?thesis using Some install_complete [OF assms(1) _ _ assms(2)] by simp
qed

lemma installed_lookup:
  assumes "loadable y answer = Some vs"
  shows "gs_routes (snd (loadRoutes y now answer gs)) = fst (install_routes vs ([], None))
    \<and> gs_defaultRoute (snd (loadRoutes y now answer gs)) = List.find re_Default vs"
  using loadRoutes_installs [OF assms, of now gs, symmetric] install_default [of vs "[]" None] by simp

lemma loadable_all:
  assumes "stored_routes y cm = Some rs" "wf_routes rs" "\<forall>r \<in> set rs. isLoadableRoute r"
    and "\<forall>r \<in> set rs. re_Hostname r \<noteq> '''' \<longrightarrow> normalizeHostname (re_Hostname r) \<noteq> ''''"
  shows "loadable y (Inr cm) = Some rs"
  using assms valid_routes_all [of rs "[]" "[]" "[]"] by (simp add: loadable_def wf_routes_def)

text \<open>C4. Loading a well-formed table of loadable routes, each of whose host names is non-empty once
  normalised, puts the whole table in effect: for every request \<open>findRoute\<close> on the index agrees with
  the reference search of the stored table by host, then header, then default.\<close>

theorem find_route_refines_table:
  assumes "stored_routes y cm = Some rs" "wf_routes rs" "\<forall>r \<in> set rs. isLoadableRoute r"
    and "\<forall>r \<in> set rs. re_Hostname r \<noteq> '''' \<longrightarrow> normalizeHostname (re_Hostname r) \<noteq> ''''"
  shows "findRoute (snd (loadRoutes y now (Inr cm) gs)) rq = select_route rq rs"
proof -
  have i: "map_of (fst (install_routes rs ([], None))) k = List.find (\<lambda>r. k \<in> route_keys r) rs" for k
    using assms(2,4) by (intro install_find) (simp_all add: wf_routes_def)
  have no_host: "List.find (matches_host rq) rs = None" if "normalizeHostname (rq_Host rq) = ''''"
    using that assms(4) by (auto simp: find_None_iff matches_host_def)
  have host: "List.find (\<lambda>r. (''host:'' @ normalizeHostname (rq_Host rq)) \<in> route_keys r) rs = List.find (matches_host rq) rs"
    by (rule find_cong) (simp_all only: host_key_match matches_host_def)
  show ?thesis
    using no_host host installed_lookup [OF loadable_all [OF assms], of now gs]
    by (simp add: findRoute_def select_route_def i Let_def key_match split: option.splits)
qed

text \<open>C18. Whatever the API server answers, a route the gateway finds after a load is either one it
  would have found before (the answer had nothing to install), or a structurally valid route of the
  stored table that the request selects.\<close>

theorem find_route_sound:
  assumes "findRoute (snd (loadRoutes y now answer gs)) rq = Some r"
  shows "loadable y answer = None \<and> findRoute gs rq = Some r
    \<or> (\<exists>cm rs. answer = Inr cm \<and> stored_routes y cm = Some rs \<and> r \<in> set rs \<and> isLoadableRoute r \<and> route_matches rq r)"
proof (cases "loadable y answer")
  case None
  then show ?thesis using assms loadRoutes_keeps [OF None, of now gs] findRoute_cong [of _ gs] by metis
next
  case (Some vs)
  then obtain cm rs where a: "answer = Inr cm" "stored_routes y cm = Some rs" "vs = valid_routes [] [] [] rs"
    by (auto simp: loadable_def split: sum.splits option.splits if_splits)
  have "r \<in> set vs \<and> route_matches rq r"
    using assms installed_lookup [OF Some, of now gs]
    by (auto simp: findRoute_def Let_def route_matches_def matches_host_def key_match
        dest!: install_sound find_SomeD split: option.splits if_splits)
  then show ?thesis
    using a valid_routes_subset [of "[]" "[]" "[]" rs] valid_routes_loadable [of "[]" "[]" "[]" rs] by blast
qed

section \<open>A lost reload\<close>

lemma watch_tick_same:
  assumes "case chk of Inl _ \<Rightarrow> True | Inr c \<Rightarrow> Some (cm_ResourceVersion c) = v"
  shows "watch_tick y now chk ld (v, gs) = (v, gs)"
  using assms by (cases chk) (auto simp: watch_tick_def hasConfigMapChanged_def Let_def)

lemma watch_ticks_same:
  assumes "\<forall>(now, chk, ld) \<in> set ticks. case chk of Inl _ \<Rightarrow> True | Inr c \<Rightarrow> Some (cm_ResourceVersion c) = v"
  shows "fold (\<lambda>(now, chk, ld). watch_tick y now chk ld) ticks (v, gs) = (v, gs)"
  using assms by (induction ticks) (auto simp: watch_tick_same)

text \<open>C34. The watch loop records a new ConfigMap version before it reads the routes. When that read
  fails, the change is lost: however many ticks follow, as long as the ConfigMap keeps the version, the
  gateway keeps answering every request with its old routes.\<close>

theorem watch_loses_failed_reload:
  assumes "lastVersion \<noteq> Some (cm_ResourceVersion cm)"
    and "\<forall>(t, chk, ld) \<in> set ticks. case chk of Inl _ \<Rightarrow> True | Inr c \<Rightarrow> cm_ResourceVersion c = cm_ResourceVersion cm"
  shows "findRoute (snd (fold (\<lambda>(t, chk, ld). watch_tick y t chk ld) ticks
           (watch_tick y now (Inr cm) (Inl err) (lastVersion, gs)))) rq = findRoute gs rq"
proof -
  define gs1 where "gs1 = snd (loadRoutes y now (Inl err) gs)"
  have "watch_tick y now (Inr cm) (Inl err) (lastVersion, gs) = (Some (cm_ResourceVersion cm), gs1)"
    using assms(1) by (simp add: watch_tick_def hasConfigMapChanged_def gs1_def Let_def)
  moreover have "fold (\<lambda>(t, chk, ld). watch_tick y t chk ld) ticks (Some (cm_ResourceVersion cm), gs1) = (Some (cm_ResourceVersion cm), gs1)"
    using assms(2) by (intro watch_ticks_same) (auto split: sum.splits)
  moreover have "findRoute gs1 rq = findRoute gs rq"
    using loadRoutes_keeps [of y "Inl err" now gs] by (intro findRoute_cong) (simp_all add: gs1_def loadable_def)
  ultimately show ?thesis by simp
qed

section \<open>Concrete loads\<close>

definition demo_gateway :: GatewayService where
  "demo_gateway =
     \<lparr> gs_routes = [], gs_defaultRoute = None, gs_healthChecker = None, gs_circuitBreaker = None,
       gs_queryActivity = NewQueryActivityTracker 0,
       gs_reloadState = \<lparr> rr_LastAttempt = 0, rr_LastSuccess = 0, rr_LastFailure = 0, rr_LastError = '''',
          rr_ConfigMapResourceVersion = None, rr_RoutesLoaded = 0, rr_InvalidRoutes = 0 \<rparr> \<rparr>"

definition demo_route :: RouteEntry where
  "demo_route = createRouteEntry ''g'' ''g'' ''g'' ''g.example.com'' (demo_backend ''ns'' ''b'') False"

definition demo_table_yaml :: Yaml where
  "demo_table_yaml = \<lparr> ym_Unmarshal = (\<lambda>_. Inr [demo_route]), ym_Marshal = (\<lambda>_. Inr ''t'') \<rparr>"

definition demo_cm :: ConfigMap where
  "demo_cm = \<lparr> cm_Data = Some [(GatewayConfigMapKey, ''t'')], cm_ResourceVersion = 3 \<rparr>"

definition demo_request :: "string \<Rightarrow> headers \<Rightarrow> HttpRequest" where
  "demo_request host hs =
     \<lparr> rq_Method = ''GET'', rq_Host = host, rq_Path = ''/v1/statement'', rq_RemoteAddr = ''10.0.0.1:5'', rq_TLS = False,
       rq_Header = hs \<rparr>"

lemma demo_stored: "stored_routes demo_table_yaml demo_cm = Some [demo_route]"
  by (simp add: stored_routes_def demo_cm_def parseRoutes_def demo_table_yaml_def)

lemma demo_loadable: "isLoadableRoute demo_route"
  by code_simp

theorem find_route_refines_table_witness:
  "findRoute (snd (loadRoutes demo_table_yaml 5 (Inr demo_cm) demo_gateway)) (demo_request ''G.example.com:443'' [])
     = Some demo_route"
proof -
  have "wf_routes [demo_route]" by (simp add: wf_routes_def route_ok_def demo_route_def createRouteEntry_def)
  moreover have "\<forall>r \<in> set [demo_route]. re_Hostname r \<noteq> '''' \<longrightarrow> normalizeHostname (re_Hostname r) \<noteq> ''''" by code_simp
  moreover have "select_route (demo_request ''G.example.com:443'' []) [demo_route] = Some demo_route" by code_simp
  ultimately show ?thesis
    using find_route_refines_table [OF demo_stored, of 5 demo_gateway] demo_loadable by simp
qed

theorem find_route_sound_witness:
  "route_matches (demo_request ''other'' [(''x-trino-xtrinode'', ''g'')]) demo_route \<and> isLoadableRoute demo_route"
proof -
  have "findRoute (snd (loadRoutes demo_table_yaml 5 (Inr demo_cm) demo_gateway))
      (demo_request ''other'' [(''x-trino-xtrinode'', ''g'')]) = Some demo_route"
    by code_simp
  moreover have "findRoute demo_gateway (demo_request ''other'' [(''x-trino-xtrinode'', ''g'')]) = None" by code_simp
  ultimately show ?thesis using find_route_sound [of demo_table_yaml 5 "Inr demo_cm" demo_gateway] demo_stored by fastforce
qed

theorem watch_loses_failed_reload_witness:
  "findRoute (snd (fold (\<lambda>(t, chk, ld). watch_tick demo_table_yaml t chk ld) [(9, Inr demo_cm, Inr demo_cm)]
     (watch_tick demo_table_yaml 5 (Inr demo_cm) (Inl ConflictErr) (Some 2, demo_gateway))))
     (demo_request ''g.example.com'' []) = None"
proof -
  have "Some 2 \<noteq> Some (cm_ResourceVersion demo_cm)" by (simp add: demo_cm_def)
  moreover have "findRoute demo_gateway (demo_request ''g.example.com'' []) = None" by code_simp
  ultimately show ?thesis
    using watch_loses_failed_reload [of "Some 2" demo_cm "[(9, Inr demo_cm, Inr demo_cm)]" demo_table_yaml 5 ConflictErr
        demo_gateway "demo_request ''g.example.com'' []"] by simp
qed

end
