(* ===== verification/BackendSelection.thy ===== *)
theory BackendSelection
  imports RouteCache "HOL-Library.Product_Lexorder" Complex_Main
begin

text \<open>
  Which backend a new query goes to, which backend may continue a running query, and which
  backend to wake up: \<open>pkg/gateway/backend_selection.go\<close> and \<open>pkg/gateway/resume_candidate.go\<close>. A
  selection reads the clock once; \<open>get\<close> is the answer of the backend to a health probe. Loads,
  capacities and their products are 64-bit integers.
\<close>

section \<open>Runtime guards\<close>

definition backendPassesRuntimeGuards :: "time \<Rightarrow> string \<Rightarrow> GatewayService \<Rightarrow> bool \<times> GatewayService" where
  "backendPassesRuntimeGuards now backendURL gs =
     (if (case gs_healthChecker gs of Some hc \<Rightarrow> \<not> IsHealthy now hc backendURL | None \<Rightarrow> False) then (False, gs)
      else case gs_circuitBreaker gs of
             None \<Rightarrow> (True, gs)
           | Some cbm \<Rightarrow>
               let (breaker, cbm) = gateway_breaker backendURL cbm;
                   gs = gs\<lparr>gs_circuitBreaker := Some cbm\<rparr>
               in if \<not> Selectable now breaker then (False, gs) else (True, gs))"

definition isBackendSelectable :: "time \<Rightarrow> Backend \<Rightarrow> GatewayService \<Rightarrow> bool \<times> GatewayService" where
  "isBackendSelectable now backend gs =
     (if be_State backend \<noteq> '''' \<and> be_State backend \<noteq> StateRunning then (False, gs)
      else if \<not> be_Active backend then (False, gs)
      else backendPassesRuntimeGuards now (be_CoordinatorURL backend) gs)"

definition isStickyBackendRoutable :: "time \<Rightarrow> Backend \<Rightarrow> GatewayService \<Rightarrow> bool \<times> GatewayService" where
  "isStickyBackendRoutable now backend gs =
     (if be_State backend = '''' \<or> be_State backend = StateRunning then
        if \<not> be_Active backend then (False, gs)
        else backendPassesRuntimeGuards now (be_CoordinatorURL backend) gs
      else if be_State backend = StateDraining then backendPassesRuntimeGuards now (be_CoordinatorURL backend) gs
      else (False, gs))"

section \<open>Load balancing\<close>

definition getBackendLoad :: "(string \<times> BackendLoad) list \<Rightarrow> string \<Rightarrow> BackendLoad" where
  "getBackendLoad loads backendURL = (case map_of loads backendURL of None \<Rightarrow> zero_load | Some load \<Rightarrow> load)"

definition total_load :: "(string \<times> BackendLoad) list \<Rightarrow> Backend \<Rightarrow> int" where
  "total_load loads b =
     (let load = getBackendLoad loads (be_CoordinatorURL b) in i64 (bl_RunningQueries load + bl_QueuedQueries load))"

definition capacity_units :: "Backend \<Rightarrow> int" where
  "capacity_units b = (if be_CapacityUnits b \<le> 0 then 1 else be_CapacityUnits b)"

text \<open>The comparison of a backend with the one selected so far.\<close>

definition lighter :: "(string \<times> BackendLoad) list \<Rightarrow> Backend \<Rightarrow> Backend \<Rightarrow> bool" where
  "lighter loads b selected \<longleftrightarrow>
     (let crossA = i64 (total_load loads b * capacity_units selected);
          crossB = i64 (total_load loads selected * capacity_units b)
      in crossA < crossB \<or> crossA = crossB \<and> capacity_units b < capacity_units selected)"

definition smaller :: "Backend \<Rightarrow> Backend \<Rightarrow> bool" where
  "smaller b selected \<longleftrightarrow> capacity_units b < capacity_units selected"

definition selectSmallestCapacity :: "Backend list \<Rightarrow> Backend option" where
  "selectSmallestCapacity backends = scan_best smaller None backends"

definition selectByCapacity :: "(string \<times> BackendLoad) list \<Rightarrow> Backend list \<Rightarrow> Backend option" where
  "selectByCapacity loads backends =
     (case scan_best (lighter loads) None backends of
        None \<Rightarrow> selectSmallestCapacity backends
      | Some selected \<Rightarrow> Some selected)"

definition hasLoadData :: "Backend list \<Rightarrow> (string \<times> BackendLoad) list \<Rightarrow> bool" where
  "hasLoadData backends loads \<longleftrightarrow>
     (\<exists>b \<in> set backends. case map_of loads (be_CoordinatorURL b) of
        None \<Rightarrow> False
      | Some load \<Rightarrow> i64 (bl_RunningQueries load + bl_QueuedQueries load) > 0)"

section \<open>Selecting a backend\<close>

fun selectable_backends :: "time \<Rightarrow> Backend list \<Rightarrow> GatewayService \<Rightarrow> Backend list \<times> GatewayService" where
  "selectable_backends now [] gs = ([], gs)"
| "selectable_backends now (b # bs) gs =
     (let (ok, gs) = isBackendSelectable now b gs;
          (active, gs) = selectable_backends now bs gs
      in (if ok then b # active else active, gs))"

text \<open>The fail-open pass: a backend marked sleeping is probed and stays out unless the probe succeeds.\<close>

definition awake_after_probe ::
    "(string \<Rightarrow> probe_result) \<Rightarrow> time \<Rightarrow> string \<Rightarrow> GatewayService \<Rightarrow> bool \<times> GatewayService" where
  "awake_after_probe get now backendURL gs =
     (case gs_healthChecker gs of
        None \<Rightarrow> (True, gs)
      | Some hc \<Rightarrow>
          if IsSleeping now hc backendURL then
            let (ok, hc) = probeBackend get now backendURL hc
            in (ok, gs\<lparr>gs_healthChecker := Some hc\<rparr>)
          else (True, gs))"

fun fail_open_backends ::
    "(string \<Rightarrow> probe_result) \<Rightarrow> time \<Rightarrow> Backend list \<Rightarrow> GatewayService \<Rightarrow> Backend list \<times> GatewayService" where
  "fail_open_backends get now [] gs = ([], gs)"
| "fail_open_backends get now (b # bs) gs =
     (if be_State b \<noteq> '''' \<and> be_State b \<noteq> StateRunning then fail_open_backends get now bs gs
      else if \<not> be_Active b then fail_open_backends get now bs gs
      else
        let (ok, gs) = awake_after_probe get now (be_CoordinatorURL b) gs;
            (active, gs) = fail_open_backends get now bs gs
        in (if ok then b # active else active, gs))"

definition selectBackend ::
    "(string \<Rightarrow> probe_result) \<Rightarrow> time \<Rightarrow> RouteEntry \<Rightarrow> GatewayService \<Rightarrow> Backend option \<times> GatewayService" where
  "selectBackend get now route gs =
     (if re_Backends route = [] then (None, gs)
      else
        let (activeBackends, gs) = selectable_backends now (re_Backends route) gs;
            (activeBackends, gs) =
              (if activeBackends = [] then fail_open_backends get now (re_Backends route) gs else (activeBackends, gs))
        in if activeBackends = [] then (None, gs)
           else
             let (backendLoads, t) = BackendLoads now (gs_queryActivity gs);
                 gs = gs\<lparr>gs_queryActivity := t\<rparr>
             in if hasLoadData activeBackends backendLoads
                then (selectByCapacity backendLoads activeBackends, gs)
                else (selectSmallestCapacity activeBackends, gs))"

section \<open>Choosing a backend to resume\<close>

definition resumeStatePriority :: "BackendState \<Rightarrow> int option" where
  "resumeStatePriority state =
     (if state = StatePaused then Some 0 else if state = StateResuming then Some 1 else None)"

definition resume_better :: "Backend \<Rightarrow> Backend \<Rightarrow> bool" where
  "resume_better b best \<longleftrightarrow>
     (let pri = the (resumeStatePriority (be_State b)); bestStatePri = the (resumeStatePriority (be_State best));
          capacity = capacity_units b; bestCap = capacity_units best
      in pri < bestStatePri
         \<or> (pri = bestStatePri \<and> capacity < bestCap)
         \<or> (pri = bestStatePri \<and> capacity = bestCap \<and> (be_Name b < be_Name best
              \<or> (be_Name b = be_Name best \<and> be_Namespace b < be_Namespace best))))"

definition sleeping_better :: "Backend \<Rightarrow> Backend \<Rightarrow> bool" where
  "sleeping_better b best \<longleftrightarrow>
     (let capacity = capacity_units b; bestCap = capacity_units best
      in capacity < bestCap
         \<or> (capacity = bestCap \<and> (be_Name b < be_Name best
              \<or> (be_Name b = be_Name best \<and> be_Namespace b < be_Namespace best))))"

definition resumable :: "Backend \<Rightarrow> bool" where
  "resumable b \<longleftrightarrow> be_Active b \<and> \<not> (be_Name b = '''' \<or> be_Namespace b = '''') \<and> resumeStatePriority (be_State b) \<noteq> None"

definition sleeping_resumable :: "time \<Rightarrow> BackendHealthChecker \<Rightarrow> Backend \<Rightarrow> bool" where
  "sleeping_resumable now hc b \<longleftrightarrow>
     be_Active b \<and> \<not> (be_Name b = '''' \<or> be_Namespace b = '''')
     \<and> \<not> (be_State b \<noteq> '''' \<and> be_State b \<noteq> StateRunning) \<and> IsSleeping now hc (be_CoordinatorURL b)"

definition pickSleepingResumeCandidate :: "time \<Rightarrow> RouteEntry \<Rightarrow> GatewayService \<Rightarrow> Backend option" where
  "pickSleepingResumeCandidate now route gs =
     (case gs_healthChecker gs of
        None \<Rightarrow> None
      | Some hc \<Rightarrow> scan_best sleeping_better None (filter (sleeping_resumable now hc) (re_Backends route)))"

definition pickResumeCandidate :: "time \<Rightarrow> RouteEntry \<Rightarrow> GatewayService \<Rightarrow> Backend option" where
  "pickResumeCandidate now route gs =
     (if re_Backends route = [] then None
      else case scan_best resume_better None (filter resumable (re_Backends route)) of
             None \<Rightarrow> pickSleepingResumeCandidate now route gs
           | Some b \<Rightarrow> Some b)"

section \<open>The filters as predicates\<close>

text \<open>
  Filtering creates missing breakers and nothing else, so whether a backend is selectable does not
  depend on the backends before it.
\<close>

definition guards_pass :: "time \<Rightarrow> GatewayService \<Rightarrow> string \<Rightarrow> bool" where
  "guards_pass now gs u \<longleftrightarrow>
     (case gs_healthChecker gs of None \<Rightarrow> True | Some hc \<Rightarrow> IsHealthy now hc u)
     \<and> (case gs_circuitBreaker gs of None \<Rightarrow> True | Some cbm \<Rightarrow> Selectable now (cbreg.current cbm u))"

definition open_for_new :: "Backend \<Rightarrow> bool" where
  "open_for_new b \<longleftrightarrow> (be_State b = '''' \<or> be_State b = StateRunning) \<and> be_Active b"

definition selectable :: "time \<Rightarrow> GatewayService \<Rightarrow> Backend \<Rightarrow> bool" where
  "selectable now gs b \<longleftrightarrow> open_for_new b \<and> guards_pass now gs (be_CoordinatorURL b)"

text \<open>Two states that agree on all a selection reads.\<close>

definition same_guards :: "GatewayService \<Rightarrow> GatewayService \<Rightarrow> bool" where
  "same_guards gs gs' \<longleftrightarrow> (\<forall>now. guards_pass now gs' = guards_pass now gs)
     \<and> gs_healthChecker gs' = gs_healthChecker gs \<and> gs_queryActivity gs' = gs_queryActivity gs
     \<and> gs_routes gs' = gs_routes gs \<and> gs_defaultRoute gs' = gs_defaultRoute gs"

lemma same_guards_refl [simp]: "same_guards gs gs" by (simp add: same_guards_def)

lemma same_guards_trans: "same_guards a b \<Longrightarrow> same_guards b c \<Longrightarrow> same_guards a c"
  by (simp add: same_guards_def)

lemma guards_result: "fst (backendPassesRuntimeGuards now u gs) = guards_pass now gs u"
  by (auto simp: backendPassesRuntimeGuards_def guards_pass_def cbreg.fetch_current [symmetric] Let_def case_prod_beta
      split: option.splits)

lemma guards_state: "same_guards gs (snd (backendPassesRuntimeGuards now u gs))"
  by (auto simp: backendPassesRuntimeGuards_def same_guards_def guards_pass_def fun_eq_iff cbreg.fetch_pure Let_def
      case_prod_beta split: option.splits)

lemma isBackendSelectable_pure:
  "fst (isBackendSelectable now b gs) = selectable now gs b \<and> same_guards gs (snd (isBackendSelectable now b gs))"
  using guards_result guards_state by (auto simp: isBackendSelectable_def selectable_def open_for_new_def)

lemma sticky_pure:
  "fst (isStickyBackendRoutable now b gs) \<longleftrightarrow>
     (open_for_new b \<or> be_State b = StateDraining) \<and> guards_pass now gs (be_CoordinatorURL b)"
  by (auto simp: isStickyBackendRoutable_def open_for_new_def guards_result StateDraining_def StateRunning_def)

lemma same_guards_selectable: "same_guards gs gs' \<Longrightarrow> selectable now gs' = selectable now gs"
  by (simp add: same_guards_def selectable_def fun_eq_iff)

lemma selectable_backends_pure:
  "fst (selectable_backends now bs gs) = filter (selectable now gs) bs
   \<and> same_guards gs (snd (selectable_backends now bs gs))"
proof (induction bs arbitrary: gs)
  case (Cons b bs)
  define gs1 where "gs1 = snd (isBackendSelectable now b gs)"
  have g: "same_guards gs gs1" using isBackendSelectable_pure by (simp add: gs1_def)
  have "fst (selectable_backends now bs gs1) = filter (selectable now gs) bs"
    using Cons.IH [of gs1] same_guards_selectable [OF g] by simp
  moreover have "same_guards gs (snd (selectable_backends now bs gs1))"
    using Cons.IH [of gs1] g same_guards_trans by blast
  ultimately show ?case
    using isBackendSelectable_pure [of now b gs] by (simp add: Let_def case_prod_beta gs1_def [symmetric])
qed simp

text \<open>What the fail-open pass lets through.\<close>

lemma fail_open_sound:
  "b \<in> set (fst (fail_open_backends get now bs gs)) \<Longrightarrow> b \<in> set bs \<and> open_for_new b"
  by (induction bs arbitrary: gs) (auto simp: Let_def case_prod_beta open_for_new_def split: if_splits)

section \<open>Sort keys\<close>

definition load_ratio :: "(string \<times> BackendLoad) list \<Rightarrow> Backend \<Rightarrow> rat" where
  "load_ratio loads b = of_int (total_load loads b) / of_int (capacity_units b)"

text \<open>Loads and capacities whose products fit in 64 bits.\<close>

definition in_range :: "(string \<times> BackendLoad) list \<Rightarrow> Backend \<Rightarrow> bool" where
  "in_range loads b \<longleftrightarrow> 0 \<le> total_load loads b \<and> total_load loads b < 2 ^ 31 \<and> capacity_units b < 2 ^ 31"

lemma capacity_pos [simp]: "0 < capacity_units b"
  by (simp add: capacity_units_def)

lemma capacity_nonneg [simp]: "0 \<le> capacity_units b"
  by (simp add: capacity_units_def)

lemma cross_exact:
  assumes "in_range loads a" "in_range loads b"
  shows "i64 (total_load loads a * capacity_units b) = total_load loads a * capacity_units b"
proof -
  have "0 \<le> total_load loads a * capacity_units b"
    using assms(1) less_imp_le [OF capacity_pos [of b]] by (intro mult_nonneg_nonneg) (simp_all add: in_range_def)
  moreover have "total_load loads a * capacity_units b \<le> 2 ^ 31 * 2 ^ 31"
    using assms capacity_pos [of b] by (intro mult_mono) (auto simp: in_range_def)
  ultimately show ?thesis by (intro i64_id) simp_all
qed

lemma lighter_key:
  assumes "in_range loads a" "in_range loads b"
  shows "lighter loads a b \<longleftrightarrow> (load_ratio loads a, capacity_units a) < (load_ratio loads b, capacity_units b)"
proof -
  let ?la = "total_load loads a" and ?lb = "total_load loads b" and ?ca = "capacity_units a" and ?cb = "capacity_units b"
  have lt: "load_ratio loads a < load_ratio loads b \<longleftrightarrow> ?la * ?cb < ?lb * ?ca"
  proof -
    have "load_ratio loads a < load_ratio loads b \<longleftrightarrow> rat_of_int ?la * of_int ?cb < of_int ?lb * of_int ?ca"
      by (simp add: load_ratio_def divide_less_eq less_divide_eq pos_divide_less_eq pos_less_divide_eq field_simps)
    then show ?thesis by (simp only: of_int_mult [symmetric] of_int_less_iff)
  qed
  have eq: "load_ratio loads a = load_ratio loads b \<longleftrightarrow> ?la * ?cb = ?lb * ?ca"
  proof -
    have "load_ratio loads a = load_ratio loads b \<longleftrightarrow> rat_of_int ?la * of_int ?cb = of_int ?lb * of_int ?ca"
      using capacity_pos [of a] capacity_pos [of b]
      by (simp add: load_ratio_def frac_eq_eq less_imp_neq [THEN not_sym])
    then show ?thesis by (simp only: of_int_mult [symmetric] of_int_eq_iff)
  qed
  have le: "load_ratio loads a \<le> load_ratio loads b \<longleftrightarrow> ?la * ?cb \<le> ?lb * ?ca"
    using lt eq by (simp add: order.order_iff_strict)
  show ?thesis
    by (auto simp: lighter_def cross_exact assms less_prod_def lt le Let_def)
qed

definition balance_key :: "(string \<times> BackendLoad) list \<Rightarrow> Backend \<Rightarrow> rat \<times> int" where
  "balance_key loads b = (load_ratio loads b, capacity_units b)"

interpretation by_load: selection_key "in_range loads" "lighter loads" "balance_key loads" for loads
  by unfold_locales (simp add: balance_key_def lighter_key)

interpretation by_size: selection_key "\<lambda>_. True" smaller capacity_units
  by unfold_locales (simp add: smaller_def)

definition resume_key :: "Backend \<Rightarrow> int \<times> int \<times> string \<times> string" where
  "resume_key b = (the (resumeStatePriority (be_State b)), capacity_units b, be_Name b, be_Namespace b)"

interpretation by_resume: selection_key "\<lambda>_. True" resume_better resume_key
  by unfold_locales (auto simp: resume_better_def resume_key_def less_prod_def less_eq_prod_def Let_def)

interpretation by_sleeping: selection_key "\<lambda>_. True" sleeping_better "\<lambda>b. (capacity_units b, be_Name b, be_Namespace b)"
  by unfold_locales (auto simp: sleeping_better_def less_prod_def less_eq_prod_def Let_def)

section \<open>What a selection returns\<close>

lemma loads_loop_bounds:
  assumes "0 \<le> bl_RunningQueries (load_of loads u)" "0 \<le> bl_QueuedQueries (load_of loads u)"
  shows "0 \<le> bl_RunningQueries (load_of (snd (snd (loads_loop now ttl qs (m, ch, loads)))) u)
    \<and> 0 \<le> bl_QueuedQueries (load_of (snd (snd (loads_loop now ttl qs (m, ch, loads)))) u)
    \<and> bl_RunningQueries (load_of (snd (snd (loads_loop now ttl qs (m, ch, loads)))) u)
        + bl_QueuedQueries (load_of (snd (snd (loads_loop now ttl qs (m, ch, loads)))) u)
      \<le> bl_RunningQueries (load_of loads u) + bl_QueuedQueries (load_of loads u) + int (length qs)"
  using assms
proof (induction qs arbitrary: m ch loads)
  case (Cons q qs)
  obtain k a where q: "q = (k, a)" by force
  define load where "load = load_of loads (qa_backendURL a)"
  define load' where "load' = (if qa_state a = ''QUEUED''
      then load\<lparr>bl_QueuedQueries := bl_QueuedQueries load + 1\<rparr>
      else load\<lparr>bl_RunningQueries := bl_RunningQueries load + 1\<rparr>)\<lparr>bl_LastUpdate := now\<rparr>"
  have step: "loads_loop now ttl (q # qs) (m, ch, loads) = loads_loop now ttl qs
      (if expired now ttl a then (AList.delete k m, True, loads)
       else if qa_backendURL a = '''' then (m, ch, loads)
       else (m, ch, AList.update (qa_backendURL a) load' loads))"
    by (simp add: q expired_def Let_def load'_def load_def load_of_def)
  define loads' where "loads' = AList.update (qa_backendURL a) load' loads"
  have l': "0 \<le> bl_RunningQueries (load_of loads' u)" "0 \<le> bl_QueuedQueries (load_of loads' u)"
    "bl_RunningQueries (load_of loads' u) + bl_QueuedQueries (load_of loads' u)
       \<le> bl_RunningQueries (load_of loads u) + bl_QueuedQueries (load_of loads u) + 1"
    using Cons.prems by (auto simp: loads'_def load'_def load_def)
  consider "expired now ttl a" | "\<not> expired now ttl a" "qa_backendURL a = []" | "\<not> expired now ttl a" "qa_backendURL a \<noteq> []"
    by blast
  then show ?case
  proof cases
    case 1
    then show ?thesis using Cons.IH [OF Cons.prems, of "AList.delete k m" True] by (simp add: step)
  next
    case 2
    then show ?thesis using Cons.IH [OF Cons.prems, of m ch] by (simp add: step)
  next
    case 3
    then show ?thesis using Cons.IH [OF l'(1,2), of m ch] l'(3) by (simp add: step loads'_def [symmetric])
  qed
qed simp

lemma total_load_exact:
  assumes "length (qt_queries t) < 2 ^ 31"
  shows "0 \<le> total_load (fst (BackendLoads now t)) b \<and> total_load (fst (BackendLoads now t)) b < 2 ^ 31"
    and "total_load (fst (BackendLoads now t)) b = bl_RunningQueries (load_of (fst (BackendLoads now t)) (be_CoordinatorURL b))
      + bl_QueuedQueries (load_of (fst (BackendLoads now t)) (be_CoordinatorURL b))"
proof -
  let ?u = "be_CoordinatorURL b"
  have l: "fst (BackendLoads now t) = snd (snd (loads_loop now (qt_ttl t) (qt_queries t) (qt_queries t, False, [])))"
    by (simp add: BackendLoads_def Let_def split: prod.splits)
  have b: "0 \<le> bl_RunningQueries (load_of (fst (BackendLoads now t)) ?u)
      \<and> 0 \<le> bl_QueuedQueries (load_of (fst (BackendLoads now t)) ?u)
      \<and> bl_RunningQueries (load_of (fst (BackendLoads now t)) ?u) + bl_QueuedQueries (load_of (fst (BackendLoads now t)) ?u) < 2 ^ 31"
    using loads_loop_bounds [of "[]" ?u now "qt_ttl t" "qt_queries t" "qt_queries t" False] assms
    by (simp add: l load_of_def zero_load_def)
  have g: "getBackendLoad ls ?u = load_of ls ?u" for ls
    by (simp add: getBackendLoad_def load_of_def split: option.splits)
  show e: "total_load (fst (BackendLoads now t)) b = bl_RunningQueries (load_of (fst (BackendLoads now t)) ?u)
      + bl_QueuedQueries (load_of (fst (BackendLoads now t)) ?u)"
    unfolding total_load_def g Let_def using b by (intro i64_id) auto
  show "0 \<le> total_load (fst (BackendLoads now t)) b \<and> total_load (fst (BackendLoads now t)) b < 2 ^ 31"
    unfolding e using b by simp
qed

lemma awake_cong:
  assumes "gs_healthChecker a = gs_healthChecker b"
  shows "fst (awake_after_probe get now u a) = fst (awake_after_probe get now u b)
    \<and> gs_healthChecker (snd (awake_after_probe get now u a)) = gs_healthChecker (snd (awake_after_probe get now u b))"
  using assms by (cases "gs_healthChecker b") (auto simp: awake_after_probe_def Let_def case_prod_beta)

lemma fail_open_cong:
  assumes "gs_healthChecker a = gs_healthChecker b"
  shows "fst (fail_open_backends get now bs a) = fst (fail_open_backends get now bs b)"
  using assms
proof (induction bs arbitrary: a b)
  case (Cons x bs)
  show ?case
    using awake_cong [OF Cons.prems, of get now "be_CoordinatorURL x"] Cons.IH [OF Cons.prems]
      Cons.IH [of "snd (awake_after_probe get now (be_CoordinatorURL x) a)" "snd (awake_after_probe get now (be_CoordinatorURL x) b)"]
    by (simp add: Let_def case_prod_beta)
qed simp

lemma fail_open_tracker: "gs_queryActivity (snd (fail_open_backends get now bs gs)) = gs_queryActivity gs"
proof (induction bs arbitrary: gs)
  case (Cons x bs)
  have "gs_queryActivity (snd (awake_after_probe get now (be_CoordinatorURL x) gs)) = gs_queryActivity gs"
    by (simp add: awake_after_probe_def Let_def case_prod_beta split: option.splits)
  then show ?case by (simp add: Cons.IH Let_def case_prod_beta)
qed simp

definition candidates :: "(string \<Rightarrow> probe_result) \<Rightarrow> time \<Rightarrow> RouteEntry \<Rightarrow> GatewayService \<Rightarrow> Backend list" where
  "candidates get now route gs =
     (if filter (selectable now gs) (re_Backends route) \<noteq> [] then filter (selectable now gs) (re_Backends route)
      else fst (fail_open_backends get now (re_Backends route) gs))"

lemma selectBackend_result:
  "fst (selectBackend get now route gs) =
     (let cs = candidates get now route gs; loads = fst (BackendLoads now (gs_queryActivity gs))
      in if cs = [] then None else if hasLoadData cs loads then selectByCapacity loads cs else selectSmallestCapacity cs)"
proof -
  obtain act gs1 where s: "selectable_backends now (re_Backends route) gs = (act, gs1)" by force
  then have act: "act = filter (selectable now gs) (re_Backends route)" and g: "same_guards gs gs1"
    using selectable_backends_pure [of now "re_Backends route" gs] by auto
  have f: "fst (fail_open_backends get now (re_Backends route) gs1) = fst (fail_open_backends get now (re_Backends route) gs)"
    using g by (intro fail_open_cong) (simp add: same_guards_def)
  have q: "gs_queryActivity gs1 = gs_queryActivity gs" using g by (simp add: same_guards_def)
  show ?thesis
    using act f q fail_open_tracker [of get now "re_Backends route" gs1]
    by (auto simp: selectBackend_def candidates_def s Let_def case_prod_beta)
qed

lemma candidates_open: "b \<in> set (candidates get now route gs) \<Longrightarrow> b \<in> set (re_Backends route) \<and> open_for_new b"
  using fail_open_sound [of b get now "re_Backends route" gs]
  by (auto simp: candidates_def selectable_def split: if_splits)

lemma idle_least:
  assumes "\<not> hasLoadData cs loads" "\<forall>x \<in> set cs. in_range loads x" "selectSmallestCapacity cs = Some b"
  shows "\<exists>ys zs. cs = ys @ b # zs \<and> (\<forall>y \<in> set ys. balance_key loads b < balance_key loads y)
    \<and> (\<forall>x \<in> set cs. balance_key loads b \<le> balance_key loads x)"
proof -
  have zero: "load_ratio loads x = 0" if x: "x \<in> set cs" for x
  proof -
    have "total_load loads x \<le> 0"
      using assms(1) x
      by (auto simp: hasLoadData_def total_load_def getBackendLoad_def zero_load_def i64_def split: option.splits)
    then have "total_load loads x = 0" using assms(2) x by (force simp: in_range_def)
    then show ?thesis by (simp add: load_ratio_def)
  qed
  obtain ys zs where "cs = ys @ b # zs" "\<forall>y \<in> set ys. capacity_units b < capacity_units y"
    "\<forall>x \<in> set cs. capacity_units b \<le> capacity_units x"
    using by_size.scan_first_least [of cs b] assms(3) by (auto simp: selectSmallestCapacity_def)
  then show ?thesis
    using zero by (intro exI [of _ ys] exI [of _ zs]) (auto simp: balance_key_def less_prod_def less_eq_prod_def)
qed

text \<open>C3. Selection follows the documented policy: as long as fewer than 2^31 queries are tracked and the
  capacities are below 2^31 (so that the cross products do not wrap), \<open>selectBackend\<close> returns nothing
  only when no backend may take the query, and otherwise the first candidate with the least ratio of
  tracked queries to capacity, the smaller capacity winning a tie.\<close>

theorem select_backend_policy:
  assumes "length (qt_queries (gs_queryActivity gs)) < 2 ^ 31"
    and "\<forall>b \<in> set (re_Backends route). be_CapacityUnits b < 2 ^ 31"
  shows "case fst (selectBackend get now route gs) of
      None \<Rightarrow> candidates get now route gs = []
    | Some b \<Rightarrow>
        let key = balance_key (fst (BackendLoads now (gs_queryActivity gs)))
        in \<exists>ys zs. candidates get now route gs = ys @ b # zs \<and> (\<forall>y \<in> set ys. key b < key y)
          \<and> (\<forall>x \<in> set (candidates get now route gs). key b \<le> key x)"
proof -
  let ?cs = "candidates get now route gs" and ?loads = "fst (BackendLoads now (gs_queryActivity gs))"
  have range: "\<forall>x \<in> set ?cs. in_range ?loads x"
  proof
    fix x assume "x \<in> set ?cs"
    then have "x \<in> set (re_Backends route)" using candidates_open by blast
    then show "in_range ?loads x"
      using assms total_load_exact(1) [of "gs_queryActivity gs" now x] by (auto simp: in_range_def capacity_units_def)
  qed
  show ?thesis
  proof (cases "fst (selectBackend get now route gs)")
    case None
    then have "?cs = []"
      by (auto simp: selectBackend_result selectByCapacity_def selectSmallestCapacity_def scan_best_None_iff Let_def
          split: if_splits option.splits)
    then show ?thesis by (simp add: None)
  next
    case (Some b)
    show ?thesis
    proof (cases "hasLoadData ?cs ?loads")
      case True
      then have "scan_best (lighter ?loads) None ?cs = Some b"
        using Some by (auto simp: selectBackend_result selectByCapacity_def selectSmallestCapacity_def scan_best_None_iff Let_def
            split: if_splits option.splits)
      then show ?thesis using by_load.scan_first_least [OF range] Some by simp
    next
      case False
      then have "selectSmallestCapacity ?cs = Some b"
        using Some by (auto simp: selectBackend_result Let_def split: if_splits)
      then show ?thesis using idle_least [OF False range] Some by simp
    qed
  qed
qed

section \<open>What a selection never does\<close>

lemma probe_frame:
  "u \<noteq> v \<Longrightarrow> map_of (hc_healthStatus (snd (probeBackend get t v hc))) u = map_of (hc_healthStatus hc) u"
  "hc_staleThreshold (snd (probeBackend get t v hc)) = hc_staleThreshold hc"
  by (auto simp: probeBackend_def record_defs Let_def split: probe_result.splits)

lemma probe_other: "u \<noteq> v \<Longrightarrow> IsSleeping now (snd (probeBackend get t v hc)) u = IsSleeping now hc u"
  by (simp add: IsSleeping_def probe_frame split: option.splits)

lemma probe_success: "fst (probeBackend get now u hc) \<Longrightarrow> \<exists>code. get u = ProbeStatus code \<and> 200 \<le> code \<and> code < 300"
  by (auto simp: probeBackend_def split: probe_result.splits if_splits)

lemma fail_open_awake:
  assumes "b \<in> set (fst (fail_open_backends get now bs gs))" "distinct (map be_CoordinatorURL bs)"
    and "gs_healthChecker gs = Some hc" "IsSleeping now hc (be_CoordinatorURL b)"
  shows "\<exists>code. get (be_CoordinatorURL b) = ProbeStatus code \<and> 200 \<le> code \<and> code < 300"
  using assms
proof (induction bs arbitrary: gs hc)
  case (Cons x bs)
  let ?u = "be_CoordinatorURL x"
  show ?case
  proof (cases "b \<in> set (fst (fail_open_backends get now bs gs))")
    case True
    then show ?thesis using Cons.IH [OF True] Cons.prems by simp
  next
    case False
    then have o: "open_for_new x"
      using Cons.prems(1) by (auto simp: open_for_new_def split: if_splits)
    obtain ok gs' where w: "awake_after_probe get now ?u gs = (ok, gs')" by force
    have b: "ok \<and> b = x \<or> b \<in> set (fst (fail_open_backends get now bs gs'))"
      using Cons.prems(1) o by (auto simp: w open_for_new_def Let_def case_prod_beta split: if_splits)
    show ?thesis
    proof (cases "ok \<and> b = x")
      case True
      then show ?thesis
        using w Cons.prems(3,4) probe_success [of get now ?u hc]
        by (auto simp: awake_after_probe_def Let_def case_prod_beta)
    next
      case False
      then have m: "b \<in> set (fst (fail_open_backends get now bs gs'))" using b by blast
      then have "be_CoordinatorURL b \<noteq> ?u" using fail_open_sound [OF m] Cons.prems(2) by (auto simp: image_iff)
      moreover obtain hc' where "gs_healthChecker gs' = Some hc'"
        "hc' = hc \<or> hc' = snd (probeBackend get now ?u hc)"
        using w Cons.prems(3) by (auto simp: awake_after_probe_def Let_def case_prod_beta split: if_splits)
      ultimately show ?thesis
        using Cons.IH [OF m] Cons.prems(2,4) probe_other by auto
    qed
  qed
qed simp

text \<open>Whatever the health checker and the breakers say, a new query only goes to a configured
  backend of the route that is active and in state RUNNING (or has no state); if it is not one that passes health check
  and breaker, then no backend of the route passed, and a backend marked sleeping is used only
  after a probe of it answered with a 2xx status.\<close>

lemma select_backend_safe:
  assumes "fst (selectBackend get now route gs) = Some b" "distinct (map be_CoordinatorURL (re_Backends route))"
  shows "b \<in> set (re_Backends route) \<and> (be_State b = '''' \<or> be_State b = StateRunning) \<and> be_Active b
    \<and> (guards_pass now gs (be_CoordinatorURL b)
       \<or> (\<forall>x \<in> set (re_Backends route). \<not> selectable now gs x)
         \<and> (\<forall>hc. gs_healthChecker gs = Some hc \<and> IsSleeping now hc (be_CoordinatorURL b)
              \<longrightarrow> (\<exists>code. get (be_CoordinatorURL b) = ProbeStatus code \<and> 200 \<le> code \<and> code < 300)))"
proof -
  have b: "b \<in> set (candidates get now route gs)"
    using assms(1)
    by (auto simp: selectBackend_result selectByCapacity_def selectSmallestCapacity_def Let_def
        split: if_splits option.splits dest!: scan_best_in)
  show ?thesis
  proof (cases "filter (selectable now gs) (re_Backends route) = []")
    case True
    then have "b \<in> set (fst (fail_open_backends get now (re_Backends route) gs))"
      using b by (simp add: candidates_def)
    then show ?thesis
      using True candidates_open [OF b] fail_open_awake [OF _ assms(2)]
      by (simp add: open_for_new_def filter_empty_conv)
  next
    case False
    then have "selectable now gs b" using b by (simp add: candidates_def)
    then show ?thesis using candidates_open [OF b] by (simp add: open_for_new_def selectable_def)
  qed
qed

section \<open>The backend to resume\<close>


section \<open>Concrete selections\<close>

definition demo_pool :: RouteEntry where
  "demo_pool = (createRouteEntry ''g'' ''g'' '''' '''' (demo_backend ''ns'' ''big'') False)
     \<lparr>re_Backends := [(demo_backend ''ns'' ''big'')\<lparr>be_CapacityUnits := 8\<rparr>, demo_backend ''ns'' ''small'',
        (demo_backend ''ns'' ''old'')\<lparr>be_State := StateDraining, be_Active := False\<rparr>]\<rparr>"

definition busy_gateway :: GatewayService where
  "busy_gateway = demo_gateway\<lparr>gs_queryActivity :=
     Observe 2 ''q1'' ''ns'' ''small'' ''g'' ''http://small'' ''RUNNING'' (NewQueryActivityTracker 0)\<rparr>"

theorem select_backend_policy_witness:
  "fst (selectBackend (\<lambda>_. ProbeStatus 500) 5 demo_pool busy_gateway) = Some ((demo_backend ''ns'' ''big'')\<lparr>be_CapacityUnits := 8\<rparr>)
   \<and> (let key = balance_key (fst (BackendLoads 5 (gs_queryActivity busy_gateway)))
      in key ((demo_backend ''ns'' ''big'')\<lparr>be_CapacityUnits := 8\<rparr>) \<le> key (demo_backend ''ns'' ''small''))"
proof -
  have s: "fst (selectBackend (\<lambda>_. ProbeStatus 500) 5 demo_pool busy_gateway)
      = Some ((demo_backend ''ns'' ''big'')\<lparr>be_CapacityUnits := 8\<rparr>)" by code_simp
  have "length (qt_queries (gs_queryActivity busy_gateway)) = 1" by code_simp
  then have q: "length (qt_queries (gs_queryActivity busy_gateway)) < 2 ^ 31" by simp
  have "\<forall>b \<in> set (re_Backends demo_pool). be_CapacityUnits b < 2 ^ 31" by code_simp
  moreover have "demo_backend ''ns'' ''small'' \<in> set (candidates (\<lambda>_. ProbeStatus 500) 5 demo_pool busy_gateway)"
    by (simp add: candidates_def demo_pool_def selectable_def guards_pass_def open_for_new_def busy_gateway_def
        demo_gateway_def demo_backend_def)
  ultimately show ?thesis
    using select_backend_policy [OF q, of demo_pool "\<lambda>_. ProbeStatus 500" 5] s by (auto simp: Let_def)
qed

theorem select_backend_safe_witness:
  "be_Active ((demo_backend ''ns'' ''big'')\<lparr>be_CapacityUnits := 8\<rparr>)"
proof -
  have "fst (selectBackend (\<lambda>_. ProbeStatus 500) 5 demo_pool busy_gateway)
      = Some ((demo_backend ''ns'' ''big'')\<lparr>be_CapacityUnits := 8\<rparr>)" by code_simp
  moreover have "distinct (map be_CoordinatorURL (re_Backends demo_pool))" by code_simp
  ultimately show ?thesis using select_backend_safe by blast
qed


end
