(* ===== verification/TrinoUI.thy ===== *)
theory TrinoUI
  imports Url QueryExtraction BackendSelection
begin

text \<open>
  The Trino web UI behind the gateway (\<open>pkg/gateway/trino_ui_backend.go\<close>, \<open>trino_ui_rewrite.go\<close>, and
  from \<open>status.go\<close> and \<open>ui.go\<close> the snapshot of the routes and the UI path of a backend): every backend
  has its own path below \<open>/ui\<close>, requests to such a path are sent to that backend, and links in its answers
  are rewritten to stay below that path.

  A route in the index is its value, so the snapshot recognises a route it has seen by equality; two
  routes that the loader keeps differ in the key under which they are indexed.
\<close>

section \<open>Routes and paths\<close>

definition TrinoUIPath :: string where "TrinoUIPath = ''/ui''"
definition GatewayUIPath :: string where "GatewayUIPath = ''/ui/admin''"
definition GatewayUIRedirectURL :: string where "GatewayUIRedirectURL = GatewayUIPath @ ''/''"

definition isGatewayAdminUIRequest :: "string \<Rightarrow> bool" where
  "isGatewayAdminUIRequest path \<longleftrightarrow> path = GatewayUIPath \<or> has_prefix path (GatewayUIPath @ ''/'')"

fun add_unseen :: "RouteEntry list \<Rightarrow> RouteEntry list \<Rightarrow> RouteEntry list" where
  "add_unseen seen [] = []"
| "add_unseen seen (r # rs) = (if r \<in> set seen then add_unseen seen rs else r # add_unseen (r # seen) rs)"

definition uniqueRouteSnapshot :: "GatewayService \<Rightarrow> RouteEntry list" where
  "uniqueRouteSnapshot gs =
     sort_key (\<lambda>r. (\<not> re_Default r, re_RoutingGroup r, re_Name r))
       (add_unseen [] (map snd (gs_routes gs) @ (case gs_defaultRoute gs of Some r \<Rightarrow> [r] | None \<Rightarrow> [])))"

definition gatewayBackendTrinoUIPath :: "string \<Rightarrow> string \<Rightarrow> string" where
  "gatewayBackendTrinoUIPath namespace name =
     (if name = '''' then ''''
      else if namespace = '''' then TrinoUIPath @ ''/'' @ PathEscape name @ ''/''
      else TrinoUIPath @ ''/'' @ PathEscape namespace @ ''/'' @ PathEscape name @ ''/'')"

definition backendIdentityKey :: "Backend \<Rightarrow> string" where
  "backendIdentityKey b = be_Namespace b @ CHR 0x00 # be_Name b @ CHR 0x00 # be_CoordinatorURL b"

section \<open>The backend of a UI path\<close>

fun default_route_backend ::
    "(string \<Rightarrow> probe_result) \<Rightarrow> time \<Rightarrow> RouteEntry list \<Rightarrow> GatewayService \<Rightarrow> (RouteEntry \<times> Backend) option \<times> GatewayService" where
  "default_route_backend get now [] gs = (None, gs)"
| "default_route_backend get now (r # rs) gs =
     (if \<not> re_Default r then default_route_backend get now rs gs
      else case selectBackend get now r gs of
             (Some backend, gs) \<Rightarrow> (Some (r, backend), gs)
           | (None, gs) \<Rightarrow>
               (case pickResumeCandidate now r gs of
                  Some backend \<Rightarrow> (Some (r, backend), gs)
                | None \<Rightarrow> default_route_backend get now rs gs))"

definition route_backends :: "RouteEntry list \<Rightarrow> (RouteEntry \<times> Backend) list" where
  "route_backends routes = concat (map (\<lambda>r. map (Pair r) (re_Backends r)) routes)"

fun selectable_candidates ::
    "time \<Rightarrow> (RouteEntry \<times> Backend) list \<Rightarrow> (string \<times> RouteEntry \<times> Backend) list \<Rightarrow> GatewayService
      \<Rightarrow> (string \<times> RouteEntry \<times> Backend) list \<times> GatewayService" where
  "selectable_candidates now [] acc gs = (acc, gs)"
| "selectable_candidates now ((r, b) # xs) acc gs =
     (let (ok, gs) = isBackendSelectable now b gs
      in selectable_candidates now xs (if ok then AList.update (backendIdentityKey b) (r, b) acc else acc) gs)"

definition trinoUIResumeCandidate :: "Backend \<Rightarrow> bool" where
  "trinoUIResumeCandidate b =
     (if \<not> be_Active b \<or> be_Name b = '''' \<or> be_Namespace b = '''' then False else resumeStatePriority (be_State b) \<noteq> None)"

fun resumable_candidates ::
    "(RouteEntry \<times> Backend) list \<Rightarrow> (string \<times> RouteEntry \<times> Backend) list \<Rightarrow> (string \<times> RouteEntry \<times> Backend) list" where
  "resumable_candidates [] acc = acc"
| "resumable_candidates ((r, b) # xs) acc =
     resumable_candidates xs (if trinoUIResumeCandidate b then AList.update (backendIdentityKey b) (r, b) acc else acc)"

definition defaultTrinoUIBackend ::
    "(string \<Rightarrow> probe_result) \<Rightarrow> time \<Rightarrow> GatewayService \<Rightarrow> (RouteEntry \<times> Backend) option \<times> GatewayService" where
  "defaultTrinoUIBackend get now gs =
     (let routes = uniqueRouteSnapshot gs
      in case default_route_backend get now routes gs of
           (Some result, gs) \<Rightarrow> (Some result, gs)
         | (None, gs) \<Rightarrow>
             (case selectable_candidates now (route_backends routes) [] gs of (ready, gs) \<Rightarrow>
                if length ready = 1 then (Some (snd (hd ready)), gs)
                else if length ready > 1 then (None, gs)
                else let asleep = resumable_candidates (route_backends routes) []
                     in if length asleep \<noteq> 1 then (None, gs) else (Some (snd (hd asleep)), gs)))"

definition isDefaultTrinoUIPath :: "string \<Rightarrow> bool" where
  "isDefaultTrinoUIPath path =
     (let trimmed = trim_prefix path (TrinoUIPath @ ''/'')
      in if trimmed = '''' \<or> trimmed = path then False
         else case PathUnescape (fst (cut CHR ''/'' trimmed)) of
                None \<Rightarrow> False
              | Some first \<Rightarrow>
                  if first = '''' then False
                  else first \<in> {''assets'', ''vendor'', ''api'', ''login'', ''logout''}
                    \<or> has_suffix first ''.html'' \<or> has_suffix first ''.css'' \<or> has_suffix first ''.js'' \<or> has_suffix first ''.ico'')"

fun backend_matches ::
    "string \<Rightarrow> string \<Rightarrow> string list \<Rightarrow> (RouteEntry \<times> Backend) list \<Rightarrow> (RouteEntry \<times> Backend) list" where
  "backend_matches namespace name seen [] = []"
| "backend_matches namespace name seen ((r, b) # xs) =
     (if be_Name b \<noteq> name then backend_matches namespace name seen xs
      else if namespace \<noteq> '''' \<and> be_Namespace b \<noteq> namespace then backend_matches namespace name seen xs
      else if backendIdentityKey b \<in> set seen then backend_matches namespace name seen xs
      else (r, b) # backend_matches namespace name (backendIdentityKey b # seen) xs)"

text \<open>The result of a lookup: the backend, no backend, or more than one.\<close>

datatype 'a ui_lookup = UINone | UIAmbiguous | UIFound 'a

definition findTrinoUIBackend :: "GatewayService \<Rightarrow> string \<Rightarrow> string \<Rightarrow> (RouteEntry \<times> Backend) ui_lookup" where
  "findTrinoUIBackend gs namespace name =
     (case backend_matches namespace name [] (route_backends (uniqueRouteSnapshot gs)) of
        [] \<Rightarrow> UINone
      | m # ms \<Rightarrow> if namespace = '''' \<and> ms \<noteq> [] then UIAmbiguous else UIFound m)"

definition trinoUITargetPath :: "string list \<Rightarrow> string" where
  "trinoUITargetPath segments =
     (if segments = [] \<or> join_with CHR ''/'' segments = '''' then ''/ui/'' else ''/ui/'' @ join_with CHR ''/'' segments)"

definition resolve_qualified :: "GatewayService \<Rightarrow> string list \<Rightarrow> ((RouteEntry \<times> Backend) \<times> string) option" where
  "resolve_qualified gs segments =
     (case segments of
        s0 # s1 # rest \<Rightarrow>
          (case (PathUnescape s0, PathUnescape s1) of
             (Some namespace, Some name) \<Rightarrow>
               if namespace \<noteq> '''' \<and> name \<noteq> '''' then
                 (case findTrinoUIBackend gs namespace name of
                    UIFound rb \<Rightarrow> Some (rb, trinoUITargetPath rest)
                  | _ \<Rightarrow> None)
               else None
           | _ \<Rightarrow> None)
      | _ \<Rightarrow> None)"

definition resolveTrinoUIBackend :: "GatewayService \<Rightarrow> string \<Rightarrow> ((RouteEntry \<times> Backend) \<times> string) ui_lookup" where
  "resolveTrinoUIBackend gs path =
     (let trimmed = trim_prefix path (TrinoUIPath @ ''/'')
      in if trimmed = '''' \<or> trimmed = path then UINone
         else
           let segments = split_on CHR ''/'' trimmed
           in case resolve_qualified gs segments of
                Some found \<Rightarrow> UIFound found
              | None \<Rightarrow>
                  (case PathUnescape (hd segments) of
                     None \<Rightarrow> UINone
                   | Some name \<Rightarrow>
                       if name = '''' then UINone
                       else case findTrinoUIBackend gs '''' name of
                              UINone \<Rightarrow> UINone
                            | UIAmbiguous \<Rightarrow> UIAmbiguous
                            | UIFound rb \<Rightarrow> UIFound (rb, trinoUITargetPath (tl segments))))"

section \<open>Rewriting links\<close>

text \<open>A response of a backend: its body may break off (\<open>br_Fails\<close>), and its length may be announced.\<close>

record BackendResponse = HttpResponse +
  br_Fails :: bool
  br_ContentLength :: int

definition isJSONContentType :: "string \<Rightarrow> bool" where
  "isJSONContentType contentType \<longleftrightarrow> contentType = ''application/json'' \<or> has_prefix contentType ''application/json;''"

definition rewriteTrinoUILocation :: "string \<Rightarrow> BackendResponse \<Rightarrow> BackendResponse" where
  "rewriteTrinoUILocation prefix resp =
     (if prefix = '''' then resp
      else
        let location = header_get (rs_Header resp) ''Location''
        in if location = '''' then resp
           else case url_parse location of
                  None \<Rightarrow> resp
                | Some parsed \<Rightarrow>
                    if u_Path parsed \<noteq> TrinoUIPath \<and> \<not> has_prefix (u_Path parsed) (TrinoUIPath @ ''/'') then resp
                    else
                      let suffix = trim_prefix (u_Path parsed) TrinoUIPath;
                          parsed = parsed\<lparr>u_Path := trim_right CHR ''/'' prefix @ suffix, u_RawPath := '''', u_Scheme := '''',
                                          u_Host := '''', u_User := None, u_Opaque := ''''\<rparr>
                      in resp\<lparr>rs_Header := header_set ''Location'' (url_string parsed) (rs_Header resp)\<rparr>)"

definition jsonValueStartAfterKey :: "string \<Rightarrow> nat \<Rightarrow> nat option" where
  "jsonValueStartAfterKey data keyEnd =
     (case dropWhile json_space (drop keyEnd data) of
        c # r \<Rightarrow>
          if c = CHR '':'' \<and> dropWhile json_space r \<noteq> [] then Some (length data - length (dropWhile json_space r)) else None
      | [] \<Rightarrow> None)"

definition rewriteTrinoUIInfoURIValue :: "string \<Rightarrow> string \<Rightarrow> string option" where
  "rewriteTrinoUIInfoURIValue infoURI uiPrefix =
     (case url_parse infoURI of
        None \<Rightarrow> None
      | Some parsed \<Rightarrow>
          let prefixPath = trim_right CHR ''/'' uiPrefix
          in if u_Path parsed = prefixPath \<or> has_prefix (u_Path parsed) (prefixPath @ ''/'') then None
             else if u_Path parsed \<noteq> TrinoUIPath \<and> u_Path parsed \<noteq> TrinoUIPath @ ''/'' \<and> \<not> isDefaultTrinoUIPath (u_Path parsed) then None
             else
               let suffix = trim_prefix (u_Path parsed) TrinoUIPath;
                   suffix = (if suffix = '''' then ''/'' else suffix);
                   rewritten = url_string (parsed\<lparr>u_Path := prefixPath @ suffix, u_RawPath := ''''\<rparr>)
               in if rewritten \<noteq> infoURI then Some rewritten else None)"

text \<open>The decoder's \<open>InputOffset\<close> in a text.\<close>

definition InputOffset :: "string \<Rightarrow> Decoder \<Rightarrow> nat" where
  "InputOffset data d = length data - length (dc_in d)"

definition rewrite_at :: "string \<Rightarrow> string \<Rightarrow> Decoder \<Rightarrow> string option" where
  "rewrite_at prefix uiPrefix d =
     (case jsonValueStartAfterKey prefix (InputOffset prefix d) of
        None \<Rightarrow> None
      | Some valueStart \<Rightarrow>
          (case dec_token d of
             (Some (TStr infoURI), d) \<Rightarrow>
               (case rewriteTrinoUIInfoURIValue infoURI uiPrefix of
                  None \<Rightarrow> None
                | Some rewritten \<Rightarrow>
                    Some (take valueStart prefix @ json_string rewritten @ drop (InputOffset prefix d) prefix))
           | _ \<Rightarrow> None))"

function rewrite_loop :: "string \<Rightarrow> string \<Rightarrow> Decoder \<Rightarrow> string option" where
  "rewrite_loop prefix uiPrefix d =
     (if dec_more d then
        (case dec_token d of
           (Some (TStr key), d') \<Rightarrow>
             if key \<noteq> ''infoUri'' then
               (case skip_value d' of (True, d'') \<Rightarrow> rewrite_loop prefix uiPrefix d'' | (False, _) \<Rightarrow> None)
             else rewrite_at prefix uiPrefix d'
         | _ \<Rightarrow> None)
      else None)"
  by pat_completeness auto
termination
  by (relation "measure (length \<circ> dc_in \<circ> snd \<circ> snd)") (auto dest!: sym [THEN dec_token_rest] sym [THEN skip_value_rest])

declare rewrite_loop.simps [simp del]

text \<open>The rewritten prefix, or \<open>None\<close> when it is left as it is.\<close>

definition rewriteTrinoUIInfoURIInJSONPrefix :: "string \<Rightarrow> string \<Rightarrow> string option" where
  "rewriteTrinoUIInfoURIInJSONPrefix prefix uiPrefix =
     (if uiPrefix = '''' then None
      else case dec_token (NewDecoder prefix) of
             (Some (TDelim c), d) \<Rightarrow> if c = CHR ''{'' then rewrite_loop prefix uiPrefix d else None
           | _ \<Rightarrow> None)"

definition adjustResponseContentLength :: "int \<Rightarrow> BackendResponse \<Rightarrow> BackendResponse" where
  "adjustResponseContentLength delta resp =
     (if delta = 0 then resp
      else
        let contentLength = header_get (rs_Header resp) ''Content-Length''
        in if contentLength \<noteq> '''' then
             (case parse_int 64 contentLength of
                None \<Rightarrow> resp\<lparr>rs_Header := header_del ''Content-Length'' (rs_Header resp), br_ContentLength := -1\<rparr>
              | Some parsedLength \<Rightarrow>
                  let newLength = i64 (parsedLength + delta)
                  in if newLength < 0 then resp\<lparr>rs_Header := header_del ''Content-Length'' (rs_Header resp), br_ContentLength := -1\<rparr>
                     else resp\<lparr>rs_Header := header_set ''Content-Length'' (show_int newLength) (rs_Header resp),
                               br_ContentLength := newLength\<rparr>)
           else if br_ContentLength resp > 0 then resp\<lparr>br_ContentLength := i64 (br_ContentLength resp + delta)\<rparr>
           else resp\<lparr>br_ContentLength := -1\<rparr>)"

definition trinoUIInfoURIRewritePrefixSize :: nat where
  "trinoUIInfoURIRewritePrefixSize = 64 * 1024"

definition trinoUIPrefixForResponse :: "string \<Rightarrow> headers \<Rightarrow> string" where
  "trinoUIPrefixForResponse ctxTrinoUIPrefix h =
     (if ctxTrinoUIPrefix \<noteq> '''' then ctxTrinoUIPrefix
      else
        let name = header_get h ''X-Trino-XTrinode-Name''; namespace = header_get h ''X-Trino-XTrinode-Namespace''
        in if name = '''' \<or> namespace = '''' then '''' else gatewayBackendTrinoUIPath namespace name)"

definition rewriteTrinoUIInfoURI :: "string \<Rightarrow> BackendResponse \<Rightarrow> BackendResponse" where
  "rewriteTrinoUIInfoURI uiPrefix resp =
     (if uiPrefix = '''' then resp
      else if \<not> isJSONContentType (header_get (rs_Header resp) ''Content-Type'') \<or> header_get (rs_Header resp) ''Content-Encoding'' \<noteq> '''' then resp
      else if br_Fails resp \<and> length (rs_Body resp) < trinoUIInfoURIRewritePrefixSize then resp
      else
        let prefix = take trinoUIInfoURIRewritePrefixSize (rs_Body resp)
        in case rewriteTrinoUIInfoURIInJSONPrefix prefix uiPrefix of
             None \<Rightarrow> resp
           | Some rewritten \<Rightarrow>
               adjustResponseContentLength (int (length rewritten) - int (length prefix))
                 (resp\<lparr>rs_Body := rewritten @ drop trinoUIInfoURIRewritePrefixSize (rs_Body resp)\<rparr>))"

section \<open>Redirects come back\<close>

lemma join_split: "join_with d (split_on d s) = s"
proof (induction s)
  case (Cons c s)
  obtain w ws where w: "split_on d s = w # ws"
    by (cases "split_on d s") auto
  have "join_with d ((c # w) # ws) = c # join_with d (w # ws)" by (cases ws) simp_all
  then show ?case using Cons w by (cases ws) auto
qed simp

lemma getScheme_path: "has_prefix s ''/'' \<Longrightarrow> getScheme s = Some ('''', s)"
  by (cases s) (auto simp: getScheme_def has_prefix_def is_letter_def is_alnum_def byte_in_def)

lemma while_append_stop: "d \<notin> set p \<Longrightarrow> takeWhile (\<lambda>c. c \<noteq> d) (p @ d # q) = p \<and> dropWhile (\<lambda>c. c \<noteq> d) (p @ d # q) = d # q"
  by (induction p) auto

lemma cut_at: "d \<notin> set p \<Longrightarrow> cut d (p @ d # q) = (p, q)"
  using while_append_stop [of d p q] by (auto simp: cut_def)

lemma cut_none: "d \<notin> set p \<Longrightarrow> cut d p = (p, '''')"
  by (induction p) (auto simp: cut_def)

text \<open>What \<open>URL.String\<close> prints for a path, a query and a fragment, and that \<open>Parse\<close> reads it back.\<close>

definition query_text :: "URL \<Rightarrow> string" where
  "query_text u = (if u_ForceQuery u \<or> u_RawQuery u \<noteq> '''' then ''?'' @ u_RawQuery u else '''')"

definition no_ctl :: "string \<Rightarrow> bool" where
  "no_ctl s \<longleftrightarrow> \<not> (\<exists>c \<in> set s. (of_char c :: nat) < 32 \<or> (of_char c :: nat) = 127)"

definition frag_text :: "URL \<Rightarrow> string" where
  "frag_text u = (if u_Fragment u \<noteq> '''' then ''#'' @ EscapedFragment u else '''')"

definition local_url :: "URL \<Rightarrow> bool" where
  "local_url u \<longleftrightarrow> u_Scheme u = '''' \<and> u_Host u = '''' \<and> u_User u = None \<and> u_Opaque u = '''' \<and> u_RawPath u = ''''
     \<and> has_prefix (u_Path u) ''/'' \<and> \<not> has_prefix (u_Path u) ''//''"

lemma slash_plain: "\<not> shouldEscape encodePath CHR ''/''"
  by code_simp

lemma escape_head:
  assumes "has_prefix p ''/''" "\<not> has_prefix p ''//''"
  shows "has_prefix (url_escape encodePath p) ''/''" "\<not> has_prefix (url_escape encodePath p) ''//''"
proof -
  obtain q where p: "p = CHR ''/'' # q" using assms(1) by (cases p) (auto simp: has_prefix_def)
  show "has_prefix (url_escape encodePath p) ''/''" by (simp add: p slash_plain has_prefix_def)
  show "\<not> has_prefix (url_escape encodePath p) ''//''"
    using assms(2) slash_plain by (cases q) (auto simp: p has_prefix_def)
qed

lemma local_url_string:
  assumes "local_url u"
  shows "url_string u = url_escape encodePath (u_Path u) @ query_text u @ frag_text u"
proof -
  obtain q where q: "u_Path u = CHR ''/'' # q" using assms by (cases "u_Path u") (auto simp: local_url_def has_prefix_def)
  have e: "EscapedPath u = url_escape encodePath (u_Path u)"
    using assms q by (simp add: EscapedPath_def local_url_def)
  have c: "CHR '':'' \<notin> set (fst (cut CHR ''/'' (url_escape encodePath (u_Path u))))"
    by (simp add: q slash_plain cut_def)
  show ?thesis
    using assms c e by (simp add: url_string_def local_url_def query_text_def frag_text_def Let_def url_escape.simps(1))
qed

lemma split_query_text:
  assumes "CHR ''?'' \<notin> set p"
  shows "\<exists>b. split_query (p @ query_text u) = (b, p, u_RawQuery u)"
proof (cases "u_RawQuery u = ''''")
  case True
  have "filter (\<lambda>c. c = CHR ''?'') p = []" using assms by (auto simp: filter_empty_conv)
  with True show ?thesis
    using assms cut_none [of "CHR ''?''" p] by (auto simp: split_query_def query_text_def has_suffix_def)
next
  case False
  then obtain q c where q: "u_RawQuery u = q @ [c]" by (cases "u_RawQuery u" rule: rev_cases) auto
  then have "\<not> (has_suffix (p @ query_text u) ''?'' \<and> length (filter (\<lambda>c. c = CHR ''?'') (p @ query_text u)) = 1)"
    by (auto simp: query_text_def has_suffix_def)
  then show ?thesis
    using False cut_at [OF assms, of "u_RawQuery u"] by (intro exI [of _ False]) (simp add: split_query_def query_text_def)
qed

lemma fragment_reads: "u_Fragment u \<noteq> '''' \<Longrightarrow> EscapedFragment u \<noteq> '''' \<and> url_unescape encodeFragment (EscapedFragment u) \<noteq> None"
  using unescape_escape [of encodeFragment "u_Fragment u"]
  by (cases "u_Fragment u") (auto simp: EscapedFragment_def)

lemma local_url_reads:
  assumes u: "local_url u" and q: "CHR ''#'' \<notin> set (u_RawQuery u)" "no_ctl (u_RawQuery u)"
  shows "\<exists>v. url_parse (url_string u) = Some v \<and> u_Scheme v = '''' \<and> u_Host v = '''' \<and> u_Path v = u_Path u
    \<and> u_RawQuery v = u_RawQuery u"
proof -
  let ?p = "url_escape encodePath (u_Path u)"
  let ?s = "?p @ query_text u"
  have hp: "has_prefix ?p ''/''" "\<not> has_prefix ?p ''//''"
    using u escape_head by (simp_all add: local_url_def)
  have hs: "has_prefix ?s ''/''"
    using hp(1) by (cases ?p) (auto simp: has_prefix_def)
  have ctl: "no_ctl ?s" and hash: "CHR ''#'' \<notin> set ?s" and ask: "CHR ''?'' \<notin> set ?p"
    using q path_bytes [of _ "u_Path u"] by (auto simp: no_ctl_def query_text_def)
  obtain b where b: "split_query ?s = (b, ?p, u_RawQuery u)" using split_query_text [OF ask] by blast
  have ne: "?s \<noteq> ''*''"
  proof
    assume "?s = ''*''"
    then show False using hs by (simp only: has_prefix_def) simp
  qed
  obtain w where w: "url_parse_rest ?s = Some w" "u_Scheme w = ''''" "u_Host w = ''''" "u_Path w = u_Path u" "u_RawQuery w = u_RawQuery u"
    using ctl ne hp unescape_escape [of encodePath "u_Path u"]
    by (simp add: url_parse_rest_def no_ctl_def getScheme_path [OF hs] b Let_def setPath_def empty_url_def to_lower_def)
  show ?thesis
  proof (cases "u_Fragment u = ''''")
    case True
    then show ?thesis
      using w cut_none [OF hash] by (simp add: local_url_string [OF u] frag_text_def url_parse_def)
  next
    case False
    then show ?thesis
      using w cut_at [OF hash, of "EscapedFragment u"] fragment_reads [of u]
      by (auto simp: local_url_string [OF u] frag_text_def url_parse_def setFragment_def split: option.splits)
  qed
qed

lemma cut_bytes: "set (fst (cut d s)) \<subseteq> set s" "set (snd (cut d s)) \<subseteq> set s" "d \<notin> set (fst (cut d s))"
  by (auto simp: cut_def dest: set_takeWhileD in_set_dropD set_dropWhileD)

lemma scheme_bytes: "getScheme s = Some (scheme, rest) \<Longrightarrow> set rest \<subseteq> set s"
  using set_dropWhileD [of _ is_scheme_char s]
  by (auto simp: getScheme_def split: list.splits if_splits)

lemma split_query_bytes: "split_query s = (b, p, q) \<Longrightarrow> set q \<subseteq> set s"
  using cut_bytes(2) [of "CHR ''?''" s] by (auto simp: split_query_def split: if_splits)

lemma parts_keep_query:
  "setPath p u = Some v \<Longrightarrow> u_RawQuery v = u_RawQuery u"
  "setFragment f u = Some v \<Longrightarrow> u_RawQuery v = u_RawQuery u"
  by (auto simp: setPath_def setFragment_def split: option.splits)

lemma rest_query_bytes:
  assumes "url_parse_rest s = Some u" shows "set (u_RawQuery u) \<subseteq> set s \<and> no_ctl s"
proof (cases "s = ''*''")
  case True
  then show ?thesis using assms by (auto simp: url_parse_rest_def empty_url_def no_ctl_def)
next
  case False
  then obtain scheme rest where g: "getScheme s = Some (scheme, rest)" and n: "no_ctl s"
    using assms by (auto simp: url_parse_rest_def no_ctl_def split: if_splits option.splits)
  obtain b p q where q: "split_query rest = (b, p, q)" by (metis surj_pair)
  have "u_RawQuery u = q"
    using assms False g q by (auto simp: url_parse_rest_def Let_def split: if_splits option.splits dest!: parts_keep_query)
  then show ?thesis using n scheme_bytes [OF g] split_query_bytes [OF q] by auto
qed

lemma query_bytes:
  assumes "url_parse s = Some u"
  shows "CHR ''#'' \<notin> set (u_RawQuery u)" "no_ctl (u_RawQuery u)"
proof -
  obtain w where w: "url_parse_rest (fst (cut CHR ''#'' s)) = Some w" "u_RawQuery w = u_RawQuery u"
    using assms by (auto simp: url_parse_def split: prod.splits option.splits if_splits dest: parts_keep_query)
  show "CHR ''#'' \<notin> set (u_RawQuery u)" "no_ctl (u_RawQuery u)"
    using rest_query_bytes [OF w(1)] w(2) cut_bytes(3) [of "CHR ''#''" s] by (auto simp: no_ctl_def)
qed

section \<open>Looking up a backend\<close>

lemma backend_matches_sound:
  "(r, b) \<in> set (backend_matches ns name seen xs) \<Longrightarrow> (r, b) \<in> set xs \<and> be_Name b = name \<and> (ns \<noteq> '''' \<longrightarrow> be_Namespace b = ns)"
  by (induction ns name seen xs rule: backend_matches.induct) (auto split: if_splits)

lemma backend_matches_complete:
  "(r, b) \<in> set xs \<Longrightarrow> be_Name b = name \<Longrightarrow> be_Namespace b = ns \<Longrightarrow> backendIdentityKey b \<notin> set seen
    \<Longrightarrow> backend_matches ns name seen xs \<noteq> []"
  by (induction ns name seen xs rule: backend_matches.induct) (auto split: if_splits)

lemma findTrinoUIBackend_found:
  assumes "(r, b) \<in> set (route_backends (uniqueRouteSnapshot gs))" "be_Namespace b = ns" "be_Name b = name" "ns \<noteq> ''''"
  shows "\<exists>r' b'. findTrinoUIBackend gs ns name = UIFound (r', b') \<and> be_Namespace b' = ns \<and> be_Name b' = name
    \<and> (r', b') \<in> set (route_backends (uniqueRouteSnapshot gs))"
proof -
  obtain m ms where m: "backend_matches ns name [] (route_backends (uniqueRouteSnapshot gs)) = m # ms"
    using backend_matches_complete [OF assms(1,3,2), of "[]"]
    by (cases "backend_matches ns name [] (route_backends (uniqueRouteSnapshot gs))") auto
  then show ?thesis
    using assms(4) backend_matches_sound [of "fst m" "snd m" ns name "[]" "route_backends (uniqueRouteSnapshot gs)"]
    by (cases m) (auto simp: findTrinoUIBackend_def)
qed

lemma resolve_own_path:
  assumes b: "(r, b) \<in> set (route_backends (uniqueRouteSnapshot gs))" and n: "be_Namespace b \<noteq> ''''" "be_Name b \<noteq> ''''"
  shows "\<exists>r' b'. resolveTrinoUIBackend gs (''/ui/'' @ PathEscape (be_Namespace b) @ ''/'' @ PathEscape (be_Name b) @ ''/'' @ rest)
      = UIFound ((r', b'), ''/ui/'' @ rest) \<and> be_Namespace b' = be_Namespace b \<and> be_Name b' = be_Name b"
proof -
  let ?t = "PathEscape (be_Namespace b) @ CHR ''/'' # PathEscape (be_Name b) @ CHR ''/'' # rest"
  have seg: "split_on CHR ''/'' ?t = PathEscape (be_Namespace b) # PathEscape (be_Name b) # split_on CHR ''/'' rest"
    by (simp add: split_on_append PathEscape_slash)
  have t: "trinoUITargetPath (split_on CHR ''/'' rest) = ''/ui/'' @ rest"
    by (simp add: trinoUITargetPath_def join_split)
  obtain r' b' where f: "findTrinoUIBackend gs (be_Namespace b) (be_Name b) = UIFound (r', b')"
      "be_Namespace b' = be_Namespace b" "be_Name b' = be_Name b"
    using findTrinoUIBackend_found [OF b refl refl n(1)] by blast
  have q: "resolve_qualified gs (split_on CHR ''/'' ?t) = Some ((r', b'), ''/ui/'' @ rest)"
    using n by (simp add: seg resolve_qualified_def f t)
  have "trim_prefix (''/ui/'' @ ?t) ''/ui/'' = ?t" by (rule trim_prefix_append)
  moreover have "?t \<noteq> '''' \<and> ?t \<noteq> ''/ui/'' @ ?t" by (metis append_is_Nil_conv append_self_conv2 list.distinct(1))
  ultimately show ?thesis
    using f q by (simp add: resolveTrinoUIBackend_def TrinoUIPath_def Let_def)
qed


definition ui_gateway :: GatewayService where
  "ui_gateway = demo_gateway\<lparr>gs_routes := [(''rg:a'', demo_route)]\<rparr>"

definition ui_answer :: BackendResponse where
  "ui_answer = \<lparr> rs_StatusCode = StatusTemporaryRedirect, rs_Header = [(''location'', ''http://trino:8080/ui/login.html?next=x'')],
     rs_Body = '''', br_Fails = False, br_ContentLength = 0 \<rparr>"


end
