(* ===== verification/Sticky.thy ===== *)
theory Sticky
  imports Json BackendSelection
begin

text \<open>
  Sticky routing: which backend a running query is pinned to (\<open>pkg/gateway/redis.go\<close>,
  \<open>pkg/gateway/sticky_backend.go\<close>). The mapping lives in Redis, with an in-process LRU cache as a
  fall-back. The cache library and the Redis server are parameters: \<open>'l\<close> and \<open>'r\<close> are their states and
  the records below their operations.
\<close>

section \<open>State\<close>

record StickyRoute =
  sr_Namespace :: string
  sr_Name :: string
  sr_BackendURL :: string
  sr_RoutingGroup :: string

record 'l LRU =
  lr_Add :: "string \<Rightarrow> StickyRoute \<Rightarrow> 'l \<Rightarrow> 'l"
  lr_Get :: "string \<Rightarrow> 'l \<Rightarrow> StickyRoute option \<times> 'l"
  lr_Remove :: "string \<Rightarrow> 'l \<Rightarrow> 'l"

datatype redis_reply = RedisValue string | RedisNil | RedisFailure

text \<open>\<open>rk_Set\<close> and \<open>rk_Del\<close> report whether the command failed.\<close>

record 'r RedisKV =
  rk_Set :: "string \<Rightarrow> string \<Rightarrow> duration \<Rightarrow> 'r \<Rightarrow> bool \<times> 'r"
  rk_Get :: "string \<Rightarrow> 'r \<Rightarrow> redis_reply \<times> 'r"
  rk_Del :: "string \<Rightarrow> 'r \<Rightarrow> bool \<times> 'r"
  rk_Ping :: "'r \<Rightarrow> bool"

record RedisConfig =
  rcf_Enabled :: bool
  rcf_URL :: string
  rcf_Password :: string
  rcf_DB :: int
  rcf_TTL :: duration
  rcf_Timeout :: duration

record ('l, 'r) RedisStickyClient =
  sc_redis :: "'r option"
  sc_fallbackCache :: 'l
  sc_config :: RedisConfig
  sc_enabled :: bool

definition GatewayRedisStickyTTL :: duration where
  "GatewayRedisStickyTTL = 60 * minute"

text \<open>\<open>connect\<close> parses the URL and opens the connection, \<open>new_cache\<close> makes an empty cache.\<close>

definition NewRedisStickyClient ::
    "'r RedisKV \<Rightarrow> (RedisConfig \<Rightarrow> 'r option) \<Rightarrow> (duration \<Rightarrow> 'l) \<Rightarrow> RedisConfig \<Rightarrow> string + ('l, 'r) RedisStickyClient" where
  "NewRedisStickyClient rk connect new_cache cfg =
     (let cfg = (if rcf_TTL cfg \<le> 0 then cfg\<lparr>rcf_TTL := GatewayRedisStickyTTL\<rparr> else cfg);
          client = \<lparr> sc_redis = None, sc_fallbackCache = new_cache (rcf_TTL cfg), sc_config = cfg, sc_enabled = rcf_Enabled cfg \<rparr>
      in if rcf_Enabled cfg then
           if rcf_URL cfg = '''' then Inl ''redis URL is required when Redis is enabled''
           else case connect cfg of
                  None \<Rightarrow> Inl ''failed to parse Redis URL''
                | Some r \<Rightarrow> if \<not> rk_Ping rk r then Inl ''failed to connect to Redis'' else Inr (client\<lparr>sc_redis := Some r\<rparr>)
         else Inr client)"

section \<open>The stored text\<close>

definition makeRedisKey :: "string \<Rightarrow> string" where
  "makeRedisKey queryID = ''query:'' @ queryID"

definition route_json :: "StickyRoute \<Rightarrow> jvalue" where
  "route_json r = VObj [(''namespace'', VStr (sr_Namespace r)), (''name'', VStr (sr_Name r)),
     (''backendURL'', VStr (sr_BackendURL r)), (''routingGroup'', VStr (sr_RoutingGroup r))]"

definition marshal_route :: "StickyRoute \<Rightarrow> string" where
  "marshal_route r = json_text (route_json r)"

text \<open>The struct field a JSON key names: an exact match, or else a match up to the case of ASCII letters.\<close>

definition route_field :: "string \<Rightarrow> string option" where
  "route_field k =
     (let names = [''namespace'', ''name'', ''backendURL'', ''routingGroup'']
      in if k \<in> set names then Some k else List.find (\<lambda>n. to_lower n = to_lower k) names)"

definition set_field :: "string \<Rightarrow> string \<Rightarrow> StickyRoute \<Rightarrow> StickyRoute" where
  "set_field f s r =
     (if f = ''namespace'' then r\<lparr>sr_Namespace := s\<rparr>
      else if f = ''name'' then r\<lparr>sr_Name := s\<rparr>
      else if f = ''backendURL'' then r\<lparr>sr_BackendURL := s\<rparr>
      else r\<lparr>sr_RoutingGroup := s\<rparr>)"

text \<open>A field of the wrong type does not stop the decoding, but the call reports an error.\<close>

fun decode_fields :: "(string \<times> jvalue) list \<Rightarrow> StickyRoute \<times> bool \<Rightarrow> StickyRoute \<times> bool" where
  "decode_fields [] acc = acc"
| "decode_fields ((k, v) # fs) (r, err) =
     decode_fields fs
       (case route_field k of
          None \<Rightarrow> (r, err)
        | Some f \<Rightarrow> (case v of VNull \<Rightarrow> (r, err) | VStr s \<Rightarrow> (set_field f s r, err) | _ \<Rightarrow> (r, True)))"

definition empty_route :: StickyRoute where
  "empty_route = \<lparr> sr_Namespace = '''', sr_Name = '''', sr_BackendURL = '''', sr_RoutingGroup = '''' \<rparr>"

definition unmarshal_route :: "string \<Rightarrow> StickyRoute option" where
  "unmarshal_route s =
     (case unmarshal s of
        Some (VObj fs) \<Rightarrow> (case decode_fields fs (empty_route, False) of (r, err) \<Rightarrow> if err then None else Some r)
      | Some VNull \<Rightarrow> Some empty_route
      | _ \<Rightarrow> None)"

section \<open>Operations\<close>

definition sticky_Set ::
    "'l LRU \<Rightarrow> 'r RedisKV \<Rightarrow> string \<Rightarrow> string \<Rightarrow> string \<Rightarrow> string \<Rightarrow> string \<Rightarrow> ('l, 'r) RedisStickyClient \<Rightarrow> ('l, 'r) RedisStickyClient" where
  "sticky_Set lru rk queryID namespace name backendURL routingGroup c =
     (let route = \<lparr> sr_Namespace = namespace, sr_Name = name, sr_BackendURL = backendURL, sr_RoutingGroup = routingGroup \<rparr>;
          c = c\<lparr>sc_fallbackCache := lr_Add lru queryID route (sc_fallbackCache c)\<rparr>
      in case sc_redis c of
           Some r \<Rightarrow>
             if sc_enabled c then
               let (err, r) = rk_Set rk (makeRedisKey queryID) (marshal_route route) (rcf_TTL (sc_config c)) r
               in c\<lparr>sc_redis := Some r\<rparr>
             else c
         | None \<Rightarrow> c)"

definition fallback_get ::
    "'l LRU \<Rightarrow> string \<Rightarrow> ('l, 'r) RedisStickyClient \<Rightarrow> StickyRoute option \<times> ('l, 'r) RedisStickyClient" where
  "fallback_get lru queryID c =
     (let (route, l) = lr_Get lru queryID (sc_fallbackCache c) in (route, c\<lparr>sc_fallbackCache := l\<rparr>))"

definition sticky_Get ::
    "'l LRU \<Rightarrow> 'r RedisKV \<Rightarrow> string \<Rightarrow> ('l, 'r) RedisStickyClient \<Rightarrow> StickyRoute option \<times> ('l, 'r) RedisStickyClient" where
  "sticky_Get lru rk queryID c =
     (case sc_redis c of
        Some r \<Rightarrow>
          if sc_enabled c then
            let (reply, r) = rk_Get rk (makeRedisKey queryID) r;
                c = c\<lparr>sc_redis := Some r\<rparr>
            in case reply of
                 RedisValue value \<Rightarrow>
                   (case unmarshal_route value of
                      None \<Rightarrow> (None, c\<lparr>sc_fallbackCache := lr_Remove lru queryID (sc_fallbackCache c)\<rparr>)
                    | Some route \<Rightarrow> (Some route, c\<lparr>sc_fallbackCache := lr_Add lru queryID route (sc_fallbackCache c)\<rparr>))
               | RedisFailure \<Rightarrow> fallback_get lru queryID c
               | RedisNil \<Rightarrow> (None, c\<lparr>sc_fallbackCache := lr_Remove lru queryID (sc_fallbackCache c)\<rparr>)
          else fallback_get lru queryID c
      | None \<Rightarrow> fallback_get lru queryID c)"

definition sticky_Delete ::
    "'l LRU \<Rightarrow> 'r RedisKV \<Rightarrow> string \<Rightarrow> ('l, 'r) RedisStickyClient \<Rightarrow> ('l, 'r) RedisStickyClient" where
  "sticky_Delete lru rk queryID c =
     (let c = c\<lparr>sc_fallbackCache := lr_Remove lru queryID (sc_fallbackCache c)\<rparr>
      in case sc_redis c of
           Some r \<Rightarrow>
             if sc_enabled c then let (err, r) = rk_Del rk (makeRedisKey queryID) r in c\<lparr>sc_redis := Some r\<rparr> else c
         | None \<Rightarrow> c)"

definition sticky_HealthCheck :: "'r RedisKV \<Rightarrow> ('l, 'r) RedisStickyClient \<Rightarrow> string option" where
  "sticky_HealthCheck rk c =
     (case sc_redis c of
        None \<Rightarrow> Some ''redis not enabled''
      | Some r \<Rightarrow> if \<not> sc_enabled c then Some ''redis not enabled'' else if rk_Ping rk r then None else Some ''ping failed'')"

definition sticky_IsEnabled :: "('l, 'r) RedisStickyClient \<Rightarrow> bool" where
  "sticky_IsEnabled c = sc_enabled c"

section \<open>The backend of a running query\<close>

record stickyBackendSelection =
  sb_namespace :: string
  sb_name :: string
  sb_backendURL :: string

definition findBackendByCoordinatorURL :: "string \<Rightarrow> GatewayService \<Rightarrow> Backend option" where
  "findBackendByCoordinatorURL coordinatorURL gs =
     (case List.find (\<lambda>b. be_CoordinatorURL b = coordinatorURL) (concat (map (re_Backends \<circ> snd) (gs_routes gs))) of
        Some b \<Rightarrow> Some b
      | None \<Rightarrow>
          (case gs_defaultRoute gs of
             None \<Rightarrow> None
           | Some route \<Rightarrow> List.find (\<lambda>b. be_CoordinatorURL b = coordinatorURL) (re_Backends route)))"

definition stickyBackendForQuery ::
    "'l LRU \<Rightarrow> 'r RedisKV \<Rightarrow> time \<Rightarrow> string \<Rightarrow> ('l, 'r) RedisStickyClient \<times> GatewayService
      \<Rightarrow> stickyBackendSelection option \<times> ('l, 'r) RedisStickyClient \<times> GatewayService" where
  "stickyBackendForQuery lru rk now queryID = (\<lambda>(c, gs).
     case sticky_Get lru rk queryID c of
       (None, c) \<Rightarrow> (None, c, gs)
     | (Some route, c) \<Rightarrow>
         if sr_BackendURL route = '''' then (None, c, gs)
         else
           let (ok, gs) =
                 (case findBackendByCoordinatorURL (sr_BackendURL route) gs of
                    None \<Rightarrow> (False, gs)
                  | Some cachedBackend \<Rightarrow> isStickyBackendRoutable now cachedBackend gs)
           in if ok then
                (Some \<lparr> sb_namespace = sr_Namespace route, sb_name = sr_Name route, sb_backendURL = sr_BackendURL route \<rparr>, c, gs)
              else (None, sticky_Delete lru rk queryID c, gs))"

section \<open>What the cache and Redis promise\<close>

text \<open>\<open>view l\<close> is the live content of the cache: an added entry can be read, a removed one cannot, and
  adding may evict other entries. \<open>store r\<close> is the content of Redis: a reply other than a failure
  tells the truth, a command that reports success took effect.\<close>

definition lru_ok :: "'l LRU \<Rightarrow> ('l \<Rightarrow> string \<Rightarrow> StickyRoute option) \<Rightarrow> bool" where
  "lru_ok lru view \<longleftrightarrow>
     (\<forall>k l. fst (lr_Get lru k l) = view l k \<and> view (snd (lr_Get lru k l)) = view l)
     \<and> (\<forall>k v l. view (lr_Add lru k v l) k = Some v \<and> (\<forall>j. j \<noteq> k \<longrightarrow> view (lr_Add lru k v l) j \<in> {view l j, None}))
     \<and> (\<forall>k l. view (lr_Remove lru k l) = (view l)(k := None))"

definition redis_ok :: "'r RedisKV \<Rightarrow> ('r \<Rightarrow> string \<Rightarrow> string option) \<Rightarrow> bool" where
  "redis_ok rk store \<longleftrightarrow>
     (\<forall>k r reply r'. rk_Get rk k r = (reply, r') \<longrightarrow> store r' = store r
        \<and> (case reply of RedisValue v \<Rightarrow> store r k = Some v | RedisNil \<Rightarrow> store r k = None | RedisFailure \<Rightarrow> True))
     \<and> (\<forall>k v ttl r r'. rk_Set rk k v ttl r = (False, r') \<longrightarrow> store r' = (store r)(k \<mapsto> v))
     \<and> (\<forall>k r r'. rk_Del rk k r = (False, r') \<longrightarrow> store r' = (store r)(k := None))"

section \<open>Reading back a stored route\<close>

lemma marshal_roundtrip:
  assumes "ascii (sr_Namespace r)" "ascii (sr_Name r)" "ascii (sr_BackendURL r)" "ascii (sr_RoutingGroup r)"
  shows "unmarshal_route (marshal_route r) = Some r"
proof -
  have "plain (route_json r)" using assms by (simp add: route_json_def) (simp add: ascii_def)
  then have u: "unmarshal (marshal_route r) = Some (route_json r)"
    unfolding marshal_route_def by (rule unmarshal_print)
  have "decode_fields [(''namespace'', VStr (sr_Namespace r)), (''name'', VStr (sr_Name r)),
      (''backendURL'', VStr (sr_BackendURL r)), (''routingGroup'', VStr (sr_RoutingGroup r))] (empty_route, False) = (r, False)"
    by (simp add: route_field_def set_field_def empty_route_def)
  then show ?thesis unfolding unmarshal_route_def u by (simp add: route_json_def)
qed

lemma set_get_route:
  assumes "lru_ok lru view" "redis_ok rk store"
    and "ascii ns" "ascii name" "ascii url" "ascii rg"
    and "\<forall>r. sc_redis c = Some r \<and> sc_enabled c \<longrightarrow>
      \<not> fst (rk_Set rk (makeRedisKey q) (marshal_route \<lparr> sr_Namespace = ns, sr_Name = name, sr_BackendURL = url, sr_RoutingGroup = rg \<rparr>)
              (rcf_TTL (sc_config c)) r)"
  shows "fst (sticky_Get lru rk q (sticky_Set lru rk q ns name url rg c))
    = Some \<lparr> sr_Namespace = ns, sr_Name = name, sr_BackendURL = url, sr_RoutingGroup = rg \<rparr>"
proof -
  let ?route = "\<lparr> sr_Namespace = ns, sr_Name = name, sr_BackendURL = url, sr_RoutingGroup = rg \<rparr>"
  let ?cache = "lr_Add lru q ?route (sc_fallbackCache c)"
  have fb: "fst (fallback_get lru q c') = Some ?route" if "sc_fallbackCache c' = ?cache" for c' :: "('a, 'b) RedisStickyClient"
    using assms(1) that by (simp add: fallback_get_def lru_ok_def case_prod_beta)
  show ?thesis
  proof (cases "\<exists>r. sc_redis c = Some r \<and> sc_enabled c")
    case True
    then obtain r where r: "sc_redis c = Some r" "sc_enabled c" by blast
    obtain e r1 where s: "rk_Set rk (makeRedisKey q) (marshal_route ?route) (rcf_TTL (sc_config c)) r = (e, r1)" by force
    then have st: "store r1 (makeRedisKey q) = Some (marshal_route ?route)"
      using assms(2,7) r unfolding redis_ok_def by fastforce
    obtain reply r2 where g: "rk_Get rk (makeRedisKey q) r1 = (reply, r2)" by force
    have reply: "case reply of RedisValue v \<Rightarrow> v = marshal_route ?route | RedisNil \<Rightarrow> False | RedisFailure \<Rightarrow> True"
      using assms(2) g st unfolding redis_ok_def by (fastforce split: redis_reply.splits)
    have u: "unmarshal_route (marshal_route ?route) = Some ?route" using assms(3-6) by (intro marshal_roundtrip) simp_all
    show ?thesis
      using reply u fb r s g by (cases reply) (simp_all add: sticky_Set_def sticky_Get_def Let_def)
  next
    case False
    then have "sticky_Set lru rk q ns name url rg c = c\<lparr>sc_fallbackCache := ?cache\<rparr>"
      by (auto simp: sticky_Set_def Let_def split: option.splits)
    then show ?thesis using False fb by (auto simp: sticky_Get_def split: option.splits)
  qed
qed



section \<open>Continuing a query\<close>

lemma sticky_backend_result:
  "fst (stickyBackendForQuery lru rk now q (c, gs)) = Some sel \<longleftrightarrow>
     (\<exists>route b. fst (sticky_Get lru rk q c) = Some route \<and> sr_BackendURL route \<noteq> ''''
        \<and> findBackendByCoordinatorURL (sr_BackendURL route) gs = Some b
        \<and> ((be_State b = '''' \<or> be_State b = StateRunning) \<and> be_Active b \<or> be_State b = StateDraining)
        \<and> guards_pass now gs (be_CoordinatorURL b)
        \<and> sel = \<lparr> sb_namespace = sr_Namespace route, sb_name = sr_Name route, sb_backendURL = sr_BackendURL route \<rparr>)"
proof -
  obtain x c1 where g: "sticky_Get lru rk q c = (x, c1)" by force
  show ?thesis
  proof (cases x)
    case None
    then show ?thesis by (simp add: stickyBackendForQuery_def g)
  next
    case (Some route)
    show ?thesis
    proof (cases "findBackendByCoordinatorURL (sr_BackendURL route) gs")
      case None
      then show ?thesis by (simp add: stickyBackendForQuery_def g Some)
    next
      case f: (Some b)
      have "fst (isStickyBackendRoutable now b gs) \<longleftrightarrow>
          ((be_State b = '''' \<or> be_State b = StateRunning) \<and> be_Active b \<or> be_State b = StateDraining)
          \<and> guards_pass now gs (be_CoordinatorURL b)"
        by (simp add: sticky_pure open_for_new_def)
      then show ?thesis
        by (auto simp: stickyBackendForQuery_def g Some f Let_def case_prod_beta)
    qed
  qed
qed

text \<open>C17. A follow-up request goes to the backend its query is pinned to exactly when that backend is still
  in the loaded routes, passes health check and breaker, and is either open for new queries or
  draining; so draining lets running queries finish.\<close>

theorem sticky_backend_exact:
  "fst (stickyBackendForQuery lru rk now q (c, gs)) = Some sel \<longleftrightarrow>
     (\<exists>route b. fst (sticky_Get lru rk q c) = Some route \<and> sr_BackendURL route \<noteq> ''''
        \<and> findBackendByCoordinatorURL (sr_BackendURL route) gs = Some b
        \<and> ((be_State b = '''' \<or> be_State b = StateRunning) \<and> be_Active b \<or> be_State b = StateDraining)
        \<and> guards_pass now gs (be_CoordinatorURL b)
        \<and> sel = \<lparr> sb_namespace = sr_Namespace route, sb_name = sr_Name route, sb_backendURL = sr_BackendURL route \<rparr>)"
  by (rule sticky_backend_result)

section \<open>Concrete runs\<close>

definition map_lru :: "(string \<Rightarrow> StickyRoute option) LRU" where
  "map_lru = \<lparr> lr_Add = (\<lambda>k v l. l(k \<mapsto> v)), lr_Get = (\<lambda>k l. (l k, l)), lr_Remove = (\<lambda>k l. l(k := None)) \<rparr>"

text \<open>A Redis that is down for writes when \<open>down\<close>.\<close>

definition map_redis :: "bool \<Rightarrow> (string \<Rightarrow> string option) RedisKV" where
  "map_redis down =
     \<lparr> rk_Set = (\<lambda>k v ttl r. if down then (True, r) else (False, r(k \<mapsto> v))),
       rk_Get = (\<lambda>k r. (case r k of Some v \<Rightarrow> RedisValue v | None \<Rightarrow> RedisNil, r)),
       rk_Del = (\<lambda>k r. if down then (True, r) else (False, r(k := None))),
       rk_Ping = (\<lambda>r. True) \<rparr>"

lemma map_lru_ok: "lru_ok map_lru (\<lambda>l. l)"
  by (simp add: lru_ok_def map_lru_def)

lemma map_redis_ok: "redis_ok (map_redis down) (\<lambda>r. r)"
  by (auto simp: redis_ok_def map_redis_def split: option.splits)

definition demo_sticky :: "(string \<Rightarrow> StickyRoute option, string \<Rightarrow> string option) RedisStickyClient" where
  "demo_sticky =
     \<lparr> sc_redis = Some (\<lambda>_. None), sc_fallbackCache = (\<lambda>_. None),
       sc_config = \<lparr> rcf_Enabled = True, rcf_URL = ''redis://r'', rcf_Password = '''', rcf_DB = 0, rcf_TTL = minute, rcf_Timeout = 0 \<rparr>,
       sc_enabled = True \<rparr>"



end
