(* ===== verification/RequestHandler.thy ===== *)
theory RequestHandler
  imports TrinoUI Sticky
begin

text \<open>
  The path of a request through the gateway (\<open>pkg/gateway/request_handler.go\<close>, \<open>retry.go\<close>, \<open>path_join.go\<close>,
  and the resume call of \<open>apiserver_client.go\<close>): choosing a backend for a query or for a page of the Trino UI,
  the breaker guard, the director of the reverse proxy, and what is done with the answer or the error of
  the backend.

  Parameters: \<open>forward\<close> is the backend's answer to the proxied request, \<open>post\<close> the answer of the API server to
  the resume call, \<open>get\<close> that of a backend to a health probe. A request is handled at one clock reading. Of
  \<open>httputil.ReverseProxy\<close> the model has the calls of the three hooks, the removal of hop-by-hop headers and
  \<open>X-Forwarded-For\<close>; protocol upgrades, \<open>Te\<close> and \<open>User-Agent\<close> handling, metrics and logging are left out.
\<close>

section \<open>Paths\<close>

definition singleJoiningSlash :: "string \<Rightarrow> string \<Rightarrow> string" where
  "singleJoiningSlash a b =
     (let aslash = has_suffix a ''/''; bslash = has_prefix b ''/''
      in if aslash \<and> bslash then a @ tl b
         else if \<not> aslash \<and> \<not> bslash then if b \<noteq> '''' then a @ ''/'' @ b else a
         else a @ b)"

section \<open>The resume call\<close>

record ResumeCandidate =
  rcd_Namespace :: string
  rcd_Name :: string

record ResumeRequest =
  rrq_RoutingGroup :: string
  rrq_Candidate :: "ResumeCandidate option"
  rrq_Reason :: string
  rrq_RouteName :: string

record ResumeResponse =
  rrs_Triggered :: bool
  rrs_Gated :: bool
  rrs_RetryAfter :: int
  rrs_Key :: string
  rrs_KeyType :: string
  rrs_LeaseUntil :: string
  rrs_Error :: string
  rrs_Holder :: string

definition empty_resume_response :: ResumeResponse where
  "empty_resume_response =
     \<lparr> rrs_Triggered = False, rrs_Gated = False, rrs_RetryAfter = 0, rrs_Key = '''', rrs_KeyType = '''', rrs_LeaseUntil = '''',
       rrs_Error = '''', rrs_Holder = '''' \<rparr>"

text \<open>The fields of \<open>ResumeResponse\<close>, by JSON name; a value of another type is an error.\<close>

definition resume_fields :: "string list" where
  "resume_fields = [''triggered'', ''gated'', ''retryAfter'', ''key'', ''keyType'', ''leaseUntil'', ''error'', ''holder'']"

definition set_resume_field :: "string \<Rightarrow> jvalue \<Rightarrow> ResumeResponse \<Rightarrow> ResumeResponse option" where
  "set_resume_field f v r =
     (case v of
        VNull \<Rightarrow> Some r
      | VBool b \<Rightarrow>
          if f = ''triggered'' then Some (r\<lparr>rrs_Triggered := b\<rparr>)
          else if f = ''gated'' then Some (r\<lparr>rrs_Gated := b\<rparr>) else None
      | VNum n \<Rightarrow>
          if f = ''retryAfter'' then map_option (\<lambda>k. r\<lparr>rrs_RetryAfter := k\<rparr>) (parse_int 64 n) else None
      | VStr s \<Rightarrow>
          if f = ''key'' then Some (r\<lparr>rrs_Key := s\<rparr>)
          else if f = ''keyType'' then Some (r\<lparr>rrs_KeyType := s\<rparr>)
          else if f = ''leaseUntil'' then Some (r\<lparr>rrs_LeaseUntil := s\<rparr>)
          else if f = ''error'' then Some (r\<lparr>rrs_Error := s\<rparr>)
          else if f = ''holder'' then Some (r\<lparr>rrs_Holder := s\<rparr>) else None
      | _ \<Rightarrow> None)"

fun decode_resume :: "(string \<times> jvalue) list \<Rightarrow> ResumeResponse \<Rightarrow> ResumeResponse option" where
  "decode_resume [] r = Some r"
| "decode_resume ((k, v) # fs) r =
     (case (if k \<in> set resume_fields then Some k else List.find (\<lambda>n. to_lower n = to_lower k) resume_fields) of
        None \<Rightarrow> decode_resume fs r
      | Some f \<Rightarrow> (case set_resume_field f v r of None \<Rightarrow> None | Some r \<Rightarrow> decode_resume fs r))"

definition unmarshal_resume :: "string \<Rightarrow> ResumeResponse option" where
  "unmarshal_resume s =
     (case unmarshal s of
        Some (VObj fs) \<Rightarrow> decode_resume fs empty_resume_response
      | Some VNull \<Rightarrow> Some empty_resume_response
      | _ \<Rightarrow> None)"

definition APIServerDefaultAPIPath :: string where
  "APIServerDefaultAPIPath = ''/api/v1''"

definition normalizeAPIServerBaseURL :: "string \<Rightarrow> string" where
  "normalizeAPIServerBaseURL rawURL =
     (let baseURL = trim_space rawURL
      in case url_parse baseURL of
           None \<Rightarrow> baseURL
         | Some parsed \<Rightarrow>
             if u_Scheme parsed = '''' \<or> u_Host parsed = '''' then baseURL
             else if trim_by (\<lambda>c. c = CHR ''/'') (u_Path parsed) = ''''
             then url_string (parsed\<lparr>u_Path := APIServerDefaultAPIPath, u_RawPath := ''''\<rparr>)
             else url_string parsed)"

text \<open>\<open>post\<close> sends the request and reads the answer: an error, or the status and body. Errors are logged only; their
  texts are cut to the fixed part.\<close>

definition api_Resume :: "(ResumeRequest \<Rightarrow> string + (int \<times> string)) \<Rightarrow> ResumeRequest \<Rightarrow> string + ResumeResponse" where
  "api_Resume post req =
     (case post req of
        Inl err \<Rightarrow> Inl (''failed to call API server: '' @ err)
      | Inr (status, body) \<Rightarrow>
          if status \<noteq> StatusAccepted \<and> status \<noteq> StatusServiceUnavailable then
            Inl (''api server resume failed with status '' @ show_int status)
          else case unmarshal_resume body of
                 None \<Rightarrow> Inl ''failed to unmarshal response''
               | Some resp \<Rightarrow> Inr resp)"

definition handleResumeViaAPI ::
    "(ResumeRequest \<Rightarrow> string + (int \<times> string)) \<Rightarrow> string \<Rightarrow> string \<Rightarrow> string \<Rightarrow> HttpResponse" where
  "handleResumeViaAPI post namespace name routingGroup =
     (let req = \<lparr> rrq_RoutingGroup = routingGroup,
                  rrq_Candidate = Some \<lparr> rcd_Namespace = namespace, rcd_Name = name \<rparr>,
                  rrq_Reason = ''no_running_backend'', rrq_RouteName = '''' \<rparr>
      in case api_Resume post req of
           Inl err \<Rightarrow>
             \<lparr> rs_StatusCode = StatusServiceUnavailable,
               rs_Header = header_set ''Retry-After'' ''30'' (header_set ''Content-Type'' ''application/json'' []),
               rs_Body = json_text (VObj [(''error'', VStr ''Failed to trigger resume''), (''retryAfter'', VNum ''30'')]) @ [CHR 0x0A] \<rparr>
         | Inr resp \<Rightarrow>
             let retryAfter = (if rrs_RetryAfter resp < 5 then 5 else rrs_RetryAfter resp);
                 h = header_set ''Retry-After'' (show_int retryAfter) (header_set ''Content-Type'' ''application/json'' []);
                 h = (if rrs_Gated resp then header_set ''X-Gateway-Resume-Gated'' ''true'' h else h)
             in \<lparr> rs_StatusCode = StatusServiceUnavailable, rs_Header = h,
                  rs_Body = json_text (VObj [(''error'', VStr ''XTrinode runtime is resuming, please retry''),
                    (''gated'', VBool (rrs_Gated resp)), (''retryAfter'', VNum (show_int retryAfter)),
                    (''triggered'', VBool (rrs_Triggered resp))]) @ [CHR 0x0A] \<rparr>)"

section \<open>Choosing a backend\<close>

text \<open>What \<open>handleRequest\<close> stores in the request context.\<close>

record RequestContext =
  cx_route :: RouteEntry
  cx_backendURL :: string
  cx_xtrinodeName :: string
  cx_namespace :: string
  cx_targetPath :: string
  cx_trinoUIPrefix :: string

type_synonym ('l, 'r) gateway = "('l, 'r) RedisStickyClient \<times> GatewayService"

text \<open>The part of \<open>handleRequest\<close> before the proxy: an answer, or the context to forward with.\<close>

definition route_request ::
    "'l LRU \<Rightarrow> 'r RedisKV \<Rightarrow> (string \<Rightarrow> probe_result) \<Rightarrow> (ResumeRequest \<Rightarrow> string + (int \<times> string)) \<Rightarrow> time \<Rightarrow> HttpRequest
      \<Rightarrow> ('l, 'r) gateway \<Rightarrow> (HttpResponse + RequestContext) \<times> ('l, 'r) gateway" where
  "route_request lru rk get post now r = (\<lambda>(c, gs).
     case findRoute gs r of
       None \<Rightarrow> (Inl (http_error [] ''No route found'' StatusNotFound), c, gs)
     | Some route \<Rightarrow>
         let queryId = extractQueryIdFromRequest (rq_Path r);
             (sticky, c, gs) = (if queryId \<noteq> '''' then stickyBackendForQuery lru rk now queryId (c, gs) else (None, c, gs))
         in if (case sticky of Some s \<Rightarrow> sb_backendURL s \<noteq> '''' | None \<Rightarrow> False) then
              (Inr \<lparr> cx_route = route, cx_backendURL = sb_backendURL (the sticky), cx_xtrinodeName = sb_name (the sticky),
                     cx_namespace = sb_namespace (the sticky), cx_targetPath = '''',
                     cx_trinoUIPrefix = gatewayBackendTrinoUIPath (sb_namespace (the sticky)) (sb_name (the sticky)) \<rparr>, c, gs)
            else
              (case selectBackend get now route gs of
                 (None, gs) \<Rightarrow>
                   (case pickResumeCandidate now route gs of
                      Some cand \<Rightarrow> (Inl (handleResumeViaAPI post (be_Namespace cand) (be_Name cand) (re_RoutingGroup route)), c, gs)
                    | None \<Rightarrow> (Inl (http_error [] ''No backend available'' StatusServiceUnavailable), c, gs))
               | (Some backend, gs) \<Rightarrow>
                   if be_Namespace backend = '''' then
                     (Inl (http_error [] ''Backend configuration error: missing namespace'' StatusInternalServerError), c, gs)
                   else
                     let c = (if queryId \<noteq> '''' \<and> be_Name backend \<noteq> '''' \<and> be_Namespace backend \<noteq> '''' \<and> be_CoordinatorURL backend \<noteq> ''''
                              then sticky_Set lru rk queryId (be_Namespace backend) (be_Name backend) (be_CoordinatorURL backend)
                                     (re_RoutingGroup route) c
                              else c)
                     in (Inr \<lparr> cx_route = route, cx_backendURL = be_CoordinatorURL backend, cx_xtrinodeName = be_Name backend,
                               cx_namespace = be_Namespace backend, cx_targetPath = '''',
                               cx_trinoUIPrefix = gatewayBackendTrinoUIPath (be_Namespace backend) (be_Name backend) \<rparr>, c, gs)))"

section \<open>The proxied request\<close>

record OutRequest = HttpRequest +
  or_Scheme :: string
  or_URLHost :: string
  or_trinoUIPrefix :: string

definition director :: "RequestContext \<Rightarrow> HttpRequest \<Rightarrow> OutRequest" where
  "director cx req =
     (let same = HttpRequest.extend req (OutRequest.fields '''' '''' (cx_trinoUIPrefix cx))
      in if cx_backendURL cx = '''' then same
         else case url_parse (cx_backendURL cx) of
                None \<Rightarrow> same
              | Some targetURL \<Rightarrow>
                  let h = rq_Header req;
                      h = (if header_get h ''X-Forwarded-Host'' = '''' then header_set ''X-Forwarded-Host'' (rq_Host req) h else h);
                      h = (if header_get h ''X-Forwarded-Proto'' = ''''
                           then header_set ''X-Forwarded-Proto'' (if rq_TLS req then ''https'' else ''http'') h else h);
                      h = header_set ''X-Trino-Route-Name'' (re_Name (cx_route cx)) h;
                      h = header_set ''X-Trino-Routing-Group'' (re_RoutingGroup (cx_route cx)) h;
                      h = header_set ''X-Trino-XTrinode-Name'' (cx_xtrinodeName cx) h;
                      h = header_set ''X-Trino-XTrinode-Namespace'' (cx_namespace cx) h;
                      h = header_set ''X-Trino-Backend-URL'' (cx_backendURL cx) h;
                      requestPath = (if cx_targetPath cx \<noteq> '''' then cx_targetPath cx else rq_Path req)
                  in same\<lparr>or_Scheme := u_Scheme targetURL, or_URLHost := u_Host targetURL,
                          rq_Path := singleJoiningSlash (u_Path targetURL) requestPath, rq_Host := u_Host targetURL, rq_Header := h\<rparr>)"

text \<open>\<open>removeHopByHopHeaders\<close> of the reverse proxy: the headers that \<open>Connection\<close> names, then a fixed list.\<close>

definition hopHeaders :: "string list" where
  "hopHeaders = [''Connection'', ''Proxy-Connection'', ''Keep-Alive'', ''Proxy-Authenticate'', ''Proxy-Authorization'',
     ''Te'', ''Trailer'', ''Transfer-Encoding'', ''Upgrade'']"

definition connection_options :: "headers \<Rightarrow> string list" where
  "connection_options h = filter (\<lambda>sf. sf \<noteq> '''') (map trim_space (split_on CHR '','' (header_get h ''Connection'')))"

definition removeHopByHopHeaders :: "headers \<Rightarrow> headers" where
  "removeHopByHopHeaders h = fold header_del (connection_options h @ hopHeaders) h"

definition add_forwarded_for :: "string \<Rightarrow> headers \<Rightarrow> headers" where
  "add_forwarded_for remoteAddr h =
     (case split_host_port remoteAddr of
        None \<Rightarrow> h
      | Some clientIP \<Rightarrow>
          let prior = header_get h ''X-Forwarded-For''
          in header_set ''X-Forwarded-For'' (if prior \<noteq> '''' then prior @ '', '' @ clientIP else clientIP) h)"

text \<open>The request as the reverse proxy sends it.\<close>

definition proxied :: "RequestContext \<Rightarrow> HttpRequest \<Rightarrow> OutRequest" where
  "proxied cx r =
     (let outreq = director cx r
      in outreq\<lparr>rq_Header := add_forwarded_for (rq_RemoteAddr r) (removeHopByHopHeaders (rq_Header outreq))\<rparr>)"

section \<open>Answers and errors of the backend\<close>

text \<open>Applying one breaker method to the breaker of a backend.\<close>

definition with_breaker :: "string \<Rightarrow> (CircuitBreaker \<Rightarrow> CircuitBreaker) \<Rightarrow> GatewayService \<Rightarrow> GatewayService" where
  "with_breaker backendURL f gs =
     (case gs_circuitBreaker gs of
        None \<Rightarrow> gs
      | Some cbm \<Rightarrow>
          let (breaker, cbm) = gateway_breaker backendURL cbm
          in gs\<lparr>gs_circuitBreaker := Some (put_breaker backendURL (f breaker) cbm)\<rparr>)"

definition recordCircuitBreakerState :: "time \<Rightarrow> string \<Rightarrow> int \<Rightarrow> GatewayService \<Rightarrow> GatewayService" where
  "recordCircuitBreakerState now backendURL status gs =
     (if backendURL = '''' \<or> gs_circuitBreaker gs = None then gs
      else with_breaker backendURL
        (\<lambda>breaker. if status = StatusServiceUnavailable then RecordOverload now breaker
                    else if status \<ge> 500 then RecordFailure now breaker
                    else if status \<ge> 200 \<and> status < 300 then RecordSuccess now breaker
                    else breaker) gs)"

definition handleStickyRoutingFromResponse ::
    "'l LRU \<Rightarrow> 'r RedisKV \<Rightarrow> time \<Rightarrow> OutRequest \<Rightarrow> BackendResponse \<Rightarrow> ('l, 'r) gateway \<Rightarrow> BackendResponse \<times> ('l, 'r) gateway" where
  "handleStickyRoutingFromResponse lru rk now req resp = (\<lambda>(c, gs).
     if rs_StatusCode resp \<noteq> StatusOK then (resp, c, gs)
     else if \<not> isJSONContentType (header_get (rs_Header resp) ''Content-Type'') then (resp, c, gs)
     else case extractQueryInfoFromResponse (rs_Body resp, br_Fails resp) of
            ((queryID, state), (body, fails)) \<Rightarrow>
              let resp = resp\<lparr>rs_Body := body, br_Fails := fails\<rparr>;
                  xtrinodeName = header_get (rq_Header req) ''X-Trino-XTrinode-Name'';
                  namespace = header_get (rq_Header req) ''X-Trino-XTrinode-Namespace'';
                  backendURL = header_get (rq_Header req) ''X-Trino-Backend-URL'';
                  routingGroup = header_get (rq_Header req) ''X-Trino-Routing-Group''
              in if queryID = '''' then (resp, c, gs)
                 else if xtrinodeName = '''' \<or> namespace = '''' \<or> backendURL = '''' then (resp, c, gs)
                 else (resp, sticky_Set lru rk queryID namespace xtrinodeName backendURL routingGroup c,
                       gs\<lparr>gs_queryActivity := Observe now queryID namespace xtrinodeName routingGroup backendURL state (gs_queryActivity gs)\<rparr>))"

definition handle503Response :: "BackendResponse \<Rightarrow> BackendResponse" where
  "handle503Response resp =
     (if rs_StatusCode resp \<noteq> StatusServiceUnavailable then resp
      else resp\<lparr>rs_Header := header_set ''Retry-After'' ''30'' (rs_Header resp)\<rparr>)"

definition modifyResponse ::
    "'l LRU \<Rightarrow> 'r RedisKV \<Rightarrow> time \<Rightarrow> OutRequest \<Rightarrow> BackendResponse \<Rightarrow> ('l, 'r) gateway \<Rightarrow> BackendResponse \<times> ('l, 'r) gateway" where
  "modifyResponse lru rk now req resp st =
     (let resp = rewriteTrinoUILocation (or_trinoUIPrefix req) resp;
          resp = rewriteTrinoUIInfoURI (trinoUIPrefixForResponse (or_trinoUIPrefix req) (rq_Header req)) resp
      in case handleStickyRoutingFromResponse lru rk now req resp st of
           (resp, c, gs) \<Rightarrow>
             let resp = handle503Response resp
             in (resp, c, recordCircuitBreakerState now (header_get (rq_Header req) ''X-Trino-Backend-URL'') (rs_StatusCode resp) gs))"

definition recordCircuitBreakerFailure :: "time \<Rightarrow> OutRequest \<Rightarrow> ErrorType \<Rightarrow> GatewayService \<Rightarrow> GatewayService" where
  "recordCircuitBreakerFailure now r errType gs =
     (let backendURL = header_get (rq_Header r) ''X-Trino-Backend-URL''
      in if backendURL = '''' \<or> gs_circuitBreaker gs = None then gs
         else with_breaker backendURL
                (RecordProxyFailure now (errType \<noteq> ErrorTypeOverload \<and> errType \<noteq> ErrorTypePaused)) gs)"

definition handlePausedBackendError :: "(ResumeRequest \<Rightarrow> string + (int \<times> string)) \<Rightarrow> OutRequest \<Rightarrow> HttpResponse" where
  "handlePausedBackendError post r =
     (let xtrinodeName = header_get (rq_Header r) ''X-Trino-XTrinode-Name'';
          namespace = header_get (rq_Header r) ''X-Trino-XTrinode-Namespace'';
          routingGroup = header_get (rq_Header r) ''X-Trino-Routing-Group''
      in if xtrinodeName = '''' \<or> namespace = '''' then http_error [] ''Gateway error: backend unavailable'' StatusBadGateway
         else handleResumeViaAPI post namespace xtrinodeName routingGroup)"

definition errorHandler ::
    "(ResumeRequest \<Rightarrow> string + (int \<times> string)) \<Rightarrow> time \<Rightarrow> OutRequest \<Rightarrow> go_error \<Rightarrow> GatewayService \<Rightarrow> HttpResponse \<times> GatewayService" where
  "errorHandler post now r err gs =
     (let errType = classifyError (Some err) 0;
          gs = recordCircuitBreakerFailure now r errType gs
      in (if errType = ErrorTypePaused then handlePausedBackendError post r
          else http_error [] ''Gateway error: backend request failed'' StatusBadGateway, gs))"

section \<open>The breaker guard and the whole handler\<close>

text \<open>\<open>httputil.ReverseProxy.ServeHTTP\<close> with the gateway's hooks.\<close>

definition proxy_request ::
    "'l LRU \<Rightarrow> 'r RedisKV \<Rightarrow> (ResumeRequest \<Rightarrow> string + (int \<times> string)) \<Rightarrow> (OutRequest \<Rightarrow> go_error + BackendResponse)
      \<Rightarrow> time \<Rightarrow> RequestContext \<Rightarrow> HttpRequest \<Rightarrow> ('l, 'r) gateway \<Rightarrow> HttpResponse \<times> ('l, 'r) gateway" where
  "proxy_request lru rk post forward now cx r = (\<lambda>(c, gs).
     let out = proxied cx r
     in case forward out of
          Inr resp \<Rightarrow>
            (case modifyResponse lru rk now out (resp\<lparr>rs_Header := removeHopByHopHeaders (rs_Header resp)\<rparr>) (c, gs) of
               (resp, st) \<Rightarrow> (HttpResponse.truncate resp, st))
        | Inl err \<Rightarrow> (case errorHandler post now out err gs of (resp, gs) \<Rightarrow> (resp, c, gs)))"

definition breaker_retry_after :: int where
  "breaker_retry_after =
     (let retryAfter = GatewayCircuitBreakerTimeout sdiv second in if retryAfter < 1 then 30 else retryAfter)"

text \<open>Whether the breaker lets the request through, and the gateway after the probe slot is taken.\<close>

definition breaker_allows :: "time \<Rightarrow> string \<Rightarrow> GatewayService \<Rightarrow> bool \<times> GatewayService" where
  "breaker_allows now backendURL gs =
     (case gs_circuitBreaker gs of
        None \<Rightarrow> (True, gs)
      | Some cbm \<Rightarrow>
          let (breaker, cbm) = gateway_breaker backendURL cbm;
              (breaker, ok) = cb_Allow now breaker
          in (ok, gs\<lparr>gs_circuitBreaker := Some (put_breaker backendURL breaker cbm)\<rparr>))"

definition retry_ServeHTTP ::
    "'l LRU \<Rightarrow> 'r RedisKV \<Rightarrow> (ResumeRequest \<Rightarrow> string + (int \<times> string)) \<Rightarrow> (OutRequest \<Rightarrow> go_error + BackendResponse)
      \<Rightarrow> time \<Rightarrow> RequestContext \<Rightarrow> HttpRequest \<Rightarrow> ('l, 'r) gateway \<Rightarrow> HttpResponse \<times> ('l, 'r) gateway" where
  "retry_ServeHTTP lru rk post forward now cx r = (\<lambda>(c, gs).
     if cx_backendURL cx = '''' then (http_error [] ''Gateway misconfiguration'' StatusInternalServerError, c, gs)
     else case breaker_allows now (cx_backendURL cx) gs of
            (False, gs) \<Rightarrow>
              (http_error (header_set ''Retry-After'' (show_int breaker_retry_after) []) ''Service temporarily unavailable''
                 StatusServiceUnavailable, c, gs)
          | (True, gs) \<Rightarrow> proxy_request lru rk post forward now cx r (c, gs))"

definition handleRequest ::
    "'l LRU \<Rightarrow> 'r RedisKV \<Rightarrow> (string \<Rightarrow> probe_result) \<Rightarrow> (ResumeRequest \<Rightarrow> string + (int \<times> string))
      \<Rightarrow> (OutRequest \<Rightarrow> go_error + BackendResponse) \<Rightarrow> time \<Rightarrow> HttpRequest \<Rightarrow> ('l, 'r) gateway \<Rightarrow> HttpResponse \<times> ('l, 'r) gateway" where
  "handleRequest lru rk get post forward now r st =
     (case route_request lru rk get post now r st of
        (Inl resp, st) \<Rightarrow> (resp, st)
      | (Inr cx, st) \<Rightarrow> retry_ServeHTTP lru rk post forward now cx r st)"

section \<open>Pages of the Trino UI\<close>

text \<open>\<open>http.NotFound\<close>, and the status and \<open>Location\<close> of \<open>http.Redirect\<close> to an absolute path.\<close>

definition http_not_found :: HttpResponse where
  "http_not_found = http_error [] ''404 page not found'' StatusNotFound"

definition http_redirect :: "string \<Rightarrow> int \<Rightarrow> HttpResponse" where
  "http_redirect url code = \<lparr> rs_StatusCode = code, rs_Header = header_set ''Location'' url [], rs_Body = '''' \<rparr>"

text \<open>The part of \<open>handleTrinoUIRequest\<close> before the availability check: an answer, or the backend and the path to ask it for.\<close>

definition ui_target ::
    "(string \<Rightarrow> probe_result) \<Rightarrow> bool \<Rightarrow> time \<Rightarrow> string \<Rightarrow> GatewayService
      \<Rightarrow> (HttpResponse + (RouteEntry \<times> Backend) \<times> string) \<times> GatewayService" where
  "ui_target get uiEnabled now path gs =
     (if isGatewayAdminUIRequest path then (Inl http_not_found, gs)
      else if path = TrinoUIPath \<or> path = TrinoUIPath @ ''/'' then
        if uiEnabled then (Inl (http_redirect GatewayUIRedirectURL StatusTemporaryRedirect), gs)
        else (case defaultTrinoUIBackend get now gs of
                (None, gs) \<Rightarrow> (Inl http_not_found, gs)
              | (Some (route, backend), gs) \<Rightarrow>
                  (Inl (http_redirect (gatewayBackendTrinoUIPath (be_Namespace backend) (be_Name backend)) StatusTemporaryRedirect), gs))
      else case resolveTrinoUIBackend gs path of
             UIAmbiguous \<Rightarrow> (Inl (http_error [] ''Backend name is ambiguous; use /ui/<namespace>/<backend>/'' StatusBadRequest), gs)
           | UIFound (rb, targetPath) \<Rightarrow> (Inr (rb, targetPath), gs)
           | UINone \<Rightarrow>
               if isDefaultTrinoUIPath path then
                 (case defaultTrinoUIBackend get now gs of
                    (None, gs) \<Rightarrow> (Inl http_not_found, gs)
                  | (Some rb, gs) \<Rightarrow> (Inr (rb, path), gs))
               else (Inl http_not_found, gs))"

definition handleTrinoUIRequest ::
    "'l LRU \<Rightarrow> 'r RedisKV \<Rightarrow> (string \<Rightarrow> probe_result) \<Rightarrow> (ResumeRequest \<Rightarrow> string + (int \<times> string))
      \<Rightarrow> (OutRequest \<Rightarrow> go_error + BackendResponse) \<Rightarrow> bool \<Rightarrow> time \<Rightarrow> HttpRequest \<Rightarrow> ('l, 'r) gateway
      \<Rightarrow> HttpResponse \<times> ('l, 'r) gateway" where
  "handleTrinoUIRequest lru rk get post forward uiEnabled now r = (\<lambda>(c, gs).
     case ui_target get uiEnabled now (rq_Path r) gs of
       (Inl resp, gs) \<Rightarrow> (resp, c, gs)
     | (Inr ((route, backend), targetPath), gs) \<Rightarrow>
         (case isBackendSelectable now backend gs of
            (False, gs) \<Rightarrow>
              if be_State backend = StatePaused \<or> be_State backend = StateResuming
              then (handleResumeViaAPI post (be_Namespace backend) (be_Name backend) (re_RoutingGroup route), c, gs)
              else (http_error [] ''Backend is not available for Trino UI'' StatusServiceUnavailable, c, gs)
          | (True, gs) \<Rightarrow>
              retry_ServeHTTP lru rk post forward now
                \<lparr> cx_route = route, cx_backendURL = be_CoordinatorURL backend, cx_xtrinodeName = be_Name backend,
                  cx_namespace = be_Namespace backend, cx_targetPath = targetPath,
                  cx_trinoUIPrefix = gatewayBackendTrinoUIPath (be_Namespace backend) (be_Name backend) \<rparr> r (c, gs)))"

definition handleHealth :: HttpResponse where
  "handleHealth = \<lparr> rs_StatusCode = StatusOK, rs_Header = [], rs_Body = ''OK'' \<rparr>"

section \<open>The breaker of a backend\<close>

definition gs_breaker :: "GatewayService \<Rightarrow> string \<Rightarrow> CircuitBreaker option" where
  "gs_breaker gs u = map_option (\<lambda>cbm. cbreg.current cbm u) (gs_circuitBreaker gs)"

lemma breaker_allows_view:
  assumes "gs_breaker gs u = Some cb"
  shows "fst (breaker_allows now u gs) = snd (cb_Allow now cb)"
    and "gs_breaker (snd (breaker_allows now u gs)) u = Some (fst (cb_Allow now cb))"
  using assms
  by (auto simp: gs_breaker_def breaker_allows_def cbreg.fetch_current cbreg.put_current case_prod_beta Let_def)

lemma with_breaker_view:
  "gs_breaker (with_breaker u f gs) v = (if v = u then map_option f (gs_breaker gs u) else gs_breaker gs v)"
  by (auto simp: gs_breaker_def with_breaker_def cbreg.fetch_current cbreg.fetch_pure cbreg.put_current case_prod_beta Let_def
      split: option.splits)

lemma record_state_view:
  "300 \<le> status \<Longrightarrow> status < 500 \<Longrightarrow> gs_breaker (recordCircuitBreakerState now u status gs) v = gs_breaker gs v"
  by (auto simp: recordCircuitBreakerState_def with_breaker_view StatusServiceUnavailable_def option.map_ident_strong)

section \<open>Fields a response keeps\<close>

lemma rewrite_status [simp]:
  "rs_StatusCode (rewriteTrinoUILocation p resp) = rs_StatusCode resp"
  "rs_StatusCode (adjustResponseContentLength d resp) = rs_StatusCode resp"
  "rs_StatusCode (rewriteTrinoUIInfoURI q resp) = rs_StatusCode resp"
  "rs_StatusCode (handle503Response resp) = rs_StatusCode resp"
  by (simp_all add: rewriteTrinoUILocation_def adjustResponseContentLength_def rewriteTrinoUIInfoURI_def handle503Response_def
      Let_def split: option.splits)

lemma sticky_response_frame:
  "rs_StatusCode (fst (handleStickyRoutingFromResponse lru rk now req resp (c, gs))) = rs_StatusCode resp"
  "gs_circuitBreaker (snd (snd (handleStickyRoutingFromResponse lru rk now req resp (c, gs)))) = gs_circuitBreaker gs"
  by (auto simp: handleStickyRoutingFromResponse_def Let_def split: prod.splits)

lemma modify_response_breaker:
  assumes "300 \<le> rs_StatusCode resp" "rs_StatusCode resp < 500"
  shows "gs_breaker (snd (snd (modifyResponse lru rk now req resp (c, gs)))) v = gs_breaker gs v"
proof -
  let ?r = "rewriteTrinoUIInfoURI (trinoUIPrefixForResponse (or_trinoUIPrefix req) (rq_Header req))
    (rewriteTrinoUILocation (or_trinoUIPrefix req) resp)"
  have "gs_breaker (snd (snd (handleStickyRoutingFromResponse lru rk now req ?r (c, gs)))) v = gs_breaker gs v"
    by (simp add: gs_breaker_def sticky_response_frame)
  then show ?thesis
    using assms sticky_response_frame(1) [of lru rk now req ?r c gs]
    by (simp add: modifyResponse_def Let_def case_prod_beta record_state_view)
qed

section \<open>A probe without a verdict\<close>

text \<open>Later requests for one backend, in order; the status codes of their answers.\<close>

fun later_statuses ::
    "'l LRU \<Rightarrow> 'r RedisKV \<Rightarrow> (ResumeRequest \<Rightarrow> string + (int \<times> string)) \<Rightarrow> (OutRequest \<Rightarrow> go_error + BackendResponse)
      \<Rightarrow> (time \<times> RequestContext \<times> HttpRequest) list \<Rightarrow> ('l, 'r) gateway \<Rightarrow> int list" where
  "later_statuses lru rk post forward [] st = []"
| "later_statuses lru rk post forward ((now, cx, r) # xs) st =
     (case retry_ServeHTTP lru rk post forward now cx r st of
        (resp, st) \<Rightarrow> rs_StatusCode resp # later_statuses lru rk post forward xs st)"

definition probe_taken :: "string \<Rightarrow> GatewayService \<Rightarrow> bool" where
  "probe_taken u gs \<longleftrightarrow> (\<exists>cb. gs_breaker gs u = Some cb \<and> cb_State cb = CircuitHalfOpen \<and> cb_halfOpenProbeActive cb)"

lemma probe_taken_refuses:
  assumes "probe_taken u gs"
  shows "\<not> fst (breaker_allows now u gs) \<and> probe_taken u (snd (breaker_allows now u gs))"
  using assms breaker_allows_view [of gs u] by (auto simp: probe_taken_def cb_Allow_def)

lemma probe_taken_forever:
  assumes "probe_taken u gs" "u \<noteq> ''''" "\<forall>(t, cx, r) \<in> set xs. cx_backendURL cx = u"
  shows "later_statuses lru rk post forward xs (c, gs) = replicate (length xs) StatusServiceUnavailable"
  using assms
proof (induction xs arbitrary: gs)
  case (Cons x xs)
  obtain t cx r where x: "x = (t, cx, r)" by (metis surj_pair)
  obtain ok gs1 where a: "breaker_allows t u gs = (ok, gs1)" by force
  then have "\<not> ok" "probe_taken u gs1" using probe_taken_refuses [OF Cons.prems(1), of t] by simp_all
  then show ?case
    using Cons a by (simp add: x retry_ServeHTTP_def)
qed simp

text \<open>C33. The breaker of a backend can be shut for good. Let it be open after its timeout, or half-open with a
  free probe slot, and let the request it admits as its probe be answered by the backend with a status from
  300 to 499 (a redirect, an authentication failure, a missing page). The answer is recorded neither as success
  nor as failure, so the probe slot stays taken: every later request for this backend, at whatever
  time and whatever the backend would answer, gets 503 from the gateway.\<close>

theorem probe_without_verdict_shuts_backend:
  assumes "gs_breaker gs (cx_backendURL cx) = Some cb" "cb_State cb \<noteq> CircuitClosed" "snd (cb_Allow now cb)"
    and "cx_backendURL cx \<noteq> ''''" "forward (proxied cx r) = Inr resp" "300 \<le> rs_StatusCode resp" "rs_StatusCode resp < 500"
    and "retry_ServeHTTP lru rk post forward now cx r (c, gs) = (answer, st)"
    and "\<forall>(t, cx', r') \<in> set later. cx_backendURL cx' = cx_backendURL cx"
  shows "rs_StatusCode answer = rs_StatusCode resp
    \<and> later_statuses lru rk post forward' later st = replicate (length later) StatusServiceUnavailable"
proof -
  let ?u = "cx_backendURL cx"
  obtain gs1 where a: "breaker_allows now ?u gs = (True, gs1)"
    using breaker_allows_view(1) [OF assms(1), of now] assms(3) by (metis surjective_pairing)
  have p: "probe_taken ?u gs1"
    using breaker_allows_view(2) [OF assms(1), of now] a assms(2,3) allow_granted [of cb now "fst (cb_Allow now cb)"]
    by (simp add: probe_taken_def) (metis surjective_pairing)
  let ?in = "resp\<lparr>rs_Header := removeHopByHopHeaders (rs_Header resp)\<rparr>"
  obtain out c' gs' where m: "modifyResponse lru rk now (proxied cx r) ?in (c, gs1) = (out, c', gs')"
    by (metis surj_pair)
  then have st: "answer = HttpResponse.truncate out" "st = (c', gs')"
    using assms(4,5,8) a by (simp_all add: retry_ServeHTTP_def proxy_request_def Let_def)
  have "rs_StatusCode out = rs_StatusCode resp"
    using arg_cong [OF m, of "rs_StatusCode \<circ> fst"]
    by (simp add: modifyResponse_def Let_def case_prod_beta sticky_response_frame)
  moreover have "probe_taken ?u gs'"
    using p modify_response_breaker [of ?in lru rk now "proxied cx r" c gs1 ?u] m assms(6,7) by (simp add: probe_taken_def)
  ultimately show ?thesis
    using probe_taken_forever [OF _ assms(4,9)] st by (simp add: HttpResponse.defs)
qed

section \<open>Where a request goes\<close>

definition known_backends :: "GatewayService \<Rightarrow> Backend list" where
  "known_backends gs = concat (map (re_Backends \<circ> snd) (gs_routes gs)) @ (case gs_defaultRoute gs of None \<Rightarrow> [] | Some route \<Rightarrow> re_Backends route)"

lemma findBackend_known:
  assumes "findBackendByCoordinatorURL u gs = Some b"
  shows "b \<in> set (known_backends gs)" "be_CoordinatorURL b = u"
proof -
  let ?f = "List.find (\<lambda>b. be_CoordinatorURL b = u)"
  obtain xs where xs: "?f xs = Some b" "set xs \<subseteq> set (known_backends gs)"
  proof (cases "?f (concat (map (re_Backends \<circ> snd) (gs_routes gs)))")
    case None
    then show thesis
      using assms that [of "re_Backends (the (gs_defaultRoute gs))"]
      by (simp add: findBackendByCoordinatorURL_def known_backends_def split: option.splits)
  next
    case (Some x)
    then show thesis
      using assms that [of "concat (map (re_Backends \<circ> snd) (gs_routes gs))"]
      by (simp add: findBackendByCoordinatorURL_def known_backends_def)
  qed
  then show "b \<in> set (known_backends gs)" "be_CoordinatorURL b = u"
    by (auto simp: find_Some_iff)
qed

lemma sticky_cases:
  assumes "stickyBackendForQuery lru rk now q (c, gs) = (Some s, st)"
  shows "\<exists>b \<in> set (known_backends gs). be_CoordinatorURL b = sb_backendURL s \<and> guards_pass now gs (sb_backendURL s)
    \<and> (open_for_new b \<or> be_State b = StateDraining) \<and> sb_backendURL s \<noteq> ''''"
proof -
  have "fst (stickyBackendForQuery lru rk now q (c, gs)) = Some s" using assms by simp
  then obtain route :: StickyRoute and b where b: "sr_BackendURL route \<noteq> ''''" "findBackendByCoordinatorURL (sr_BackendURL route) gs = Some b"
      "(be_State b = '''' \<or> be_State b = StateRunning) \<and> be_Active b \<or> be_State b = StateDraining"
      "guards_pass now gs (be_CoordinatorURL b)"
      "s = \<lparr> sb_namespace = sr_Namespace route, sb_name = sr_Name route, sb_backendURL = sr_BackendURL route \<rparr>"
    unfolding sticky_backend_result by blast
  then show ?thesis using findBackend_known [OF b(2)] by (intro bexI [of _ b]) (simp_all add: open_for_new_def)
qed

lemma selected_open:
  assumes "fst (selectBackend get now route gs) = Some b"
  shows "b \<in> set (re_Backends route) \<and> open_for_new b"
proof -
  let ?cs = "candidates get now route gs"
  have "b \<in> set ?cs"
    using assms scan_best_in [of smaller None ?cs b] scan_best_in [of "lighter (fst (BackendLoads now (gs_queryActivity gs)))" None ?cs b]
    by (auto simp: selectBackend_result Let_def selectByCapacity_def selectSmallestCapacity_def split: if_splits option.splits)
  then show ?thesis by (rule candidates_open)
qed

text \<open>The decision, taken apart: the pinned backend, or a selected one.\<close>

lemma route_request_cases:
  assumes "route_request lru rk get post now r (c, gs) = (Inr cx, st)"
  obtains (pinned) route s c1 gs1 where "findRoute gs r = Some route" "extractQueryIdFromRequest (rq_Path r) \<noteq> ''''"
      "stickyBackendForQuery lru rk now (extractQueryIdFromRequest (rq_Path r)) (c, gs) = (Some s, c1, gs1)"
      "cx = \<lparr> cx_route = route, cx_backendURL = sb_backendURL s, cx_xtrinodeName = sb_name s, cx_namespace = sb_namespace s,
        cx_targetPath = '''', cx_trinoUIPrefix = gatewayBackendTrinoUIPath (sb_namespace s) (sb_name s) \<rparr>"
    | (selected) route gs1 b where "findRoute gs r = Some route" "fst (selectBackend get now route gs1) = Some b" "be_Namespace b \<noteq> ''''"
      "cx = \<lparr> cx_route = route, cx_backendURL = be_CoordinatorURL b, cx_xtrinodeName = be_Name b, cx_namespace = be_Namespace b,
        cx_targetPath = '''', cx_trinoUIPrefix = gatewayBackendTrinoUIPath (be_Namespace b) (be_Name b) \<rparr>"
proof -
  obtain route where r: "findRoute gs r = Some route"
    using assms by (auto simp: route_request_def split: option.splits)
  let ?q = "extractQueryIdFromRequest (rq_Path r)"
  obtain s c1 gs1 where s: "(if ?q \<noteq> '''' then stickyBackendForQuery lru rk now ?q (c, gs) else (None, c, gs)) = (s, c1, gs1)"
    by (metis surj_pair)
  obtain b gs2 where b: "selectBackend get now route gs1 = (b, gs2)" by force
  note step = assms [unfolded route_request_def r prod.case option.case s Let_def b]
  show thesis
  proof (cases "case s of Some s \<Rightarrow> sb_backendURL s \<noteq> '''' | None \<Rightarrow> False")
    case True
    then obtain s' where "s = Some s'" by (cases s) auto
    then show thesis using True r s step by (intro pinned) (auto split: if_splits)
  next
    case False
    then obtain b' where "b = Some b'" using step by (auto split: option.splits)
    then show thesis using False r b step by (intro selected [of route gs1 b']) (auto split: if_splits)
  qed
qed

lemma proxied_target:
  assumes "cx_backendURL cx \<noteq> ''''" "url_parse (cx_backendURL cx) = Some u"
  shows "or_URLHost (proxied cx r) = u_Host u" "or_Scheme (proxied cx r) = u_Scheme u"
  using assms by (simp_all add: proxied_def director_def Let_def HttpRequest.defs OutRequest.defs)

text \<open>C2. A request is forwarded only where it may go. When the handler decides to forward a request, the route is
  the one its host, header or the default names. Either the target is a backend of that route that is
  active and running, or the request names a query ID and the target is a backend of the loaded routes that
  passes health check and breaker and is active and running, or draining. The proxied request has scheme and host of
  that backend's URL.\<close>

theorem request_forwarded_where_allowed:
  assumes "route_request lru rk get post now r (c, gs) = (Inr cx, st)"
  shows "findRoute gs r = Some (cx_route cx)
    \<and> ((\<exists>b \<in> set (re_Backends (cx_route cx)). cx_backendURL cx = be_CoordinatorURL b \<and> cx_namespace cx = be_Namespace b
          \<and> cx_xtrinodeName cx = be_Name b \<and> be_Active b \<and> (be_State b = '''' \<or> be_State b = StateRunning))
       \<or> extractQueryIdFromRequest (rq_Path r) \<noteq> ''''
         \<and> (\<exists>b \<in> set (known_backends gs). cx_backendURL cx = be_CoordinatorURL b \<and> guards_pass now gs (cx_backendURL cx)
              \<and> (be_Active b \<and> (be_State b = '''' \<or> be_State b = StateRunning) \<or> be_State b = StateDraining)))
    \<and> (cx_backendURL cx \<noteq> '''' \<longrightarrow> (\<forall>u. url_parse (cx_backendURL cx) = Some u \<longrightarrow>
         or_URLHost (proxied cx r) = u_Host u \<and> or_Scheme (proxied cx r) = u_Scheme u))"
  using assms
proof (cases rule: route_request_cases)
  case (pinned route s c1 gs1)
  obtain b where "b \<in> set (known_backends gs)" "be_CoordinatorURL b = sb_backendURL s" "guards_pass now gs (sb_backendURL s)"
      "open_for_new b \<or> be_State b = StateDraining"
    using sticky_cases [OF pinned(3)] by blast
  then show ?thesis using pinned proxied_target [of cx] by (auto simp: open_for_new_def)
next
  case (selected route gs1 b)
  then show ?thesis using selected_open [OF selected(2)] proxied_target [of cx] by (auto simp: open_for_new_def)
qed

section \<open>Headers the gateway reads back\<close>

lemma header_get_dels:
  "header_get (fold header_del ks h) k = (if to_lower k \<in> to_lower ` set ks then '''' else header_get h k)"
  by (induction ks arbitrary: h) auto

definition gateway_headers :: "string list" where
  "gateway_headers = [''X-Trino-Routing-Group'', ''X-Trino-XTrinode-Name'', ''X-Trino-XTrinode-Namespace'', ''X-Trino-Backend-URL'']"

lemma lower_names:
  "to_lower ''X-Forwarded-For'' = ''x-forwarded-for''"
  "to_lower ''X-Forwarded-Host'' = ''x-forwarded-host''"
  "to_lower ''X-Forwarded-Proto'' = ''x-forwarded-proto''"
  "to_lower ''X-Trino-Route-Name'' = ''x-trino-route-name''"
  "to_lower ''X-Trino-Routing-Group'' = ''x-trino-routing-group''"
  "to_lower ''X-Trino-XTrinode-Name'' = ''x-trino-xtrinode-name''"
  "to_lower ''X-Trino-XTrinode-Namespace'' = ''x-trino-xtrinode-namespace''"
  "to_lower ''X-Trino-Backend-URL'' = ''x-trino-backend-url''"
  "to_lower ''Connection'' = ''connection''"
  "to_lower ` set hopHeaders = {''connection'', ''proxy-connection'', ''keep-alive'', ''proxy-authenticate'', ''proxy-authorization'', ''te'', ''trailer'', ''transfer-encoding'', ''upgrade''}"
  by code_simp+

lemma director_headers:
  assumes "cx_backendURL cx \<noteq> ''''" "url_parse (cx_backendURL cx) = Some u"
  shows "header_get (rq_Header (director cx r)) ''X-Trino-Routing-Group'' = re_RoutingGroup (cx_route cx)"
    "header_get (rq_Header (director cx r)) ''X-Trino-XTrinode-Name'' = cx_xtrinodeName cx"
    "header_get (rq_Header (director cx r)) ''X-Trino-XTrinode-Namespace'' = cx_namespace cx"
    "header_get (rq_Header (director cx r)) ''X-Trino-Backend-URL'' = cx_backendURL cx"
    "connection_options (rq_Header (director cx r)) = connection_options (rq_Header r)"
  using assms
  by (simp_all add: director_def Let_def HttpRequest.defs OutRequest.defs connection_options_def lower_names(1-9))

text \<open>The headers survive the reverse proxy unless the client lists them in \<open>Connection\<close>.\<close>

lemma proxied_headers:
  assumes "cx_backendURL cx \<noteq> ''''" "url_parse (cx_backendURL cx) = Some u"
    and "\<forall>k \<in> set (connection_options (rq_Header r)). to_lower k \<notin> to_lower ` set gateway_headers"
  shows "header_get (rq_Header (proxied cx r)) ''X-Trino-Routing-Group'' = re_RoutingGroup (cx_route cx)"
    "header_get (rq_Header (proxied cx r)) ''X-Trino-XTrinode-Name'' = cx_xtrinodeName cx"
    "header_get (rq_Header (proxied cx r)) ''X-Trino-XTrinode-Namespace'' = cx_namespace cx"
    "header_get (rq_Header (proxied cx r)) ''X-Trino-Backend-URL'' = cx_backendURL cx"
proof -
  have keep: "header_get (rq_Header (proxied cx r)) k = header_get (rq_Header (director cx r)) k" if k: "k \<in> set gateway_headers" for k
  proof -
    have n: "to_lower k \<noteq> ''x-forwarded-for''" "to_lower k \<notin> to_lower ` set hopHeaders"
      using k by (auto simp: gateway_headers_def lower_names)
    moreover have "to_lower k \<notin> to_lower ` set (connection_options (rq_Header r))" using assms(3) k by (metis imageE imageI)
    ultimately show ?thesis
      using director_headers(5) [OF assms(1,2)]
      by (auto simp: proxied_def add_forwarded_for_def removeHopByHopHeaders_def header_get_dels lower_names(1) image_Un Let_def
          simp del: fold_append split: option.split)
  qed
  show "header_get (rq_Header (proxied cx r)) ''X-Trino-Routing-Group'' = re_RoutingGroup (cx_route cx)"
    "header_get (rq_Header (proxied cx r)) ''X-Trino-XTrinode-Name'' = cx_xtrinodeName cx"
    "header_get (rq_Header (proxied cx r)) ''X-Trino-XTrinode-Namespace'' = cx_namespace cx"
    "header_get (rq_Header (proxied cx r)) ''X-Trino-Backend-URL'' = cx_backendURL cx"
    using director_headers(1-4) [OF assms(1,2)] by (simp_all add: keep gateway_headers_def)
qed

section \<open>A response that carries a query ID\<close>

lemma sticky_response_sets:
  assumes "rs_StatusCode resp = StatusOK" "isJSONContentType (header_get (rs_Header resp) ''Content-Type'')"
    and "fst (extractQueryInfoFromResponse (rs_Body resp, br_Fails resp)) = (q, state)" "q \<noteq> ''''"
    and "header_get (rq_Header req) ''X-Trino-XTrinode-Name'' = name" "header_get (rq_Header req) ''X-Trino-XTrinode-Namespace'' = ns"
    and "header_get (rq_Header req) ''X-Trino-Backend-URL'' = url" "header_get (rq_Header req) ''X-Trino-Routing-Group'' = rg"
    and "name \<noteq> ''''" "ns \<noteq> ''''" "url \<noteq> ''''"
  shows "fst (snd (handleStickyRoutingFromResponse lru rk now req resp (c, gs))) = sticky_Set lru rk q ns name url rg c"
  using assms by (auto simp: handleStickyRoutingFromResponse_def Let_def split: prod.splits)

lemma pinned_request:
  assumes "extractQueryIdFromRequest (rq_Path r) = q" "q \<noteq> ''''" "findRoute gs r = Some route"
    and "fst (sticky_Get lru rk q c) = Some s" "sr_BackendURL s \<noteq> ''''"
    and "findBackendByCoordinatorURL (sr_BackendURL s) gs = Some b"
    and "open_for_new b \<or> be_State b = StateDraining" "guards_pass now gs (sr_BackendURL s)"
  shows "\<exists>cx st. route_request lru rk get post now r (c, gs) = (Inr cx, st) \<and> cx_route cx = route
    \<and> cx_backendURL cx = sr_BackendURL s \<and> cx_namespace cx = sr_Namespace s \<and> cx_xtrinodeName cx = sr_Name s"
proof -
  let ?sel = "\<lparr> sb_namespace = sr_Namespace s, sb_name = sr_Name s, sb_backendURL = sr_BackendURL s \<rparr>"
  have "be_CoordinatorURL b = sr_BackendURL s" using findBackend_known [OF assms(6)] by simp
  then have "fst (stickyBackendForQuery lru rk now q (c, gs)) = Some ?sel"
    unfolding sticky_backend_result using assms(4-8) by (auto simp: open_for_new_def)
  then obtain st where st: "stickyBackendForQuery lru rk now q (c, gs) = (Some ?sel, st)" by (metis surjective_pairing)
  show ?thesis
    using assms(1-3,5) st by (cases st) (simp add: route_request_def)
qed

section \<open>Concrete runs\<close>

definition plain_gateway :: GatewayService where
  "plain_gateway = demo_gateway\<lparr>gs_defaultRoute := Some demo_route, gs_circuitBreaker := Some NewCircuitBreakerManager\<rparr>"

abbreviation demo_decision :: "GatewayService \<Rightarrow> (HttpResponse + RequestContext) \<times> (string \<Rightarrow> StickyRoute option, string \<Rightarrow> string option) gateway" where
  "demo_decision gs \<equiv> route_request map_lru (map_redis False) (\<lambda>_. ProbeStatus 500) (\<lambda>_. Inl ''down'') 5 (demo_request ''gw'' []) (demo_sticky, gs)"

theorem request_forwarded_where_allowed_witness:
  "\<exists>cx st. demo_decision plain_gateway = (Inr cx, st)
     \<and> (\<exists>b \<in> set (re_Backends demo_route). cx_backendURL cx = be_CoordinatorURL b \<and> be_Active b)"
proof -
  have "map_sum (\<lambda>_. ()) cx_backendURL (fst (demo_decision plain_gateway)) = Inr ''http://b''"
    by code_simp
  moreover obtain res st where d: "demo_decision plain_gateway = (res, st)" by (rule prod.exhaust)
  ultimately obtain cx where cx: "res = Inr cx" by (cases res) simp_all
  have q: "extractQueryIdFromRequest (rq_Path (demo_request ''gw'' [])) = ''''" by code_simp
  have "findRoute plain_gateway (demo_request ''gw'' []) = Some demo_route" by code_simp
  then show ?thesis
    using request_forwarded_where_allowed [OF d [unfolded cx]] d [unfolded cx] q by (intro exI conjI) auto
qed

definition tripped_gateway :: GatewayService where
  "tripped_gateway = plain_gateway\<lparr>gs_circuitBreaker :=
     Some \<lparr>cbm_breakers = [(''http://b'', (fresh_gateway_breaker ''http://b'')\<lparr>cb_State := CircuitOpen, cb_LastFailure := 0\<rparr>)]\<rparr>\<rparr>"

definition demo_context :: RequestContext where
  "demo_context = \<lparr> cx_route = demo_route, cx_backendURL = ''http://b'', cx_xtrinodeName = ''b'', cx_namespace = ''ns'', cx_targetPath = '''',
     cx_trinoUIPrefix = ''/ui/ns/b/'' \<rparr>"

definition demo_answer :: "int \<Rightarrow> string \<Rightarrow> BackendResponse" where
  "demo_answer status body = \<lparr> rs_StatusCode = status, rs_Header = [(''content-type'', ''application/json'')], rs_Body = body, br_Fails = False,
     br_ContentLength = -1 \<rparr>"

theorem probe_without_verdict_shuts_backend_witness:
  "\<exists>answer st. retry_ServeHTTP map_lru (map_redis False) (\<lambda>_. Inl ''down'') (\<lambda>_. Inr (demo_answer 401 '''')) (31 * second) demo_context
       (demo_request ''gw'' []) (demo_sticky, tripped_gateway) = (answer, st)
     \<and> rs_StatusCode answer = 401
     \<and> later_statuses map_lru (map_redis False) (\<lambda>_. Inl ''down'') (\<lambda>_. Inr (demo_answer 200 ''''))
         [(10 ^ 6 * second, demo_context, demo_request ''gw'' []), (10 ^ 7 * second, demo_context, demo_request ''gw'' [])] st
       = [StatusServiceUnavailable, StatusServiceUnavailable]"
proof -
  let ?cb = "(fresh_gateway_breaker ''http://b'')\<lparr>cb_State := CircuitOpen, cb_LastFailure := 0\<rparr>"
  have b: "gs_breaker tripped_gateway (cx_backendURL demo_context) = Some ?cb"
    by (simp add: gs_breaker_def tripped_gateway_def plain_gateway_def demo_context_def cbreg.current_def)
  have a: "cb_State ?cb \<noteq> CircuitClosed" "snd (cb_Allow (31 * second) ?cb)"
    by (simp_all add: cb_Allow_def fresh_gateway_breaker_def new_breaker_def time_sub_def GatewayCircuitBreakerTimeout_def max_dur_def min_dur_def go_simps)
  let ?later = "[(10 ^ 6 * second, demo_context, demo_request ''gw'' []), (10 ^ 7 * second, demo_context, demo_request ''gw'' [])]"
  obtain answer st where s: "retry_ServeHTTP map_lru (map_redis False) (\<lambda>_. Inl ''down'') (\<lambda>_. Inr (demo_answer 401 '''')) (31 * second) demo_context
      (demo_request ''gw'' []) (demo_sticky, tripped_gateway) = (answer, st)" by (rule prod.exhaust)
  have d: "cx_backendURL demo_context \<noteq> ''''" "300 \<le> rs_StatusCode (demo_answer 401 '''')" "rs_StatusCode (demo_answer 401 '''') < 500"
    by (simp_all add: demo_context_def demo_answer_def)
  have l: "\<forall>(t, cx', r') \<in> set ?later. cx_backendURL cx' = cx_backendURL demo_context" by simp
  have n: "replicate (length ?later) StatusServiceUnavailable = [StatusServiceUnavailable, StatusServiceUnavailable]"
    "rs_StatusCode (demo_answer 401 '''') = 401"
    by (simp_all add: demo_answer_def)
  show ?thesis
    using probe_without_verdict_shuts_backend [OF b a d(1) refl d(2,3) s l, unfolded n] s by blast
qed

end
