(* ===== verification/Config.thy ===== *)
theory Config
  imports RuntimeShape
begin

text \<open>
  The settings of \<open>internal/config/config.go\<close> the admission webhooks and the controllers read: the
  sizes and providers, and the node pool bounds and defaults with their environment overrides. The
  environment is the function \<open>os.Getenv\<close>, which gives the empty string for an unset variable.
\<close>

section \<open>Sizes and providers\<close>

definition ValidSizes :: "(string \<times> bool) list" where
  "ValidSizes = [(''xs'', True), (''s'', True), (''m'', True), (''l'', True), (''xl'', True)]"

definition SizeOrder :: "(string \<times> int) list" where
  "SizeOrder = [(''xs'', 1), (''s'', 2), (''m'', 3), (''l'', 4), (''xl'', 5)]"

definition SizeList :: "string list" where
  "SizeList = [''xs'', ''s'', ''m'', ''l'', ''xl'']"

definition ValidProviders :: "(string \<times> bool) list" where
  "ValidProviders = [(''azure'', True), (''aws'', True), (''gcp'', True)]"

definition ProviderList :: "string list" where
  "ProviderList = [''azure'', ''aws'', ''gcp'']"

text \<open>Reading a Go map of booleans or integers: the zero value for a missing key.\<close>

definition map_true :: "(string \<times> bool) list \<Rightarrow> string \<Rightarrow> bool" where
  "map_true m k = (map_of m k = Some True)"

definition map_int :: "(string \<times> int) list \<Rightarrow> string \<Rightarrow> int" where
  "map_int m k = (case map_of m k of Some v \<Rightarrow> v | None \<Rightarrow> 0)"

section \<open>Node pool bounds and defaults\<close>

type_synonym env = "string \<Rightarrow> string"

definition NodePoolDefaultMinNodes :: int where "NodePoolDefaultMinNodes = 0"
definition NodePoolDefaultMaxNodes :: int where "NodePoolDefaultMaxNodes = 10"
definition NodePoolDefaultDiskSizeGB :: int where "NodePoolDefaultDiskSizeGB = 128"
definition NodePoolValidationMinNodesMin :: int where "NodePoolValidationMinNodesMin = 0"
definition NodePoolValidationMaxNodesMin :: int where "NodePoolValidationMaxNodesMin = 1"
definition NodePoolValidationMaxNodesMax :: int where "NodePoolValidationMaxNodesMax = 1000"
definition NodePoolValidationOSDiskGBMin :: int where "NodePoolValidationOSDiskGBMin = 30"
definition NodePoolValidationOSDiskGBMax :: int where "NodePoolValidationOSDiskGBMax = 2048"

lemmas nodepool_const_defs =
  NodePoolDefaultMinNodes_def NodePoolDefaultMaxNodes_def NodePoolDefaultDiskSizeGB_def
  NodePoolValidationMinNodesMin_def NodePoolValidationMaxNodesMin_def NodePoolValidationMaxNodesMax_def
  NodePoolValidationOSDiskGBMin_def NodePoolValidationOSDiskGBMax_def

record NodePoolValidationBounds =
  nb_MinNodesMin :: int
  nb_MaxNodesMin :: int
  nb_MaxNodesMax :: int
  nb_OSDiskGBMin :: int
  nb_OSDiskGBMax :: int

record NodePoolDefaultValues =
  nd_MinNodes :: int
  nd_MaxNodes :: int
  nd_DiskSizeGB :: int

definition envInt32 :: "env \<Rightarrow> string \<Rightarrow> int \<Rightarrow> int" where
  "envInt32 getenv name fallback =
     (let v = trim_space (getenv name)
      in if v = '''' then fallback
         else case parse_int 32 v of None \<Rightarrow> fallback | Some parsed \<Rightarrow> parsed)"

definition NodePoolValidationBoundsFromEnv :: "env \<Rightarrow> NodePoolValidationBounds" where
  "NodePoolValidationBoundsFromEnv getenv =
     (let b = \<lparr> nb_MinNodesMin = envInt32 getenv ''XTRINODE_NODEPOOL_VALIDATION_MIN_NODES_MIN'' NodePoolValidationMinNodesMin,
                nb_MaxNodesMin = envInt32 getenv ''XTRINODE_NODEPOOL_VALIDATION_MAX_NODES_MIN'' NodePoolValidationMaxNodesMin,
                nb_MaxNodesMax = envInt32 getenv ''XTRINODE_NODEPOOL_VALIDATION_MAX_NODES_MAX'' NodePoolValidationMaxNodesMax,
                nb_OSDiskGBMin = envInt32 getenv ''XTRINODE_NODEPOOL_VALIDATION_OS_DISK_GB_MIN'' NodePoolValidationOSDiskGBMin,
                nb_OSDiskGBMax = envInt32 getenv ''XTRINODE_NODEPOOL_VALIDATION_OS_DISK_GB_MAX'' NodePoolValidationOSDiskGBMax \<rparr>;
          b = (if nb_MinNodesMin b < 0 then b\<lparr>nb_MinNodesMin := NodePoolValidationMinNodesMin\<rparr> else b);
          b = (if nb_MaxNodesMin b < 1 then b\<lparr>nb_MaxNodesMin := NodePoolValidationMaxNodesMin\<rparr> else b);
          b = (if nb_MaxNodesMax b < nb_MaxNodesMin b then b\<lparr>nb_MaxNodesMax := nb_MaxNodesMin b\<rparr> else b);
          b = (if nb_MaxNodesMax b < nb_MinNodesMin b then b\<lparr>nb_MaxNodesMax := nb_MinNodesMin b\<rparr> else b);
          b = (if nb_OSDiskGBMin b < 1 then b\<lparr>nb_OSDiskGBMin := NodePoolValidationOSDiskGBMin\<rparr> else b);
          b = (if nb_OSDiskGBMax b < nb_OSDiskGBMin b then b\<lparr>nb_OSDiskGBMax := nb_OSDiskGBMin b\<rparr> else b)
      in b)"

definition NodePoolDefaultValuesFromEnv :: "env \<Rightarrow> NodePoolDefaultValues" where
  "NodePoolDefaultValuesFromEnv getenv =
     (let b = NodePoolValidationBoundsFromEnv getenv;
          v = \<lparr> nd_MinNodes = envInt32 getenv ''XTRINODE_NODEPOOL_DEFAULT_MIN_NODES'' NodePoolDefaultMinNodes,
                nd_MaxNodes = envInt32 getenv ''XTRINODE_NODEPOOL_DEFAULT_MAX_NODES'' NodePoolDefaultMaxNodes,
                nd_DiskSizeGB = envInt32 getenv ''XTRINODE_NODEPOOL_DEFAULT_OS_DISK_GB'' NodePoolDefaultDiskSizeGB \<rparr>;
          v = (if nd_MinNodes v < nb_MinNodesMin b then v\<lparr>nd_MinNodes := nb_MinNodesMin b\<rparr> else v);
          v = (if nd_MinNodes v > nb_MaxNodesMax b then v\<lparr>nd_MinNodes := nb_MaxNodesMax b\<rparr> else v);
          v = (if nd_MaxNodes v < nb_MaxNodesMin b then v\<lparr>nd_MaxNodes := nb_MaxNodesMin b\<rparr> else v);
          v = (if nd_MaxNodes v > nb_MaxNodesMax b then v\<lparr>nd_MaxNodes := nb_MaxNodesMax b\<rparr> else v);
          v = (if nd_MaxNodes v < nd_MinNodes v then v\<lparr>nd_MaxNodes := nd_MinNodes v\<rparr> else v);
          v = (if nd_DiskSizeGB v < nb_OSDiskGBMin b then v\<lparr>nd_DiskSizeGB := nb_OSDiskGBMin b\<rparr> else v);
          v = (if nd_DiskSizeGB v > nb_OSDiskGBMax b then v\<lparr>nd_DiskSizeGB := nb_OSDiskGBMax b\<rparr> else v)
      in v)"

definition NodePoolDefaultMinNodesValue :: "env \<Rightarrow> int" where
  "NodePoolDefaultMinNodesValue getenv = nd_MinNodes (NodePoolDefaultValuesFromEnv getenv)"

definition NodePoolDefaultMaxNodesValue :: "env \<Rightarrow> int" where
  "NodePoolDefaultMaxNodesValue getenv = nd_MaxNodes (NodePoolDefaultValuesFromEnv getenv)"

text \<open>Whatever the environment holds, the bounds describe non-empty ranges.\<close>

definition bounds_ok :: "NodePoolValidationBounds \<Rightarrow> bool" where
  "bounds_ok b \<longleftrightarrow> 0 \<le> nb_MinNodesMin b \<and> nb_MinNodesMin b \<le> nb_MaxNodesMax b
     \<and> 1 \<le> nb_MaxNodesMin b \<and> nb_MaxNodesMin b \<le> nb_MaxNodesMax b
     \<and> 1 \<le> nb_OSDiskGBMin b \<and> nb_OSDiskGBMin b \<le> nb_OSDiskGBMax b"

lemma bounds_from_env: "bounds_ok (NodePoolValidationBoundsFromEnv getenv)"
proof -
  define b0 where "b0 = \<lparr> nb_MinNodesMin = envInt32 getenv ''XTRINODE_NODEPOOL_VALIDATION_MIN_NODES_MIN'' NodePoolValidationMinNodesMin,
                nb_MaxNodesMin = envInt32 getenv ''XTRINODE_NODEPOOL_VALIDATION_MAX_NODES_MIN'' NodePoolValidationMaxNodesMin,
                nb_MaxNodesMax = envInt32 getenv ''XTRINODE_NODEPOOL_VALIDATION_MAX_NODES_MAX'' NodePoolValidationMaxNodesMax,
                nb_OSDiskGBMin = envInt32 getenv ''XTRINODE_NODEPOOL_VALIDATION_OS_DISK_GB_MIN'' NodePoolValidationOSDiskGBMin,
                nb_OSDiskGBMax = envInt32 getenv ''XTRINODE_NODEPOOL_VALIDATION_OS_DISK_GB_MAX'' NodePoolValidationOSDiskGBMax \<rparr>"
  define b1 where "b1 = (if nb_MinNodesMin b0 < 0 then b0\<lparr>nb_MinNodesMin := NodePoolValidationMinNodesMin\<rparr> else b0)"
  define b2 where "b2 = (if nb_MaxNodesMin b1 < 1 then b1\<lparr>nb_MaxNodesMin := NodePoolValidationMaxNodesMin\<rparr> else b1)"
  define b3 where "b3 = (if nb_MaxNodesMax b2 < nb_MaxNodesMin b2 then b2\<lparr>nb_MaxNodesMax := nb_MaxNodesMin b2\<rparr> else b2)"
  define b4 where "b4 = (if nb_MaxNodesMax b3 < nb_MinNodesMin b3 then b3\<lparr>nb_MaxNodesMax := nb_MinNodesMin b3\<rparr> else b3)"
  define b5 where "b5 = (if nb_OSDiskGBMin b4 < 1 then b4\<lparr>nb_OSDiskGBMin := NodePoolValidationOSDiskGBMin\<rparr> else b4)"
  define b6 where "b6 = (if nb_OSDiskGBMax b5 < nb_OSDiskGBMin b5 then b5\<lparr>nb_OSDiskGBMax := nb_OSDiskGBMin b5\<rparr> else b5)"
  have "0 \<le> nb_MinNodesMin b1" by (simp add: b1_def nodepool_const_defs)
  then have "0 \<le> nb_MinNodesMin b2 \<and> 1 \<le> nb_MaxNodesMin b2" by (simp add: b2_def nodepool_const_defs)
  then have "0 \<le> nb_MinNodesMin b3 \<and> 1 \<le> nb_MaxNodesMin b3 \<and> nb_MaxNodesMin b3 \<le> nb_MaxNodesMax b3"
    by (simp add: b3_def)
  then have "0 \<le> nb_MinNodesMin b4 \<and> 1 \<le> nb_MaxNodesMin b4 \<and> nb_MaxNodesMin b4 \<le> nb_MaxNodesMax b4
      \<and> nb_MinNodesMin b4 \<le> nb_MaxNodesMax b4"
    by (simp add: b4_def)
  then have "0 \<le> nb_MinNodesMin b5 \<and> 1 \<le> nb_MaxNodesMin b5 \<and> nb_MaxNodesMin b5 \<le> nb_MaxNodesMax b5
      \<and> nb_MinNodesMin b5 \<le> nb_MaxNodesMax b5 \<and> 1 \<le> nb_OSDiskGBMin b5"
    by (simp add: b5_def nodepool_const_defs)
  then have "bounds_ok b6" by (simp add: b6_def bounds_ok_def)
  moreover have "NodePoolValidationBoundsFromEnv getenv = b6"
    unfolding NodePoolValidationBoundsFromEnv_def b0_def [symmetric] Let_def
      b1_def [symmetric] b2_def [symmetric] b3_def [symmetric] b4_def [symmetric] b5_def [symmetric] b6_def [symmetric] ..
  ultimately show ?thesis by simp
qed

text \<open>C39. Whatever the environment holds (missing, malformed, contradictory or negative overrides), the
  fallback node pool of the operator passes its own admission bounds: the fallback counts and disk
  size are inside the bounds and the minimum is at most the maximum.\<close>

theorem default_pool_within_bounds:
  fixes getenv
  defines "b \<equiv> NodePoolValidationBoundsFromEnv getenv" and "v \<equiv> NodePoolDefaultValuesFromEnv getenv"
  shows "nb_MinNodesMin b \<le> nd_MinNodes v \<and> nd_MinNodes v \<le> nd_MaxNodes v
    \<and> nb_MaxNodesMin b \<le> nd_MaxNodes v \<and> nd_MaxNodes v \<le> nb_MaxNodesMax b
    \<and> nb_OSDiskGBMin b \<le> nd_DiskSizeGB v \<and> nd_DiskSizeGB v \<le> nb_OSDiskGBMax b"
proof -
  define v0 where "v0 = \<lparr> nd_MinNodes = envInt32 getenv ''XTRINODE_NODEPOOL_DEFAULT_MIN_NODES'' NodePoolDefaultMinNodes,
                nd_MaxNodes = envInt32 getenv ''XTRINODE_NODEPOOL_DEFAULT_MAX_NODES'' NodePoolDefaultMaxNodes,
                nd_DiskSizeGB = envInt32 getenv ''XTRINODE_NODEPOOL_DEFAULT_OS_DISK_GB'' NodePoolDefaultDiskSizeGB \<rparr>"
  define v1 where "v1 = (if nd_MinNodes v0 < nb_MinNodesMin b then v0\<lparr>nd_MinNodes := nb_MinNodesMin b\<rparr> else v0)"
  define v2 where "v2 = (if nd_MinNodes v1 > nb_MaxNodesMax b then v1\<lparr>nd_MinNodes := nb_MaxNodesMax b\<rparr> else v1)"
  define v3 where "v3 = (if nd_MaxNodes v2 < nb_MaxNodesMin b then v2\<lparr>nd_MaxNodes := nb_MaxNodesMin b\<rparr> else v2)"
  define v4 where "v4 = (if nd_MaxNodes v3 > nb_MaxNodesMax b then v3\<lparr>nd_MaxNodes := nb_MaxNodesMax b\<rparr> else v3)"
  define v5 where "v5 = (if nd_MaxNodes v4 < nd_MinNodes v4 then v4\<lparr>nd_MaxNodes := nd_MinNodes v4\<rparr> else v4)"
  define v6 where "v6 = (if nd_DiskSizeGB v5 < nb_OSDiskGBMin b then v5\<lparr>nd_DiskSizeGB := nb_OSDiskGBMin b\<rparr> else v5)"
  define v7 where "v7 = (if nd_DiskSizeGB v6 > nb_OSDiskGBMax b then v6\<lparr>nd_DiskSizeGB := nb_OSDiskGBMax b\<rparr> else v6)"
  have ok: "nb_MinNodesMin b \<le> nb_MaxNodesMax b" "nb_MaxNodesMin b \<le> nb_MaxNodesMax b" "nb_OSDiskGBMin b \<le> nb_OSDiskGBMax b"
    using bounds_from_env [of getenv] by (simp_all add: b_def bounds_ok_def)
  have "nb_MinNodesMin b \<le> nd_MinNodes v1" by (simp add: v1_def)
  then have "nb_MinNodesMin b \<le> nd_MinNodes v2 \<and> nd_MinNodes v2 \<le> nb_MaxNodesMax b"
    using ok(1) by (simp add: v2_def)
  then have "nb_MinNodesMin b \<le> nd_MinNodes v4 \<and> nd_MinNodes v4 \<le> nb_MaxNodesMax b
      \<and> nb_MaxNodesMin b \<le> nd_MaxNodes v4 \<and> nd_MaxNodes v4 \<le> nb_MaxNodesMax b"
    using ok(2) by (simp add: v4_def v3_def)
  then have "nb_MinNodesMin b \<le> nd_MinNodes v5 \<and> nd_MinNodes v5 \<le> nd_MaxNodes v5
      \<and> nb_MaxNodesMin b \<le> nd_MaxNodes v5 \<and> nd_MaxNodes v5 \<le> nb_MaxNodesMax b"
    by (simp add: v5_def)
  moreover have "nb_OSDiskGBMin b \<le> nd_DiskSizeGB v6" by (simp add: v6_def)
  moreover have "nd_MinNodes v7 = nd_MinNodes v5" "nd_MaxNodes v7 = nd_MaxNodes v5" by (simp_all add: v7_def v6_def)
  moreover have "v = v7"
    unfolding v_def NodePoolDefaultValuesFromEnv_def b_def [symmetric] v0_def [symmetric] Let_def v1_def [symmetric]
      v2_def [symmetric] v3_def [symmetric] v4_def [symmetric] v5_def [symmetric] v6_def [symmetric] v7_def [symmetric] ..
  ultimately show ?thesis using ok(3) by (simp add: v7_def)
qed

end
