(* ===== verification/Admission.thy ===== *)
theory Admission
  imports Config
begin

text \<open>
  What the admission webhooks of \<open>api/v1\<close> share, and the node pool rules
  (\<open>xtrinode_nodepool_validation.go\<close>): field errors, the recommended machine type of a runtime, the
  warnings about placement and fit, and the validation of \<open>spec.nodePool\<close>. A field error keeps its
  kind, its path and its detail; the offending value, which the library only prints, is left out.
  The quantity library and the environment are parameters.
\<close>

section \<open>Field errors\<close>

datatype FieldErrorType = TypeRequired | TypeInvalid | TypeForbidden | TypeNotSupported | TypeInternal

record FieldError =
  fe_Type :: FieldErrorType
  fe_Field :: string
  fe_Detail :: string

definition field_error :: "FieldErrorType \<Rightarrow> string \<Rightarrow> string \<Rightarrow> FieldError" where
  "field_error t p d = \<lparr> fe_Type = t, fe_Field = p, fe_Detail = d \<rparr>"

abbreviation "field_Required \<equiv> field_error TypeRequired"
abbreviation "field_Invalid \<equiv> field_error TypeInvalid"
abbreviation "field_Forbidden \<equiv> field_error TypeForbidden"
abbreviation "field_InternalError \<equiv> field_error TypeInternal"

text \<open>The verb \<open>%q\<close>; text outside ASCII is taken as printable.\<close>

definition go_quote :: "string \<Rightarrow> string" where
  "go_quote s = CHR 0x22 # concat (map (\<lambda>c.
       if c = CHR 0x22 \<or> c = CHR 0x5C then [CHR 0x5C, c]
       else if c = CHR 0x07 then [CHR 0x5C, CHR ''a'']
       else if c = CHR 0x08 then [CHR 0x5C, CHR ''b'']
       else if c = CHR 0x0C then [CHR 0x5C, CHR ''f'']
       else if c = CHR 0x0A then [CHR 0x5C, CHR ''n'']
       else if c = CHR 0x0D then [CHR 0x5C, CHR ''r'']
       else if c = CHR 0x09 then [CHR 0x5C, CHR ''t'']
       else if c = CHR 0x0B then [CHR 0x5C, CHR ''v'']
       else if of_char c < (32 :: nat) \<or> c = CHR 0x7F then
         CHR 0x5C # CHR ''x'' # [hex_digit (of_char c div 16), hex_digit (of_char c mod 16)]
       else [c]) s) @ [CHR 0x22]"

text \<open>\<open>strings.Join\<close>, and the verb \<open>%v\<close> for a list of strings.\<close>

fun join_sep :: "string \<Rightarrow> string list \<Rightarrow> string" where
  "join_sep d [] = ''''"
| "join_sep d [w] = w"
| "join_sep d (w # v # ws) = w @ d @ join_sep d (v # ws)"

definition show_list :: "string list \<Rightarrow> string" where
  "show_list ws = ''['' @ join_sep '' '' ws @ '']''"

definition field_NotSupported :: "string \<Rightarrow> string list \<Rightarrow> FieldError" where
  "field_NotSupported p vs = field_error TypeNotSupported p (''supported values: '' @ join_sep '', '' (map go_quote vs))"

text \<open>Paths: a child, an element of a list, an entry of a map.\<close>

fun child :: "string \<Rightarrow> string list \<Rightarrow> string" where
  "child p [] = p"
| "child p (n # ns) = child (p @ ''.'' @ n) ns"

definition index_path :: "string \<Rightarrow> nat \<Rightarrow> string" where
  "index_path p i = p @ ''['' @ show_int (int i) @ '']''"

definition key_path :: "string \<Rightarrow> string \<Rightarrow> string" where
  "key_path p k = p @ ''['' @ k @ '']''"

text \<open>\<open>if c { allErrs = append(allErrs, e) }\<close>\<close>

definition err_if :: "bool \<Rightarrow> 'e \<Rightarrow> 'e list" where
  "err_if c e = (if c then [e] else [])"

lemma err_if_Nil [simp]: "err_if c e = [] \<longleftrightarrow> \<not> c"
  by (simp add: err_if_def)

definition normalizeString :: "string \<Rightarrow> string" where
  "normalizeString s = to_lower (trim_space s)"

section \<open>The recommended machine type\<close>

definition parseRecommendationQuantity :: "QuantityLib \<Rightarrow> string \<Rightarrow> quantity option" where
  "parseRecommendationQuantity ql v = ql_Parse ql v"

definition workerResourcesFromPresetForRecommendation :: "QuantityLib \<Rightarrow> SizePreset \<Rightarrow> ResourceRequirements option" where
  "workerResourcesFromPresetForRecommendation ql preset =
     (case parseRecommendationQuantity ql (sp_WorkerCPUReq preset) of
        None \<Rightarrow> None
      | Some cpuRequest \<Rightarrow>
     (case parseRecommendationQuantity ql (sp_WorkerMemReq preset) of
        None \<Rightarrow> None
      | Some memoryRequest \<Rightarrow>
     (case parseRecommendationQuantity ql (sp_WorkerCPULim preset) of
        None \<Rightarrow> None
      | Some cpuLimit \<Rightarrow>
     (case parseRecommendationQuantity ql (sp_WorkerMemLim preset) of
        None \<Rightarrow> None
      | Some memoryLimit \<Rightarrow>
          Some \<lparr> rr_Requests = [(''cpu'', cpuRequest), (''memory'', memoryRequest)],
                 rr_Limits = [(''cpu'', cpuLimit), (''memory'', memoryLimit)] \<rparr>))))"

text \<open>Reading a \<open>ResourceList\<close>: the zero quantity for a missing name.\<close>

definition quantity_of :: "ResourceList \<Rightarrow> string \<Rightarrow> quantity" where
  "quantity_of rl name = (case map_of rl name of Some q \<Rightarrow> q | None \<Rightarrow> 0)"

definition applyLargerQuantity :: "quantity \<Rightarrow> quantity \<Rightarrow> quantity" where
  "applyLargerQuantity current candidate = (if candidate > 0 \<and> candidate > current then candidate else current)"

definition recommendationResourceNeed :: "ResourceRequirements \<Rightarrow> (quantity \<times> quantity) option" where
  "recommendationResourceNeed resources =
     (let cpu = applyLargerQuantity 0 (quantity_of (rr_Requests resources) ''cpu'');
          cpu = applyLargerQuantity cpu (quantity_of (rr_Limits resources) ''cpu'');
          memory = applyLargerQuantity 0 (quantity_of (rr_Requests resources) ''memory'');
          memory = applyLargerQuantity memory (quantity_of (rr_Limits resources) ''memory'')
      in if cpu > 0 \<or> memory > 0 then Some (cpu, memory) else None)"

fun first_preset :: "QuantityLib \<Rightarrow> quantity \<Rightarrow> quantity \<Rightarrow> string list \<Rightarrow> string" where
  "first_preset ql needCPU needMemory [] = ''xl''"
| "first_preset ql needCPU needMemory (presetName # names) =
     (case GetPreset presetName of
        None \<Rightarrow> first_preset ql needCPU needMemory names
      | Some preset \<Rightarrow>
     (case workerResourcesFromPresetForRecommendation ql preset of
        None \<Rightarrow> first_preset ql needCPU needMemory names
      | Some presetResources \<Rightarrow>
     (case recommendationResourceNeed presetResources of
        None \<Rightarrow> first_preset ql needCPU needMemory names
      | Some (presetCPU, presetMemory) \<Rightarrow>
          if presetCPU \<ge> needCPU \<and> presetMemory \<ge> needMemory then presetName
          else first_preset ql needCPU needMemory names)))"

definition recommendedPresetForWorkerResources :: "QuantityLib \<Rightarrow> ResourceRequirements \<Rightarrow> string" where
  "recommendedPresetForWorkerResources ql resources =
     (case recommendationResourceNeed resources of
        None \<Rightarrow> ''''
      | Some (needCPU, needMemory) \<Rightarrow> first_preset ql needCPU needMemory [''xs'', ''s'', ''m'', ''l'', ''xl''])"

datatype RecommendationSource = SourcePresetSize | SourceTypedResources

definition resolvedWorkerResourcesForMachineRecommendation ::
  "QuantityLib \<Rightarrow> XTrinode \<Rightarrow> (ResourceRequirements \<times> RecommendationSource) option" where
  "resolvedWorkerResourcesForMachineRecommendation ql t =
     (case GetPreset (normalizeString (xs_Size (xt_Spec t))) of
        None \<Rightarrow> None
      | Some preset \<Rightarrow>
     (case workerResourcesFromPresetForRecommendation ql preset of
        None \<Rightarrow> None
      | Some resources \<Rightarrow>
     (case xs_Resources (xt_Spec t) of
        None \<Rightarrow> Some (resources, SourcePresetSize)
      | Some rs \<Rightarrow>
          (case rs_Worker rs of
             None \<Rightarrow> Some (resources, SourcePresetSize)
           | Some w \<Rightarrow> Some (w, SourceTypedResources)))))"

definition recommendedNodePoolMachineType :: "QuantityLib \<Rightarrow> XTrinode \<Rightarrow> string \<Rightarrow> string \<times> string" where
  "recommendedNodePoolMachineType ql t provider =
     (let provider = normalizeString provider;
          size = normalizeString (xs_Size (xt_Spec t));
          fallback = GetRecommendedMachineType size provider;
          fallbackSource = ''size '' @ [CHR 0x27] @ xs_Size (xt_Spec t) @ [CHR 0x27]
      in case resolvedWorkerResourcesForMachineRecommendation ql t of
           None \<Rightarrow> (fallback, fallbackSource)
         | Some (resources, source) \<Rightarrow>
             let recommendationSize = recommendedPresetForWorkerResources ql resources
             in if recommendationSize = '''' then (fallback, fallbackSource)
                else
                  let recommendation = GetRecommendedMachineType recommendationSize provider
                  in if recommendation = '''' then (fallback, fallbackSource)
                     else if source = SourcePresetSize \<and> recommendationSize = size then (recommendation, fallbackSource)
                     else (recommendation, ''resolved worker resources''))"

section \<open>Warnings\<close>

definition selector_value :: "str_map option \<Rightarrow> string \<Rightarrow> string option" where
  "selector_value sel key = (case sel of None \<Rightarrow> None | Some m \<Rightarrow> map_of m key)"

definition option_list :: "'a option \<Rightarrow> 'a list" where
  "option_list x = (case x of None \<Rightarrow> [] | Some v \<Rightarrow> [v])"

definition placementNodePoolSelectorValues :: "PlacementSpec option \<Rightarrow> string list" where
  "placementNodePoolSelectorValues placement =
     (case placement of
        None \<Rightarrow> []
      | Some p \<Rightarrow>
          option_list (selector_value (ps_NodeSelector p) NodePoolSchedulingLabel)
          @ (case ps_Coordinator p of None \<Rightarrow> []
             | Some c \<Rightarrow> option_list (selector_value (rp_NodeSelector c) NodePoolSchedulingLabel))
          @ (case ps_Worker p of None \<Rightarrow> []
             | Some w \<Rightarrow> option_list (selector_value (rp_NodeSelector w) NodePoolSchedulingLabel)))"

definition nodePoolPlacementWarnings :: "XTrinode \<Rightarrow> string list" where
  "nodePoolPlacementWarnings t =
     (case xs_NodePool (xt_Spec t) of
        None \<Rightarrow> []
      | Some np \<Rightarrow>
          if np_SchedulePods np then []
          else
            let poolName = (if np_Name np = '''' \<and> xt_Name t \<noteq> '''' then xt_Name t @ NodePoolNameSuffix else np_Name np);
                selectorValues = placementNodePoolSelectorValues (xs_Placement (xt_Spec t))
            in if poolName = '''' then []
               else if selectorValues = [] then
                 [''spec.nodePool provisions node pool '' @ go_quote poolName
                    @ '', but runtime pods are not bound to it; set spec.nodePool.schedulePods=true or target ''
                    @ NodePoolSchedulingLabel @ '' in placement'']
               else if poolName \<in> set selectorValues then []
               else
                 [''placement targets node pool label '' @ go_quote (hd selectorValues) @ '' while spec.nodePool provisions ''
                    @ go_quote poolName
                    @ ''; use spec.nodePool.schedulePods=true or align placement with the provisioned pool''])"

definition configuredNodePoolMachineType :: "NodePoolSpec \<Rightarrow> string" where
  "configuredNodePoolMachineType np =
     (let provider = normalizeString (np_Provider np)
      in if provider = ''azure'' then (case np_Azure np of Some a \<Rightarrow> az_VMSize a | None \<Rightarrow> '''')
         else if provider = ''aws'' then (case np_AWS np of Some a \<Rightarrow> aw_InstanceType a | None \<Rightarrow> '''')
         else if provider = ''gcp'' then (case np_GCP np of Some g \<Rightarrow> gc_MachineType g | None \<Rightarrow> '''')
         else '''')"

definition nodePoolMachineRank :: "string \<Rightarrow> string \<Rightarrow> int option" where
  "nodePoolMachineRank provider machineType =
     map_of
       [(''azure/standard_d2as_v5'', 1), (''azure/standard_d8as_v5'', 2), (''azure/standard_d16as_v5'', 3),
        (''azure/standard_d32as_v5'', 4), (''azure/standard_d64as_v5'', 5),
        (''aws/m5.large'', 1), (''aws/m5.2xlarge'', 2), (''aws/m5.4xlarge'', 3), (''aws/m5.8xlarge'', 4),
        (''aws/m5.16xlarge'', 5),
        (''gcp/n1-standard-2'', 1), (''gcp/n1-standard-8'', 2), (''gcp/n1-standard-16'', 3),
        (''gcp/n1-standard-32'', 4), (''gcp/n1-standard-64'', 5)]
       (normalizeString provider @ ''/'' @ normalizeString machineType)"

definition nodePoolFitWarnings :: "QuantityLib \<Rightarrow> XTrinode \<Rightarrow> string list" where
  "nodePoolFitWarnings ql t =
     (case xs_NodePool (xt_Spec t) of
        None \<Rightarrow> []
      | Some np \<Rightarrow>
          let provider = normalizeString (np_Provider np);
              configured = configuredNodePoolMachineType np;
              (recommended, source) = recommendedNodePoolMachineType ql t provider
          in if provider = '''' \<or> configured = '''' \<or> recommended = '''' then []
             else
               (case (nodePoolMachineRank provider configured, nodePoolMachineRank provider recommended) of
                  (Some configuredRank, Some recommendedRank) \<Rightarrow>
                    if configuredRank \<ge> recommendedRank then []
                    else [''node pool machine type '' @ go_quote configured @ '' may not fit resolved worker resources; recommended for ''
                            @ source @ '' is '' @ go_quote recommended]
                | _ \<Rightarrow> []))"

section \<open>Validation of the node pool\<close>

definition required_machine_type ::
  "QuantityLib \<Rightarrow> XTrinode \<Rightarrow> string \<Rightarrow> string \<Rightarrow> string \<Rightarrow> string \<Rightarrow> FieldError list" where
  "required_machine_type ql t provider field fldPath configured =
     (if configured = '''' then
        let (recommendation, source) = recommendedNodePoolMachineType ql t provider;
            base = provider @ ''.'' @ field @ '' is required when provider is '' @ provider
        in [field_Required (child fldPath [provider, field])
              (if recommendation \<noteq> '''' then base @ '' (recommended for '' @ source @ '': '' @ recommendation @ '')'' else base)]
      else [])"

definition validateNodePoolProviderConfig :: "QuantityLib \<Rightarrow> XTrinode \<Rightarrow> NodePoolSpec \<Rightarrow> string \<Rightarrow> FieldError list" where
  "validateNodePoolProviderConfig ql t np fldPath =
     (let provider = normalizeString (np_Provider np)
      in if provider = ''azure'' then
           required_machine_type ql t ''azure'' ''vmSize'' fldPath (case np_Azure np of None \<Rightarrow> '''' | Some a \<Rightarrow> az_VMSize a)
         else if provider = ''aws'' then
           required_machine_type ql t ''aws'' ''instanceType'' fldPath (case np_AWS np of None \<Rightarrow> '''' | Some a \<Rightarrow> aw_InstanceType a)
         else if provider = ''gcp'' then
           required_machine_type ql t ''gcp'' ''machineType'' fldPath (case np_GCP np of None \<Rightarrow> '''' | Some g \<Rightarrow> gc_MachineType g)
         else [])"

definition effectiveNodePoolMinNodes :: "env \<Rightarrow> XTrinode \<Rightarrow> string \<Rightarrow> int \<times> string" where
  "effectiveNodePoolMinNodes getenv t fldPath =
     (case Option.bind (xs_NodePool (xt_Spec t)) np_MinNodes of
        Some n \<Rightarrow> (n, child fldPath [''minNodes''])
      | None \<Rightarrow>
     (case Option.bind (xs_OperatorNodePoolDefaults (xt_Spec t)) od_DefaultMinNodes of
        Some n \<Rightarrow> (n, ''spec.operatorNodePoolDefaults.defaultMinNodes'')
      | None \<Rightarrow> (NodePoolDefaultMinNodesValue getenv, child fldPath [''minNodes''])))"

definition effectiveNodePoolMaxNodes :: "env \<Rightarrow> XTrinode \<Rightarrow> string \<Rightarrow> int \<times> string" where
  "effectiveNodePoolMaxNodes getenv t fldPath =
     (case Option.bind (xs_NodePool (xt_Spec t)) np_MaxNodes of
        Some n \<Rightarrow> (n, child fldPath [''maxNodes''])
      | None \<Rightarrow>
     (case Option.bind (xs_OperatorNodePoolDefaults (xt_Spec t)) od_DefaultMaxNodes of
        Some n \<Rightarrow> (n, ''spec.operatorNodePoolDefaults.defaultMaxNodes'')
      | None \<Rightarrow> (NodePoolDefaultMaxNodesValue getenv, child fldPath [''maxNodes''])))"

text \<open>The two range checks on an optional count.\<close>

definition check_min :: "int option \<Rightarrow> int \<Rightarrow> string \<Rightarrow> string \<Rightarrow> FieldError list" where
  "check_min v lo path name =
     (case v of None \<Rightarrow> []
      | Some n \<Rightarrow> err_if (n < lo) (field_Invalid path (name @ '' must be at least '' @ show_int lo)))"

definition check_max :: "int option \<Rightarrow> int \<Rightarrow> string \<Rightarrow> string \<Rightarrow> FieldError list" where
  "check_max v hi path name =
     (case v of None \<Rightarrow> []
      | Some n \<Rightarrow> err_if (n > hi) (field_Invalid path (name @ '' must be at most '' @ show_int hi)))"

definition pool_name :: "XTrinode \<Rightarrow> NodePoolSpec \<Rightarrow> string" where
  "pool_name t np = (if np_Name np = '''' then xt_Name t @ NodePoolNameSuffix else np_Name np)"

definition validateNodePool :: "QuantityLib \<Rightarrow> env \<Rightarrow> XTrinode \<Rightarrow> NodePoolSpec \<Rightarrow> string \<Rightarrow> FieldError list" where
  "validateNodePool ql getenv t np fldPath =
     (let bounds = NodePoolValidationBoundsFromEnv getenv;
          mode = normalizeString (np_ProviderMode np);
          providerMode = (if mode = '''' then ''self-managed'' else mode);
          (effectiveMinNodes, minNodesPath) = effectiveNodePoolMinNodes getenv t fldPath;
          (effectiveMaxNodes, _) = effectiveNodePoolMaxNodes getenv t fldPath;
          policies = [NodePoolDeletionPolicyDelete, NodePoolDeletionPolicyRetain, NodePoolDeletionPolicyScaleToZero]
      in (if np_Provider np = '''' then [field_Required (child fldPath [''provider'']) ''provider is required'']
          else err_if (\<not> map_true ValidProviders (to_lower (np_Provider np)))
            (field_Invalid (child fldPath [''provider'']) (''provider must be one of: '' @ show_list ProviderList)))
         @ validateNodePoolProviderConfig ql t np fldPath
         @ err_if (providerMode = ''self-managed'' \<and> np_NodeTaints np \<noteq> None \<and> np_NodeTaints np \<noteq> Some [])
             (field_Forbidden (child fldPath [''nodeTaints''])
               ''self-managed node taints must be configured in the referenced bootstrap template's nodeRegistration.taints; managed node pools may use spec.nodePool.nodeTaints'')
         @ err_if (np_DeletionPolicy np \<noteq> '''' \<and> np_DeletionPolicy np \<notin> set policies)
             (field_NotSupported (child fldPath [''deletionPolicy'']) policies)
         @ check_min (np_MinNodes np) (nb_MinNodesMin bounds) (child fldPath [''minNodes'']) ''minNodes''
         @ (case (np_MinNodes np, np_MaxNodes np) of
              (Some lo, Some hi) \<Rightarrow>
                err_if (lo > hi) (field_Invalid (child fldPath [''minNodes'']) ''minNodes must be less than or equal to maxNodes'')
            | _ \<Rightarrow> [])
         @ check_min (np_MaxNodes np) (nb_MaxNodesMin bounds) (child fldPath [''maxNodes'']) ''maxNodes''
         @ check_max (np_MaxNodes np) (nb_MaxNodesMax bounds) (child fldPath [''maxNodes'']) ''maxNodes''
         @ check_min (np_OSDiskGB np) (nb_OSDiskGBMin bounds) (child fldPath [''osDiskGB'']) ''osDiskGB''
         @ check_max (np_OSDiskGB np) (nb_OSDiskGBMax bounds) (child fldPath [''osDiskGB'']) ''osDiskGB''
         @ err_if (effectiveMinNodes \<ge> 0 \<and> effectiveMaxNodes \<ge> 1 \<and> effectiveMinNodes > effectiveMaxNodes)
             (field_Invalid minNodesPath
               (''effective minNodes must be less than or equal to effective maxNodes ('' @ show_int effectiveMaxNodes @ '')''))
         @ (if np_SchedulePods np then
              case map_of (np_NodeLabels np) NodePoolSchedulingLabel of
                None \<Rightarrow> []
              | Some existing \<Rightarrow>
                  err_if (existing \<noteq> pool_name t np)
                    (field_Invalid (key_path (child fldPath [''nodeLabels'']) NodePoolSchedulingLabel)
                      (''must match nodePool name '' @ go_quote (pool_name t np) @ '' when schedulePods is true''))
            else []))"

definition validateExistingNodePoolSelectorConflict :: "str_map option \<Rightarrow> string \<Rightarrow> string \<Rightarrow> string \<Rightarrow> FieldError list" where
  "validateExistingNodePoolSelectorConflict selector key val fldPath =
     (case selector_value selector key of
        None \<Rightarrow> []
      | Some existing \<Rightarrow>
          err_if (existing \<noteq> val)
            (field_Invalid (key_path fldPath key) (''must match existingNodePool selector value '' @ go_quote val)))"

definition validateNodePoolSelectorConflict :: "str_map option \<Rightarrow> string \<Rightarrow> string \<Rightarrow> FieldError list" where
  "validateNodePoolSelectorConflict selector poolName fldPath =
     (case selector_value selector NodePoolSchedulingLabel of
        None \<Rightarrow> []
      | Some existing \<Rightarrow>
          err_if (existing \<noteq> poolName)
            (field_Invalid (key_path fldPath NodePoolSchedulingLabel)
              (''must match nodePool name '' @ go_quote poolName @ '' when nodePool.schedulePods is true'')))"

text \<open>The pool name is never empty here, since the suffix is not.\<close>

definition validateNodePoolSchedulePlacement :: "XTrinode \<Rightarrow> string \<Rightarrow> FieldError list" where
  "validateNodePoolSchedulePlacement t fldPath =
     (case xs_NodePool (xt_Spec t) of
        None \<Rightarrow> []
      | Some np \<Rightarrow>
          if \<not> np_SchedulePods np then []
          else if pool_name t np = '''' then
            [field_Required (child fldPath [''nodePool'', ''name''])
               ''nodePool.schedulePods requires spec.nodePool.name or metadata.name for the generated pool name'']
          else (case xs_Placement (xt_Spec t) of
                 None \<Rightarrow> []
               | Some placement \<Rightarrow>
                   err_if (ps_ExistingNodePool placement \<noteq> None)
                     (field_Forbidden (child fldPath [''placement'', ''existingNodePool''])
                       ''cannot combine spec.nodePool.schedulePods with spec.placement.existingNodePool; use the managed node-pool binding or an existing pool selector, not both'')
                   @ validateNodePoolSelectorConflict (ps_NodeSelector placement) (pool_name t np)
                       (child fldPath [''placement'', ''nodeSelector''])
                   @ (case ps_Coordinator placement of None \<Rightarrow> []
                      | Some c \<Rightarrow> validateNodePoolSelectorConflict (rp_NodeSelector c) (pool_name t np)
                                    (child fldPath [''placement'', ''coordinator'', ''nodeSelector'']))
                   @ (case ps_Worker placement of None \<Rightarrow> []
                      | Some w \<Rightarrow> validateNodePoolSelectorConflict (rp_NodeSelector w) (pool_name t np)
                                    (child fldPath [''placement'', ''worker'', ''nodeSelector'']))))"

end
