(* ===== verification/SpecValidation.thy ===== *)
theory SpecValidation
  imports Admission
begin

text \<open>
  The rules of \<open>xtrinode_webhook.go\<close> for a single spec: \<open>validateXTrinode\<close> with the checks it calls, in
  the order in which it collects their errors. The quantity library and the environment are
  parameters.
\<close>

section \<open>Routing, resources and placement\<close>

definition validateRouting :: "RoutingSpec \<Rightarrow> string \<Rightarrow> FieldError list" where
  "validateRouting r fldPath =
     (let hasSelector = (ro_Header r \<noteq> '''' \<or> ro_Hostname r \<noteq> '''' \<or> ro_HostnameDomain r \<noteq> '''' \<or> ro_Default r)
      in err_if (\<not> hasSelector \<and> ro_CapacityUnits r = None)
           (field_Invalid fldPath ''routing must specify at least one selector: header, hostname, hostnameDomain, or default=true'')
         @ err_if (ro_Hostname r \<noteq> '''' \<and> ro_HostnameDomain r \<noteq> '''')
           (field_Invalid fldPath ''hostname and hostnameDomain should not both be set (hostname overrides auto-generation)'')
         @ err_if (case ro_CapacityUnits r of Some u \<Rightarrow> u < 1 | None \<Rightarrow> False)
           (field_Invalid (child fldPath [''capacityUnits'']) ''capacityUnits must be at least 1''))"

text \<open>The last message ends with the printed request, left out here.\<close>

definition check_resource_pair :: "ResourceRequirements \<Rightarrow> string \<Rightarrow> string \<Rightarrow> FieldError list" where
  "check_resource_pair requirements fldPath resourceName =
     (let request = map_of (rr_Requests requirements) resourceName;
          limit = map_of (rr_Limits requirements) resourceName;
          limitPath = key_path (child fldPath [''limits'']) resourceName
      in err_if (case request of Some q \<Rightarrow> q < 0 | None \<Rightarrow> False)
           (field_Invalid (key_path (child fldPath [''requests'']) resourceName) ''resource request must be non-negative'')
         @ err_if (case limit of Some q \<Rightarrow> q < 0 | None \<Rightarrow> False)
             (field_Invalid limitPath ''resource limit must be non-negative'')
         @ err_if (case (request, limit) of (Some r, Some l) \<Rightarrow> l < r | _ \<Rightarrow> False)
             (field_Invalid limitPath ''resource limit must be greater than or equal to request''))"

definition validateResourceRequirements_field :: "ResourceRequirements \<Rightarrow> string \<Rightarrow> FieldError list" where
  "validateResourceRequirements_field requirements fldPath =
     concat (map (check_resource_pair requirements fldPath) [''cpu'', ''memory''])"

definition validateRuntimeResources :: "RuntimeResourcesSpec \<Rightarrow> string \<Rightarrow> FieldError list" where
  "validateRuntimeResources resources fldPath =
     (case rs_Coordinator resources of None \<Rightarrow> []
      | Some c \<Rightarrow> validateResourceRequirements_field c (child fldPath [''coordinator'']))
     @ (case rs_Worker resources of None \<Rightarrow> []
        | Some w \<Rightarrow> validateResourceRequirements_field w (child fldPath [''worker'']))"

definition validateRolePlacement :: "RolePlacementSpec \<Rightarrow> string \<Rightarrow> FieldError list" where
  "validateRolePlacement placement fldPath =
     concat (map (\<lambda>(i, constraint).
         err_if (tc_TopologyKey constraint = '''')
           (field_Required (child (index_path (child fldPath [''topologySpreadConstraints'']) i) [''topologyKey''])
             ''topologyKey is required''))
       (List.enumerate 0 (case rp_TopologySpreadConstraints placement of None \<Rightarrow> [] | Some cs \<Rightarrow> cs)))"

definition validate_existing_pool :: "PlacementSpec \<Rightarrow> ExistingNodePoolPlacementSpec \<Rightarrow> string \<Rightarrow> FieldError list" where
  "validate_existing_pool placement np fldPath =
     (if trim_space (ep_Provider np) = '''' then
        [field_Required (child fldPath [''existingNodePool'', ''provider'']) ''provider is required'']
      else err_if (ExistingNodePoolSelector (ep_Provider np) ''placeholder'' = None)
        (field_NotSupported (child fldPath [''existingNodePool'', ''provider'']) [''azure'', ''aws'', ''gcp'']))
     @ err_if (trim_space (ep_Name np) = '''')
         (field_Required (child fldPath [''existingNodePool'', ''name'']) ''name is required'')
     @ (case ExistingNodePoolSelector (ep_Provider np) (ep_Name np) of
          None \<Rightarrow> []
        | Some (key, val) \<Rightarrow>
            validateExistingNodePoolSelectorConflict (ps_NodeSelector placement) key val (child fldPath [''nodeSelector''])
            @ (case ps_Coordinator placement of None \<Rightarrow> []
               | Some c \<Rightarrow> validateExistingNodePoolSelectorConflict (rp_NodeSelector c) key val
                             (child fldPath [''coordinator'', ''nodeSelector'']))
            @ (case ps_Worker placement of None \<Rightarrow> []
               | Some w \<Rightarrow> validateExistingNodePoolSelectorConflict (rp_NodeSelector w) key val
                             (child fldPath [''worker'', ''nodeSelector''])))"

definition validatePlacement :: "PlacementSpec \<Rightarrow> string \<Rightarrow> FieldError list" where
  "validatePlacement placement fldPath =
     (case ps_ExistingNodePool placement of None \<Rightarrow> [] | Some np \<Rightarrow> validate_existing_pool placement np fldPath)
     @ (case ps_Coordinator placement of None \<Rightarrow> [] | Some c \<Rightarrow> validateRolePlacement c (child fldPath [''coordinator'']))
     @ (case ps_Worker placement of None \<Rightarrow> [] | Some w \<Rightarrow> validateRolePlacement w (child fldPath [''worker'']))"

section \<open>Autoscaling\<close>

definition validScalerTypes :: "(string \<times> bool) list" where
  "validScalerTypes = [(''prometheus'', True), (''http'', True)]"

definition validScalingMetrics :: "(string \<times> bool) list" where
  "validScalingMetrics = [(''query'', True), (''memory'', True), (''cpu'', True)]"

definition validateKEDA :: "KEDASpec \<Rightarrow> string \<Rightarrow> FieldError list" where
  "validateKEDA k fldPath =
     (let scalerType = normalizeString (kd_ScalerType k)
      in err_if (kd_ScalerType k \<noteq> '''' \<and> \<not> map_true validScalerTypes scalerType)
           (field_Invalid (child fldPath [''scalerType'']) ''scalerType must be one of: prometheus, http'')
         @ err_if (kd_ScalingMetric k \<noteq> '''' \<and> \<not> map_true validScalingMetrics (normalizeString (kd_ScalingMetric k)))
             (field_Invalid (child fldPath [''scalingMetric'']) ''scalingMetric must be one of: query, memory, cpu'')
         @ (case kd_HTTPEndpoint k of
              None \<Rightarrow> []
            | Some e \<Rightarrow>
                let httpEndpoint = normalizeString e
                in err_if ((scalerType = '''' \<or> scalerType = ''http'') \<and> httpEndpoint = ''jmx''
                           \<and> (case kd_JMXExporter k of None \<Rightarrow> True | Some j \<Rightarrow> \<not> jx_Enabled j))
                     (field_Invalid fldPath ''when httpEndpoint is jmx, jmxExporter.enabled must be true'')
                   @ err_if (httpEndpoint = ''aggregator'')
                       (field_Invalid (child fldPath [''httpEndpoint''])
                         ''httpEndpoint aggregator is no longer supported; use prometheusQuery for custom metrics or a concrete custom URL'')))"

definition kedaAutoscalingActive :: "KEDASpec option \<Rightarrow> bool" where
  "kedaAutoscalingActive k =
     (case k of
        None \<Rightarrow> False
      | Some k \<Rightarrow>
          kd_Enabled k = Some True
          \<and> (let given = (\<lambda>p. case p of Some s \<Rightarrow> trim_space s \<noteq> '''' | None \<Rightarrow> False)
             in kd_ScalerType k \<noteq> '''' \<or> kd_ScalingMetric k \<noteq> '''' \<or> given (kd_PrometheusServer k)
                \<or> given (kd_PrometheusQuery k) \<or> given (kd_HTTPEndpoint k)))"

definition nativeHPAEnabled :: "(string \<times> json) list option \<Rightarrow> bool" where
  "nativeHPAEnabled valuesMap =
     (case valuesMap of
        None \<Rightarrow> False
      | Some m \<Rightarrow>
          (case as_object (map_of m ''server'') of
             None \<Rightarrow> False
           | Some server \<Rightarrow>
               (case as_object (map_of server ''autoscaling'') of
                  None \<Rightarrow> False
                | Some autoscaling \<Rightarrow> as_bool (map_of autoscaling ''enabled'') = Some True)))"

definition validateAutoscalerOwnership :: "XTrinodeSpec \<Rightarrow> string \<Rightarrow> FieldError list" where
  "validateAutoscalerOwnership s fldPath =
     err_if (kedaAutoscalingActive (xs_KEDA s) \<and> nativeHPAEnabled (GetValuesOverlayMap s))
       (field_Forbidden (child fldPath [''valuesOverlay'', ''server'', ''autoscaling'', ''enabled''])
         ''native HPA and spec.keda cannot both manage worker replicas; choose one autoscaler'')"

section \<open>The values overlay\<close>

definition forbidValuesOverlayKey :: "(string \<times> json) list \<Rightarrow> string \<Rightarrow> string \<Rightarrow> string \<Rightarrow> FieldError list" where
  "forbidValuesOverlayKey values fldPath key message =
     err_if (map_of values key \<noteq> None) (field_Forbidden (child fldPath [key]) message)"

definition boolValue :: "json option \<Rightarrow> bool" where
  "boolValue v \<longleftrightarrow> as_bool v = Some True"

definition validateValuesOverlayContainerSecurityContext :: "(string \<times> json) list \<Rightarrow> string \<Rightarrow> FieldError list" where
  "validateValuesOverlayContainerSecurityContext securityContext fldPath =
     err_if (boolValue (map_of securityContext ''privileged''))
       (field_Forbidden (child fldPath [''privileged'']) ''privileged containers are not allowed through valuesOverlay'')
     @ err_if (boolValue (map_of securityContext ''allowPrivilegeEscalation''))
         (field_Forbidden (child fldPath [''allowPrivilegeEscalation'']) ''privilege escalation is not allowed through valuesOverlay'')
     @ (case as_object (map_of securityContext ''capabilities'') of
          None \<Rightarrow> []
        | Some capabilities \<Rightarrow>
            (case as_array (map_of capabilities ''add'') of
               None \<Rightarrow> []
             | Some adds \<Rightarrow> err_if (adds \<noteq> [])
                 (field_Forbidden (child fldPath [''capabilities'', ''add'']) ''added Linux capabilities are not allowed through valuesOverlay'')))"

definition validateValuesOverlayAdditionalVolumes :: "(string \<times> json) list \<Rightarrow> string \<Rightarrow> FieldError list" where
  "validateValuesOverlayAdditionalVolumes roleMap fldPath =
     (case as_array (map_of roleMap ''additionalVolumes'') of
        None \<Rightarrow> []
      | Some volumes \<Rightarrow>
          concat (map (\<lambda>(i, volume).
              case as_object (Some volume) of
                None \<Rightarrow> []
              | Some volumeMap \<Rightarrow> err_if (map_of volumeMap ''hostPath'' \<noteq> None)
                  (field_Forbidden (child (index_path (child fldPath [''additionalVolumes'']) i) [''hostPath''])
                    ''hostPath volumes are not allowed through valuesOverlay''))
            (List.enumerate 0 volumes)))"

definition scheduler_keys :: "string list" where
  "scheduler_keys = [''nodeSelector'', ''tolerations'', ''affinity'', ''topologySpreadConstraints'']"

definition validate_overlay_role :: "(string \<times> json) list \<Rightarrow> string \<Rightarrow> string \<Rightarrow> FieldError list" where
  "validate_overlay_role values fldPath role =
     (case as_object (map_of values role) of
        None \<Rightarrow> []
      | Some roleMap \<Rightarrow>
          forbidValuesOverlayKey roleMap (child fldPath [role]) ''resources'' (''use spec.resources.'' @ role @ '' for pod resources'')
          @ concat (map (\<lambda>key. forbidValuesOverlayKey roleMap (child fldPath [role]) key ''use spec.placement for scheduler constraints'') scheduler_keys)
          @ (case as_object (map_of roleMap ''deployment'') of
               None \<Rightarrow> []
             | Some deployment \<Rightarrow>
                 forbidValuesOverlayKey deployment (child fldPath [role, ''deployment'']) ''strategy'' ''use spec.rolloutPolicy.rollingUpdateStrategy for rollout strategy''
                 @ forbidValuesOverlayKey deployment (child fldPath [role, ''deployment'']) ''revisionHistoryLimit'' ''use spec.rolloutPolicy.revisionHistoryLimit'')
          @ validateValuesOverlayAdditionalVolumes roleMap (child fldPath [role]))"

definition validateValuesOverlayPolicy :: "XTrinodeSpec \<Rightarrow> string \<Rightarrow> FieldError list" where
  "validateValuesOverlayPolicy s fldPath =
     (case GetValuesOverlayMap s of
        None \<Rightarrow> []
      | Some values \<Rightarrow>
          if values = [] then []
          else
            forbidValuesOverlayKey values fldPath ''resources'' ''use spec.resources.coordinator or spec.resources.worker for pod resources''
            @ concat (map (\<lambda>key. forbidValuesOverlayKey values fldPath key ''use spec.placement for scheduler constraints'') scheduler_keys)
            @ concat (map (\<lambda>key. forbidValuesOverlayKey values fldPath key ''host namespace settings are not allowed through valuesOverlay'')
                [''hostNetwork'', ''hostPID'', ''hostIPC''])
            @ forbidValuesOverlayKey values fldPath ''sidecarContainers'' ''sidecar containers are not allowed through valuesOverlay by default''
            @ forbidValuesOverlayKey values fldPath ''envFrom'' ''use spec.helmChartConfig.envFrom with privileged admission instead of valuesOverlay.envFrom''
            @ (case as_object (map_of values ''service'') of
                 None \<Rightarrow> []
               | Some service \<Rightarrow>
                   (case as_string (map_of service ''type'') of
                      None \<Rightarrow> []
                    | Some serviceType \<Rightarrow>
                        err_if (to_lower (trim_space serviceType) \<in> {''loadbalancer'', ''nodeport''})
                          (field_Forbidden (child fldPath [''service'', ''type'']) ''externally exposed service types are not allowed through valuesOverlay'')))
            @ (case as_object (map_of values ''containerSecurityContext'') of
                 None \<Rightarrow> []
               | Some securityContext \<Rightarrow>
                   validateValuesOverlayContainerSecurityContext securityContext (child fldPath [''containerSecurityContext'']))
            @ concat (map (validate_overlay_role values fldPath) [''coordinator'', ''worker'']))"

section \<open>TLS, limits and retries\<close>

definition validateTLS :: "TLSSpec \<Rightarrow> string \<Rightarrow> FieldError list" where
  "validateTLS tls fldPath =
     (let hasServer = (tl_ServerSecretClass tls \<noteq> ''''); hasInternal = (tl_InternalSecretClass tls \<noteq> '''')
      in err_if (hasServer \<noteq> hasInternal)
           (field_Invalid fldPath ''serverSecretClass and internalSecretClass should both be set or both be empty'')
         @ err_if hasServer
             (field_Forbidden (child fldPath [''serverSecretClass''])
               ''Trino TLS server mode disables HTTP, but XTrinode gateway routing and lifecycle control currently use HTTP-only coordinator URLs; configure TLS termination outside Trino until HTTPS control endpoint support is implemented''))"

text \<open>The first unit whose suffix fits the upper-case text decides.\<close>

definition data_size_units :: "(string \<times> rat) list" where
  "data_size_units =
     [(''TIB'', 1024 * 1024 * 1024 * 1024), (''TB'', 1000 * 1000 * 1000 * 1000),
      (''GIB'', 1024 * 1024 * 1024), (''GB'', 1000 * 1000 * 1000),
      (''MIB'', 1024 * 1024), (''MB'', 1000 * 1000), (''KIB'', 1024), (''KB'', 1000), (''B'', 1)]"

definition f64_negative :: "f64 \<Rightarrow> bool" where
  "f64_negative x = (case x of Fin q \<Rightarrow> q < 0 | FInf neg \<Rightarrow> neg | NaN \<Rightarrow> False)"

definition parseTrinoDataSizeBytes :: "QuantityLib \<Rightarrow> string \<Rightarrow> int option" where
  "parseTrinoDataSizeBytes ql v =
     (let trimmed = trim_space v; upper = to_upper trimmed
      in if trimmed = '''' then None
         else case List.find (\<lambda>(suffix, _). has_suffix upper suffix) data_size_units of
                Some (suffix, multiplier) \<Rightarrow>
                  let number = trim_space (take (length trimmed - length suffix) trimmed)
                  in if number = '''' then None
                     else (case parse_float number of
                             None \<Rightarrow> None
                           | Some parsed \<Rightarrow>
                               if f64_negative parsed then None
                               else Some (f64_to_int 64 (f64_scale multiplier parsed)))
              | None \<Rightarrow>
                  (case ql_Parse ql trimmed of
                     None \<Rightarrow> None
                   | Some quantity \<Rightarrow> if quantity < 0 then None else Some (ql_Value ql quantity)))"

definition check_data_size :: "QuantityLib \<Rightarrow> string \<Rightarrow> string \<Rightarrow> string \<Rightarrow> FieldError list" where
  "check_data_size ql v path name =
     (if v = '''' then []
      else if trim_space v = '''' then [field_Invalid path (name @ '' must not be empty or whitespace-only'')]
      else err_if (parseTrinoDataSizeBytes ql v = None)
        (field_Invalid path (name @ '' must be a valid Trino data size such as 4GB or 512MB'')))"

definition validateLimits :: "QuantityLib \<Rightarrow> LimitsSpec \<Rightarrow> string \<Rightarrow> FieldError list" where
  "validateLimits ql l fldPath =
     err_if (case lm_HardConcurrencyPerGroup l of Some n \<Rightarrow> n < 1 | None \<Rightarrow> False)
       (field_Invalid (child fldPath [''hardConcurrencyPerGroup'']) ''hardConcurrencyPerGroup must be at least 1'')
     @ err_if (case lm_MaxQueuedPerGroup l of Some n \<Rightarrow> n < 0 | None \<Rightarrow> False)
         (field_Invalid (child fldPath [''maxQueuedPerGroup'']) ''maxQueuedPerGroup must be at least 0'')
     @ (case lm_Session l of
          None \<Rightarrow> []
        | Some session \<Rightarrow>
            check_data_size ql (sl_MaxQueryMemory session) (child fldPath [''session'', ''maxQueryMemory'']) ''maxQueryMemory''
            @ check_data_size ql (sl_MaxTotalMemoryPerNode session) (child fldPath [''session'', ''maxTotalMemoryPerNode''])
                ''maxTotalMemoryPerNode'')"

definition contains_any :: "string \<Rightarrow> char list \<Rightarrow> bool" where
  "contains_any s cs \<longleftrightarrow> (\<exists>c \<in> set s. c \<in> set cs)"

definition validateTrinoPropertyKey :: "string \<Rightarrow> string \<Rightarrow> FieldError list" where
  "validateTrinoPropertyKey fldPath key =
     err_if (trim_space key = '''' \<or> trim_space key \<noteq> key \<or> contains_any key [CHR 0x0D, CHR 0x0A, CHR ''=''])
       (field_Invalid fldPath (''property keys must not be empty, have surrounding whitespace, or contain newlines or '' @ [CHR 0x27, CHR ''='', CHR 0x27]))"

definition validateTrinoPropertyValue :: "string \<Rightarrow> string \<Rightarrow> string \<Rightarrow> FieldError list" where
  "validateTrinoPropertyValue fldPath v message =
     err_if (trim_space v = '''' \<or> trim_space v \<noteq> v \<or> contains_any v [CHR 0x0D, CHR 0x0A]) (field_Invalid fldPath message)"

definition validFaultTolerantRetryPolicies :: "(string \<times> bool) list" where
  "validFaultTolerantRetryPolicies = [(''task'', True), (''query'', True)]"

definition validate_exchange_property :: "string \<Rightarrow> string \<times> string \<Rightarrow> FieldError list" where
  "validate_exchange_property fldPath = (\<lambda>(key, v).
     let keyPath = key_path (child fldPath [''exchangeManager'', ''properties'']) key
     in if key = ''exchange-manager.name'' \<or> key = ''exchange.base-directories'' then
          [field_Forbidden keyPath ''use exchangeManager.name or exchangeManager.baseDirectories for this property'']
        else
          validateTrinoPropertyKey keyPath key
          @ validateTrinoPropertyValue keyPath v ''property values must not be empty, whitespace-only, or contain newlines'')"

definition validateFaultTolerantExecution :: "FaultTolerantExecutionSpec \<Rightarrow> string \<Rightarrow> FieldError list" where
  "validateFaultTolerantExecution fte fldPath =
     (let policy = normalizeString (ft_RetryPolicy fte);
          retryPolicy = (if policy = '''' then ''task'' else policy)
      in err_if (ft_RetryPolicy fte \<noteq> '''' \<and> \<not> map_true validFaultTolerantRetryPolicies policy)
           (field_Invalid (child fldPath [''retryPolicy'']) ''retryPolicy must be one of: TASK, QUERY'')
         @ (case ft_ExchangeManager fte of
              None \<Rightarrow> []
            | Some exchangeManager \<Rightarrow>
                err_if (em_Enabled exchangeManager = Some False \<and> retryPolicy = ''task'')
                  (field_Invalid (child fldPath [''exchangeManager'', ''enabled'']) ''exchangeManager must be enabled when retryPolicy is TASK'')
                @ (if em_Name exchangeManager \<noteq> '''' then
                     validateTrinoPropertyValue (child fldPath [''exchangeManager'', ''name'']) (em_Name exchangeManager)
                       ''name must not be empty, whitespace-only, or contain newlines''
                   else [])
                @ concat (map (\<lambda>(i, dir).
                      let p = index_path (child fldPath [''exchangeManager'', ''baseDirectories'']) i
                      in validateTrinoPropertyValue p dir ''baseDirectories entries must not be empty, whitespace-only, or contain newlines''
                         @ err_if (CHR '','' \<in> set dir) (field_Invalid p ''baseDirectories entries must not contain commas''))
                    (List.enumerate 0 (case em_BaseDirectories exchangeManager of None \<Rightarrow> [] | Some ds \<Rightarrow> ds)))
                @ concat (map (validate_exchange_property fldPath)
                    (case em_Properties exchangeManager of None \<Rightarrow> [] | Some m \<Rightarrow> m))))"

section \<open>Defaults, rollout, chart and control credentials\<close>

definition validateOperatorNodePoolDefaults :: "env \<Rightarrow> OperatorNodePoolDefaultsSpec \<Rightarrow> string \<Rightarrow> FieldError list" where
  "validateOperatorNodePoolDefaults getenv d fldPath =
     (let bounds = NodePoolValidationBoundsFromEnv getenv
      in check_min (od_DefaultMinNodes d) (nb_MinNodesMin bounds) (child fldPath [''defaultMinNodes'']) ''defaultMinNodes''
         @ check_min (od_DefaultMaxNodes d) (nb_MaxNodesMin bounds) (child fldPath [''defaultMaxNodes'']) ''defaultMaxNodes''
         @ check_max (od_DefaultMaxNodes d) (nb_MaxNodesMax bounds) (child fldPath [''defaultMaxNodes'']) ''defaultMaxNodes''
         @ check_min (od_DefaultOSDiskGB d) (nb_OSDiskGBMin bounds) (child fldPath [''defaultOSDiskGB'']) ''defaultOSDiskGB''
         @ check_max (od_DefaultOSDiskGB d) (nb_OSDiskGBMax bounds) (child fldPath [''defaultOSDiskGB'']) ''defaultOSDiskGB''
         @ (case (od_DefaultMinNodes d, od_DefaultMaxNodes d) of
              (Some lo, Some hi) \<Rightarrow> err_if (lo > hi)
                (field_Invalid (child fldPath [''defaultMinNodes'']) ''defaultMinNodes must be less than or equal to defaultMaxNodes'')
            | _ \<Rightarrow> []))"

definition validateIntOrPercent :: "string \<Rightarrow> IntOrString option \<Rightarrow> FieldError list" where
  "validateIntOrPercent fldPath v =
     (case v of
        None \<Rightarrow> []
      | Some v \<Rightarrow>
          if io_Type v = 0 then err_if (io_IntVal v < 0) (field_Invalid fldPath ''must be a non-negative integer'')
          else if io_Type v = 1 then
            let strValue = trim_space (io_StrVal v)
            in if has_suffix strValue ''%'' then
                 err_if (case parse_int 64 (trim_suffix strValue ''%'') of None \<Rightarrow> True | Some parsed \<Rightarrow> parsed < 0 \<or> parsed > 100)
                   (field_Invalid fldPath ''percentage must be between 0% and 100%'')
               else
                 err_if (case parse_int 64 strValue of None \<Rightarrow> True | Some parsed \<Rightarrow> parsed < 0)
                   (field_Invalid fldPath ''must be a non-negative integer or percentage string'')
          else [field_Invalid fldPath ''must be an integer or percentage string''])"

definition intOrPercentIsExplicitZero :: "IntOrString option \<Rightarrow> bool" where
  "intOrPercentIsExplicitZero v =
     (case v of
        None \<Rightarrow> False
      | Some v \<Rightarrow>
          if io_Type v = 0 then io_IntVal v = 0
          else if io_Type v = 1 then trim_space (io_StrVal v) = ''0'' \<or> trim_space (io_StrVal v) = ''0%''
          else False)"

definition validateRolloutPolicy :: "RolloutPolicySpec \<Rightarrow> string \<Rightarrow> FieldError list" where
  "validateRolloutPolicy rp fldPath =
     err_if (case rl_RevisionHistoryLimit rp of Some n \<Rightarrow> n < 0 \<or> n > 100 | None \<Rightarrow> False)
       (field_Invalid (child fldPath [''revisionHistoryLimit'']) ''revisionHistoryLimit must be between 0 and 100'')
     @ (case rl_RollingUpdateStrategy rp of
          None \<Rightarrow> []
        | Some strategy \<Rightarrow>
            let strategyPath = child fldPath [''rollingUpdateStrategy'']
            in validateIntOrPercent (child strategyPath [''maxSurge'']) (ru_MaxSurge strategy)
               @ validateIntOrPercent (child strategyPath [''maxUnavailable'']) (ru_MaxUnavailable strategy)
               @ err_if (intOrPercentIsExplicitZero (ru_MaxSurge strategy) \<and> intOrPercentIsExplicitZero (ru_MaxUnavailable strategy))
                   (field_Invalid strategyPath ''maxSurge and maxUnavailable cannot both be zero''))"

definition validAccessControlTypes :: "(string \<times> bool) list" where
  "validAccessControlTypes = [(''configmap'', True), (''properties'', True)]"

definition validate_ingress :: "IngressSpec \<Rightarrow> string \<Rightarrow> FieldError list" where
  "validate_ingress ingress fldPath =
     (let hosts = (case in_Hosts ingress of None \<Rightarrow> [] | Some hs \<Rightarrow> hs)
      in if in_Enabled ingress then
           err_if (hosts = []) (field_Required (child fldPath [''ingress'', ''hosts'']) ''hosts is required when ingress is enabled'')
           @ concat (map (\<lambda>(i, host). err_if (ih_Host host = '''')
                 (field_Required (child (index_path (child fldPath [''ingress'', ''hosts'']) i) [''host'']) ''host is required''))
               (List.enumerate 0 hosts))
         else [])"

definition validateHelmChartConfig :: "HelmChartConfigSpec \<Rightarrow> string \<Rightarrow> FieldError list" where
  "validateHelmChartConfig hcc fldPath =
     (case hc_AccessControl hcc of
        None \<Rightarrow> []
      | Some ac \<Rightarrow>
          err_if (\<not> map_true validAccessControlTypes (normalizeString (ac_Type ac)))
            (field_Invalid (child fldPath [''accessControl'', ''type'']) ''accessControl.type must be one of: configmap, properties'')
          @ err_if (normalizeString (ac_Type ac) = ''configmap'' \<and> ac_ConfigFile ac = '''')
              (field_Required (child fldPath [''accessControl'', ''configFile'']) ''configFile is required when type is configmap''))
     @ (case hc_Ingress hcc of None \<Rightarrow> [] | Some ingress \<Rightarrow> validate_ingress ingress fldPath)
     @ (case Option.bind (hc_Worker hcc) wh_GracefulShutdown of
          None \<Rightarrow> []
        | Some g \<Rightarrow> err_if (gr_Enabled g \<and> gr_GracePeriodSeconds g \<le> 0)
            (field_Invalid (child fldPath [''worker'', ''gracefulShutdown'', ''gracePeriodSeconds''])
              ''gracePeriodSeconds must be greater than 0 when graceful shutdown is enabled''))"

definition validateTrinoControlAuth :: "TrinoControlAuthSpec \<Rightarrow> string \<Rightarrow> FieldError list" where
  "validateTrinoControlAuth auth fldPath =
     err_if (CHR '':'' \<in> set (ta_Username auth)) (field_Invalid (child fldPath [''username'']) (''username must not contain '' @ [CHR 0x27, CHR '':'', CHR 0x27]))
     @ err_if (trim_space (ta_Username auth) \<noteq> ta_Username auth)
         (field_Invalid (child fldPath [''username'']) ''username must not have leading or trailing whitespace'')
     @ (case ta_PasswordSecret auth of
          None \<Rightarrow> [field_Required (child fldPath [''passwordSecret'']) ''passwordSecret is required when trinoControlAuth is set'']
        | Some secret \<Rightarrow>
            err_if (trim_space (sk_Name secret) = '''') (field_Required (child fldPath [''passwordSecret'', ''name'']) ''Secret name must be set'')
            @ err_if (trim_space (sk_Key secret) = '''') (field_Required (child fldPath [''passwordSecret'', ''key'']) ''Secret key must be set''))"

section \<open>Trino properties in the overlay\<close>

definition str_cut :: "string \<Rightarrow> char \<Rightarrow> (string \<times> string) option" where
  "str_cut s d = (case index_byte s d of None \<Rightarrow> None | Some i \<Rightarrow> Some (take i s, drop (Suc i) s))"

definition configPropertyValue :: "string \<Rightarrow> string \<Rightarrow> string option" where
  "configPropertyValue line key =
     (let line = trim_space line
      in if line = '''' \<or> has_prefix line ''#'' then None
         else (case str_cut line CHR ''='' of
                 None \<Rightarrow> None
               | Some (name, v) \<Rightarrow> if trim_space name \<noteq> key then None else Some (trim_space v)))"

definition configPropertyValuesFromText :: "string \<Rightarrow> string \<Rightarrow> string list" where
  "configPropertyValuesFromText txt key = List.map_filter (\<lambda>line. configPropertyValue line key) (split_on CHR 0x0A txt)"

record valuesOverlayConfigSetting =
  cs_value :: string
  cs_path :: string

definition setting :: "string \<Rightarrow> string \<Rightarrow> valuesOverlayConfigSetting" where
  "setting p v = \<lparr> cs_value = v, cs_path = p \<rparr>"

definition strings_of :: "json list \<Rightarrow> string list" where
  "strings_of vs = List.map_filter (\<lambda>v. as_string (Some v)) vs"

definition valuesOverlayConfigPropertySettings ::
  "(string \<times> json) list option \<Rightarrow> string \<Rightarrow> string \<Rightarrow> valuesOverlayConfigSetting list" where
  "valuesOverlayConfigPropertySettings values key fldPath =
     (case values of
        None \<Rightarrow> []
      | Some values \<Rightarrow>
          (case as_array (map_of values ''additionalConfigProperties'') of
             None \<Rightarrow> []
           | Some props \<Rightarrow>
               map (setting (child fldPath [''valuesOverlay'', ''additionalConfigProperties'']))
                 (List.map_filter (\<lambda>p. configPropertyValue p key) (strings_of props)))
          @ (case as_object (map_of values ''server'') of
               None \<Rightarrow> []
             | Some server \<Rightarrow>
                 concat (map (\<lambda>extraConfigField.
                     case as_string (map_of server extraConfigField) of
                       None \<Rightarrow> []
                     | Some extraConfig \<Rightarrow>
                         map (setting (child fldPath [''valuesOverlay'', ''server'', extraConfigField]))
                           (configPropertyValuesFromText extraConfig key))
                   [''coordinatorExtraConfig'', ''workerExtraConfig''])))"

definition valuesOverlayAuthenticationSettings ::
  "(string \<times> json) list option \<Rightarrow> string \<Rightarrow> valuesOverlayConfigSetting list" where
  "valuesOverlayAuthenticationSettings values fldPath =
     (case values of
        None \<Rightarrow> []
      | Some m \<Rightarrow>
          (case as_object (map_of m ''server'') of
             None \<Rightarrow> []
           | Some server \<Rightarrow>
               (case as_object (map_of server ''config'') of
                  None \<Rightarrow> []
                | Some cfg \<Rightarrow>
                    (case as_string (map_of cfg ''authenticationType'') of
                       None \<Rightarrow> []
                     | Some authType \<Rightarrow> [setting (child fldPath [''valuesOverlay'', ''server'', ''config'', ''authenticationType'']) authType])))
          @ valuesOverlayConfigPropertySettings values ''http-server.authentication.type'' fldPath)"

definition valuesOverlayHasConfigProperty :: "(string \<times> json) list option \<Rightarrow> string \<Rightarrow> bool" where
  "valuesOverlayHasConfigProperty values key =
     (case values of
        None \<Rightarrow> False
      | Some values \<Rightarrow>
          (case as_array (map_of values ''additionalConfigProperties'') of
             None \<Rightarrow> False
           | Some props \<Rightarrow>
               (\<exists>p \<in> set (strings_of props).
                  case str_cut p CHR ''='' of
                    None \<Rightarrow> False
                  | Some (name, v) \<Rightarrow> trim_space name = key \<and> trim_space v \<noteq> '''')))"

text \<open>\<open>strings.FieldsFunc\<close>\<close>

fun fields_func :: "(char \<Rightarrow> bool) \<Rightarrow> string \<Rightarrow> string \<Rightarrow> string list" where
  "fields_func p acc [] = (if acc = [] then [] else [acc])"
| "fields_func p acc (c # s) =
     (if p c then (if acc = [] then fields_func p [] s else acc # fields_func p [] s)
      else fields_func p (acc @ [c]) s)"

definition splitTrinoAuthenticationTypes :: "string \<Rightarrow> string list" where
  "splitTrinoAuthenticationTypes authType =
     filter (\<lambda>w. w \<noteq> '''')
       (map (\<lambda>part. to_upper (trim_space part))
         (fields_func (\<lambda>c. c = CHR '','' \<or> c = CHR '' '' \<or> c = CHR 0x09 \<or> c = CHR 0x0A) [] authType))"

definition validateTrinoLifecycleAuthCompatibility :: "XTrinodeSpec \<Rightarrow> string \<Rightarrow> FieldError list" where
  "validateTrinoLifecycleAuthCompatibility s fldPath =
     (let values = GetValuesOverlayMap s;
          authSettings = valuesOverlayAuthenticationSettings values fldPath;
          typed = concat (map (\<lambda>st. map (Pair (cs_path st)) (splitTrinoAuthenticationTypes (cs_value st))) authSettings);
          allErrs = map (\<lambda>(p, _). field_NotSupported p [''PASSWORD'']) (filter (\<lambda>(_, typ). typ \<noteq> ''PASSWORD'') typed);
          hasAuth = (typed \<noteq> []);
          hasPassword = (\<exists>(_, typ) \<in> set typed. typ = ''PASSWORD'')
      in if authSettings = [] then []
         else if \<not> hasAuth then allErrs
         else
           allErrs
           @ err_if (case xs_TrinoControlAuth s of None \<Rightarrow> True | Some a \<Rightarrow> ta_PasswordSecret a = None)
               (field_Required (child fldPath [''trinoControlAuth''])
                 ''trinoControlAuth with passwordSecret is required when Trino HTTP authentication is enabled'')
           @ err_if (hasPassword \<and> \<not> valuesOverlayHasConfigProperty values ''internal-communication.shared-secret'')
               (field_Required (child fldPath [''valuesOverlay'', ''additionalConfigProperties''])
                 ''internal-communication.shared-secret is required when Trino HTTP authentication is enabled''))"

definition validateTrinoLifecycleHTTPCompatibility :: "XTrinodeSpec \<Rightarrow> string \<Rightarrow> FieldError list" where
  "validateTrinoLifecycleHTTPCompatibility s fldPath =
     (let values = GetValuesOverlayMap s
      in map (\<lambda>st. field_Forbidden (cs_path st)
             ''Trino HTTP listener must stay enabled because XTrinode gateway routing and lifecycle control currently use HTTP coordinator service URLs'')
           (filter (\<lambda>st. to_lower (trim_space (cs_value st)) = ''false'')
             (valuesOverlayConfigPropertySettings values ''http-server.http.enabled'' fldPath))
         @ map (\<lambda>st. field_Forbidden (cs_path st)
             ''do not override http-server.http.port directly; configure valuesOverlay.service.port so generated Services, status URLs, and lifecycle control use the same HTTP port'')
           (valuesOverlayConfigPropertySettings values ''http-server.http.port'' fldPath))"

section \<open>Memory against the worker limit\<close>

definition workerMemoryLimitBytes :: "QuantityLib \<Rightarrow> XTrinode \<Rightarrow> int option" where
  "workerMemoryLimitBytes ql t =
     (case resolvedWorkerResourcesForMachineRecommendation ql t of
        None \<Rightarrow> None
      | Some (resources, _) \<Rightarrow>
          if quantity_of (rr_Limits resources) ''memory'' > 0 then Some (ql_Value ql (quantity_of (rr_Limits resources) ''memory''))
          else if quantity_of (rr_Requests resources) ''memory'' > 0 then Some (ql_Value ql (quantity_of (rr_Requests resources) ''memory''))
          else None)"

definition validateTrinoDataSizeAtMost :: "QuantityLib \<Rightarrow> string \<Rightarrow> string \<Rightarrow> int \<Rightarrow> string \<Rightarrow> FieldError list" where
  "validateTrinoDataSizeAtMost ql fldPath v maxBytes message =
     (case parseTrinoDataSizeBytes ql v of
        None \<Rightarrow> [field_Invalid fldPath ''must be a valid Trino data size such as 4GB or 512MB'']
      | Some parsed \<Rightarrow> err_if (parsed > maxBytes) (field_Invalid fldPath message))"

definition validateTrinoMemoryAgainstRuntimeShape :: "QuantityLib \<Rightarrow> XTrinode \<Rightarrow> string \<Rightarrow> FieldError list" where
  "validateTrinoMemoryAgainstRuntimeShape ql t fldPath =
     (case workerMemoryLimitBytes ql t of
        None \<Rightarrow> []
      | Some workerLimit \<Rightarrow>
          if workerLimit \<le> 0 then []
          else
            (case Option.bind (xs_Limits (xt_Spec t)) lm_Session of
               None \<Rightarrow> []
             | Some session \<Rightarrow>
                 if sl_MaxTotalMemoryPerNode session \<noteq> '''' then
                   validateTrinoDataSizeAtMost ql (child fldPath [''limits'', ''session'', ''maxTotalMemoryPerNode''])
                     (sl_MaxTotalMemoryPerNode session) workerLimit
                     ''maxTotalMemoryPerNode must not exceed resolved worker memory limit''
                 else [])
            @ concat (map (\<lambda>key.
                concat (map (\<lambda>st. validateTrinoDataSizeAtMost ql (cs_path st) (cs_value st) workerLimit
                    (key @ '' must not exceed resolved worker memory limit''))
                  (valuesOverlayConfigPropertySettings (GetValuesOverlayMap (xt_Spec t)) key fldPath)))
                [''query.max-memory-per-node'', ''query.max-total-memory-per-node'']))"

section \<open>The whole spec\<close>

definition on_some :: "('a \<Rightarrow> 'e list) \<Rightarrow> 'a option \<Rightarrow> 'e list" where
  "on_some f x = (case x of None \<Rightarrow> [] | Some v \<Rightarrow> f v)"

lemma on_some_Nil: "on_some f x = [] \<longleftrightarrow> (\<forall>v. x = Some v \<longrightarrow> f v = [])"
  by (cases x) (simp_all add: on_some_def)

definition validate_workers :: "XTrinodeSpec \<Rightarrow> FieldError list" where
  "validate_workers s =
     (case xs_MaxWorkers s of
        None \<Rightarrow> []
      | Some n \<Rightarrow>
          err_if (n < 0) (field_Invalid ''spec.maxWorkers'' ''maxWorkers must be at least 0'')
          @ err_if (n > 500) (field_Invalid ''spec.maxWorkers'' ''maxWorkers must be at most 500''))
     @ (case xs_MinWorkers s of
          None \<Rightarrow> []
        | Some m \<Rightarrow>
            err_if (m < 0) (field_Invalid ''spec.minWorkers'' ''minWorkers must be at least 0'')
            @ err_if (case xs_MaxWorkers s of Some n \<Rightarrow> m > n | None \<Rightarrow> False)
                (field_Invalid ''spec.minWorkers'' ''minWorkers must be less than or equal to maxWorkers''))"

text \<open>The collected errors of \<open>validateXTrinode\<close>; the Go function returns nil when there are none and an
  \<open>Invalid\<close> status error with them otherwise.\<close>

definition validateXTrinode :: "QuantityLib \<Rightarrow> env \<Rightarrow> XTrinode \<Rightarrow> FieldError list" where
  "validateXTrinode ql getenv t =
     (let s = xt_Spec t
      in (if xs_Size s = '''' then [field_Required ''spec.size'' ''size is required'']
          else err_if (\<not> map_true ValidSizes (to_lower (xs_Size s)))
            (field_Invalid ''spec.size'' (''size must be one of: '' @ show_list SizeList)))
         @ validate_workers s
         @ on_some (\<lambda>np. validateNodePool ql getenv t np ''spec.nodePool'') (xs_NodePool s)
         @ on_some (\<lambda>r. validateRouting r ''spec.routing'') (xs_Routing s)
         @ on_some (\<lambda>r. validateRuntimeResources r ''spec.resources'') (xs_Resources s)
         @ on_some (\<lambda>p. validatePlacement p ''spec.placement'') (xs_Placement s)
         @ validateNodePoolSchedulePlacement t ''spec''
         @ on_some (\<lambda>k.
             validateKEDA k ''spec.keda''
             @ err_if (kedaAutoscalingActive (Some k) \<and> (case xs_MaxWorkers s of Some n \<Rightarrow> n < 1 | None \<Rightarrow> False))
                 (field_Invalid ''spec.maxWorkers'' ''maxWorkers must be at least 1 when KEDA autoscaling is active'')) (xs_KEDA s)
         @ on_some (\<lambda>tls. validateTLS tls ''spec.tls'') (xs_TLS s)
         @ on_some (\<lambda>l. validateLimits ql l ''spec.limits'') (xs_Limits s)
         @ on_some (\<lambda>fte. validateFaultTolerantExecution fte ''spec.faultTolerantExecution'') (xs_FaultTolerantExecution s)
         @ on_some (\<lambda>d. validateOperatorNodePoolDefaults getenv d ''spec.operatorNodePoolDefaults'') (xs_OperatorNodePoolDefaults s)
         @ on_some (\<lambda>rp. validateRolloutPolicy rp ''spec.rolloutPolicy'') (xs_RolloutPolicy s)
         @ on_some (\<lambda>hcc. validateHelmChartConfig hcc ''spec.helmChartConfig'') (xs_HelmChartConfig s)
         @ on_some (\<lambda>auth. validateTrinoControlAuth auth ''spec.trinoControlAuth'') (xs_TrinoControlAuth s)
         @ validateValuesOverlayPolicy s ''spec.valuesOverlay''
         @ validateAutoscalerOwnership s ''spec''
         @ validateTrinoLifecycleAuthCompatibility s ''spec''
         @ validateTrinoLifecycleHTTPCompatibility s ''spec''
         @ validateTrinoMemoryAgainstRuntimeShape ql t ''spec'')"

end
