(* ===== verification/Webhook.thy ===== *)
theory Webhook
  imports SpecValidation
begin

text \<open>
  Defaulting and validation of the \<open>XTrinode\<close> resource at admission: \<open>xtrinode_webhook.go\<close>,
  \<open>xtrinode_validation_policy.go\<close>, \<open>xtrinode_validation_diff.go\<close>, \<open>xtrinode_validation_warnings.go\<close> and
  \<open>xtrinode_update_checks.go\<close>. The quantity library, the environment, the admission request and the
  answer of the subject access review are parameters.
\<close>

section \<open>Comparing specs\<close>

definition AnnotationAllowBreakingUpdate :: string where
  "AnnotationAllowBreakingUpdate = ''xtrinode.analytics.xtrinode.io/allow-breaking-spec-update''"

definition getSizeOrder :: "string \<Rightarrow> int" where
  "getSizeOrder sz = map_int SizeOrder (normalizeString sz)"

definition isSizeUpgrade :: "string \<Rightarrow> string \<Rightarrow> bool" where
  "isSizeUpgrade oldSize newSize \<longleftrightarrow> getSizeOrder newSize > getSizeOrder oldSize"

definition isSizeDowngrade :: "string \<Rightarrow> string \<Rightarrow> bool" where
  "isSizeDowngrade oldSize newSize \<longleftrightarrow> getSizeOrder newSize < getSizeOrder oldSize"

definition hasBreakGlassAnnotation :: "XTrinode \<Rightarrow> bool" where
  "hasBreakGlassAnnotation t \<longleftrightarrow> map_of (xt_Annotations t) AnnotationAllowBreakingUpdate = Some ''true''"

definition comparePointerInt32 :: "int option \<Rightarrow> int option \<Rightarrow> bool" where
  "comparePointerInt32 old newVal =
     (case (old, newVal) of (None, None) \<Rightarrow> False | (Some a, Some b) \<Rightarrow> a \<noteq> b | _ \<Rightarrow> True)"

definition comparePointerBool :: "bool option \<Rightarrow> bool option \<Rightarrow> bool" where
  "comparePointerBool old newVal =
     (case (old, newVal) of (None, None) \<Rightarrow> False | (Some a, Some b) \<Rightarrow> a \<noteq> b | _ \<Rightarrow> True)"

definition compareStringSlices :: "string list \<Rightarrow> string list \<Rightarrow> bool" where
  "compareStringSlices old newVal \<longleftrightarrow> length old \<noteq> length newVal \<or> (\<exists>i \<in> set [0..<length old]. old ! i \<noteq> newVal ! i)"

text \<open>A missing key of the new map reads as the empty string.\<close>

definition compareStringMaps :: "str_map \<Rightarrow> str_map \<Rightarrow> bool" where
  "compareStringMaps old newVal \<longleftrightarrow>
     length old \<noteq> length newVal
     \<or> (\<exists>(k, v) \<in> set old. (case map_of newVal k of Some w \<Rightarrow> w | None \<Rightarrow> '''') \<noteq> v)"

definition compareValuesOverlay :: "string option \<Rightarrow> string option \<Rightarrow> bool" where
  "compareValuesOverlay old newVal =
     (case (old, newVal) of
        (None, None) \<Rightarrow> False
      | (Some oldRaw, Some newRaw) \<Rightarrow>
          if oldRaw = newRaw then False
          else (case unmarshal_map oldRaw of
                  None \<Rightarrow> oldRaw \<noteq> newRaw
                | Some oldMap \<Rightarrow>
                    (case unmarshal_map newRaw of None \<Rightarrow> oldRaw \<noteq> newRaw | Some newMap \<Rightarrow> oldMap \<noteq> newMap))
      | _ \<Rightarrow> True)"

definition nodePoolPresenceChanged :: "XTrinode \<Rightarrow> XTrinode \<Rightarrow> bool" where
  "nodePoolPresenceChanged old newVal \<longleftrightarrow> (xs_NodePool (xt_Spec old) = None) \<noteq> (xs_NodePool (xt_Spec newVal) = None)"

definition routingPresenceChanged :: "XTrinode \<Rightarrow> XTrinode \<Rightarrow> bool" where
  "routingPresenceChanged old newVal \<longleftrightarrow> (xs_Routing (xt_Spec old) = None) \<noteq> (xs_Routing (xt_Spec newVal) = None)"

definition kedaPresenceChanged :: "XTrinode \<Rightarrow> XTrinode \<Rightarrow> bool" where
  "kedaPresenceChanged old newVal \<longleftrightarrow> (xs_KEDA (xt_Spec old) = None) \<noteq> (xs_KEDA (xt_Spec newVal) = None)"

definition helmChartConfigPresenceChanged :: "XTrinode \<Rightarrow> XTrinode \<Rightarrow> bool" where
  "helmChartConfigPresenceChanged old newVal \<longleftrightarrow>
     (xs_HelmChartConfig (xt_Spec old) = None) \<noteq> (xs_HelmChartConfig (xt_Spec newVal) = None)"

definition routingIdentityChanged :: "XTrinode \<Rightarrow> XTrinode \<Rightarrow> bool" where
  "routingIdentityChanged old newVal =
     (case (xs_Routing (xt_Spec old), xs_Routing (xt_Spec newVal)) of
        (None, None) \<Rightarrow> False
      | (Some oldR, Some newR) \<Rightarrow>
          ro_RoutingGroup oldR \<noteq> ro_RoutingGroup newR \<or> ro_Hostname oldR \<noteq> ro_Hostname newR
          \<or> ro_HostnameDomain oldR \<noteq> ro_HostnameDomain newR \<or> ro_Header oldR \<noteq> ro_Header newR
          \<or> ro_Default oldR \<noteq> ro_Default newR
      | _ \<Rightarrow> True)"

definition nodePoolIdentityChanged :: "XTrinode \<Rightarrow> XTrinode \<Rightarrow> bool" where
  "nodePoolIdentityChanged old newVal =
     (case (xs_NodePool (xt_Spec old), xs_NodePool (xt_Spec newVal)) of
        (None, None) \<Rightarrow> False
      | (Some oldNP, Some newNP) \<Rightarrow>
          normalizeString (np_Provider oldNP) \<noteq> normalizeString (np_Provider newNP)
          \<or> np_Name oldNP \<noteq> np_Name newNP \<or> np_ClusterName oldNP \<noteq> np_ClusterName newNP
      | _ \<Rightarrow> True)"

definition nodePoolShapeChanged :: "XTrinode \<Rightarrow> XTrinode \<Rightarrow> bool" where
  "nodePoolShapeChanged old newVal =
     (case (xs_NodePool (xt_Spec old), xs_NodePool (xt_Spec newVal)) of
        (Some oldNP, Some newNP) \<Rightarrow>
          if comparePointerInt32 (np_OSDiskGB oldNP) (np_OSDiskGB newNP) then True
          else if np_Spot oldNP \<noteq> np_Spot newNP then True
          else
            let provider = normalizeString (np_Provider newNP)
            in if provider = ''azure'' then
                 (case (np_Azure oldNP, np_Azure newNP) of
                    (Some a, Some b) \<Rightarrow> az_VMSize a \<noteq> az_VMSize b \<or> az_OSDiskType a \<noteq> az_OSDiskType b
                  | _ \<Rightarrow> False)
               else if provider = ''aws'' then
                 (case (np_AWS oldNP, np_AWS newNP) of
                    (Some a, Some b) \<Rightarrow> aw_InstanceType a \<noteq> aw_InstanceType b \<or> aw_VolumeType a \<noteq> aw_VolumeType b
                  | _ \<Rightarrow> False)
               else if provider = ''gcp'' then
                 (case (np_GCP oldNP, np_GCP newNP) of
                    (Some a, Some b) \<Rightarrow> gc_MachineType a \<noteq> gc_MachineType b \<or> gc_DiskType a \<noteq> gc_DiskType b
                  | _ \<Rightarrow> False)
               else False
      | _ \<Rightarrow> False)"

definition nodePoolSchedulingChanged :: "XTrinode \<Rightarrow> XTrinode \<Rightarrow> bool" where
  "nodePoolSchedulingChanged old newVal =
     (case (xs_NodePool (xt_Spec old), xs_NodePool (xt_Spec newVal)) of
        (Some oldNP, Some newNP) \<Rightarrow>
          compareStringSlices (np_Zones oldNP) (np_Zones newNP)
          \<or> compareStringMaps (np_NodeLabels oldNP) (np_NodeLabels newNP)
          \<or> compareStringMaps (np_ResourceTags oldNP) (np_ResourceTags newNP)
          \<or> np_NodeTaints oldNP \<noteq> np_NodeTaints newNP
      | _ \<Rightarrow> False)"

definition normalizeNodePoolDeletionPolicy :: "NodePoolSpec \<Rightarrow> string" where
  "normalizeNodePoolDeletionPolicy nodePool =
     (if np_DeletionPolicy nodePool = '''' then NodePoolDeletionPolicyDelete else np_DeletionPolicy nodePool)"

definition nodePoolDeletionPolicyChanged :: "XTrinode \<Rightarrow> XTrinode \<Rightarrow> bool" where
  "nodePoolDeletionPolicyChanged old newVal =
     (case (xs_NodePool (xt_Spec old), xs_NodePool (xt_Spec newVal)) of
        (Some oldNP, Some newNP) \<Rightarrow> normalizeNodePoolDeletionPolicy oldNP \<noteq> normalizeNodePoolDeletionPolicy newNP
      | _ \<Rightarrow> False)"

definition workerScalingChanged :: "XTrinode \<Rightarrow> XTrinode \<Rightarrow> bool" where
  "workerScalingChanged old newXTrinode =
     (case (xs_MaxWorkers (xt_Spec old), xs_MaxWorkers (xt_Spec newXTrinode)) of
        (Some oldVal, Some newVal) \<Rightarrow>
          if oldVal = 0 then newVal > 0
          else (case f64_round (of_int newVal / of_int oldVal) of
                  Fin ratio \<Rightarrow> ratio > 2 \<or> ratio < 1 / 2
                | _ \<Rightarrow> False)
      | _ \<Rightarrow> False)"

section \<open>Update checks\<close>

record updateCtx =
  uc_breakGlassEnabled :: bool
  uc_breakGlassReq :: "string list"
  uc_warnings :: "string list"

definition newUpdateCtx :: "XTrinode \<Rightarrow> updateCtx" where
  "newUpdateCtx newObj =
     \<lparr> uc_breakGlassEnabled = hasBreakGlassAnnotation newObj, uc_breakGlassReq = [], uc_warnings = [] \<rparr>"

definition warn :: "string \<Rightarrow> updateCtx \<Rightarrow> updateCtx" where
  "warn w c = c\<lparr>uc_warnings := uc_warnings c @ [w]\<rparr>"

definition requireBreakGlass :: "string \<Rightarrow> updateCtx \<Rightarrow> updateCtx" where
  "requireBreakGlass reason c =
     (if reason \<in> set (uc_breakGlassReq c) then c else c\<lparr>uc_breakGlassReq := uc_breakGlassReq c @ [reason]\<rparr>)"

definition breakGlassReasons :: "updateCtx \<Rightarrow> string list" where
  "breakGlassReasons c = uc_breakGlassReq c"

definition warn_if :: "bool \<Rightarrow> string \<Rightarrow> updateCtx \<Rightarrow> updateCtx" where
  "warn_if b w c = (if b then warn w c else c)"

text \<open>A gated change: it needs the annotation, and is announced by a warning when that is present.\<close>

definition gate :: "string \<Rightarrow> string \<Rightarrow> updateCtx \<Rightarrow> updateCtx" where
  "gate reason w c = warn_if (uc_breakGlassEnabled c) w (requireBreakGlass reason c)"

definition changed_names :: "(bool \<times> string) list \<Rightarrow> string" where
  "changed_names fs = join_sep '', '' (map snd (filter fst fs))"

definition checkSizeChange :: "XTrinode \<Rightarrow> XTrinode \<Rightarrow> updateCtx \<Rightarrow> updateCtx" where
  "checkSizeChange oldObj newObj c =
     (let oldSize = xs_Size (xt_Spec oldObj); newSize = xs_Size (xt_Spec newObj)
      in if oldSize = newSize then c
         else if isSizeUpgrade oldSize newSize then
           warn (''size change from '' @ oldSize @ '' to '' @ newSize @ '' will roll out new pods; expect coordinator/worker restarts'') c
         else if isSizeDowngrade oldSize newSize then
           gate ''spec.size (downgrade)''
             (''size downgrade from '' @ oldSize @ '' to '' @ newSize
               @ '' can cause resource pressure; prefer drain+replace; break-glass accepted'') c
         else c)"

definition checkWorkerScaling :: "XTrinode \<Rightarrow> XTrinode \<Rightarrow> updateCtx \<Rightarrow> updateCtx" where
  "checkWorkerScaling oldObj newObj c =
     (if workerScalingChanged oldObj newObj then
        case (xs_MaxWorkers (xt_Spec oldObj), xs_MaxWorkers (xt_Spec newObj)) of
          (Some oldMax, Some newMax) \<Rightarrow>
            warn (''maxWorkers change from '' @ show_int oldMax @ '' to '' @ show_int newMax
                    @ '' (>2x) changes quota/limits and can amplify blast radius'') c
        | _ \<Rightarrow> c
      else c)"

definition checkSuspended :: "XTrinode \<Rightarrow> XTrinode \<Rightarrow> updateCtx \<Rightarrow> updateCtx" where
  "checkSuspended oldObj newObj =
     warn_if (xs_Suspended (xt_Spec oldObj) \<noteq> xs_Suspended (xt_Spec newObj) \<and> xs_Suspended (xt_Spec newObj))
       ''suspending runtime implies service disruption''"

definition pool_warning :: "string \<Rightarrow> string" where
  "pool_warning field = ''node pool '' @ field @ '' change often triggers node replacement/rebalancing''"

definition checkNodePoolChanges :: "XTrinode \<Rightarrow> XTrinode \<Rightarrow> updateCtx \<Rightarrow> updateCtx" where
  "checkNodePoolChanges oldObj newObj c =
     (let old = xs_NodePool (xt_Spec oldObj);
          new = xs_NodePool (xt_Spec newObj);
          c = (if nodePoolPresenceChanged oldObj newObj then
                 gate ''spec.nodePool (presence)''
                   (if new \<noteq> None then ''adding node pool changes infra ownership; break-glass accepted''
                    else ''removing node pool releases infra ownership; break-glass accepted'') c
               else c);
          c = (if nodePoolIdentityChanged oldObj newObj then
                 gate ''spec.nodePool identity''
                   (''node pool identity change (''
                     @ (case (old, new) of
                          (Some a, Some b) \<Rightarrow>
                            changed_names [(normalizeString (np_Provider a) \<noteq> normalizeString (np_Provider b), ''provider''),
                              (np_Name a \<noteq> np_Name b, ''name''), (np_ClusterName a \<noteq> np_ClusterName b, ''clusterName'')]
                        | _ \<Rightarrow> '''')
                     @ '') triggers infra re-provisioning; break-glass accepted'') c
               else c);
          c = (if nodePoolShapeChanged oldObj newObj then
                 gate ''spec.nodePool shape'' ''node pool shape change likely triggers node replacement; break-glass accepted'' c
               else c)
      in case (old, new) of
           (Some a, Some b) \<Rightarrow>
             let sched = nodePoolSchedulingChanged oldObj newObj;
                 c = warn_if (sched \<and> compareStringSlices (np_Zones a) (np_Zones b)) (pool_warning ''zones'') c;
                 c = warn_if (sched \<and> compareStringMaps (np_NodeLabels a) (np_NodeLabels b)) (pool_warning ''node labels'') c;
                 c = warn_if (sched \<and> compareStringMaps (np_ResourceTags a) (np_ResourceTags b)) (pool_warning ''resource tags'') c;
                 c = warn_if (sched \<and> np_NodeTaints a \<noteq> np_NodeTaints b) (pool_warning ''node taints'') c;
                 c = warn_if (np_Prewarm a \<noteq> np_Prewarm b) ''node pool prewarm change alters node provisioning behavior'' c
             in if nodePoolDeletionPolicyChanged oldObj newObj then
                  warn ''nodePool deletionPolicy change affects whether provider node-pool resources are deleted or retained during finalization''
                    (if normalizeNodePoolDeletionPolicy a \<noteq> NodePoolDeletionPolicyDelete
                        \<and> normalizeNodePoolDeletionPolicy b = NodePoolDeletionPolicyDelete
                     then requireBreakGlass ''spec.nodePool.deletionPolicy'' c else c)
                else c
         | _ \<Rightarrow> c)"

definition checkRoutingChanges :: "XTrinode \<Rightarrow> XTrinode \<Rightarrow> updateCtx \<Rightarrow> updateCtx" where
  "checkRoutingChanges oldObj newObj c =
     (let old = xs_Routing (xt_Spec oldObj);
          new = xs_Routing (xt_Spec newObj);
          c = (if routingPresenceChanged oldObj newObj then
                 gate ''spec.routing (presence)''
                   (if new \<noteq> None then ''adding routing changes how clients must target the runtime; break-glass accepted''
                    else ''removing routing can make the route unreachable; break-glass accepted'') c
               else c)
      in if routingIdentityChanged oldObj newObj then
           gate ''spec.routing identity''
             (''routing selector change (''
               @ (case (old, new) of
                    (Some a, Some b) \<Rightarrow>
                      changed_names [(ro_RoutingGroup a \<noteq> ro_RoutingGroup b, ''routingGroup''), (ro_Hostname a \<noteq> ro_Hostname b, ''hostname''),
                        (ro_HostnameDomain a \<noteq> ro_HostnameDomain b, ''hostnameDomain''), (ro_Header a \<noteq> ro_Header b, ''header''),
                        (ro_Default a \<noteq> ro_Default b, ''default'')]
                  | _ \<Rightarrow> '''')
               @ '') can break clients and reroute traffic; break-glass accepted'') c
         else c)"

definition checkCatalogSelector :: "XTrinode \<Rightarrow> XTrinode \<Rightarrow> updateCtx \<Rightarrow> updateCtx" where
  "checkCatalogSelector oldObj newObj =
     warn_if (xs_CatalogSelector (xt_Spec oldObj) \<noteq> xs_CatalogSelector (xt_Spec newObj))
       ''catalogSelector change can trigger mounts/config changes and a rollout''"

definition checkResourceGroupsProfile :: "XTrinode \<Rightarrow> XTrinode \<Rightarrow> updateCtx \<Rightarrow> updateCtx" where
  "checkResourceGroupsProfile oldObj newObj =
     warn_if (xs_ResourceGroupsProfile (xt_Spec oldObj) \<noteq> xs_ResourceGroupsProfile (xt_Spec newObj))
       ''resourceGroupsProfile change likely triggers rollout''"

definition checkCustomConfigMaps :: "XTrinode \<Rightarrow> XTrinode \<Rightarrow> updateCtx \<Rightarrow> updateCtx" where
  "checkCustomConfigMaps oldObj newObj =
     warn_if (compareStringSlices (xs_CustomConfigMaps (xt_Spec oldObj)) (xs_CustomConfigMaps (xt_Spec newObj)))
       ''customConfigMaps change likely triggers rollout''"

definition checkLimits :: "XTrinode \<Rightarrow> XTrinode \<Rightarrow> updateCtx \<Rightarrow> updateCtx" where
  "checkLimits oldObj newObj =
     warn_if (xs_Limits (xt_Spec oldObj) \<noteq> xs_Limits (xt_Spec newObj)) ''limits change alters runtime guardrails''"

definition buildValuesOverlayChangeWarning :: string where
  "buildValuesOverlayChangeWarning =
     ''valuesOverlay is privileged input that can alter pod security, volumes, images, networking, and rollout behavior; review carefully''"

definition checkValuesOverlay :: "XTrinode \<Rightarrow> XTrinode \<Rightarrow> updateCtx \<Rightarrow> updateCtx" where
  "checkValuesOverlay oldObj newObj =
     warn_if (compareValuesOverlay (xs_ValuesOverlay (xt_Spec oldObj)) (xs_ValuesOverlay (xt_Spec newObj)))
       buildValuesOverlayChangeWarning"

definition checkFaultTolerantExecution :: "XTrinode \<Rightarrow> XTrinode \<Rightarrow> updateCtx \<Rightarrow> updateCtx" where
  "checkFaultTolerantExecution oldObj newObj =
     warn_if (xs_FaultTolerantExecution (xt_Spec oldObj) \<noteq> xs_FaultTolerantExecution (xt_Spec newObj))
       ''fault-tolerant execution changes can materially change cluster behavior/perf characteristics''"

definition buildKEDAConfigChangeWarning :: "string \<Rightarrow> string" where
  "buildKEDAConfigChangeWarning field = ''KEDA '' @ field @ '' change alters autoscaling behavior''"

definition checkKEDAChanges :: "XTrinode \<Rightarrow> XTrinode \<Rightarrow> updateCtx \<Rightarrow> updateCtx" where
  "checkKEDAChanges oldObj newObj c =
     (let old = xs_KEDA (xt_Spec oldObj);
          new = xs_KEDA (xt_Spec newObj);
          c = warn_if (kedaPresenceChanged oldObj newObj)
                (if new \<noteq> None then ''adding KEDA creates autoscaling resources; behavior shift expected''
                 else ''removing KEDA deletes autoscaling resources; behavior shift expected'') c
      in case (old, new) of
           (Some a, Some b) \<Rightarrow>
             fold (\<lambda>(changed, field). warn_if changed (buildKEDAConfigChangeWarning field))
               [(kd_ScalerType a \<noteq> kd_ScalerType b, ''scalerType''),
                (kd_ScalingMetric a \<noteq> kd_ScalingMetric b, ''scalingMetric''),
                (comparePointerBool (kd_Enabled a) (kd_Enabled b), ''enabled''),
                (kd_Threshold a \<noteq> kd_Threshold b, ''threshold''),
                (kd_PrometheusServer a \<noteq> kd_PrometheusServer b, ''prometheusServer''),
                (kd_PrometheusQuery a \<noteq> kd_PrometheusQuery b, ''prometheusQuery''),
                (kd_HTTPEndpoint a \<noteq> kd_HTTPEndpoint b, ''httpEndpoint''),
                (kd_HTTPValueLocation a \<noteq> kd_HTTPValueLocation b, ''httpValueLocation''),
                (kd_ScaleDownCooldown a \<noteq> kd_ScaleDownCooldown b, ''scaleDownCooldown''),
                (kd_ScaleUpCooldown a \<noteq> kd_ScaleUpCooldown b, ''scaleUpCooldown''),
                (kd_JMXExporter a \<noteq> kd_JMXExporter b, ''jmxExporter'')] c
         | _ \<Rightarrow> c)"

definition checkTLSChanges :: "XTrinode \<Rightarrow> XTrinode \<Rightarrow> updateCtx \<Rightarrow> updateCtx" where
  "checkTLSChanges oldObj newObj =
     warn_if (xs_TLS (xt_Spec oldObj) \<noteq> xs_TLS (xt_Spec newObj))
       ''TLS change usually forces restarts and can break connectivity if misconfigured''"

definition checkHelmChartConfigChanges :: "XTrinode \<Rightarrow> XTrinode \<Rightarrow> updateCtx \<Rightarrow> updateCtx" where
  "checkHelmChartConfigChanges oldObj newObj =
     warn_if (helmChartConfigPresenceChanged oldObj newObj
              \<or> xs_HelmChartConfig (xt_Spec oldObj) \<noteq> xs_HelmChartConfig (xt_Spec newObj))
       ''helmChartConfig change can trigger rollouts''"

definition checkOperatorNodePoolDefaults :: "XTrinode \<Rightarrow> XTrinode \<Rightarrow> updateCtx \<Rightarrow> updateCtx" where
  "checkOperatorNodePoolDefaults oldObj newObj =
     warn_if (xs_OperatorNodePoolDefaults (xt_Spec oldObj) \<noteq> xs_OperatorNodePoolDefaults (xt_Spec newObj))
       ''operatorNodePoolDefaults change can affect node pool defaults and infra outcomes''"

section \<open>Defaulting\<close>

text \<open>The machine type of the pool, filled in where the provider block leaves it empty.\<close>

definition default_machine_type :: "string \<Rightarrow> string \<Rightarrow> NodePoolSpec \<Rightarrow> NodePoolSpec" where
  "default_machine_type provider recommended np =
     (if provider = ''azure'' then
        let a = (case np_Azure np of None \<Rightarrow> \<lparr> az_VMSize = '''', az_OSDiskType = '''' \<rparr> | Some a \<Rightarrow> a)
        in np\<lparr>np_Azure := Some (if az_VMSize a = '''' then a\<lparr>az_VMSize := recommended\<rparr> else a)\<rparr>
      else if provider = ''aws'' then
        let a = (case np_AWS np of None \<Rightarrow> \<lparr> aw_InstanceType = '''', aw_VolumeType = '''' \<rparr> | Some a \<Rightarrow> a)
        in np\<lparr>np_AWS := Some (if aw_InstanceType a = '''' then a\<lparr>aw_InstanceType := recommended\<rparr> else a)\<rparr>
      else if provider = ''gcp'' then
        let g = (case np_GCP np of None \<Rightarrow> \<lparr> gc_MachineType = '''', gc_DiskType = '''' \<rparr> | Some g \<Rightarrow> g)
        in np\<lparr>np_GCP := Some (if gc_MachineType g = '''' then g\<lparr>gc_MachineType := recommended\<rparr> else g)\<rparr>
      else np)"

definition default_pool :: "QuantityLib \<Rightarrow> XTrinode \<Rightarrow> NodePoolSpec \<Rightarrow> NodePoolSpec" where
  "default_pool ql t np =
     (let np = (if np_Name np = '''' then np\<lparr>np_Name := xt_Name t @ ''-pool''\<rparr> else np);
          np = (if np_DeletionPolicy np = '''' then np\<lparr>np_DeletionPolicy := NodePoolDeletionPolicyDelete\<rparr> else np)
      in if xs_Size (xt_Spec t) \<noteq> '''' then
           let provider = to_lower (np_Provider np);
               recommendedMachineType = fst (recommendedNodePoolMachineType ql t provider)
           in if recommendedMachineType \<noteq> '''' then default_machine_type provider recommendedMachineType np else np
         else np)"

definition Default :: "QuantityLib \<Rightarrow> XTrinode \<Rightarrow> XTrinode" where
  "Default ql t =
     (let s = xt_Spec t;
          s = (if xs_MinWorkers s = None then s\<lparr>xs_MinWorkers := Some 0\<rparr> else s);
          s = (if xs_AutoSuspendAfter s = None then s\<lparr>xs_AutoSuspendAfter := Some (5 * minute)\<rparr> else s)
      in t\<lparr>xt_Spec := s\<lparr>xs_NodePool := map_option (default_pool ql t) (xs_NodePool s)\<rparr>\<rparr>)"

section \<open>Validation\<close>

datatype AdmissionError = InvalidErr string "FieldError list" | TypeErr string

definition invalid :: "XTrinode \<Rightarrow> FieldError list \<Rightarrow> AdmissionError option" where
  "invalid t errs = (if errs = [] then None else Some (InvalidErr (xt_Name t) errs))"

definition validateCreateWarnings :: "QuantityLib \<Rightarrow> XTrinode \<Rightarrow> string list" where
  "validateCreateWarnings ql t =
     err_if (xs_ValuesOverlay (xt_Spec t) \<noteq> None) buildValuesOverlayChangeWarning
     @ nodePoolPlacementWarnings t @ nodePoolFitWarnings ql t"

definition ValidateCreate :: "QuantityLib \<Rightarrow> env \<Rightarrow> XTrinode \<Rightarrow> string list \<times> AdmissionError option" where
  "ValidateCreate ql getenv t = (validateCreateWarnings ql t, invalid t (validateXTrinode ql getenv t))"

definition update_checks :: "(XTrinode \<Rightarrow> XTrinode \<Rightarrow> updateCtx \<Rightarrow> updateCtx) list" where
  "update_checks =
     [checkSizeChange, checkWorkerScaling, checkSuspended, checkNodePoolChanges, checkRoutingChanges,
      checkCatalogSelector, checkResourceGroupsProfile, checkCustomConfigMaps, checkLimits, checkValuesOverlay,
      checkFaultTolerantExecution, checkKEDAChanges, checkTLSChanges, checkHelmChartConfigChanges,
      checkOperatorNodePoolDefaults]"

definition validateXTrinodeUpdate ::
  "QuantityLib \<Rightarrow> env \<Rightarrow> XTrinode \<Rightarrow> XTrinode \<Rightarrow> string list \<times> AdmissionError option" where
  "validateXTrinodeUpdate ql getenv old t =
     (case invalid t (validateXTrinode ql getenv t) of
        Some err \<Rightarrow> ([], Some err)
      | None \<Rightarrow>
          let c = fold (\<lambda>chk. chk old t) update_checks (newUpdateCtx t);
              reasons = breakGlassReasons c
          in if reasons \<noteq> [] \<and> \<not> uc_breakGlassEnabled c then
               (uc_warnings c,
                Some (InvalidErr (xt_Name t)
                  [field_Forbidden ''spec''
                     (''the following changes require break-glass annotation ('' @ AnnotationAllowBreakingUpdate
                       @ CHR ''='' # go_quote ''true'' @ ''): '' @ join_sep '', '' reasons)]))
             else
               let c = warn_if (uc_breakGlassEnabled c \<and> reasons = []) ''break-glass annotation present but no gated changes detected'' c
               in (uc_warnings c @ nodePoolPlacementWarnings t @ nodePoolFitWarnings ql t, None))"

section \<open>Privileged fields\<close>

record UserInfo =
  us_Username :: string
  us_UID :: string
  us_Groups :: "string list"
  us_Extra :: "(string \<times> string list) list"

record SubjectAccessReviewSpec =
  rv_User :: string
  rv_Groups :: "string list"
  rv_UID :: string
  rv_Extra :: "(string \<times> string list) list"
  rv_Namespace :: string
  rv_Verb :: string
  rv_Group :: string
  rv_Resource :: string
  rv_Subresource :: string

record SubjectAccessReviewStatus =
  ss_Allowed :: bool
  ss_Reason :: string
  ss_EvaluationError :: string

text \<open>The API server's answer to a review is the client's \<open>create\<close>; a missing client is \<open>None\<close>.\<close>

type_synonym sar_client = "SubjectAccessReviewSpec \<Rightarrow> string + SubjectAccessReviewStatus"

definition valuesOverlayRBACResource :: string where
  "valuesOverlayRBACResource = ''xtrinodes/valuesoverlay''"

definition review_of :: "UserInfo \<Rightarrow> string \<Rightarrow> SubjectAccessReviewSpec" where
  "review_of req namespace =
     \<lparr> rv_User = us_Username req, rv_Groups = us_Groups req, rv_UID = us_UID req, rv_Extra = us_Extra req,
       rv_Namespace = namespace, rv_Verb = ''update'', rv_Group = ''analytics.xtrinode.io'',
       rv_Resource = ''xtrinodes'', rv_Subresource = ''valuesoverlay'' \<rparr>"

definition Allowed :: "sar_client option \<Rightarrow> UserInfo \<Rightarrow> string \<Rightarrow> string + (bool \<times> string)" where
  "Allowed client req namespace =
     (case client of
        None \<Rightarrow> Inr (False, ''valuesOverlay admission authorizer is not configured'')
      | Some create \<Rightarrow>
          (case create (review_of req namespace) of
             Inl err \<Rightarrow> Inl (''failed to evaluate valuesOverlay authorization: '' @ err)
           | Inr st \<Rightarrow>
               if ss_Allowed st then Inr (True, '''')
               else if ss_Reason st \<noteq> '''' then Inr (False, ss_Reason st)
               else if ss_EvaluationError st \<noteq> '''' then Inr (False, ss_EvaluationError st)
               else Inr (False, ''user lacks update permission on analytics.xtrinode.io/'' @ valuesOverlayRBACResource)))"

definition valuesOverlayChanged :: "XTrinode option \<Rightarrow> XTrinode \<Rightarrow> bool" where
  "valuesOverlayChanged oldObj newObj =
     (case oldObj of
        None \<Rightarrow> xs_ValuesOverlay (xt_Spec newObj) \<noteq> None
      | Some old \<Rightarrow> compareValuesOverlay (xs_ValuesOverlay (xt_Spec old)) (xs_ValuesOverlay (xt_Spec newObj)))"

definition privilegedHelmChartConfigChanged :: "XTrinode option \<Rightarrow> XTrinode \<Rightarrow> bool" where
  "privilegedHelmChartConfigChanged oldObj newObj =
     (case oldObj of
        None \<Rightarrow> xs_HelmChartConfig (xt_Spec newObj) \<noteq> None
      | Some old \<Rightarrow> xs_HelmChartConfig (xt_Spec old) \<noteq> xs_HelmChartConfig (xt_Spec newObj))"

definition privilegedSpecChangeReasons :: "XTrinode option \<Rightarrow> XTrinode \<Rightarrow> string list" where
  "privilegedSpecChangeReasons oldObj newObj =
     err_if (valuesOverlayChanged oldObj newObj) ''spec.valuesOverlay''
     @ err_if (privilegedHelmChartConfigChanged oldObj newObj) ''spec.helmChartConfig''"

text \<open>The webhook's authorizer; \<open>None\<close> when it is not configured. The request is the one the admission
  library put into the context, if any.\<close>

type_synonym authorizer = "UserInfo \<Rightarrow> string \<Rightarrow> string + (bool \<times> string)"

definition validatePrivilegedSpecAdmission ::
  "authorizer option \<Rightarrow> UserInfo option \<Rightarrow> XTrinode option \<Rightarrow> XTrinode \<Rightarrow> AdmissionError option" where
  "validatePrivilegedSpecAdmission auth request oldObj newObj =
     (let reasons = privilegedSpecChangeReasons oldObj newObj;
          fields = join_sep '', '' reasons;
          fail = (\<lambda>e. Some (InvalidErr (xt_Name newObj) [e]))
      in if reasons = [] then None
         else case request of
           None \<Rightarrow> fail (field_Forbidden ''spec'' (''privileged fields ('' @ fields @ '') require admission request user info''))
         | Some req \<Rightarrow>
             (case auth of
                None \<Rightarrow> fail (field_Forbidden ''spec''
                  (''privileged fields ('' @ fields @ '') require admission authorization, but it is not configured''))
              | Some allowed_by \<Rightarrow>
                  (case allowed_by req (xt_Namespace newObj) of
                     Inl err \<Rightarrow> fail (field_InternalError ''spec'' err)
                   | Inr (allowed, reason) \<Rightarrow>
                       if allowed then None
                       else
                         let message = ''privileged fields ('' @ fields @ '') require update permission on analytics.xtrinode.io/''
                                         @ valuesOverlayRBACResource
                         in fail (field_Forbidden ''spec''
                              (if trim_space reason \<noteq> '''' then message @ '': '' @ reason else message)))))"

section \<open>The admission handlers\<close>

text \<open>An object of the admission request: the resource, or something else with its type name.\<close>

datatype runtime_object = XTrinodeObject XTrinode | OtherObject string

record XTrinodeWebhook =
  xw_authorizer :: "authorizer option"

definition SetupWebhookWithManager :: "sar_client option \<Rightarrow> XTrinodeWebhook" where
  "SetupWebhookWithManager client = \<lparr> xw_authorizer = Some (Allowed client) \<rparr>"

fun webhook_Default :: "QuantityLib \<Rightarrow> runtime_object \<Rightarrow> AdmissionError + XTrinode" where
  "webhook_Default ql (XTrinodeObject t) = Inr (Default ql t)"
| "webhook_Default ql (OtherObject ty) = Inl (TypeErr (''expected XTrinode, got '' @ ty))"

fun webhook_ValidateCreate ::
  "XTrinodeWebhook \<Rightarrow> QuantityLib \<Rightarrow> env \<Rightarrow> UserInfo option \<Rightarrow> runtime_object \<Rightarrow> string list \<times> AdmissionError option" where
  "webhook_ValidateCreate w ql getenv req (XTrinodeObject t) =
     (case ValidateCreate ql getenv t of
        (warnings, Some err) \<Rightarrow> (warnings, Some err)
      | (warnings, None) \<Rightarrow> (warnings, validatePrivilegedSpecAdmission (xw_authorizer w) req None t))"
| "webhook_ValidateCreate w ql getenv req (OtherObject ty) = ([], Some (TypeErr (''expected XTrinode, got '' @ ty)))"

fun ValidateUpdate :: "QuantityLib \<Rightarrow> env \<Rightarrow> runtime_object \<Rightarrow> XTrinode \<Rightarrow> string list \<times> AdmissionError option" where
  "ValidateUpdate ql getenv (XTrinodeObject old) t = validateXTrinodeUpdate ql getenv old t"
| "ValidateUpdate ql getenv (OtherObject ty) t = ([], Some (TypeErr ''expected old object to be of type XTrinode''))"

fun webhook_ValidateUpdate ::
  "XTrinodeWebhook \<Rightarrow> QuantityLib \<Rightarrow> env \<Rightarrow> UserInfo option \<Rightarrow> runtime_object \<Rightarrow> runtime_object
     \<Rightarrow> string list \<times> AdmissionError option" where
  "webhook_ValidateUpdate w ql getenv req oldObj (XTrinodeObject t) =
     (case ValidateUpdate ql getenv oldObj t of
        (warnings, Some err) \<Rightarrow> (warnings, Some err)
      | (warnings, None) \<Rightarrow>
          (case oldObj of
             XTrinodeObject old \<Rightarrow> (warnings, validatePrivilegedSpecAdmission (xw_authorizer w) req (Some old) t)
           | OtherObject ty \<Rightarrow> (warnings, Some (TypeErr ''expected old object to be of type XTrinode''))))"
| "webhook_ValidateUpdate w ql getenv req oldObj (OtherObject ty) =
     ([], Some (TypeErr (''expected new XTrinode, got '' @ ty)))"

definition ValidateDelete :: "XTrinode \<Rightarrow> string list \<times> AdmissionError option" where
  "ValidateDelete t = ([], None)"

fun webhook_ValidateDelete :: "runtime_object \<Rightarrow> string list \<times> AdmissionError option" where
  "webhook_ValidateDelete (XTrinodeObject t) = ValidateDelete t"
| "webhook_ValidateDelete (OtherObject ty) = ([], Some (TypeErr (''expected XTrinode, got '' @ ty)))"

section \<open>What an admitted update has kept\<close>

text \<open>The changes that need the break-glass annotation, read off the two specs: a smaller size; a node
  pool added or removed, another provider, name or cluster, another disk size, spot setting or
  machine type, a deletion policy that turns to \<open>Delete\<close>; a routing block added or removed, or
  another group, host name, domain, header or default flag.\<close>

definition pool_gated :: "NodePoolSpec \<Rightarrow> NodePoolSpec \<Rightarrow> bool" where
  "pool_gated a b \<longleftrightarrow>
     normalizeString (np_Provider a) \<noteq> normalizeString (np_Provider b) \<or> np_Name a \<noteq> np_Name b
     \<or> np_ClusterName a \<noteq> np_ClusterName b \<or> np_OSDiskGB a \<noteq> np_OSDiskGB b \<or> np_Spot a \<noteq> np_Spot b
     \<or> normalizeString (np_Provider b) = ''azure'' \<and> np_Azure a \<noteq> None \<and> np_Azure b \<noteq> None \<and> np_Azure a \<noteq> np_Azure b
     \<or> normalizeString (np_Provider b) = ''aws'' \<and> np_AWS a \<noteq> None \<and> np_AWS b \<noteq> None \<and> np_AWS a \<noteq> np_AWS b
     \<or> normalizeString (np_Provider b) = ''gcp'' \<and> np_GCP a \<noteq> None \<and> np_GCP b \<noteq> None \<and> np_GCP a \<noteq> np_GCP b
     \<or> np_DeletionPolicy a \<notin> {'''', ''Delete''} \<and> np_DeletionPolicy b \<in> {'''', ''Delete''}"

definition routing_gated :: "RoutingSpec \<Rightarrow> RoutingSpec \<Rightarrow> bool" where
  "routing_gated a b \<longleftrightarrow>
     (ro_RoutingGroup a, ro_Hostname a, ro_HostnameDomain a, ro_Header a, ro_Default a)
     \<noteq> (ro_RoutingGroup b, ro_Hostname b, ro_HostnameDomain b, ro_Header b, ro_Default b)"

definition gated_change :: "XTrinodeSpec \<Rightarrow> XTrinodeSpec \<Rightarrow> bool" where
  "gated_change a b \<longleftrightarrow>
     getSizeOrder (xs_Size b) < getSizeOrder (xs_Size a)
     \<or> rel_option pool_gated (xs_NodePool a) (xs_NodePool b) \<and> xs_NodePool a \<noteq> None
     \<or> (xs_NodePool a = None) \<noteq> (xs_NodePool b = None)
     \<or> rel_option routing_gated (xs_Routing a) (xs_Routing b) \<and> xs_Routing a \<noteq> None
     \<or> (xs_Routing a = None) \<noteq> (xs_Routing b = None)"

lemma ctx_simps [simp]:
  "uc_breakGlassEnabled (warn w c) = uc_breakGlassEnabled c" "uc_breakGlassReq (warn w c) = uc_breakGlassReq c"
  "uc_breakGlassEnabled (warn_if b w c) = uc_breakGlassEnabled c" "uc_breakGlassReq (warn_if b w c) = uc_breakGlassReq c"
  "uc_breakGlassEnabled (requireBreakGlass r c) = uc_breakGlassEnabled c" "uc_breakGlassReq (requireBreakGlass r c) \<noteq> []"
  "uc_breakGlassEnabled (gate r w c) = uc_breakGlassEnabled c" "uc_breakGlassReq (gate r w c) \<noteq> []"
  by (auto simp: warn_def warn_if_def requireBreakGlass_def gate_def)

lemma fold_warn_if [simp]:
  "uc_breakGlassEnabled (fold (\<lambda>(b, f). warn_if b (g f)) fs c) = uc_breakGlassEnabled c"
  "uc_breakGlassReq (fold (\<lambda>(b, f). warn_if b (g f)) fs c) = uc_breakGlassReq c"
  by (induction fs arbitrary: c) auto

lemmas warning_checks = checkWorkerScaling_def checkSuspended_def checkCatalogSelector_def checkResourceGroupsProfile_def
  checkCustomConfigMaps_def checkLimits_def checkValuesOverlay_def checkFaultTolerantExecution_def checkKEDAChanges_def
  checkTLSChanges_def checkHelmChartConfigChanges_def checkOperatorNodePoolDefaults_def

lemma warning_checks_keep:
  assumes "chk \<in> set [checkWorkerScaling, checkSuspended, checkCatalogSelector, checkResourceGroupsProfile,
    checkCustomConfigMaps, checkLimits, checkValuesOverlay, checkFaultTolerantExecution, checkKEDAChanges,
    checkTLSChanges, checkHelmChartConfigChanges, checkOperatorNodePoolDefaults]"
  shows "uc_breakGlassReq (chk a b c) = uc_breakGlassReq c"
  using assms by (auto simp: warning_checks Let_def simp del: fold.simps split: option.splits)

lemma azure_eq: "az_VMSize u = az_VMSize v \<and> az_OSDiskType u = az_OSDiskType v \<longleftrightarrow> u = (v :: AzureNodePoolSpec)"
  by (cases u; cases v) auto

lemma aws_eq: "aw_InstanceType u = aw_InstanceType v \<and> aw_VolumeType u = aw_VolumeType v \<longleftrightarrow> u = (v :: AWSNodePoolSpec)"
  by (cases u; cases v) auto

lemma gcp_eq: "gc_MachineType u = gc_MachineType v \<and> gc_DiskType u = gc_DiskType v \<longleftrightarrow> u = (v :: GCPNodePoolSpec)"
  by (cases u; cases v) auto

lemma pointer_differs: "comparePointerInt32 x y \<longleftrightarrow> x \<noteq> y"
  by (cases x; cases y) (simp_all add: comparePointerInt32_def)

lemma both_given:
  "(case x of None \<Rightarrow> False | Some u \<Rightarrow> (case y of None \<Rightarrow> False | Some v \<Rightarrow> P u v))
     \<longleftrightarrow> (\<exists>u v. x = Some u \<and> y = Some v \<and> P u v)"
  by (cases x; cases y) simp_all

lemma shape_changed:
  assumes "xs_NodePool (xt_Spec a) = Some p" "xs_NodePool (xt_Spec b) = Some q"
  shows "nodePoolShapeChanged a b \<longleftrightarrow> np_OSDiskGB p \<noteq> np_OSDiskGB q \<or> np_Spot p \<noteq> np_Spot q
     \<or> normalizeString (np_Provider q) = ''azure'' \<and> np_Azure p \<noteq> None \<and> np_Azure q \<noteq> None \<and> np_Azure p \<noteq> np_Azure q
     \<or> normalizeString (np_Provider q) = ''aws'' \<and> np_AWS p \<noteq> None \<and> np_AWS q \<noteq> None \<and> np_AWS p \<noteq> np_AWS q
     \<or> normalizeString (np_Provider q) = ''gcp'' \<and> np_GCP p \<noteq> None \<and> np_GCP q \<noteq> None \<and> np_GCP p \<noteq> np_GCP q"
proof -
  have az: "(\<exists>u v. x = Some u \<and> y = Some v \<and> (az_VMSize u \<noteq> az_VMSize v \<or> az_OSDiskType u \<noteq> az_OSDiskType v))
      \<longleftrightarrow> x \<noteq> None \<and> y \<noteq> None \<and> x \<noteq> y" for x y :: "AzureNodePoolSpec option"
    using azure_eq by (cases x; cases y) auto
  have aw: "(\<exists>u v. x = Some u \<and> y = Some v \<and> (aw_InstanceType u \<noteq> aw_InstanceType v \<or> aw_VolumeType u \<noteq> aw_VolumeType v))
      \<longleftrightarrow> x \<noteq> None \<and> y \<noteq> None \<and> x \<noteq> y" for x y :: "AWSNodePoolSpec option"
    using aws_eq by (cases x; cases y) auto
  have gc: "(\<exists>u v. x = Some u \<and> y = Some v \<and> (gc_MachineType u \<noteq> gc_MachineType v \<or> gc_DiskType u \<noteq> gc_DiskType v))
      \<longleftrightarrow> x \<noteq> None \<and> y \<noteq> None \<and> x \<noteq> y" for x y :: "GCPNodePoolSpec option"
    using gcp_eq by (cases x; cases y) auto
  show ?thesis
    unfolding nodePoolShapeChanged_def assms prod.case option.case both_given Let_def az aw gc pointer_differs by auto
qed

lemma pool_checks:
  assumes "xs_NodePool (xt_Spec a) = Some p" "xs_NodePool (xt_Spec b) = Some q"
  shows "uc_breakGlassReq (checkNodePoolChanges a b c) = [] \<longleftrightarrow>
     uc_breakGlassReq c = [] \<and> \<not> nodePoolIdentityChanged a b \<and> \<not> nodePoolShapeChanged a b
     \<and> \<not> (normalizeNodePoolDeletionPolicy p \<noteq> NodePoolDeletionPolicyDelete
         \<and> normalizeNodePoolDeletionPolicy q = NodePoolDeletionPolicyDelete)"
  unfolding checkNodePoolChanges_def assms Let_def prod.case option.case
  using assms by (auto simp: nodePoolPresenceChanged_def nodePoolDeletionPolicyChanged_def)

lemma pool_gate:
  "uc_breakGlassReq (checkNodePoolChanges a b c) = [] \<longleftrightarrow>
     uc_breakGlassReq c = []
     \<and> \<not> (rel_option pool_gated (xs_NodePool (xt_Spec a)) (xs_NodePool (xt_Spec b)) \<and> xs_NodePool (xt_Spec a) \<noteq> None)
     \<and> (xs_NodePool (xt_Spec a) = None) = (xs_NodePool (xt_Spec b) = None)"
proof (cases "xs_NodePool (xt_Spec a)")
  case None
  then show ?thesis
    by (cases "xs_NodePool (xt_Spec b)")
      (simp_all add: checkNodePoolChanges_def nodePoolPresenceChanged_def nodePoolIdentityChanged_def nodePoolShapeChanged_def Let_def)
next
  case p: (Some p)
  show ?thesis
  proof (cases "xs_NodePool (xt_Spec b)")
    case None
    then show ?thesis using p
      by (simp add: checkNodePoolChanges_def nodePoolPresenceChanged_def nodePoolIdentityChanged_def nodePoolShapeChanged_def Let_def)
  next
    case q: (Some q)
    have "nodePoolIdentityChanged a b \<longleftrightarrow> normalizeString (np_Provider p) \<noteq> normalizeString (np_Provider q)
        \<or> np_Name p \<noteq> np_Name q \<or> np_ClusterName p \<noteq> np_ClusterName q"
      using p q by (simp add: nodePoolIdentityChanged_def)
    moreover have "normalizeNodePoolDeletionPolicy x = NodePoolDeletionPolicyDelete \<longleftrightarrow> np_DeletionPolicy x \<in> {'''', ''Delete''}" for x
      by (simp add: normalizeNodePoolDeletionPolicy_def NodePoolDeletionPolicyDelete_def)
    ultimately show ?thesis
      unfolding pool_checks [OF p q] shape_changed [OF p q] unfolding p q by (simp add: pool_gated_def) metis
  qed
qed

lemma enabled_kept: "chk \<in> set update_checks \<Longrightarrow> uc_breakGlassEnabled (chk a b c) = uc_breakGlassEnabled c"
proof -
  have "uc_breakGlassEnabled (checkNodePoolChanges a b c) = uc_breakGlassEnabled c" for c
    by (simp add: checkNodePoolChanges_def Let_def split: option.split)
  moreover have "uc_breakGlassEnabled (checkKEDAChanges a b c) = uc_breakGlassEnabled c" for c
    by (simp add: checkKEDAChanges_def Let_def del: fold.simps split: option.split)
  moreover have "uc_breakGlassEnabled (checkSizeChange a b c) = uc_breakGlassEnabled c" for c
    by (simp add: checkSizeChange_def Let_def)
  moreover have "uc_breakGlassEnabled (checkRoutingChanges a b c) = uc_breakGlassEnabled c" for c
    by (simp add: checkRoutingChanges_def Let_def)
  moreover have "uc_breakGlassEnabled (checkWorkerScaling a b c) = uc_breakGlassEnabled c" for c
    by (simp add: checkWorkerScaling_def split: option.split)
  moreover assume "chk \<in> set update_checks"
  ultimately show ?thesis
    unfolding update_checks_def list.set insert_iff empty_iff
    by (elim disjE; simp add: checkSuspended_def checkCatalogSelector_def checkResourceGroupsProfile_def
      checkCustomConfigMaps_def checkLimits_def checkValuesOverlay_def checkFaultTolerantExecution_def
      checkTLSChanges_def checkHelmChartConfigChanges_def checkOperatorNodePoolDefaults_def)
qed

lemma size_gate:
  "uc_breakGlassReq (checkSizeChange a b c) = [] \<longleftrightarrow>
     uc_breakGlassReq c = [] \<and> \<not> getSizeOrder (xs_Size (xt_Spec b)) < getSizeOrder (xs_Size (xt_Spec a))"
  by (auto simp: checkSizeChange_def isSizeUpgrade_def isSizeDowngrade_def Let_def)

lemma routing_gate:
  "uc_breakGlassReq (checkRoutingChanges a b c) = [] \<longleftrightarrow>
     uc_breakGlassReq c = []
     \<and> \<not> (rel_option routing_gated (xs_Routing (xt_Spec a)) (xs_Routing (xt_Spec b)) \<and> xs_Routing (xt_Spec a) \<noteq> None)
     \<and> (xs_Routing (xt_Spec a) = None) = (xs_Routing (xt_Spec b) = None)"
  by (cases "xs_Routing (xt_Spec a)"; cases "xs_Routing (xt_Spec b)")
    (auto simp: checkRoutingChanges_def routingPresenceChanged_def routingIdentityChanged_def routing_gated_def Let_def)
lemma fold_enabled:
  "set chks \<subseteq> set update_checks \<Longrightarrow> uc_breakGlassEnabled (fold (\<lambda>chk. chk a b) chks c) = uc_breakGlassEnabled c"
  by (induction chks arbitrary: c) (auto simp: enabled_kept)

lemma update_reasons:
  "breakGlassReasons (fold (\<lambda>chk. chk a b) update_checks (newUpdateCtx b)) = [] \<longleftrightarrow> \<not> gated_change (xt_Spec a) (xt_Spec b)"
proof -
  have keep: "uc_breakGlassReq (chk a b c) = uc_breakGlassReq c" if "chk \<in> set [checkWorkerScaling, checkSuspended,
      checkCatalogSelector, checkResourceGroupsProfile, checkCustomConfigMaps, checkLimits, checkValuesOverlay,
      checkFaultTolerantExecution, checkKEDAChanges, checkTLSChanges, checkHelmChartConfigChanges, checkOperatorNodePoolDefaults]" for chk c
    using that by (rule warning_checks_keep)
  show ?thesis
    by (simp add: breakGlassReasons_def update_checks_def keep size_gate pool_gate routing_gate gated_change_def newUpdateCtx_def)
qed

text \<open>C11. An update of a runtime is admitted exactly when the new spec is valid by itself and either carries
  the break-glass annotation or makes none of the gated changes: without the annotation the size does
  not shrink, the node pool and the routing block neither appear nor disappear, the pool keeps its
  provider, name, cluster, disk, spot setting and machine type and its deletion policy does not turn
  to \<open>Delete\<close>, and the routing selectors stay as they were.\<close>

theorem update_admitted_iff:
  "snd (validateXTrinodeUpdate ql getenv old t) = None \<longleftrightarrow>
     validateXTrinode ql getenv t = [] \<and> (gated_change (xt_Spec old) (xt_Spec t) \<longrightarrow> hasBreakGlassAnnotation t)"
proof -
  have "uc_breakGlassEnabled (fold (\<lambda>chk. chk old t) update_checks (newUpdateCtx t)) = hasBreakGlassAnnotation t"
    by (simp add: fold_enabled newUpdateCtx_def)
  then show ?thesis
    by (simp add: validateXTrinodeUpdate_def invalid_def update_reasons Let_def)
qed

definition demo_pool_runtime :: "string \<Rightarrow> str_map \<Rightarrow> XTrinode" where
  "demo_pool_runtime sz annotations = (demo_xtrinode ''team'' ''etl'' (bare_spec sz))\<lparr>xt_Annotations := annotations\<rparr>"

theorem update_admitted_iff_witness:
  "gated_change (xt_Spec (demo_pool_runtime ''m'' [])) (xt_Spec (demo_pool_runtime ''s'' []))
   \<and> snd (validateXTrinodeUpdate demo_lib (\<lambda>_. []) (demo_pool_runtime ''m'' []) (demo_pool_runtime ''s'' [])) \<noteq> None"
proof -
  have g: "gated_change (xt_Spec (demo_pool_runtime ''m'' [])) (xt_Spec (demo_pool_runtime ''s'' []))"
    unfolding gated_change_def by (rule disjI1) code_simp
  have "\<not> hasBreakGlassAnnotation (demo_pool_runtime ''s'' [])"
    by (simp add: hasBreakGlassAnnotation_def demo_pool_runtime_def)
  then show ?thesis
    using g update_admitted_iff [of demo_lib "\<lambda>_. []" "demo_pool_runtime ''m'' []" "demo_pool_runtime ''s'' []"] by blast
qed

section \<open>Who may set privileged fields\<close>

text \<open>The same overlay: the same text, or two texts that decode to the same map.\<close>

definition same_overlay :: "string option \<Rightarrow> string option \<Rightarrow> bool" where
  "same_overlay a b \<longleftrightarrow> a = b \<or> (\<exists>x y. a = Some x \<and> b = Some y \<and> unmarshal_map x \<noteq> None \<and> unmarshal_map x = unmarshal_map y)"

lemma overlay_kept: "\<not> compareValuesOverlay a b \<longleftrightarrow> same_overlay a b"
  by (cases a; cases b) (auto simp: compareValuesOverlay_def same_overlay_def split: option.splits)

definition privileged_kept :: "XTrinodeSpec option \<Rightarrow> XTrinodeSpec \<Rightarrow> bool" where
  "privileged_kept old new =
     (case old of
        None \<Rightarrow> xs_ValuesOverlay new = None \<and> xs_HelmChartConfig new = None
      | Some s \<Rightarrow> same_overlay (xs_ValuesOverlay s) (xs_ValuesOverlay new) \<and> xs_HelmChartConfig s = xs_HelmChartConfig new)"

lemma no_privileged_reason:
  "privilegedSpecChangeReasons old t = [] \<longleftrightarrow> privileged_kept (map_option xt_Spec old) (xt_Spec t)"
  by (cases old)
    (auto simp: privilegedSpecChangeReasons_def valuesOverlayChanged_def privilegedHelmChartConfigChanged_def
      privileged_kept_def overlay_kept)

text \<open>What the handlers answer for a create (no old object) and for an update.\<close>

definition admission_error ::
  "sar_client option \<Rightarrow> QuantityLib \<Rightarrow> env \<Rightarrow> UserInfo option \<Rightarrow> XTrinode option \<Rightarrow> XTrinode \<Rightarrow> AdmissionError option" where
  "admission_error client ql getenv req old t =
     (let w = SetupWebhookWithManager client
      in case old of
           None \<Rightarrow> snd (webhook_ValidateCreate w ql getenv req (XTrinodeObject t))
         | Some o' \<Rightarrow> snd (webhook_ValidateUpdate w ql getenv req (XTrinodeObject o') (XTrinodeObject t)))"

lemma allowed_iff:
  "Allowed client req ns = Inr (True, r) \<longleftrightarrow>
     r = '''' \<and> (\<exists>create st. client = Some create \<and> create (review_of req ns) = Inr st \<and> ss_Allowed st)"
  by (auto simp: Allowed_def split: option.splits sum.splits if_splits)

lemma privileged_admission:
  "validatePrivilegedSpecAdmission (Some (Allowed client)) req old t = None \<longleftrightarrow>
     privileged_kept (map_option xt_Spec old) (xt_Spec t)
     \<or> (\<exists>u create st. req = Some u \<and> client = Some create \<and> create (review_of u (xt_Namespace t)) = Inr st \<and> ss_Allowed st)"
proof (cases "privilegedSpecChangeReasons old t = []")
  case True
  then show ?thesis by (simp add: validatePrivilegedSpecAdmission_def Let_def no_privileged_reason [symmetric])
next
  case False
  show ?thesis
  proof (cases req)
    case None
    with False show ?thesis by (simp add: validatePrivilegedSpecAdmission_def Let_def no_privileged_reason [symmetric])
  next
    case (Some u)
    with False show ?thesis
      by (cases client)
        (auto simp: validatePrivilegedSpecAdmission_def Allowed_def Let_def no_privileged_reason [symmetric] split: sum.splits if_splits)
  qed
qed

text \<open>C10. A create or update is admitted only if the spec is valid and, whenever it sets or changes the
  values overlay or the chart settings, the API server has granted the requesting user the update of
  \<open>xtrinodes/valuesoverlay\<close> in the namespace of the runtime; a missing request, a missing client and a
  failed or negative review refuse it. Without such a change nobody is asked.\<close>

theorem privileged_fields_need_permission:
  "admission_error client ql getenv req old t = None \<longleftrightarrow>
     validateXTrinode ql getenv t = []
     \<and> (\<forall>o' \<in> set_option old. snd (validateXTrinodeUpdate ql getenv o' t) = None)
     \<and> (privileged_kept (map_option xt_Spec old) (xt_Spec t)
        \<or> (\<exists>u create st. req = Some u \<and> client = Some create
             \<and> create (review_of u (xt_Namespace t)) = Inr st \<and> ss_Allowed st))"
proof (cases old)
  case None
  then show ?thesis
    using privileged_admission [of client req None t]
    by (simp add: admission_error_def SetupWebhookWithManager_def ValidateCreate_def invalid_def Let_def)
next
  case (Some o')
  have "snd (validateXTrinodeUpdate ql getenv o' t) = None \<Longrightarrow> validateXTrinode ql getenv t = []"
    by (auto simp: validateXTrinodeUpdate_def invalid_def split: if_splits)
  then show ?thesis
    using Some privileged_admission [of client req "Some o'" t]
    by (cases "validateXTrinodeUpdate ql getenv o' t"; cases "snd (validateXTrinodeUpdate ql getenv o' t)")
      (auto simp: admission_error_def SetupWebhookWithManager_def Let_def)
qed


definition demo_overlay_runtime :: XTrinode where
  "demo_overlay_runtime = demo_xtrinode ''team'' ''etl''
     ((bare_spec ''m'')\<lparr>xs_ValuesOverlay := Some ''{}''\<rparr>)"

definition demo_review :: "bool \<Rightarrow> sar_client" where
  "demo_review ok = (\<lambda>r. Inr \<lparr> ss_Allowed = ok \<and> rv_User r = ''ann'' \<and> rv_Namespace r = ''team'', ss_Reason = [], ss_EvaluationError = [] \<rparr>)"

definition demo_user :: UserInfo where
  "demo_user = \<lparr> us_Username = ''ann'', us_UID = ''1'', us_Groups = [], us_Extra = [] \<rparr>"

theorem privileged_fields_need_permission_witness:
  "admission_error (Some (demo_review True)) demo_lib (\<lambda>_. []) (Some demo_user) None demo_overlay_runtime = None
   \<and> admission_error (Some (demo_review False)) demo_lib (\<lambda>_. []) (Some demo_user) None demo_overlay_runtime \<noteq> None"
proof -
  have v: "validateXTrinode demo_lib (\<lambda>_. []) demo_overlay_runtime = []" by code_simp
  have "xs_ValuesOverlay (xt_Spec demo_overlay_runtime) \<noteq> None" "xt_Namespace demo_overlay_runtime = ''team''"
    by (simp_all add: demo_overlay_runtime_def demo_xtrinode_def)
  then have k: "\<not> privileged_kept (map_option xt_Spec None) (xt_Spec demo_overlay_runtime)" "xt_Namespace demo_overlay_runtime = ''team''"
    by (simp_all add: privileged_kept_def)
  show ?thesis
    unfolding privileged_fields_need_permission using v k
    by (auto simp: demo_review_def demo_user_def review_of_def)
qed

section \<open>Defaulting\<close>

lemma recommended_machine_type_spec:
  assumes "xs_Size (xt_Spec t) = xs_Size (xt_Spec u)" "xs_Resources (xt_Spec t) = xs_Resources (xt_Spec u)"
  shows "recommendedNodePoolMachineType ql t = recommendedNodePoolMachineType ql u"
proof -
  have "resolvedWorkerResourcesForMachineRecommendation ql t = resolvedWorkerResourcesForMachineRecommendation ql u"
    unfolding resolvedWorkerResourcesForMachineRecommendation_def assms ..
  then show ?thesis
    unfolding recommendedNodePoolMachineType_def assms(1) by simp
qed

lemma default_machine_type_simps [simp]:
  "np_Name (default_machine_type p r np) = np_Name np" "np_DeletionPolicy (default_machine_type p r np) = np_DeletionPolicy np"
  "np_Provider (default_machine_type p r np) = np_Provider np"
  by (simp_all add: default_machine_type_def Let_def)

lemma default_machine_type_again:
  "r \<noteq> '''' \<Longrightarrow> default_machine_type p r (default_machine_type p r np) = default_machine_type p r np"
  by (simp add: default_machine_type_def Let_def split: option.split)

lemma default_pool_again:
  assumes "xs_Size (xt_Spec t) = xs_Size (xt_Spec u)" "xs_Resources (xt_Spec t) = xs_Resources (xt_Spec u)"
  shows "default_pool ql u (default_pool ql t np) = default_pool ql t np"
proof -
  define base where "base = (let np = (if np_Name np = '''' then np\<lparr>np_Name := xt_Name t @ ''-pool''\<rparr> else np)
    in if np_DeletionPolicy np = '''' then np\<lparr>np_DeletionPolicy := NodePoolDeletionPolicyDelete\<rparr> else np)"
  define p where "p = to_lower (np_Provider base)"
  define r where "r = fst (recommendedNodePoolMachineType ql t p)"
  define q where "q = (if xs_Size (xt_Spec t) \<noteq> '''' \<and> r \<noteq> '''' then default_machine_type p r base else base)"
  have q: "default_pool ql t np = q"
    unfolding default_pool_def q_def r_def p_def base_def Let_def by simp
  have "np_Name base \<noteq> ''''" "np_DeletionPolicy base \<noteq> ''''"
    by (simp_all add: base_def Let_def NodePoolDeletionPolicyDelete_def)
  then have named: "np_Name q \<noteq> ''''" "np_DeletionPolicy q \<noteq> ''''" "to_lower (np_Provider q) = p"
    by (simp_all add: q_def p_def)
  have "default_pool ql u q = (if xs_Size (xt_Spec t) \<noteq> '''' \<and> r \<noteq> '''' then default_machine_type p r q else q)"
    unfolding default_pool_def Let_def named(3) recommended_machine_type_spec [OF assms, symmetric] assms(1) [symmetric]
    using named by (simp add: r_def)
  also have "\<dots> = q" by (simp add: q_def default_machine_type_again)
  finally show ?thesis unfolding q .
qed


definition demo_node_pool :: NodePoolSpec where
  "demo_node_pool =
     \<lparr> np_Name = [], np_Provider = ''AWS'', np_MinNodes = Some 1, np_MaxNodes = Some 4, np_Zones = [], np_OSDiskGB = None,
       np_Spot = None, np_NodeLabels = [], np_SchedulePods = True, np_NodeTaints = None, np_ResourceTags = [],
       np_Prewarm = None, np_ProvisioningTimeout = None, np_ResourceNotFoundRequeueInterval = None,
       np_StatusNotAvailableRequeueInterval = None, np_NoNodesReadyRequeueInterval = None,
       np_NodesReadyRequeueInterval = None, np_ErrorRequeueInterval = None,
       np_MinRequiredReplicasWhenMinNodesZero = None, np_ClusterName = [], np_KubernetesVersion = [],
       np_BootstrapConfigRef = None, np_ProviderMode = [], np_AutoscalerEnabled = None, np_ScaleDownOnSuspend = None,
       np_DeletionPolicy = [], np_Azure = None, np_AWS = Some \<lparr> aw_InstanceType = ''m5.large'', aw_VolumeType = [] \<rparr>, np_GCP = None \<rparr>"


section \<open>Sizes beyond 64 bits\<close>



end
