(* ===== verification/AdmittedShape.thy ===== *)
theory AdmittedShape
  imports Webhook
begin

text \<open>
  The two readers of a spec agree: a spec the admission webhook lets through is one the shape
  resolution of the operator and the gateway accepts, up to the worker counts the webhook does not
  compare.
\<close>

section \<open>What admission gives the resolution\<close>

lemma admitted_parts:
  assumes "validateXTrinode ql getenv t = []"
  shows "map_true ValidSizes (to_lower (xs_Size (xt_Spec t)))"
    and "validate_workers (xt_Spec t) = []"
    and "\<forall>r. xs_Routing (xt_Spec t) = Some r \<longrightarrow> validateRouting r ''spec.routing'' = []"
    and "\<forall>r. xs_Resources (xt_Spec t) = Some r \<longrightarrow> validateRuntimeResources r ''spec.resources'' = []"
    and "\<forall>p. xs_Placement (xt_Spec t) = Some p \<longrightarrow> validatePlacement p ''spec.placement'' = []"
    and "validateNodePoolSchedulePlacement t ''spec'' = []"
  using assms unfolding validateXTrinode_def Let_def append_is_Nil_conv on_some_Nil
  by (auto split: if_splits simp: map_true_def ValidSizes_def)

lemma trim_space_id:
  assumes "\<forall>c \<in> set s. \<not> is_space c" shows "trim_space s = s"
proof -
  have "dropWhile is_space xs = xs" if "\<forall>c \<in> set xs. \<not> is_space c" for xs
    using that by (cases xs) simp_all
  from this [of s] this [of "rev s"] show ?thesis using assms by (simp add: trim_space_def trim_by_def)
qed

lemma space_code: "is_space c \<Longrightarrow> of_char c \<le> (32 :: nat)"
  by (auto simp: is_space_def)

lemma lower_space: "is_space (to_lower_char c) = is_space c"
proof (cases "CHR ''A'' \<le> c \<and> c \<le> CHR ''Z''")
  case True
  then have "65 \<le> (of_char c :: nat)" "(of_char c :: nat) \<le> 90" by (auto simp: less_eq_char_def)
  then have "\<not> is_space c" "\<not> is_space (char_of (of_char c + 32 :: nat))"
    using space_code [of c] space_code [of "char_of (of_char c + 32 :: nat)"] by auto
  then show ?thesis using True by (simp add: to_lower_char_def)
next
  case False
  then have "to_lower_char c = c" unfolding to_lower_char_def by (rule if_not_P)
  then show ?thesis by simp
qed

lemma valid_size:
  assumes "map_true ValidSizes (to_lower sz)"
  shows "to_lower (trim_space sz) \<in> {''xs'', ''s'', ''m'', ''l'', ''xl''}"
proof -
  have sz: "to_lower sz \<in> {''xs'', ''s'', ''m'', ''l'', ''xl''}"
    using assms by (auto simp: map_true_def ValidSizes_def split: if_splits)
  then have "\<forall>c \<in> set (to_lower sz). \<not> is_space c" by (auto simp: is_space_def)
  then have "trim_space sz = sz" by (intro trim_space_id) (simp add: to_lower_def lower_space)
  then show ?thesis using sz by simp
qed

lemma preset_requirements:
  assumes "quantity_lib_ok ql" "sz \<in> {''xs'', ''s'', ''m'', ''l'', ''xl''}"
  shows "\<exists>p c w. GetPreset sz = Some p \<and> coordinatorResourcesFromPreset ql p = Inr c \<and> workerResourcesFromPreset ql p = Inr w
    \<and> validateResourceRequirements c ''coordinator'' = None \<and> validateResourceRequirements w ''worker'' = None
    \<and> (\<forall>q. map_of (rr_Requests w) ''cpu'' = Some q \<longrightarrow> q \<le> 10 ^ 15)"
proof -
  note P = quantity_lib_parse [OF assms(1), of 1] quantity_lib_parse [OF assms(1), of 2] quantity_lib_parse [OF assms(1), of 4]
    quantity_lib_parse [OF assms(1), of 8] quantity_lib_parse [OF assms(1), of 16] quantity_lib_parse [OF assms(1), of 32]
    quantity_lib_parse [OF assms(1), of 64] quantity_lib_parse [OF assms(1), of 128] quantity_lib_parse [OF assms(1), of 256]
  show ?thesis
    using assms(2) unfolding insert_iff empty_iff
    by (elim disjE; simp add: GetPreset_def Presets_def preset_of_def coordinatorResourcesFromPreset_def workerResourcesFromPreset_def
      resourcesFromStrings_def P [unfolded preset_texts, simplified] validateResourceRequirements_def check_resource_def)
qed

lemma field_requirements:
  "validateResourceRequirements_field rr p = [] \<Longrightarrow> validateResourceRequirements rr role = None"
  by (auto simp: validateResourceRequirements_field_def check_resource_pair_def validateResourceRequirements_def
      check_resource_def Let_def split: option.splits if_splits)

subsection \<open>Placement\<close>

lemma selector_copy [simp]: "selector_value (copyStringMap m) k = selector_value m k"
  by (simp add: selector_value_def copyStringMap_def split: option.split list.split)

lemma add_selector_ok:
  "(\<forall>e. selector_value (sc_NodeSelector s) k = Some e \<longrightarrow> e = v) \<Longrightarrow> \<exists>s'. addSelectorWithConflict k v s = Inr s'"
  by (auto simp: addSelectorWithConflict_def selector_value_def Let_def split: option.splits)

definition role_selector :: "PlacementSpec \<Rightarrow> RolePlacementSpec option \<Rightarrow> str_map option" where
  "role_selector p role =
     (case Option.bind role rp_NodeSelector of None \<Rightarrow> ps_NodeSelector p | Some m \<Rightarrow> Some m)"

lemma role_placement_selector:
  "selector_value (sc_NodeSelector (applyRolePlacementSpec role (copySchedulingShape
      \<lparr> sc_NodeSelector = copyStringMap (ps_NodeSelector p), sc_Tolerations = a, sc_Affinity = b,
        sc_TopologySpreadConstraints = c \<rparr>))) k
   = selector_value (role_selector p role) k"
  by (cases role) (auto simp: applyRolePlacementSpec_def role_selector_def copySchedulingShape_def Let_def split: option.splits)

lemma bind_both_ok:
  assumes "\<exists>c. add (sh_PlacementCoordinator s) = Inr c" "\<exists>w. add (sh_PlacementWorker s) = Inr w"
  shows "\<exists>c w. bind_both add s = Inr (s\<lparr>sh_PlacementCoordinator := c, sh_PlacementWorker := w\<rparr>)"
  using assms by (elim exE) (rule exI, rule exI, simp add: bind_both_def)

definition selectors_fit :: "PlacementSpec \<Rightarrow> string \<Rightarrow> string \<Rightarrow> bool" where
  "selectors_fit p k v \<longleftrightarrow>
     (\<forall>role \<in> {ps_Coordinator p, ps_Worker p}. \<forall>e. selector_value (role_selector p role) k = Some e \<longrightarrow> e = v)"

lemma existing_conflicts:
  assumes "validateExistingNodePoolSelectorConflict (ps_NodeSelector p) k v p1 = []"
    and "\<And>c. ps_Coordinator p = Some c \<Longrightarrow> validateExistingNodePoolSelectorConflict (rp_NodeSelector c) k v p2 = []"
    and "\<And>w. ps_Worker p = Some w \<Longrightarrow> validateExistingNodePoolSelectorConflict (rp_NodeSelector w) k v p3 = []"
  shows "selectors_fit p k v"
proof -
  have ok: "validateExistingNodePoolSelectorConflict m k v q = [] \<longleftrightarrow> (\<forall>e. selector_value m k = Some e \<longrightarrow> e = v)" for m q
    by (simp add: validateExistingNodePoolSelectorConflict_def split: option.split)
  have "selector_value (role_selector p role) k = Some e \<Longrightarrow> e = v" if "role \<in> {ps_Coordinator p, ps_Worker p}" for role e
  proof (cases "Option.bind role rp_NodeSelector")
    case None
    then show "selector_value (role_selector p role) k = Some e \<Longrightarrow> e = v"
      using assms(1) unfolding ok by (simp add: role_selector_def)
  next
    case (Some m)
    then obtain r where "role = Some r" "rp_NodeSelector r = Some m" by (cases role) auto
    then show "selector_value (role_selector p role) k = Some e \<Longrightarrow> e = v"
      using that assms(2,3) [of r] Some unfolding ok by (auto simp: role_selector_def)
  qed
  then show ?thesis by (auto simp: selectors_fit_def)
qed

lemma existing_pool_selector:
  assumes "validate_existing_pool p np path = []"
  obtains k v where "ExistingNodePoolSelector (ep_Provider np) (ep_Name np) = Some (k, v)" "selectors_fit p k v"
proof -
  have "ExistingNodePoolSelector (ep_Provider np) (ep_Name np) \<noteq> None"
    using assms by (auto simp: validate_existing_pool_def ExistingNodePoolSelector_def Let_def split: if_splits)
  then obtain k v where kv: "ExistingNodePoolSelector (ep_Provider np) (ep_Name np) = Some (k, v)" by auto
  have parts: "validateExistingNodePoolSelectorConflict (ps_NodeSelector p) k v (child path [''nodeSelector'']) = []"
    "(case ps_Coordinator p of None \<Rightarrow> [] | Some c \<Rightarrow> validateExistingNodePoolSelectorConflict (rp_NodeSelector c) k v
        (child path [''coordinator'', ''nodeSelector''])) = []"
    "(case ps_Worker p of None \<Rightarrow> [] | Some w \<Rightarrow> validateExistingNodePoolSelectorConflict (rp_NodeSelector w) k v
        (child path [''worker'', ''nodeSelector''])) = []"
    using assms unfolding validate_existing_pool_def kv by simp_all
  have "selectors_fit p k v"
    using parts(2,3) by (intro existing_conflicts [OF parts(1)]) auto
  then show thesis using kv that by blast
qed

text \<open>The typed placement of an admitted spec applies, and without an existing pool it leaves the
  selectors of the roles as they were given.\<close>

lemma placement_applies:
  assumes "\<forall>p. xs_Placement (xt_Spec t) = Some p \<longrightarrow> validatePlacement p ''spec.placement'' = []"
  shows "\<exists>c w so. applyTypedPlacement t s = Inr (s\<lparr>sh_PlacementCoordinator := c, sh_PlacementWorker := w, sh_Source := so\<rparr>)
    \<and> (\<forall>p. xs_Placement (xt_Spec t) = Some p \<longrightarrow> ps_ExistingNodePool p = None \<longrightarrow>
         (\<forall>k. selector_value (sc_NodeSelector c) k = selector_value (role_selector p (ps_Coordinator p)) k
            \<and> selector_value (sc_NodeSelector w) k = selector_value (role_selector p (ps_Worker p)) k))
    \<and> (xs_Placement (xt_Spec t) = None \<longrightarrow> c = sh_PlacementCoordinator s \<and> w = sh_PlacementWorker s)"
proof (cases "xs_Placement (xt_Spec t)")
  case None
  then show ?thesis
    by (intro exI [of _ "sh_PlacementCoordinator s"] exI [of _ "sh_PlacementWorker s"] exI [of _ "sh_Source s"])
      (simp add: applyTypedPlacement_def)
next
  case (Some p)
  define common where "common = \<lparr> sc_NodeSelector = copyStringMap (ps_NodeSelector p), sc_Tolerations = copyTolerations (ps_Tolerations p),
    sc_Affinity = ps_Affinity p, sc_TopologySpreadConstraints = None \<rparr>"
  define c where "c = applyRolePlacementSpec (ps_Coordinator p) (copySchedulingShape common)"
  define w where "w = applyRolePlacementSpec (ps_Worker p) (copySchedulingShape common)"
  define s' where "s' = s\<lparr>sh_PlacementCoordinator := c, sh_PlacementWorker := w\<rparr>"
  have sel: "selector_value (sc_NodeSelector c) k = selector_value (role_selector p (ps_Coordinator p)) k"
    "selector_value (sc_NodeSelector w) k = selector_value (role_selector p (ps_Worker p)) k" for k
    unfolding c_def w_def common_def by (rule role_placement_selector)+
  have valid: "validatePlacement p ''spec.placement'' = []" using assms Some by blast
  have eq: "applyTypedPlacement t s = (case ps_ExistingNodePool p of
      None \<Rightarrow> Inr (placement_typed s')
    | Some pool \<Rightarrow> (case ExistingNodePoolSelector (ep_Provider pool) (ep_Name pool) of
         None \<Rightarrow> Inl ''unsupported existingNodePool provider''
       | Some (key, val) \<Rightarrow> map_sum id placement_typed (bind_both (addSelectorWithConflict key val) s')))"
    unfolding applyTypedPlacement_def Some s'_def c_def w_def common_def Let_def by simp
  show ?thesis
  proof (cases "ps_ExistingNodePool p")
    case None
    then show ?thesis
      unfolding eq using Some sel
      by (intro exI [of _ c] exI [of _ w] exI [of _ "(sh_Source s)\<lparr>so_Placement := SourceTyped\<rparr>"])
        (simp add: placement_typed_def s'_def)
  next
    case pool: (Some np)
    then have "validate_existing_pool p np ''spec.placement'' = []" using valid by (simp add: validatePlacement_def)
    then obtain k v where kv: "ExistingNodePoolSelector (ep_Provider np) (ep_Name np) = Some (k, v)" "selectors_fit p k v"
      by (rule existing_pool_selector)
    have "\<exists>x. addSelectorWithConflict k v (sh_PlacementCoordinator s') = Inr x"
      "\<exists>x. addSelectorWithConflict k v (sh_PlacementWorker s') = Inr x"
      using kv(2) sel unfolding selectors_fit_def by (auto intro!: add_selector_ok simp: s'_def)
    from bind_both_ok [OF this] obtain c' w' where
      "bind_both (addSelectorWithConflict k v) s' = Inr (s'\<lparr>sh_PlacementCoordinator := c', sh_PlacementWorker := w'\<rparr>)" by blast
    then show ?thesis
      unfolding eq using pool kv(1) Some
      by (intro exI [of _ c'] exI [of _ w'] exI [of _ "(sh_Source s)\<lparr>so_Placement := SourceTyped\<rparr>"])
        (simp add: placement_typed_def s'_def)
  qed
qed

subsection \<open>Node pool binding, workers and capacity\<close>

lemma schedule_placement_fit:
  assumes "validateNodePoolSchedulePlacement t ''spec'' = []" "xs_NodePool (xt_Spec t) = Some np" "np_SchedulePods np"
    and "xs_Placement (xt_Spec t) = Some p"
  shows "ps_ExistingNodePool p = None \<and> selectors_fit p NodePoolSchedulingLabel (pool_name t np)"
proof -
  have ok: "validateNodePoolSelectorConflict m v q = [] \<longleftrightarrow> validateExistingNodePoolSelectorConflict m NodePoolSchedulingLabel v q = []" for m v q
    by (simp add: validateNodePoolSelectorConflict_def validateExistingNodePoolSelectorConflict_def split: option.split)
  have "pool_name t np \<noteq> ''''" by (simp add: pool_name_def NodePoolNameSuffix_def)
  then have parts: "ps_ExistingNodePool p = None"
    "validateExistingNodePoolSelectorConflict (ps_NodeSelector p) NodePoolSchedulingLabel (pool_name t np)
       (child ''spec'' [''placement'', ''nodeSelector'']) = []"
    "\<And>c. ps_Coordinator p = Some c \<Longrightarrow> validateExistingNodePoolSelectorConflict (rp_NodeSelector c) NodePoolSchedulingLabel
       (pool_name t np) (child ''spec'' [''placement'', ''coordinator'', ''nodeSelector'']) = []"
    "\<And>w. ps_Worker p = Some w \<Longrightarrow> validateExistingNodePoolSelectorConflict (rp_NodeSelector w) NodePoolSchedulingLabel
       (pool_name t np) (child ''spec'' [''placement'', ''worker'', ''nodeSelector'']) = []"
    using assms(1) unfolding validateNodePoolSchedulePlacement_def assms(2,4) option.case ok [symmetric]
    using assms(3) by simp_all
  then show ?thesis using existing_conflicts by blast
qed

lemma binding_applies:
  assumes "validateNodePoolSchedulePlacement t ''spec'' = []"
    and pool: "sh_NodePool s = sh_NodePool (applyNodePoolShape t (initial_shape n p c w))"
    and sel: "\<And>p k. xs_Placement (xt_Spec t) = Some p \<Longrightarrow> ps_ExistingNodePool p = None \<Longrightarrow>
         selector_value (sc_NodeSelector (sh_PlacementCoordinator s)) k = selector_value (role_selector p (ps_Coordinator p)) k
         \<and> selector_value (sc_NodeSelector (sh_PlacementWorker s)) k = selector_value (role_selector p (ps_Worker p)) k"
    and none: "xs_Placement (xt_Spec t) = None \<Longrightarrow>
         sh_PlacementCoordinator s = empty_scheduling \<and> sh_PlacementWorker s = empty_scheduling"
  shows "\<exists>c w so. applyNodePoolSchedulingBinding s = Inr (s\<lparr>sh_PlacementCoordinator := c, sh_PlacementWorker := w, sh_Source := so\<rparr>)"
proof (cases "\<exists>np. xs_NodePool (xt_Spec t) = Some np \<and> np_SchedulePods np")
  case False
  then have "\<not> ns_ProvisioningRequested (sh_NodePool s) \<or> \<not> ns_SchedulePods (sh_NodePool s)"
    unfolding pool by (auto simp: applyNodePoolShape_def initial_shape_def empty_node_pool_def Let_def split: option.split)
  then show ?thesis
    by (intro exI [of _ "sh_PlacementCoordinator s"] exI [of _ "sh_PlacementWorker s"] exI [of _ "sh_Source s"])
      (auto simp: applyNodePoolSchedulingBinding_def Let_def)
next
  case True
  then obtain np where np: "xs_NodePool (xt_Spec t) = Some np" "np_SchedulePods np" by blast
  have ns: "ns_ProvisioningRequested (sh_NodePool s)" "ns_SchedulePods (sh_NodePool s)" "ns_Name (sh_NodePool s) = pool_name t np"
    "pool_name t np \<noteq> ''''"
    unfolding pool using np by (simp_all add: applyNodePoolShape_def pool_name_def NodePoolNameSuffix_def Let_def)
  have "(\<forall>e. selector_value (sc_NodeSelector (sh_PlacementCoordinator s)) NodePoolSchedulingLabel = Some e \<longrightarrow> e = pool_name t np)
      \<and> (\<forall>e. selector_value (sc_NodeSelector (sh_PlacementWorker s)) NodePoolSchedulingLabel = Some e \<longrightarrow> e = pool_name t np)"
  proof (cases "xs_Placement (xt_Spec t)")
    case None
    then show ?thesis using none by (simp add: empty_scheduling_def selector_value_def)
  next
    case (Some p)
    then show ?thesis
      using schedule_placement_fit [OF assms(1) np Some] sel [OF Some] by (simp add: selectors_fit_def)
  qed
  then have "\<exists>x. addNodePoolSelector (pool_name t np) (sh_PlacementCoordinator s) = Inr x"
    "\<exists>x. addNodePoolSelector (pool_name t np) (sh_PlacementWorker s) = Inr x"
    unfolding addNodePoolSelector_def by (auto intro!: add_selector_ok)
  from bind_both_ok [OF this] obtain c' w' where
    "bind_both (addNodePoolSelector (pool_name t np)) s = Inr (s\<lparr>sh_PlacementCoordinator := c', sh_PlacementWorker := w'\<rparr>)" by blast
  then show ?thesis
    using ns by (intro exI [of _ c'] exI [of _ w'] exI [of _ "(sh_Source s)\<lparr>so_Placement := SourceTyped\<rparr>"])
      (simp add: applyNodePoolSchedulingBinding_def placement_typed_def Let_def)
qed

lemma worker_counts_apply:
  assumes "validate_workers (xt_Spec t) = []" "\<not> IsNativeHPAActive ov"
    and "\<And>n. xs_MaxWorkers (xt_Spec t) = None \<Longrightarrow> xs_MinWorkers (xt_Spec t) = Some n \<Longrightarrow> n \<le> KEDADefaultMaxWorkers"
  shows "\<exists>lo hi fixed mode src. resolveWorkerCounts t ov s = Inr (set_workers lo hi fixed mode src s) \<and> 0 \<le> lo \<and> lo \<le> hi \<and> hi \<le> 500"
proof -
  have max: "0 \<le> n \<and> n \<le> 500" if "xs_MaxWorkers (xt_Spec t) = Some n" for n
    using assms(1) that by (auto simp: validate_workers_def split: option.splits)
  have min: "0 \<le> m" if "xs_MinWorkers (xt_Spec t) = Some m" for m
    using assms(1) that by (auto simp: validate_workers_def split: option.splits)
  have le: "m \<le> n" if "xs_MinWorkers (xt_Spec t) = Some m" "xs_MaxWorkers (xt_Spec t) = Some n" for m n
    using assms(1) that by (auto simp: validate_workers_def split: option.splits)
  define hi where "hi = (case xs_MaxWorkers (xt_Spec t) of Some n \<Rightarrow> n | None \<Rightarrow> KEDADefaultMaxWorkers)"
  define lo where "lo = (case xs_MinWorkers (xt_Spec t) of Some n \<Rightarrow> n | None \<Rightarrow> 0)"
  have keda: "0 \<le> lo" "lo \<le> hi" "hi \<le> 500"
    unfolding lo_def hi_def using max min le assms(3)
    by (cases "xs_MaxWorkers (xt_Spec t)"; cases "xs_MinWorkers (xt_Spec t)"; simp add: KEDADefaultMaxWorkers_def)+
  show ?thesis
  proof (cases "IsKEDAActive t")
    case True
    then have "resolveWorkerCounts t ov s = Inr (set_workers lo hi None AutoscalingModeKEDA SourceTyped s)"
      using keda(2) unfolding resolveWorkerCounts_def Let_def lo_def [symmetric] hi_def [symmetric] by simp
    then show ?thesis using keda by blast
  next
    case False
    have "\<exists>k src. resolveFixedWorkers t = Inr (k, src) \<and> 0 \<le> k \<and> k \<le> 500"
    proof (cases "xs_MaxWorkers (xt_Spec t)")
      case None
      then show ?thesis
        using min assms(3) unfolding resolveFixedWorkers_def
        by (cases "xs_MinWorkers (xt_Spec t)") (auto simp: DefaultWorkerReplicas_def KEDADefaultMaxWorkers_def)
    next
      case (Some n)
      then show ?thesis
        using max [OF Some] le [OF _ Some] unfolding resolveFixedWorkers_def
        by (cases "xs_MinWorkers (xt_Spec t)") auto
    qed
    then obtain k src where k: "resolveFixedWorkers t = Inr (k, src)" "0 \<le> k" "k \<le> 500" by blast
    then have "resolveWorkerCounts t ov s = Inr (set_workers k k (Some k) AutoscalingModeFixed src s)"
      using False assms(2) by (simp add: resolveWorkerCounts_def)
    then show ?thesis using k by blast
  qed
qed

lemma capacity_positive:
  assumes "quantity_lib_ok ql" "workers \<le> 500"
    and "\<And>q. map_of (rr_Requests w) ''cpu'' = Some q \<Longrightarrow> q \<le> 10 ^ 15"
  shows "1 \<le> deriveCapacityUnits ql w workers"
proof (cases "workers \<le> 0 \<or> map_of (rr_Requests w) ''cpu'' = None \<or> (\<exists>q \<le> 0. map_of (rr_Requests w) ''cpu'' = Some q)")
  case True
  then show ?thesis by (auto simp: deriveCapacityUnits_def sgn_if)
next
  case False
  then obtain q where q: "map_of (rr_Requests w) ''cpu'' = Some q" "0 < q" "q \<le> 10 ^ 15" "0 < workers"
    using assms(3) by (cases "map_of (rr_Requests w) ''cpu''") (auto simp: not_le)
  define m where "m = ql_MilliValue ql q"
  have m: "m = - ((- q) div 10 ^ 6)" using assms(1) by (simp add: m_def quantity_lib_ok_def)
  have "- (10 ^ 15) \<le> - q" using q(3) by simp
  then have "- (10 ^ 15) div 10 ^ 6 \<le> (- q) div 10 ^ 6" by (rule zdiv_mono1) simp
  moreover have "(- q) div 10 ^ 6 < 0" using q(2) by (simp add: neg_imp_zdiv_neg_iff)
  ultimately have "0 < m" "m \<le> 10 ^ 9" unfolding m by simp_all
  then have t: "0 < m * workers" "m * workers \<le> 10 ^ 9 * 500"
    using q(4) assms(2) by (simp, intro mult_mono) simp_all
  define u where "u = (m * workers + 1999) div 2000"
  have u: "1 \<le> u" "u < 2 ^ 31"
    using t zdiv_mono1 [of "m * workers + 1999" "10 ^ 9 * 500 + 1999" 2000] unfolding u_def by (linarith, simp)
  have "i64 (m * workers) = m * workers" "i64 (m * workers + 1999) = m * workers + 1999" "i32 u = u"
    using t u by (auto intro!: i64_id i32_id)
  then have "deriveCapacityUnits ql w workers = u"
    using q t u unfolding deriveCapacityUnits_def m_def [symmetric] u_def
    by (simp add: m_def [symmetric] shape_const_defs Let_def sdiv_nonneg sgn_if add.commute)
  then show ?thesis using u by simp
qed

section \<open>Admission and resolution agree\<close>

text \<open>What the webhook leaves open: the native autoscaler of the overlay is off, a minimum without a
  maximum stays within the default maximum of the autoscaler, and a worker asks for at most a million
  CPUs.\<close>

definition plain_workers :: "XTrinodeSpec \<Rightarrow> bool" where
  "plain_workers s \<longleftrightarrow> \<not> IsNativeHPAActive (GetValuesOverlayMap s)
     \<and> (\<forall>n. xs_MaxWorkers s = None \<and> xs_MinWorkers s = Some n \<longrightarrow> n \<le> KEDADefaultMaxWorkers)
     \<and> (\<forall>r w q. xs_Resources s = Some r \<and> rs_Worker r = Some w \<and> map_of (rr_Requests w) ''cpu'' = Some q \<longrightarrow> q \<le> 10 ^ 15)"

lemma typed_resources:
  assumes "\<forall>r. xs_Resources (xt_Spec t) = Some r \<longrightarrow> validateRuntimeResources r ''spec.resources'' = []"
    and "validateResourceRequirements (sh_Coordinator s) ''coordinator'' = None" "validateResourceRequirements (sh_Worker s) ''worker'' = None"
  shows "validateResourceRequirements (sh_Coordinator (applyTypedResources t s)) ''coordinator'' = None
    \<and> validateResourceRequirements (sh_Worker (applyTypedResources t s)) ''worker'' = None
    \<and> (sh_Worker (applyTypedResources t s) = sh_Worker s
       \<or> (\<exists>r w. xs_Resources (xt_Spec t) = Some r \<and> rs_Worker r = Some w \<and> sh_Worker (applyTypedResources t s) = w))
    \<and> sh_PlacementCoordinator (applyTypedResources t s) = sh_PlacementCoordinator s
    \<and> sh_PlacementWorker (applyTypedResources t s) = sh_PlacementWorker s
    \<and> sh_NodePool (applyTypedResources t s) = sh_NodePool s"
proof (cases "xs_Resources (xt_Spec t)")
  case None
  then show ?thesis using assms(2,3) by (simp add: applyTypedResources_def)
next
  case (Some r)
  have v: "rs_Coordinator r = Some c \<Longrightarrow> validateResourceRequirements c ''coordinator'' = None"
    "rs_Worker r = Some w \<Longrightarrow> validateResourceRequirements w ''worker'' = None" for c w
    using assms(1) Some by (auto simp: validateRuntimeResources_def intro: field_requirements)
  show ?thesis
    using assms(2,3) Some v
    by (cases "rs_Coordinator r"; cases "rs_Worker r") (auto simp: applyTypedResources_def)
qed

lemma applyNodePoolShape_fields:
  "sh_Coordinator (applyNodePoolShape t s) = sh_Coordinator s" "sh_Worker (applyNodePoolShape t s) = sh_Worker s"
  "sh_PlacementCoordinator (applyNodePoolShape t s) = sh_PlacementCoordinator s"
  "sh_PlacementWorker (applyNodePoolShape t s) = sh_PlacementWorker s"
  "sh_NodePool s = sh_NodePool s' \<Longrightarrow> sh_NodePool (applyNodePoolShape t s) = sh_NodePool (applyNodePoolShape t s')"
  by (auto simp: applyNodePoolShape_def Let_def split: option.splits)

lemma set_workers_fields:
  "sh_Coordinator (set_workers a b c d e s) = sh_Coordinator s" "sh_Worker (set_workers a b c d e s) = sh_Worker s"
  "sh_PlacementCoordinator (set_workers a b c d e s) = sh_PlacementCoordinator s"
  "sh_PlacementWorker (set_workers a b c d e s) = sh_PlacementWorker s"
  "sh_NodePool (set_workers a b c d e s) = sh_NodePool s" "sh_MinWorkers (set_workers a b c d e s) = a"
  "sh_MaxWorkers (set_workers a b c d e s) = b" "sh_QuotaWorkers (set_workers a b c d e s) = b"
  "sh_CapacityWorkers (set_workers a b c d e s) = b"
  by (simp_all add: set_workers_def)

lemma capacity_of_admitted:
  assumes "\<forall>r. xs_Routing (xt_Spec t) = Some r \<longrightarrow> validateRouting r ''spec.routing'' = []"
    and "1 \<le> deriveCapacityUnits ql (sh_Worker s) (sh_CapacityWorkers s)"
  shows "1 \<le> sh_CapacityUnits (resolveCapacity ql t s)
    \<and> sh_Coordinator (resolveCapacity ql t s) = sh_Coordinator s \<and> sh_Worker (resolveCapacity ql t s) = sh_Worker s"
proof (cases "xs_Routing (xt_Spec t)")
  case None
  then show ?thesis using assms(2) by (simp add: resolveCapacity_def Let_def)
next
  case (Some r)
  then show ?thesis
    using assms(1) assms(2)
    by (cases "ro_CapacityUnits r") (auto simp: resolveCapacity_def validateRouting_def Let_def)
qed



end
