(* ===== verification/KubeProgram.thy ===== *)
theory KubeProgram
  imports Kube Types
begin

text \<open>
  The API server's code as programs over its Kubernetes client. A program is a tree: each node is one
  call of the client, or a reading of the clock, and has one subtree per answer. The same program can
  then be followed alone or interleaved with others at every call, and what it may call is a property
  of the tree. \<open>GoResume\<close> starts \<open>triggerResumeAsync\<close> for a runtime, with the lease key that gates it.
\<close>

section \<open>Leases\<close>

text \<open>\<open>coordination.k8s.io/v1\<close>; the resource version is the server's.\<close>

record Lease =
  le_Namespace :: string
  le_Name :: string
  le_ResourceVersion :: string
  le_Labels :: str_map
  le_Annotations :: str_map
  le_HolderIdentity :: "string option"
  le_LeaseDurationSeconds :: "int option"
  le_AcquireTime :: "time option"
  le_RenewTime :: "time option"

section \<open>Programs\<close>

datatype 'a prog =
    Ret 'a
  | Clock "time \<Rightarrow> 'a prog"
  | GetLease string string "api_error + Lease \<Rightarrow> 'a prog"
  | CreateLease Lease "api_error option \<Rightarrow> 'a prog"
  | UpdateLease Lease "api_error option \<Rightarrow> 'a prog"
  | DeleteLease Lease "api_error option \<Rightarrow> 'a prog"
  | ListXTrinodes "api_error + XTrinode list \<Rightarrow> 'a prog"
  | GetXTrinode string string "api_error + XTrinode \<Rightarrow> 'a prog"
  | CreateXTrinode XTrinode "api_error + XTrinode \<Rightarrow> 'a prog"
  | UpdateXTrinode XTrinode "api_error option \<Rightarrow> 'a prog"
  | DeleteXTrinode string string "api_error option \<Rightarrow> 'a prog"
  | GoResume string string string string "'a prog"

primrec bind :: "'a prog \<Rightarrow> ('a \<Rightarrow> 'b prog) \<Rightarrow> 'b prog" where
  "bind (Ret x) f = f x"
| "bind (Clock k) f = Clock (\<lambda>t. bind (k t) f)"
| "bind (GetLease ns n k) f = GetLease ns n (\<lambda>r. bind (k r) f)"
| "bind (CreateLease l k) f = CreateLease l (\<lambda>r. bind (k r) f)"
| "bind (UpdateLease l k) f = UpdateLease l (\<lambda>r. bind (k r) f)"
| "bind (DeleteLease l k) f = DeleteLease l (\<lambda>r. bind (k r) f)"
| "bind (ListXTrinodes k) f = ListXTrinodes (\<lambda>r. bind (k r) f)"
| "bind (GetXTrinode ns n k) f = GetXTrinode ns n (\<lambda>r. bind (k r) f)"
| "bind (CreateXTrinode x k) f = CreateXTrinode x (\<lambda>r. bind (k r) f)"
| "bind (UpdateXTrinode x k) f = UpdateXTrinode x (\<lambda>r. bind (k r) f)"
| "bind (DeleteXTrinode ns n k) f = DeleteXTrinode ns n (\<lambda>r. bind (k r) f)"
| "bind (GoResume ns n key kt k) f = GoResume ns n key kt (bind k f)"

lemma bind_Ret [simp]: "bind p Ret = p"
  by (induction p) (auto simp: fun_eq_iff)

lemma bind_assoc: "bind (bind p f) g = bind p (\<lambda>x. bind (f x) g)"
  by (induction p) (auto simp: fun_eq_iff)

section \<open>Retrying\<close>

text \<open>
  \<open>retry.RetryOnConflict\<close> of client-go is a parameter. It runs its argument until the argument does not
  fail with a conflict, at most as often as the back-off has steps, and returns the last error.
\<close>

primrec retry_run :: "nat \<Rightarrow> api_error option prog \<Rightarrow> api_error option prog" where
  "retry_run 0 fn = fn"
| "retry_run (Suc n) fn =
     bind fn (\<lambda>err. case err of
                      Some e \<Rightarrow> if IsConflict e then retry_run n fn else Ret (Some e)
                    | None \<Rightarrow> Ret None)"

type_synonym retrier = "api_error option prog \<Rightarrow> api_error option prog"

definition retrier_ok :: "retrier \<Rightarrow> bool" where
  "retrier_ok roc \<longleftrightarrow> (\<forall>fn. \<exists>n. roc fn = retry_run n fn)"

section \<open>What a program may do\<close>

text \<open>
  \<open>confined al seen p\<close>: on every run of \<open>p\<close> each call is one that \<open>al\<close> allows. An update must be a change
  that \<open>al\<close> allows of an object read before; \<open>seen\<close> are the objects read so far. A lease that is read has the name it
  was asked for.
\<close>

record allowed =
  al_lease :: "string \<Rightarrow> string \<Rightarrow> bool"
  al_read :: bool
  al_update :: "XTrinode \<Rightarrow> XTrinode \<Rightarrow> bool"
  al_create :: "XTrinode \<Rightarrow> bool"
  al_delete :: "string \<Rightarrow> string \<Rightarrow> bool"
  al_resume :: "string \<Rightarrow> string \<Rightarrow> string \<Rightarrow> string \<Rightarrow> bool"

primrec confined :: "allowed \<Rightarrow> XTrinode set \<Rightarrow> 'a prog \<Rightarrow> bool" where
  "confined al seen (Ret x) = True"
| "confined al seen (Clock k) = (\<forall>t. confined al seen (k t))"
| "confined al seen (GetLease ns n k) =
     (al_lease al ns n
      \<and> (\<forall>r. (\<forall>l. r = Inr l \<longrightarrow> le_Namespace l = ns \<and> le_Name l = n) \<longrightarrow> confined al seen (k r)))"
| "confined al seen (CreateLease l k) = (al_lease al (le_Namespace l) (le_Name l) \<and> (\<forall>r. confined al seen (k r)))"
| "confined al seen (UpdateLease l k) = (al_lease al (le_Namespace l) (le_Name l) \<and> (\<forall>r. confined al seen (k r)))"
| "confined al seen (DeleteLease l k) = (al_lease al (le_Namespace l) (le_Name l) \<and> (\<forall>r. confined al seen (k r)))"
| "confined al seen (ListXTrinodes k) = (al_read al \<and> (\<forall>r. confined al seen (k r)))"
| "confined al seen (GetXTrinode ns n k) =
     (al_read al \<and> (\<forall>r. confined al (case r of Inr x \<Rightarrow> insert x seen | Inl _ \<Rightarrow> seen) (k r)))"
| "confined al seen (CreateXTrinode x k) = (al_create al x \<and> (\<forall>r. confined al seen (k r)))"
| "confined al seen (UpdateXTrinode x k) =
     ((\<exists>y \<in> seen. al_update al y x) \<and> (\<forall>r. confined al seen (k r)))"
| "confined al seen (DeleteXTrinode ns n k) = (al_delete al ns n \<and> (\<forall>r. confined al seen (k r)))"
| "confined al seen (GoResume ns n key kt k) = (al_resume al ns n key kt \<and> confined al seen k)"

lemma confined_un: "confined al seen p \<Longrightarrow> confined al (seen \<union> rest) p"
proof (induction p arbitrary: seen)
  case (GetXTrinode ns n k)
  have "confined al (case r of Inr x \<Rightarrow> insert x (seen \<union> rest) | Inl _ \<Rightarrow> seen \<union> rest) (k r)" for r
  proof -
    have "confined al ((case r of Inr x \<Rightarrow> insert x seen | Inl _ \<Rightarrow> seen) \<union> rest) (k r)"
      using GetXTrinode.prems by (intro GetXTrinode.IH) auto
    then show ?thesis by (cases r) auto
  qed
  then show ?case using GetXTrinode.prems by simp
next
  case (UpdateXTrinode x k)
  then show ?case by (simp del: Un_iff) blast
qed simp_all

lemma confined_mono: "confined al seen p \<Longrightarrow> seen \<subseteq> seen' \<Longrightarrow> confined al seen' p"
  using confined_un [of al seen p seen'] by (simp add: Un_absorb1)

lemma confined_bind:
  assumes "confined al seen p" "\<And>x. confined al seen (f x)"
  shows "confined al seen (bind p f)"
  using assms
proof (induction p arbitrary: seen)
  case (GetXTrinode ns n k)
  have "confined al (case r of Inr x \<Rightarrow> insert x seen | Inl _ \<Rightarrow> seen) (bind (k r) f)" for r
    using GetXTrinode.prems
    by (intro GetXTrinode.IH) (auto split: sum.splits intro: confined_mono [of al seen])
  then show ?case using GetXTrinode.prems by simp
qed auto

lemma confined_retry:
  assumes "retrier_ok roc" "confined al seen fn"
  shows "confined al seen (roc fn)"
proof -
  have "confined al seen (retry_run n fn)" for n
    by (induction n) (auto intro!: confined_bind assms(2) split: option.splits)
  then show ?thesis using assms(1) by (auto simp: retrier_ok_def) metis
qed

end
