(* ===== verification/Durations.thy ===== *)
theory Durations
  imports Numbers
begin

text \<open>
  Go's \<open>time.Duration\<close> as seconds, and as text: \<open>Seconds\<close>, \<open>String\<close> and \<open>ParseDuration\<close>.
\<close>

section \<open>Seconds\<close>

fun f64_add :: "f64 \<Rightarrow> f64 \<Rightarrow> f64" where
  "f64_add (Fin a) (Fin b) = f64_round (a + b)"
| "f64_add NaN _ = NaN"
| "f64_add _ NaN = NaN"
| "f64_add (FInf a) (FInf b) = (if a = b then FInf a else NaN)"
| "f64_add (FInf a) (Fin _) = FInf a"
| "f64_add (Fin _) (FInf b) = FInf b"

definition duration_seconds :: "duration \<Rightarrow> f64" where
  "duration_seconds d =
     f64_add (f64_round (of_int (d sdiv second))) (f64_scale (1 / 10 ^ 9) (f64_round (of_int (d smod second))))"

lemma bit_length_bound: "0 < n \<Longrightarrow> 2 ^ nat (bit_length n - 1) \<le> n \<and> n < 2 ^ nat (bit_length n) \<and> 1 \<le> bit_length n"
proof (induction n rule: bit_length.induct)
  case (1 n)
  show ?case
  proof (cases "n = 1")
    case True
    have "bit_length 1 = 1" by (simp add: bit_length.simps [of 1] bit_length.simps [of 0])
    then show ?thesis using True by simp
  next
    case False
    then have IH: "2 ^ nat (bit_length (n div 2) - 1) \<le> n div 2" "n div 2 < 2 ^ nat (bit_length (n div 2))" "1 \<le> bit_length (n div 2)"
      using 1 by auto
    have b: "bit_length n = 1 + bit_length (n div 2)" using 1 by (simp add: bit_length.simps [of n])
    have e: "nat (bit_length n - 1) = Suc (nat (bit_length (n div 2) - 1))" "nat (bit_length n) = Suc (nat (bit_length (n div 2)))"
      using IH(3) b by (auto simp: nat_eq_iff Suc_nat_eq_nat_zadd1)
    show ?thesis using IH e b by (auto simp: algebra_simps) linarith+
  qed
qed

text \<open>An integer of at most 53 bits is its own nearest value.\<close>

lemma round_even_of_int [simp]: "round_even (of_int n) = n"
  by (simp add: round_even_def)

lemma ulp_exponent_int:
  assumes "0 < n" "n < 2 ^ 53"
  shows "ulp_exponent (of_int n) \<le> 0"
proof -
  have q: "quotient_of (of_int n) = (n, 1)" by simp
  have "2 ^ nat (bit_length n - 1) \<le> n" "1 \<le> bit_length n" using bit_length_bound assms(1) by blast+
  then have "(2::int) ^ nat (bit_length n - 1) < 2 ^ 53" using assms(2) by linarith
  then have "nat (bit_length n - 1) < 53" by (rule power_less_imp_less_exp [rotated]) simp
  then have "bit_length n \<le> 53" by simp
  moreover have "bit_length 1 = 1" by (simp add: bit_length.simps [of 1] bit_length.simps [of 0])
  ultimately show ?thesis by (simp add: ulp_exponent_def q Let_def)
qed

lemma f64_round_int:
  assumes "\<bar>n\<bar> < 2 ^ 53"
  shows "f64_round (of_int n) = Fin (of_int n)"
proof (cases "n = 0")
  case True
  then show ?thesis by (simp add: f64_round_def)
next
  case False
  let ?u = "ulp_exponent (of_int \<bar>n\<bar>)"
  have u: "?u \<le> 0" using ulp_exponent_int [of "\<bar>n\<bar>"] False assms by auto
  then have p: "pow2 ?u = 1 / 2 ^ nat (- ?u)"
    by (cases "?u = 0") (auto simp: pow2_def)
  have "(of_int \<bar>n\<bar> :: rat) / pow2 ?u = of_int (\<bar>n\<bar> * 2 ^ nat (- ?u))"
    unfolding p by simp
  then have r: "of_int (round_even (of_int \<bar>n\<bar> / pow2 ?u)) * pow2 ?u = (of_int \<bar>n\<bar> :: rat)"
    unfolding p by (simp del: of_int_mult of_int_abs) simp
  have "(of_int \<bar>n\<bar> :: rat) < 2 ^ 53" using assms by (metis of_int_less_iff of_int_numeral of_int_power)
  also have "(2::rat) ^ 53 < 2 ^ 1024" by (rule power_strict_increasing) auto
  finally show ?thesis using False r by (auto simp: f64_round_def Let_def)
qed

lemma duration_seconds_whole:
  assumes "0 \<le> n" "n < 2 ^ 31"
  shows "f64_to_int 32 (duration_seconds (n * second)) = n"
proof -
  have "(n * second) sdiv second = n" "(n * second) smod second = 0"
    by (simp_all add: second_def millisecond_def microsecond_def nanosecond_def signed_modulo_int_def sdiv_nonneg assms)
  moreover have "f64_round (of_int n) = Fin (of_int n)" using assms by (intro f64_round_int) auto
  moreover have "f64_round 0 = Fin 0" by (simp add: f64_round_def)
  ultimately show ?thesis using assms by (simp add: duration_seconds_def trunc_rat_def)
qed

section \<open>Text\<close>

text \<open>The fraction of \<open>v / 10 ^ prec\<close> without trailing zeros, with its point, or nothing.\<close>

fun fraction_digits :: "nat \<Rightarrow> int \<Rightarrow> string" where
  "fraction_digits 0 v = ''''"
| "fraction_digits (Suc n) v = fraction_digits n (v div 10) @ [char_of (nat (48 + v mod 10))]"

definition fmt_frac :: "int \<Rightarrow> nat \<Rightarrow> string" where
  "fmt_frac v prec =
     (case trim_right (CHR ''0'') (fraction_digits prec v) of [] \<Rightarrow> '''' | d # ds \<Rightarrow> CHR ''.'' # d # ds)"

definition duration_string :: "duration \<Rightarrow> string" where
  "duration_string d =
     (let u = \<bar>d\<bar>;
          part = (\<lambda>prec unit. show_int (u div 10 ^ prec) @ fmt_frac u prec @ unit);
          s = u div 10 ^ 9; m = s div 60; h = m div 60
      in (if d < 0 then ''-'' else '''') @
         (if u = 0 then ''0s''
          else if u < 10 ^ 3 then part 0 ''ns''
          else if u < 10 ^ 6 then part 3 [CHR 0xC2, CHR 0xB5, CHR ''s'']
          else if u < 10 ^ 9 then part 6 ''ms''
          else (if h > 0 then show_int h @ ''h'' else '''')
             @ (if m > 0 then show_int (m mod 60) @ ''m'' else '''')
             @ show_int (s mod 60) @ fmt_frac u 9 @ ''s''))"

definition duration_unit :: "string \<Rightarrow> int option" where
  "duration_unit u =
     (if u = ''ns'' then Some nanosecond
      else if u \<in> {''us'', [CHR 0xC2, CHR 0xB5, CHR ''s''], [CHR 0xCE, CHR 0xBC, CHR ''s'']} then Some microsecond
      else if u = ''ms'' then Some millisecond
      else if u = ''s'' then Some second
      else if u = ''m'' then Some minute
      else if u = ''h'' then Some (60 * minute)
      else None)"

text \<open>The digits before the point; \<open>None\<close> when the number exceeds \<open>2 ^ 63\<close>.\<close>

fun leading_int :: "int \<Rightarrow> string \<Rightarrow> (int \<times> string) option" where
  "leading_int x [] = Some (x, [])"
| "leading_int x (c # s) =
     (case digit_val c of
        None \<Rightarrow> Some (x, c # s)
      | Some d \<Rightarrow>
          if x > 2 ^ 63 div 10 then None
          else if x * 10 + d > 2 ^ 63 then None
          else leading_int (x * 10 + d) s)"

text \<open>The digits after the point as a numerator and its scale; digits beyond 63 bits are dropped.\<close>

fun leading_fraction :: "int \<Rightarrow> int \<Rightarrow> bool \<Rightarrow> string \<Rightarrow> int \<times> int \<times> string" where
  "leading_fraction x scale ovf [] = (x, scale, [])"
| "leading_fraction x scale ovf (c # s) =
     (case digit_val c of
        None \<Rightarrow> (x, scale, c # s)
      | Some d \<Rightarrow>
          if ovf \<or> x > (2 ^ 63 - 1) div 10 \<or> x * 10 + d > 2 ^ 63 then leading_fraction x scale True s
          else leading_fraction (x * 10 + d) (scale * 10) False s)"

lemma leading_int_length: "leading_int x s = Some (v, r) \<Longrightarrow> length r \<le> length s"
  by (induction x s rule: leading_int.induct) (auto split: option.splits if_splits)

lemma leading_fraction_length: "leading_fraction x sc ovf s = (f, sc', r) \<Longrightarrow> length r \<le> length s"
proof (induction x sc ovf s rule: leading_fraction.induct)
  case (2 x scale ovf c s)
  show ?case
  proof (cases "digit_val c")
    case (Some d)
    show ?thesis
    proof (cases "ovf \<or> x > (2 ^ 63 - 1) div 10 \<or> x * 10 + d > 2 ^ 63")
      case True
      then have "length r \<le> length s" using "2.IH"(1) [OF Some True] "2.prems" Some by simp
      then show ?thesis by simp
    next
      case False
      then have "length r \<le> length s" using "2.IH"(2) [OF Some False] "2.prems" Some by simp
      then show ?thesis by simp
    qed
  qed (use 2 in auto)
qed simp

text \<open>One number with its unit: its length in nanoseconds and the rest of the text.\<close>

definition duration_part :: "string \<Rightarrow> (int \<times> string) option" where
  "duration_part s =
     (case leading_int 0 s of
        None \<Rightarrow> None
      | Some (v, s1) \<Rightarrow>
          let pre = length s1 \<noteq> length s;
              (f, scale, s2, post) =
                (case s1 of
                   c # r \<Rightarrow>
                     if c = CHR ''.'' then (case leading_fraction 0 1 False r of (f, scale, r') \<Rightarrow> (f, scale, r', length r' \<noteq> length r))
                     else (0, 1, s1, False)
                 | [] \<Rightarrow> (0, 1, s1, False));
              u = takeWhile (\<lambda>c. c \<noteq> CHR ''.'' \<and> \<not> is_digit c) s2
          in if \<not> pre \<and> \<not> post then None
             else if u = '''' then None
             else case duration_unit u of
                    None \<Rightarrow> None
                  | Some unit \<Rightarrow>
                      if v > 2 ^ 63 div unit then None
                      else
                        let v = v * unit;
                            v' = (if f > 0
                                  then v + f64_to_int 64 (case f64_round (of_int unit / of_int scale) of
                                                            Fin q \<Rightarrow> f64_scale q (f64_round (of_int f)) | x \<Rightarrow> x)
                                  else v)
                        in if v' > 2 ^ 63 then None else Some (v', drop (length u) s2))"

lemma duration_part_length:
  assumes "duration_part s = Some (v, r)"
  shows "length r < length s"
proof -
  obtain v1 s1 where s1: "leading_int 0 s = Some (v1, s1)"
    using assms by (auto simp: duration_part_def split: option.splits)
  have l1: "length s1 \<le> length s" using leading_int_length [OF s1] .
  let ?q = "case s1 of
              c # r \<Rightarrow> if c = CHR ''.'' then (case leading_fraction 0 1 False r of (f, scale, r') \<Rightarrow> (f, scale, r', length r' \<noteq> length r))
                      else (0, 1, s1, False)
            | [] \<Rightarrow> (0, 1, s1, False)"
  obtain f scale s2 post where q: "?q = (f, scale, s2, post)" using prod_cases4 by blast
  then have l2: "length s2 \<le> length s1"
    using leading_fraction_length by (auto split: list.splits if_splits prod.splits) (meson le_SucI)
  let ?u = "takeWhile (\<lambda>c. c \<noteq> CHR ''.'' \<and> \<not> is_digit c) s2"
  have "?u \<noteq> ''''" "r = drop (length ?u) s2"
    using assms unfolding duration_part_def s1 by (auto simp: q Let_def split: if_splits option.splits)
  then have "length r < length s2" using length_takeWhile_le [of _ s2] by (cases s2) auto
  then show ?thesis using l1 l2 by simp
qed

function duration_parts :: "int \<Rightarrow> string \<Rightarrow> int option" where
  "duration_parts d s =
     (if s = '''' then Some d
      else case duration_part s of
             None \<Rightarrow> None
           | Some (v, r) \<Rightarrow> if d + v > 2 ^ 63 then None else duration_parts (d + v) r)"
  by pat_completeness auto
termination
  by (relation "measure (length \<circ> snd)") (auto dest: duration_part_length)

definition ParseDuration :: "string \<Rightarrow> duration option" where
  "ParseDuration orig =
     (let neg = has_prefix orig ''-'';
          s = (if neg \<or> has_prefix orig ''+'' then tl orig else orig)
      in if s = ''0'' then Some 0
         else if s = '''' then None
         else case duration_parts 0 s of
                None \<Rightarrow> None
              | Some d \<Rightarrow> if neg then Some (- d) else if d > 2 ^ 63 - 1 then None else Some d)"

end
