(* ===== verification/Lease.thy ===== *)
theory Lease
  imports KubeProgram Durations Json
begin

text \<open>
  The leases that gate resume and suspend requests (\<open>pkg/api-server/lease.go\<close>): names, acquisition and
  release as programs over the Kubernetes client, and several API server replicas that run them at
  the same time.
\<close>

section \<open>Names\<close>

text \<open>\<open>for _, r := range s\<close>: one byte per ASCII character, and one replacement for every other
  character and for every invalid byte.\<close>

definition APIServerMaxLeaseNameLength :: nat where "APIServerMaxLeaseNameLength = 63"
definition APIServerLeasePrefix :: string where "APIServerLeasePrefix = ''xtrinode-resume-''"

definition LeaseKeyTypeRuntime :: string where "LeaseKeyTypeRuntime = ''runtime''"
definition LeaseKeyTypePool :: string where "LeaseKeyTypePool = ''pool''"
definition LeaseKeyTypeSuspend :: string where "LeaseKeyTypeSuspend = ''suspend''"

definition sanitize_char :: "char \<Rightarrow> char" where
  "sanitize_char c =
     (if byte_in 0x61 0x7A c \<or> byte_in 0x30 0x39 c then c
      else if byte_in 0x41 0x5A c then char_of (of_char c + 32 :: nat)
      else CHR ''-'')"

function sanitize_runes :: "string \<Rightarrow> string" where
  "sanitize_runes [] = []"
| "sanitize_runes (c # s) = sanitize_char c # sanitize_runes (drop (max 1 (utf8_prefix (c # s))) (c # s))"
  by pat_completeness auto
termination by (relation "measure length") (auto simp: max_def)

definition sanitizeDNS1123 :: "string \<Rightarrow> string" where
  "sanitizeDNS1123 s = trim_by (\<lambda>c. c = CHR ''-'') (sanitize_runes s)"

definition MakeRuntimeKey :: "string \<Rightarrow> string \<Rightarrow> string" where
  "MakeRuntimeKey namespace name = ''rt/'' @ namespace @ ''/'' @ name"

definition MakePoolKey :: "string \<Rightarrow> string" where
  "MakePoolKey routingGroup = ''pool/'' @ routingGroup"

text \<open>\<open>sha\<close> is the hexadecimal SHA-256 of a text.\<close>

definition makeLeaseNameFromKey :: "(string \<Rightarrow> string) \<Rightarrow> string \<Rightarrow> string \<Rightarrow> string" where
  "makeLeaseNameFromKey sha key keyType =
     (let sanitized = sanitizeDNS1123 key;
          name = APIServerLeasePrefix @ keyType @ ''-'' @ sanitized
      in if length name > APIServerMaxLeaseNameLength then
           let hashStr = take 8 (sha key);
               maxPrefixLen = APIServerMaxLeaseNameLength - length hashStr - 1;
               prefix = APIServerLeasePrefix @ keyType;
               prefix = (if length prefix > maxPrefixLen then take maxPrefixLen prefix else prefix)
           in prefix @ ''-'' @ hashStr
         else name)"

section \<open>The lease manager\<close>

record LeaseManager =
  lm_leaseNamespace :: string
  lm_leaseDuration :: duration
  lm_suspendDuration :: duration
  lm_holderIdentity :: string

definition NewLeaseManager :: "string \<Rightarrow> duration \<Rightarrow> string \<Rightarrow> LeaseManager" where
  "NewLeaseManager leaseNamespace leaseDuration holderIdentity =
     \<lparr> lm_leaseNamespace = leaseNamespace, lm_leaseDuration = leaseDuration,
       lm_suspendDuration = leaseDuration, lm_holderIdentity = holderIdentity \<rparr>"

definition SetSuspendDuration :: "duration \<Rightarrow> LeaseManager \<Rightarrow> LeaseManager" where
  "SetSuspendDuration d lm = lm\<lparr>lm_suspendDuration := d\<rparr>"

definition durationForKey :: "LeaseManager \<Rightarrow> string \<Rightarrow> duration" where
  "durationForKey lm keyType = (if keyType = LeaseKeyTypeSuspend then lm_suspendDuration lm else lm_leaseDuration lm)"

record K8sLeaseResult =
  kl_Acquired :: bool
  kl_LeaseUntil :: time
  kl_Holder :: string

definition lease_seconds :: "LeaseManager \<Rightarrow> string \<Rightarrow> int" where
  "lease_seconds lm keyType = f64_to_int 32 (duration_seconds (durationForKey lm keyType))"

text \<open>When a lease ends, from its renew time and its duration; \<open>now\<close> stands in for a missing renew time.\<close>

definition lease_expiry :: "time \<Rightarrow> Lease \<Rightarrow> time" where
  "lease_expiry now lease =
     (case (le_RenewTime lease, le_LeaseDurationSeconds lease) of
        (Some t, Some d) \<Rightarrow> t + i64 (d * second)
      | (Some t, None) \<Rightarrow> t
      | (None, _) \<Rightarrow> now)"

definition lease_holder :: "Lease \<Rightarrow> string" where
  "lease_holder lease = (case le_HolderIdentity lease of Some h \<Rightarrow> h | None \<Rightarrow> ''unknown'')"

definition new_lease :: "LeaseManager \<Rightarrow> string \<Rightarrow> time \<Rightarrow> string \<Rightarrow> string \<Rightarrow> Lease" where
  "new_lease lm leaseName now key keyType =
     \<lparr> le_Namespace = lm_leaseNamespace lm, le_Name = leaseName, le_ResourceVersion = '''',
       le_Labels = [(''app.kubernetes.io/component'', ''api-server''), (''app.kubernetes.io/name'', ''xtrinode-operator''),
                    (''xtrinode.io/lease-key-type'', keyType), (''xtrinode.io/lease-type'', ''resume'')],
       le_Annotations = [(''xtrinode.io/lease-key'', key)],
       le_HolderIdentity = Some (lm_holderIdentity lm), le_LeaseDurationSeconds = Some (lease_seconds lm keyType),
       le_AcquireTime = Some now, le_RenewTime = Some now \<rparr>"

type_synonym lease_reply = "api_error + K8sLeaseResult"

definition createLease :: "LeaseManager \<Rightarrow> string \<Rightarrow> time \<Rightarrow> time \<Rightarrow> string \<Rightarrow> string \<Rightarrow> lease_reply prog" where
  "createLease lm leaseName now leaseUntil key keyType =
     CreateLease (new_lease lm leaseName now key keyType) (\<lambda>err. case err of
       None \<Rightarrow> Ret (Inr \<lparr> kl_Acquired = True, kl_LeaseUntil = leaseUntil, kl_Holder = lm_holderIdentity lm \<rparr>)
     | Some e \<Rightarrow>
         if IsAlreadyExists e then
           GetLease (lm_leaseNamespace lm) leaseName (\<lambda>r. case r of
             Inl getErr \<Rightarrow> Ret (Inl (WrapErr ''failed to get existing lease after create race'' getErr))
           | Inr existing \<Rightarrow>
               Ret (Inr \<lparr> kl_Acquired = False,
                          kl_LeaseUntil = (case (le_RenewTime existing, le_LeaseDurationSeconds existing) of
                                             (Some t, Some d) \<Rightarrow> t + i64 (d * second)
                                           | _ \<Rightarrow> now + durationForKey lm keyType),
                          kl_Holder = lease_holder existing \<rparr>))
         else Ret (Inl (WrapErr ''failed to create lease'' e)))"

text \<open>The key type is the one the label of the lease names (\<open>""\<close> when there is none).\<close>

definition label_key_type :: "Lease \<Rightarrow> string" where
  "label_key_type lease = (case map_of (le_Labels lease) ''xtrinode.io/lease-key-type'' of Some k \<Rightarrow> k | None \<Rightarrow> '''')"

definition renewed :: "LeaseManager \<Rightarrow> Lease \<Rightarrow> time \<Rightarrow> Lease" where
  "renewed lm lease now =
     lease\<lparr>le_HolderIdentity := Some (lm_holderIdentity lm), le_RenewTime := Some now,
           le_LeaseDurationSeconds := Some (lease_seconds lm (label_key_type lease))\<rparr>"

definition updateLease :: "LeaseManager \<Rightarrow> Lease \<Rightarrow> time \<Rightarrow> time \<Rightarrow> lease_reply prog" where
  "updateLease lm lease now leaseUntil =
     UpdateLease (renewed lm lease now) (\<lambda>err. case err of
       None \<Rightarrow> Ret (Inr \<lparr> kl_Acquired = True, kl_LeaseUntil = leaseUntil, kl_Holder = lm_holderIdentity lm \<rparr>)
     | Some _ \<Rightarrow>
         GetLease (lm_leaseNamespace lm) (le_Name lease) (\<lambda>r. case r of
           Inl getErr \<Rightarrow> Ret (Inl (WrapErr ''failed to re-get lease after conflict'' getErr))
         | Inr actualLease \<Rightarrow>
             Ret (Inr \<lparr> kl_Acquired = False, kl_LeaseUntil = lease_expiry now actualLease,
                        kl_Holder = lease_holder actualLease \<rparr>)))"

text \<open>What follows the first read, at clock value \<open>now\<close>.\<close>

definition acquire_from :: "LeaseManager \<Rightarrow> string \<Rightarrow> string \<Rightarrow> string \<Rightarrow> time \<Rightarrow> api_error + Lease \<Rightarrow> lease_reply prog" where
  "acquire_from lm leaseName key keyType now r =
     (let leaseUntil = now + durationForKey lm keyType
      in case r of
           Inl err \<Rightarrow>
             if IsNotFound err then createLease lm leaseName now leaseUntil key keyType
             else Ret (Inl (WrapErr ''failed to get lease'' err))
         | Inr lease \<Rightarrow>
             let leaseExpiry = lease_expiry now lease
             in if leaseExpiry < now then updateLease lm lease now leaseUntil
                else Ret (Inr \<lparr> kl_Acquired = False, kl_LeaseUntil = leaseExpiry, kl_Holder = lease_holder lease \<rparr>))"

definition AcquireLease :: "(string \<Rightarrow> string) \<Rightarrow> LeaseManager \<Rightarrow> string \<Rightarrow> string \<Rightarrow> lease_reply prog" where
  "AcquireLease sha lm key keyType =
     (let leaseName = makeLeaseNameFromKey sha key keyType
      in Clock (\<lambda>now. GetLease (lm_leaseNamespace lm) leaseName (acquire_from lm leaseName key keyType now)))"

definition ReleaseLease :: "(string \<Rightarrow> string) \<Rightarrow> LeaseManager \<Rightarrow> string \<Rightarrow> string \<Rightarrow> api_error option prog" where
  "ReleaseLease sha lm key keyType =
     (let leaseName = makeLeaseNameFromKey sha key keyType
      in GetLease (lm_leaseNamespace lm) leaseName (\<lambda>r. case r of
           Inl err \<Rightarrow> if IsNotFound err then Ret None else Ret (Some (WrapErr ''failed to get lease for release'' err))
         | Inr lease \<Rightarrow>
             if le_HolderIdentity lease \<noteq> Some (lm_holderIdentity lm) then Ret None
             else DeleteLease lease (\<lambda>err. case err of
                    None \<Rightarrow> Ret None
                  | Some e \<Rightarrow> if IsNotFound e then Ret None else Ret (Some (WrapErr ''failed to delete lease'' e)))))"

end
