(* ===== verification/LeaseSystem.thy ===== *)
theory LeaseSystem
  imports Lease
begin

text \<open>
  Many callers of \<open>AcquireLease\<close>, in any number of API server replicas, against one API server. Their calls
  interleave in any order, every caller reads its own clock, reads may be stale, and a call may fail with or
  without having taken effect. Leases may be deleted at any time.
\<close>

section \<open>The API server\<close>

datatype lease_call = CGet string string | CCreate Lease | CUpdate Lease | CDelete Lease

text \<open>\<open>api c s r s'\<close>: in state \<open>s\<close> the call \<open>c\<close> may be answered with \<open>r\<close>, leaving \<open>s'\<close>.\<close>

type_synonym 'st lease_api = "lease_call \<Rightarrow> 'st \<Rightarrow> api_error + Lease \<Rightarrow> 'st \<Rightarrow> bool"
type_synonym lease_id = "string \<times> string"

text \<open>What a state holds: the current object, and every version there ever was.\<close>

record 'st lease_view =
  lv_cur :: "'st \<Rightarrow> lease_id \<Rightarrow> Lease option"
  lv_ver :: "'st \<Rightarrow> lease_id \<Rightarrow> string \<Rightarrow> Lease option"

definition lease_id :: "Lease \<Rightarrow> lease_id" where
  "lease_id l = (le_Namespace l, le_Name l)"

text \<open>A \<open>MicroTime\<close> travels with microseconds.\<close>

definition micro :: "time \<Rightarrow> time" where
  "micro t = t div microsecond * microsecond"

definition stored :: "string \<Rightarrow> Lease \<Rightarrow> Lease" where
  "stored v l = l\<lparr>le_ResourceVersion := v, le_AcquireTime := map_option micro (le_AcquireTime l),
                  le_RenewTime := map_option micro (le_RenewTime l)\<rparr>"

definition unchanged :: "'st lease_view \<Rightarrow> 'st \<Rightarrow> 'st \<Rightarrow> bool" where
  "unchanged view s s' \<longleftrightarrow> lv_cur view s' = lv_cur view s \<and> lv_ver view s' = lv_ver view s"

definition written :: "'st lease_view \<Rightarrow> Lease \<Rightarrow> 'st \<Rightarrow> 'st \<Rightarrow> bool" where
  "written view l s s' \<longleftrightarrow>
     (\<exists>v. lv_ver view s (lease_id l) v = None
        \<and> lv_cur view s' = (lv_cur view s)(lease_id l \<mapsto> stored v l)
        \<and> lv_ver view s' = (lv_ver view s)(lease_id l := (lv_ver view s (lease_id l))(v \<mapsto> stored v l)))"

text \<open>
  The contract of the API server. A read returns some version of the object, not always the
  latest. A create takes effect only when the object does not exist, an update of a version only when that version is
  the current one. Each write makes a new version, and a call that reports success has taken effect.
\<close>

definition lease_api_ok :: "'st lease_api \<Rightarrow> 'st lease_view \<Rightarrow> bool" where
  "lease_api_ok api view \<longleftrightarrow>
     (\<forall>ns n s r s'. api (CGet ns n) s r s' \<longrightarrow>
        unchanged view s s' \<and> (\<forall>l. r = Inr l \<longrightarrow> lv_ver view s (ns, n) (le_ResourceVersion l) = Some l))
   \<and> (\<forall>l s r s'. api (CCreate l) s r s' \<longrightarrow>
        unchanged view s s' \<and> (\<exists>e. r = Inl e) \<or> lv_cur view s (lease_id l) = None \<and> written view l s s')
   \<and> (\<forall>l s r s'. api (CUpdate l) s r s' \<longrightarrow>
        unchanged view s s' \<and> (\<exists>e. r = Inl e)
        \<or> (\<exists>old. lv_cur view s (lease_id l) = Some old \<and> le_ResourceVersion old = le_ResourceVersion l) \<and> written view l s s')
   \<and> (\<forall>l s r s'. api (CDelete l) s r s' \<longrightarrow>
        unchanged view s s'
        \<or> lv_cur view s' = (lv_cur view s)(lease_id l := None) \<and> lv_ver view s' = lv_ver view s)"

section \<open>Interleaving\<close>

text \<open>
  Next to the state of the API server and of each caller, the system keeps two logs that no caller
  sees: who has written a lease, with the time it wrote, and which leases were deleted.
\<close>

record 'st lease_system =
  ls_api :: 'st
  ls_proc :: "nat \<Rightarrow> lease_reply prog"
  ls_log :: "lease_id \<Rightarrow> (nat \<times> time) list"
  ls_deleted :: "lease_id set"

fun reply_error :: "api_error + Lease \<Rightarrow> api_error option" where
  "reply_error (Inl e) = Some e"
| "reply_error (Inr _) = None"

definition logged :: "'st lease_view \<Rightarrow> nat \<Rightarrow> Lease \<Rightarrow> 'st lease_system \<Rightarrow> 'st \<Rightarrow> lease_id \<Rightarrow> (nat \<times> time) list" where
  "logged view i l S s' =
     (if lv_cur view s' (lease_id l) = lv_cur view (ls_api S) (lease_id l) then ls_log S
      else (ls_log S)(lease_id l := ls_log S (lease_id l) @ [(i, the (le_RenewTime l))]))"

inductive lease_step :: "'st lease_api \<Rightarrow> 'st lease_view \<Rightarrow> 'st lease_system \<Rightarrow> 'st lease_system \<Rightarrow> bool"
  for api view where
  clock: "ls_proc S i = Clock k \<Longrightarrow> lease_step api view S (S\<lparr>ls_proc := (ls_proc S)(i := k t)\<rparr>)"
| get: "ls_proc S i = GetLease ns n k \<Longrightarrow> api (CGet ns n) (ls_api S) r s' \<Longrightarrow>
    lease_step api view S (S\<lparr>ls_api := s', ls_proc := (ls_proc S)(i := k r)\<rparr>)"
| create: "ls_proc S i = CreateLease l k \<Longrightarrow> api (CCreate l) (ls_api S) r s' \<Longrightarrow>
    lease_step api view S (S\<lparr>ls_api := s', ls_proc := (ls_proc S)(i := k (reply_error r)), ls_log := logged view i l S s'\<rparr>)"
| update: "ls_proc S i = UpdateLease l k \<Longrightarrow> api (CUpdate l) (ls_api S) r s' \<Longrightarrow>
    lease_step api view S (S\<lparr>ls_api := s', ls_proc := (ls_proc S)(i := k (reply_error r)), ls_log := logged view i l S s'\<rparr>)"
| delete: "api (CDelete l) (ls_api S) r s' \<Longrightarrow>
    lease_step api view S (S\<lparr>ls_api := s',
      ls_deleted := (if lv_cur view s' (lease_id l) = lv_cur view (ls_api S) (lease_id l) then ls_deleted S
                      else insert (lease_id l) (ls_deleted S))\<rparr>)"

inductive lease_reach :: "'st lease_api \<Rightarrow> 'st lease_view \<Rightarrow> 'st lease_system \<Rightarrow> 'st lease_system \<Rightarrow> bool"
  for api view S0 where
  start: "lease_reach api view S0 S0"
| step: "lease_reach api view S0 S \<Longrightarrow> lease_step api view S S' \<Longrightarrow> lease_reach api view S0 S'"

text \<open>Caller \<open>i\<close> wants the lease of \<open>task i\<close>, a key and its type; at the start there are no leases.\<close>

definition key_types :: "string set" where
  "key_types = {LeaseKeyTypeRuntime, LeaseKeyTypePool, LeaseKeyTypeSuspend}"

definition lease_start ::
    "'st lease_view \<Rightarrow> (string \<Rightarrow> string) \<Rightarrow> LeaseManager \<Rightarrow> (nat \<Rightarrow> string \<times> string) \<Rightarrow> 'st lease_system \<Rightarrow> bool" where
  "lease_start view sha lm task S \<longleftrightarrow>
     (\<forall>i. snd (task i) \<in> key_types \<and> ls_proc S i = AcquireLease sha lm (fst (task i)) (snd (task i)))
   \<and> (\<forall>id. lv_cur view (ls_api S) id = None \<and> (\<forall>v. lv_ver view (ls_api S) id v = None) \<and> ls_log S id = [])"

definition task_lease :: "(string \<Rightarrow> string) \<Rightarrow> LeaseManager \<Rightarrow> string \<times> string \<Rightarrow> lease_id" where
  "task_lease sha lm t = (lm_leaseNamespace lm, makeLeaseNameFromKey sha (fst t) (snd t))"

section \<open>Lease names tell the key type\<close>

definition kind_char :: "lease_id \<Rightarrow> char" where
  "kind_char x = snd x ! 16"

lemma length_key_type: "kt \<in> key_types \<Longrightarrow> kt \<noteq> '''' \<and> length kt \<le> 7"
  by (auto simp: key_types_def LeaseKeyTypeRuntime_def LeaseKeyTypePool_def LeaseKeyTypeSuspend_def)

lemma key_type_hd: "a \<in> key_types \<Longrightarrow> b \<in> key_types \<Longrightarrow> hd a = hd b \<Longrightarrow> a = b"
  by (auto simp: key_types_def LeaseKeyTypeRuntime_def LeaseKeyTypePool_def LeaseKeyTypeSuspend_def)

lemma nth_prefix: "kt \<noteq> [] \<Longrightarrow> (APIServerLeasePrefix @ kt @ r) ! 16 = hd kt"
  by (cases kt) (simp_all add: APIServerLeasePrefix_def)

lemma kind_char_task:
  assumes "snd t \<in> key_types"
  shows "kind_char (task_lease sha lm t) = hd (snd t)"
proof -
  note l = length_key_type [OF assms]
  have "length (APIServerLeasePrefix @ snd t) \<le> 23" using l by (simp add: APIServerLeasePrefix_def)
  then have "\<not> length (APIServerLeasePrefix @ snd t) > APIServerMaxLeaseNameLength - length (take 8 (sha (fst t))) - 1"
    by (simp add: APIServerMaxLeaseNameLength_def)
  then show ?thesis
    using l nth_prefix [of "snd t"]
    by (simp add: kind_char_def task_lease_def makeLeaseNameFromKey_def Let_def del: append_assoc) (simp add: append_assoc)
qed

lemma task_lease_type:
  assumes "snd a \<in> key_types" "snd b \<in> key_types" "task_lease sha lm a = task_lease sha lm b"
  shows "snd a = snd b"
  using assms kind_char_task [of a sha lm] kind_char_task [of b sha lm] key_type_hd by metis

section \<open>The invariant\<close>

fun acquired :: "lease_reply \<Rightarrow> bool" where
  "acquired (Inr r) = kl_Acquired r"
| "acquired (Inl _) = False"

text \<open>A stored lease has the duration of its key type, and the name fits the type.\<close>

definition lease_wf :: "LeaseManager \<Rightarrow> lease_id \<Rightarrow> Lease \<Rightarrow> bool" where
  "lease_wf lm x l \<longleftrightarrow>
     lease_id l = x \<and> label_key_type l \<in> key_types \<and> hd (label_key_type l) = kind_char x
   \<and> le_LeaseDurationSeconds l = Some (lease_seconds lm (label_key_type l)) \<and> le_RenewTime l \<noteq> None"

definition store_inv :: "LeaseManager \<Rightarrow> 'st lease_view \<Rightarrow> 'st \<Rightarrow> bool" where
  "store_inv lm view s \<longleftrightarrow>
     (\<forall>x v l. lv_ver view s x v = Some l \<longrightarrow> le_ResourceVersion l = v \<and> lease_wf lm x l)
   \<and> (\<forall>x l. lv_cur view s x = Some l \<longrightarrow> lv_ver view s x (le_ResourceVersion l) = Some l)"

text \<open>The times at which a lease that was never deleted was written lie further apart than its duration.\<close>

definition spaced :: "duration \<Rightarrow> time list \<Rightarrow> bool" where
  "spaced d ts \<longleftrightarrow> sorted_wrt (\<lambda>a b. micro a + d < b) ts"

definition log_inv :: "LeaseManager \<Rightarrow> 'st lease_view \<Rightarrow> 'st lease_system \<Rightarrow> bool" where
  "log_inv lm view S \<longleftrightarrow>
     (\<forall>x. x \<notin> ls_deleted S \<longrightarrow>
        (case lv_cur view (ls_api S) x of
           None \<Rightarrow> ls_log S x = []
         | Some l \<Rightarrow> ls_log S x \<noteq> [] \<and> le_RenewTime l = Some (micro (snd (last (ls_log S x)))))
      \<and> (\<forall>kt \<in> key_types. hd kt = kind_char x \<longrightarrow> spaced (lease_seconds lm kt * second) (map snd (ls_log S x))))"

definition not_logged :: "'st lease_system \<Rightarrow> nat \<Rightarrow> bool" where
  "not_logged S i \<longleftrightarrow> (\<forall>x. i \<notin> fst ` set (ls_log S x))"

fun gives_up :: "lease_reply prog \<Rightarrow> bool" where
  "gives_up (Ret y) = (\<not> acquired y)"
| "gives_up (GetLease ns n k) = (\<forall>r. \<exists>y. k r = Ret y \<and> \<not> acquired y)"
| "gives_up _ = False"

text \<open>The states of one caller: before its write, it is not in the log; after a successful one it is there
  with the time it read; and without one it will not report the lease as acquired.\<close>

definition caller_inv ::
    "'st lease_view \<Rightarrow> (string \<Rightarrow> string) \<Rightarrow> LeaseManager \<Rightarrow> 'st lease_system \<Rightarrow> nat \<Rightarrow> string \<times> string \<Rightarrow> lease_reply prog \<Rightarrow> bool" where
  "caller_inv view sha lm S i t p \<longleftrightarrow>
     (let x = task_lease sha lm t; dur = durationForKey lm (snd t)
      in not_logged S i
         \<and> (p = AcquireLease sha lm (fst t) (snd t)
            \<or> (\<exists>now. p = GetLease (fst x) (snd x) (acquire_from lm (snd x) (fst t) (snd t) now))
            \<or> (\<exists>now. p = createLease lm (snd x) now (now + dur) (fst t) (snd t))
            \<or> (\<exists>now l. p = updateLease lm l now (now + dur) \<and> lease_expiry now l < now
                 \<and> lv_ver view (ls_api S) x (le_ResourceVersion l) = Some l))
       \<or> (\<exists>now r. p = Ret (Inr r) \<and> kl_Acquired r \<and> kl_LeaseUntil r = now + dur \<and> (i, now) \<in> set (ls_log S x))
       \<or> gives_up p)"

definition system_inv ::
    "'st lease_view \<Rightarrow> (string \<Rightarrow> string) \<Rightarrow> LeaseManager \<Rightarrow> (nat \<Rightarrow> string \<times> string) \<Rightarrow> 'st lease_system \<Rightarrow> bool" where
  "system_inv view sha lm task S \<longleftrightarrow>
     store_inv lm view (ls_api S) \<and> log_inv lm view S
   \<and> (\<forall>x. distinct (map fst (ls_log S x)))
   \<and> (\<forall>i. caller_inv view sha lm S i (task i) (ls_proc S i))"

definition whole_seconds :: "LeaseManager \<Rightarrow> bool" where
  "whole_seconds lm \<longleftrightarrow>
     (\<forall>kt \<in> key_types. \<exists>n. 0 \<le> n \<and> n < 2 ^ 31 \<and> durationForKey lm kt = n * second)"

lemma whole_secondsD:
  assumes "whole_seconds lm" "kt \<in> key_types"
  shows "lease_seconds lm kt * second = durationForKey lm kt" "0 \<le> lease_seconds lm kt" "lease_seconds lm kt < 2 ^ 31"
  using assms duration_seconds_whole unfolding whole_seconds_def lease_seconds_def by force+

subsection \<open>Times\<close>

lemma micro_mono: "a \<le> b \<Longrightarrow> micro a \<le> micro b"
  by (simp add: micro_def microsecond_def nanosecond_def zdiv_mono1)

lemma micro_le: "micro t \<le> t" and micro_gt: "t - microsecond < micro t"
proof -
  have "t = micro t + t mod microsecond" by (simp add: micro_def)
  moreover have "0 \<le> t mod microsecond" "t mod microsecond < microsecond"
    by (simp_all add: microsecond_def nanosecond_def)
  ultimately show "micro t \<le> t" "t - microsecond < micro t" by linarith+
qed

lemma micro_add_seconds: "micro (micro t + n * second) = micro t + n * second"
  by (simp add: micro_def second_def millisecond_def microsecond_def nanosecond_def div_add1_eq)

lemma spaced_append:
  assumes "spaced (n * second) ts" "ts \<noteq> []" "0 \<le> n" "micro (last ts) + n * second < t"
  shows "spaced (n * second) (ts @ [t])"
proof -
  have "micro a + n * second < t" if "a \<in> set ts" for a
  proof (cases "a = last ts")
    case False
    then have "a \<in> set (butlast ts)" using that assms(2) by (metis append_butlast_last_id in_set_butlast_appendI rotate1.simps(2) set_ConsD set_rotate1)
    then have "micro a + n * second < last ts"
      using assms(1,2) unfolding spaced_def by (metis append_butlast_last_id list.set_intros(1) sorted_wrt_append)
    then have "micro a + n * second \<le> micro (last ts)" using micro_mono micro_add_seconds by (metis less_imp_le)
    moreover have "0 \<le> n * second" using assms(3) by (simp add: second_def millisecond_def microsecond_def nanosecond_def)
    ultimately show ?thesis using assms(4) by linarith
  qed (use assms in simp)
  then show ?thesis using assms(1) by (simp add: spaced_def sorted_wrt_append)
qed

subsection \<open>Writes\<close>

lemma stored_simps [simp]:
  "lease_id (stored v l) = lease_id l" "le_ResourceVersion (stored v l) = v" "label_key_type (stored v l) = label_key_type l"
  "le_RenewTime (stored v l) = map_option micro (le_RenewTime l)"
  by (simp_all add: stored_def lease_id_def label_key_type_def)

lemma stored_wf: "lease_wf lm x l \<Longrightarrow> lease_wf lm x (stored v l)"
  by (auto simp: lease_wf_def) (simp_all add: stored_def)

lemma written_store_inv:
  assumes "store_inv lm view s" "written view l s s'" "lease_wf lm (lease_id l) l"
  shows "store_inv lm view s'"
proof -
  obtain v where v: "lv_cur view s' = (lv_cur view s)(lease_id l \<mapsto> stored v l)"
    "lv_ver view s' = (lv_ver view s)(lease_id l := (lv_ver view s (lease_id l))(v \<mapsto> stored v l))"
    "lv_ver view s (lease_id l) v = None"
    using assms(2) by (auto simp: written_def)
  then show ?thesis using assms(1) stored_wf [OF assms(3)] by (auto simp: store_inv_def simp del: split_paired_All)
qed

lemma written_version: "written view l s s' \<Longrightarrow> lv_ver view s x v = Some m \<Longrightarrow> lv_ver view s' x v = Some m"
  by (auto simp: written_def)

lemma written_cur:
  assumes "written view l s s'"
  shows "\<exists>m. lv_cur view s' (lease_id l) = Some m \<and> le_RenewTime m = map_option micro (le_RenewTime l)"
    and "x \<noteq> lease_id l \<Longrightarrow> lv_cur view s' x = lv_cur view s x"
  using assms by (auto simp: written_def)

lemma written_changes:
  assumes "store_inv lm view s" "written view l s s'"
  shows "lv_cur view s' (lease_id l) \<noteq> lv_cur view s (lease_id l)"
proof
  assume e: "lv_cur view s' (lease_id l) = lv_cur view s (lease_id l)"
  obtain v where v: "lv_ver view s (lease_id l) v = None" "lv_cur view s' (lease_id l) = Some (stored v l)"
    using assms(2) by (auto simp: written_def)
  then have "lv_ver view s (lease_id l) v = Some (stored v l)"
    using assms(1) e unfolding store_inv_def by (metis stored_simps(2))
  then show False using v by simp
qed

lemma expiry_wf:
  assumes "whole_seconds lm" "lease_wf lm x l" "le_RenewTime l = Some t"
  shows "lease_expiry now l = t + lease_seconds lm (label_key_type l) * second"
proof -
  let ?n = "lease_seconds lm (label_key_type l)"
  have n: "0 \<le> ?n" "?n < 2 ^ 31" using whole_secondsD assms(1,2) by (auto simp: lease_wf_def)
  have "i64 (?n * second) = ?n * second"
    using n by (intro i64_mult_id) (simp_all add: second_def millisecond_def microsecond_def nanosecond_def)
  then show ?thesis using assms(2,3) by (simp add: lease_expiry_def lease_wf_def)
qed

lemma log_invD:
  assumes "log_inv lm view S" "x \<notin> ls_deleted S"
  shows "lv_cur view (ls_api S) x = None \<Longrightarrow> ls_log S x = []"
    and "lv_cur view (ls_api S) x = Some l \<Longrightarrow> ls_log S x \<noteq> [] \<and> le_RenewTime l = Some (micro (snd (last (ls_log S x))))"
    and "kt \<in> key_types \<Longrightarrow> hd kt = kind_char x \<Longrightarrow> spaced (lease_seconds lm kt * second) (map snd (ls_log S x))"
  using assms(1) [unfolded log_inv_def, rule_format, OF assms(2)] by simp_all

lemma log_invI:
  assumes "\<And>x. x \<notin> ls_deleted S \<Longrightarrow>
      (case lv_cur view (ls_api S) x of
         None \<Rightarrow> ls_log S x = []
       | Some l \<Rightarrow> ls_log S x \<noteq> [] \<and> le_RenewTime l = Some (micro (snd (last (ls_log S x)))))"
    and "\<And>x kt. x \<notin> ls_deleted S \<Longrightarrow> kt \<in> key_types \<Longrightarrow> hd kt = kind_char x \<Longrightarrow>
      spaced (lease_seconds lm kt * second) (map snd (ls_log S x))"
  shows "log_inv lm view S"
  unfolding log_inv_def using assms by blast

text \<open>A write to an absent lease, or to one that has expired, keeps the invariant and is logged.\<close>

lemma write_keeps:
  assumes "whole_seconds lm" "store_inv lm view (ls_api S)" "log_inv lm view S"
    and "written view l (ls_api S) s'" "lease_wf lm (lease_id l) l" "le_RenewTime l = Some now"
    and "lv_cur view (ls_api S) (lease_id l) = None
         \<or> (\<exists>old. lv_cur view (ls_api S) (lease_id l) = Some old \<and> lease_expiry now old < now)"
    and "S' = S\<lparr>ls_api := s', ls_proc := P, ls_log := logged view i l S s'\<rparr>"
  shows "log_inv lm view S'"
proof -
  let ?x = "lease_id l"
  have log: "ls_log S' = (ls_log S)(?x := ls_log S ?x @ [(i, now)])"
    using assms(6,8) written_changes [OF assms(2,4)] by (simp add: logged_def)
  obtain m where m: "lv_cur view s' ?x = Some m" "le_RenewTime m = Some (micro now)"
    using written_cur(1) [OF assms(4)] assms(6) by auto
  have "spaced (lease_seconds lm kt * second) (map snd (ls_log S ?x @ [(i, now)]))"
    if "?x \<notin> ls_deleted S" "kt \<in> key_types" "hd kt = kind_char ?x" for kt
  proof (cases "lv_cur view (ls_api S) ?x")
    case None
    then have "ls_log S ?x = []" using log_invD(1) [OF assms(3) that(1)] by blast
    then show ?thesis by (simp add: spaced_def)
  next
    case (Some old)
    have wf: "lease_wf lm ?x old" using assms(2) Some unfolding store_inv_def by blast
    then have kt: "label_key_type old = kt" using key_type_hd that by (auto simp: lease_wf_def)
    have ne: "ls_log S ?x \<noteq> []" and r: "le_RenewTime old = Some (micro (snd (last (ls_log S ?x))))"
      and sp: "spaced (lease_seconds lm kt * second) (map snd (ls_log S ?x))"
      using log_invD(2) [OF assms(3) that(1) Some] log_invD(3) [OF assms(3) that] by auto
    have "lease_expiry now old < now" using assms(7) Some by simp
    then have "micro (last (map snd (ls_log S ?x))) + lease_seconds lm kt * second < now"
      using expiry_wf [OF assms(1) wf r] kt ne by (simp add: last_map)
    then show ?thesis
      using spaced_append [OF sp] ne whole_secondsD(2) [OF assms(1) that(2)] by simp
  qed
  then show ?thesis
    using m log log_invD [OF assms(3)] written_cur(2) [OF assms(4)] assms(8)
    by (intro log_invI) (auto split: option.split simp del: split_paired_All)
qed

subsection \<open>Steps\<close>

text \<open>A step of caller \<open>i\<close> leaves what the other callers know in place.\<close>

definition grows :: "'st lease_view \<Rightarrow> nat \<Rightarrow> 'st lease_system \<Rightarrow> 'st lease_system \<Rightarrow> bool" where
  "grows view i S S' \<longleftrightarrow>
     (\<forall>x v l. lv_ver view (ls_api S) x v = Some l \<longrightarrow> lv_ver view (ls_api S') x v = Some l)
   \<and> (\<forall>x. set (ls_log S x) \<subseteq> set (ls_log S' x) \<and> set (ls_log S' x) \<subseteq> set (ls_log S x) \<union> {i} \<times> UNIV)"

lemma not_logged_grows:
  assumes "not_logged S j" "grows view i S S'" "j \<noteq> i \<or> ls_log S' = ls_log S"
  shows "not_logged S' j"
  unfolding not_logged_def
proof (intro allI notI)
  fix x assume "j \<in> fst ` set (ls_log S' x)"
  then obtain t where t: "(j, t) \<in> set (ls_log S' x)" by auto
  have "set (ls_log S' x) \<subseteq> set (ls_log S x) \<union> {i} \<times> UNIV" using assms(2) unfolding grows_def by blast
  then have "(j, t) \<in> set (ls_log S x)" using t assms(3) by auto
  then have "j \<in> fst ` set (ls_log S x)" by force
  then show False using assms(1) unfolding not_logged_def by blast
qed

lemma caller_inv_grows:
  assumes "caller_inv view sha lm S j t p" "grows view i S S'" "j \<noteq> i \<or> ls_log S' = ls_log S"
  shows "caller_inv view sha lm S' j t p"
proof -
  note nl = not_logged_grows [OF _ assms(2,3)]
  have ver: "\<forall>x v l. lv_ver view (ls_api S) x v = Some l \<longrightarrow> lv_ver view (ls_api S') x v = Some l"
    using assms(2) unfolding grows_def by blast
  have log: "\<forall>now x. (j, now) \<in> set (ls_log S x) \<longrightarrow> (j, now) \<in> set (ls_log S' x)"
    using assms(2) unfolding grows_def by blast
  show ?thesis
    using assms(1) unfolding caller_inv_def Let_def
    by (elim disjE conjE exE) (use nl ver log in blast)+
qed

lemma create_failed:
  "createLease lm n now u key kt = CreateLease l k \<Longrightarrow> gives_up (k (Some e))"
  by (auto simp: createLease_def split: sum.split)

lemma update_failed:
  "updateLease lm l0 now u = UpdateLease l k \<Longrightarrow> gives_up (k (Some e))"
  by (auto simp: updateLease_def split: sum.split)

lemma new_lease_wf:
  assumes "snd t \<in> key_types"
  shows "lease_wf lm (task_lease sha lm t) (new_lease lm (snd (task_lease sha lm t)) now (fst t) (snd t))"
    "lease_id (new_lease lm (snd (task_lease sha lm t)) now (fst t) (snd t)) = task_lease sha lm t"
proof -
  have "label_key_type (new_lease lm (snd (task_lease sha lm t)) now (fst t) (snd t)) = snd t"
    by (simp add: label_key_type_def new_lease_def)
  then show "lease_wf lm (task_lease sha lm t) (new_lease lm (snd (task_lease sha lm t)) now (fst t) (snd t))"
    "lease_id (new_lease lm (snd (task_lease sha lm t)) now (fst t) (snd t)) = task_lease sha lm t"
    using assms kind_char_task [OF assms, of sha lm]
    by (simp_all add: lease_wf_def lease_id_def) (simp_all add: new_lease_def task_lease_def)
qed

lemma renewed_wf: "lease_wf lm x l \<Longrightarrow> lease_wf lm x (renewed lm l now) \<and> lease_id (renewed lm l now) = x"
  by (simp add: lease_wf_def lease_id_def renewed_def label_key_type_def)

lemma system_inv_step:
  assumes "system_inv view sha lm task S" "grows view i S S'" "store_inv lm view (ls_api S')" "log_inv lm view S'"
    and "\<forall>x. distinct (map fst (ls_log S' x))" "\<forall>j. j \<noteq> i \<longrightarrow> ls_proc S' j = ls_proc S j"
    and "caller_inv view sha lm S' i (task i) (ls_proc S' i)"
  shows "system_inv view sha lm task S'"
proof -
  have "caller_inv view sha lm S' j (task j) (ls_proc S' j)" for j
  proof (cases "j = i")
    case False
    then have "caller_inv view sha lm S j (task j) (ls_proc S' j)"
      using assms(1,6) by (simp add: system_inv_def)
    then show ?thesis using caller_inv_grows [OF _ assms(2)] False by blast
  qed (use assms(7) in simp)
  then show ?thesis using assms by (simp add: system_inv_def)
qed

text \<open>Steps that do not touch the store.\<close>

lemma quiet_step:
  assumes "system_inv view sha lm task S" "unchanged view (ls_api S) s'"
    and "caller_inv view sha lm S i (task i) p"
  shows "system_inv view sha lm task (S\<lparr>ls_api := s', ls_proc := (ls_proc S)(i := p)\<rparr>)"
proof (rule system_inv_step [OF assms(1)])
  let ?S = "S\<lparr>ls_api := s', ls_proc := (ls_proc S)(i := p)\<rparr>"
  show g: "grows view i S ?S" using assms(2) by (simp add: grows_def unchanged_def)
  have s: "store_inv lm view (ls_api S)" "log_inv lm view S" "\<forall>x. distinct (map fst (ls_log S x))"
    using assms(1) unfolding system_inv_def by blast+
  have u: "lv_cur view s' = lv_cur view (ls_api S)" "lv_ver view s' = lv_ver view (ls_api S)"
    using assms(2) by (simp_all add: unchanged_def)
  have a: "ls_api ?S = s'" "ls_log ?S = ls_log S" "ls_deleted ?S = ls_deleted S" by simp_all
  show "store_inv lm view (ls_api ?S)" using s(1) unfolding store_inv_def a u .
  show "log_inv lm view ?S" using s(2) unfolding log_inv_def a u .
  show "\<forall>x. distinct (map fst (ls_log ?S x))" using s(3) by simp
  show "caller_inv view sha lm ?S i (task i) (ls_proc ?S i)"
    using caller_inv_grows [OF assms(3) g] by simp
qed simp

lemma caller_clock:
  assumes "caller_inv view sha lm S i t (Clock k)"
  shows "caller_inv view sha lm S i t (k now)"
proof -
  let ?x = "task_lease sha lm t"
  have "not_logged S i" and "Clock k = AcquireLease sha lm (fst t) (snd t)"
    using assms by (auto simp: caller_inv_def createLease_def updateLease_def)
  then have "not_logged S i \<and> k now = GetLease (fst ?x) (snd ?x) (acquire_from lm (snd ?x) (fst t) (snd t) now)"
    by (simp add: AcquireLease_def task_lease_def Let_def)
  then show ?thesis unfolding caller_inv_def Let_def by blast
qed

lemma caller_get:
  assumes "caller_inv view sha lm S i t (GetLease ns n k)"
    and "\<forall>l. r = Inr l \<longrightarrow> lv_ver view (ls_api S) (ns, n) (le_ResourceVersion l) = Some l"
  shows "caller_inv view sha lm S i t (k r)"
proof -
  let ?x = "task_lease sha lm t"
  consider (up) "gives_up (GetLease ns n k)"
    | (first) now where "not_logged S i" "ns = fst ?x" "n = snd ?x" "k = acquire_from lm (snd ?x) (fst t) (snd t) now"
    using assms(1) by (auto simp: caller_inv_def AcquireLease_def createLease_def updateLease_def Let_def)
  then show ?thesis
  proof cases
    case up
    then have "gives_up (k r)" by (auto dest!: spec [of _ r])
    then show ?thesis unfolding caller_inv_def Let_def by blast
  next
    case first
    let ?u = "now + durationForKey lm (snd t)"
    have "k r = createLease lm (snd ?x) now ?u (fst t) (snd t)
          \<or> (\<exists>l. r = Inr l \<and> k r = updateLease lm l now ?u \<and> lease_expiry now l < now) \<or> gives_up (k r)"
      unfolding first(4) acquire_from_def by (cases r) (auto simp: Let_def)
    moreover have "lv_ver view (ls_api S) ?x (le_ResourceVersion l) = Some l" if "r = Inr l" for l
      using assms(2) first(2,3) that by simp
    ultimately show ?thesis using first(1) unfolding caller_inv_def Let_def by blast
  qed
qed

lemma caller_create:
  assumes "caller_inv view sha lm S i t (CreateLease l k)"
  obtains now where "not_logged S i" "l = new_lease lm (snd (task_lease sha lm t)) now (fst t) (snd t)"
    "createLease lm (snd (task_lease sha lm t)) now (now + durationForKey lm (snd t)) (fst t) (snd t) = CreateLease l k"
  using assms by (auto simp: caller_inv_def AcquireLease_def createLease_def updateLease_def Let_def)

lemma caller_update:
  assumes "caller_inv view sha lm S i t (UpdateLease l k)"
  obtains now l0 where "not_logged S i" "l = renewed lm l0 now" "lease_expiry now l0 < now"
    "lv_ver view (ls_api S) (task_lease sha lm t) (le_ResourceVersion l0) = Some l0"
    "updateLease lm l0 now (now + durationForKey lm (snd t)) = UpdateLease l k"
  using assms by (auto simp: caller_inv_def AcquireLease_def createLease_def updateLease_def Let_def)

lemma write_step:
  assumes "whole_seconds lm" "system_inv view sha lm task S" "not_logged S i" "written view l (ls_api S) s'"
    and "lease_id l = task_lease sha lm (task i)" "lease_wf lm (lease_id l) l" "le_RenewTime l = Some now"
    and "lv_cur view (ls_api S) (lease_id l) = None
         \<or> (\<exists>old. lv_cur view (ls_api S) (lease_id l) = Some old \<and> lease_expiry now old < now)"
    and "gives_up q \<or> (\<exists>r. q = Ret (Inr r) \<and> kl_Acquired r \<and> kl_LeaseUntil r = now + durationForKey lm (snd (task i)))"
  shows "system_inv view sha lm task (S\<lparr>ls_api := s', ls_proc := (ls_proc S)(i := q), ls_log := logged view i l S s'\<rparr>)"
    (is "system_inv _ _ _ _ ?S")
proof -
  have s: "store_inv lm view (ls_api S)" "log_inv lm view S" "\<forall>x. distinct (map fst (ls_log S x))"
    using assms(2) unfolding system_inv_def by blast+
  have log: "ls_log ?S = (ls_log S)(lease_id l := ls_log S (lease_id l) @ [(i, now)])"
    using assms(7) written_changes [OF s(1) assms(4)] by (simp add: logged_def)
  show ?thesis
  proof (rule system_inv_step [OF assms(2)])
    show "grows view i S ?S"
      using written_version [OF assms(4)] unfolding grows_def log by (auto simp del: split_paired_All)
    show "store_inv lm view (ls_api ?S)" using written_store_inv [OF s(1) assms(4,6)] by simp
    show "log_inv lm view ?S" by (rule write_keeps [OF assms(1) s(1,2) assms(4,6,7,8) refl])
    show "\<forall>x. distinct (map fst (ls_log ?S x))"
      using s(3) assms(3) unfolding log not_logged_def by (auto simp del: split_paired_All)
    have "(i, now) \<in> set (ls_log ?S (task_lease sha lm (task i)))" unfolding log using assms(5) by simp
    then have "caller_inv view sha lm ?S i (task i) q"
      using assms(9) unfolding caller_inv_def Let_def by blast
    then show "caller_inv view sha lm ?S i (task i) (ls_proc ?S i)" by simp
  qed simp
qed

lemma failed_step:
  assumes "system_inv view sha lm task S" "unchanged view (ls_api S) s'" "gives_up q"
  shows "system_inv view sha lm task (S\<lparr>ls_api := s', ls_proc := (ls_proc S)(i := q), ls_log := logged view i l S s'\<rparr>)"
proof -
  have "caller_inv view sha lm S i (task i) q" using assms(3) unfolding caller_inv_def Let_def by blast
  from quiet_step [OF assms(1,2) this] show ?thesis
    using assms(2) by (simp add: logged_def unchanged_def)
qed

lemma api_okD:
  assumes "lease_api_ok api view"
  shows "api (CGet ns n) s r s' \<Longrightarrow>
      unchanged view s s' \<and> (\<forall>l. r = Inr l \<longrightarrow> lv_ver view s (ns, n) (le_ResourceVersion l) = Some l)"
    and "api (CCreate l) s r s' \<Longrightarrow>
      unchanged view s s' \<and> (\<exists>e. r = Inl e) \<or> lv_cur view s (lease_id l) = None \<and> written view l s s'"
    and "api (CUpdate l) s r s' \<Longrightarrow>
      unchanged view s s' \<and> (\<exists>e. r = Inl e)
      \<or> (\<exists>old. lv_cur view s (lease_id l) = Some old \<and> le_ResourceVersion old = le_ResourceVersion l) \<and> written view l s s'"
    and "api (CDelete l) s r s' \<Longrightarrow>
      unchanged view s s'
      \<or> lv_cur view s' = (lv_cur view s)(lease_id l := None) \<and> lv_ver view s' = lv_ver view s"
  using assms unfolding lease_api_ok_def by blast+

lemma step_create:
  assumes "whole_seconds lm" "lease_api_ok api view" "\<forall>i. snd (task i) \<in> key_types" "system_inv view sha lm task S"
    and "ls_proc S i = CreateLease l k" "api (CCreate l) (ls_api S) r s'"
  shows "system_inv view sha lm task
    (S\<lparr>ls_api := s', ls_proc := (ls_proc S)(i := k (reply_error r)), ls_log := logged view i l S s'\<rparr>)"
proof -
  let ?x = "task_lease sha lm (task i)"
  have "caller_inv view sha lm S i (task i) (CreateLease l k)"
    using assms(4,5) unfolding system_inv_def by metis
  then obtain now where c: "not_logged S i" "l = new_lease lm (snd ?x) now (fst (task i)) (snd (task i))"
    "createLease lm (snd ?x) now (now + durationForKey lm (snd (task i))) (fst (task i)) (snd (task i)) = CreateLease l k"
    by (rule caller_create)
  have wf: "lease_wf lm ?x l" "lease_id l = ?x" and rn: "le_RenewTime l = Some now"
    using new_lease_wf [of "task i" lm sha now] assms(3) c(2) by (simp_all add: new_lease_def)
  have q: "gives_up (k (reply_error r))
      \<or> (\<exists>y. k (reply_error r) = Ret (Inr y) \<and> kl_Acquired y \<and> kl_LeaseUntil y = now + durationForKey lm (snd (task i)))"
    using create_failed [OF c(3)] c(3) by (cases r) (auto simp: createLease_def)
  from api_okD(2) [OF assms(2,6)] show ?thesis
  proof
    assume u: "unchanged view (ls_api S) s' \<and> (\<exists>e. r = Inl e)"
    then show ?thesis using failed_step [OF assms(4)] create_failed [OF c(3)] by fastforce
  next
    assume w: "lv_cur view (ls_api S) (lease_id l) = None \<and> written view l (ls_api S) s'"
    then show ?thesis using write_step [OF assms(1,4) c(1) _ wf(2) _ rn _ q] wf by simp
  qed
qed

lemma step_update:
  assumes "whole_seconds lm" "lease_api_ok api view" "system_inv view sha lm task S"
    and "ls_proc S i = UpdateLease l k" "api (CUpdate l) (ls_api S) r s'"
  shows "system_inv view sha lm task
    (S\<lparr>ls_api := s', ls_proc := (ls_proc S)(i := k (reply_error r)), ls_log := logged view i l S s'\<rparr>)"
proof -
  let ?x = "task_lease sha lm (task i)"
  have s: "store_inv lm view (ls_api S)" "caller_inv view sha lm S i (task i) (UpdateLease l k)"
    using assms(3) unfolding system_inv_def assms(4) [symmetric] by blast+
  from s(2) obtain now l0 where c: "not_logged S i" "l = renewed lm l0 now" "lease_expiry now l0 < now"
    "lv_ver view (ls_api S) ?x (le_ResourceVersion l0) = Some l0"
    "updateLease lm l0 now (now + durationForKey lm (snd (task i))) = UpdateLease l k"
    by (rule caller_update)
  have "lease_wf lm ?x l0" using s(1) [unfolded store_inv_def, THEN conjunct1, rule_format, OF c(4)] ..
  then have wf: "lease_wf lm ?x l" "lease_id l = ?x" using renewed_wf c(2) by simp_all
  have rn: "le_RenewTime l = Some now" and rv: "le_ResourceVersion l = le_ResourceVersion l0"
    by (simp_all add: c(2) renewed_def)
  have q: "gives_up (k (reply_error r))
      \<or> (\<exists>y. k (reply_error r) = Ret (Inr y) \<and> kl_Acquired y \<and> kl_LeaseUntil y = now + durationForKey lm (snd (task i)))"
    using update_failed [OF c(5)] c(5) by (cases r) (auto simp: updateLease_def)
  from api_okD(3) [OF assms(2,5)] show ?thesis
  proof
    assume u: "unchanged view (ls_api S) s' \<and> (\<exists>e. r = Inl e)"
    then show ?thesis using failed_step [OF assms(3)] update_failed [OF c(5)] by fastforce
  next
    assume w: "(\<exists>old. lv_cur view (ls_api S) (lease_id l) = Some old \<and> le_ResourceVersion old = le_ResourceVersion l)
      \<and> written view l (ls_api S) s'"
    then obtain old where old: "lv_cur view (ls_api S) ?x = Some old" "le_ResourceVersion old = le_ResourceVersion l0"
      using wf(2) rv by auto
    have "lv_ver view (ls_api S) ?x (le_ResourceVersion old) = Some old"
      using s(1) [unfolded store_inv_def, THEN conjunct2, rule_format, OF old(1)] .
    then have "Some old = Some l0" unfolding old(2) c(4) by (rule sym)
    then have "old = l0" by (rule option.inject [THEN iffD1])
    then have e: "\<exists>old. lv_cur view (ls_api S) (lease_id l) = Some old \<and> lease_expiry now old < now"
      using old(1) c(3) wf(2) by auto
    show ?thesis
      by (rule write_step [OF assms(1,3) c(1) conjunct2 [OF w] wf(2) _ rn disjI2 [OF e] q]) (use wf in simp)
  qed
qed

lemma step_delete:
  assumes "lease_api_ok api view" "system_inv view sha lm task S" "api (CDelete l) (ls_api S) r s'"
  shows "system_inv view sha lm task (S\<lparr>ls_api := s',
      ls_deleted := (if lv_cur view s' (lease_id l) = lv_cur view (ls_api S) (lease_id l) then ls_deleted S
                      else insert (lease_id l) (ls_deleted S))\<rparr>)"
    (is "system_inv _ _ _ _ ?S")
proof -
  have s: "store_inv lm view (ls_api S)" "log_inv lm view S" "\<forall>x. distinct (map fst (ls_log S x))"
    and p: "\<forall>i. caller_inv view sha lm S i (task i) (ls_proc S i)"
    using assms(2) unfolding system_inv_def by blast+
  have ver: "lv_ver view s' = lv_ver view (ls_api S)"
    and cur: "lv_cur view s' = lv_cur view (ls_api S) \<or> lv_cur view s' = (lv_cur view (ls_api S))(lease_id l := None)"
    using api_okD(4) [OF assms(1,3)] by (auto simp: unchanged_def)
  have "store_inv lm view s'"
    using s(1) cur unfolding store_inv_def ver by (auto split: if_splits simp del: split_paired_All)
  moreover have "log_inv lm view ?S"
  proof (rule log_invI)
    fix x assume x: "x \<notin> ls_deleted ?S"
    then have d: "x \<notin> ls_deleted S" and "lv_cur view s' x = lv_cur view (ls_api S) x"
      using cur by (auto split: if_splits simp del: split_paired_All)
    then show "case lv_cur view (ls_api ?S) x of None \<Rightarrow> ls_log ?S x = []
        | Some l \<Rightarrow> ls_log ?S x \<noteq> [] \<and> le_RenewTime l = Some (micro (snd (last (ls_log ?S x))))"
      using log_invD(1,2) [OF s(2) d] by (auto split: option.split simp del: split_paired_All)
    show "spaced (lease_seconds lm kt * second) (map snd (ls_log ?S x))" if "kt \<in> key_types" "hd kt = kind_char x" for kt
      using log_invD(3) [OF s(2) d that] by simp
  qed
  moreover have "caller_inv view sha lm ?S i (task i) (ls_proc ?S i)" for i
    using caller_inv_grows [of view sha lm S i "task i" "ls_proc S i" i ?S] p ver by (simp add: grows_def del: split_paired_All)
  ultimately show ?thesis using s(3) by (simp add: system_inv_def del: split_paired_All)
qed

lemma system_inv_reach:
  assumes "whole_seconds lm" "lease_api_ok api view" "lease_start view sha lm task S0" "lease_reach api view S0 S"
  shows "system_inv view sha lm task S"
  using assms(4)
proof induction
  case start
  show ?case
    using assms(3)
    by (auto simp: system_inv_def lease_start_def store_inv_def log_inv_def caller_inv_def not_logged_def spaced_def Let_def
        simp del: split_paired_All)
next
  case (step S S')
  have kt: "\<forall>i. snd (task i) \<in> key_types" using assms(3) by (simp add: lease_start_def)
  from step.hyps(2) show ?case
  proof cases
    case (clock i k t)
    have "caller_inv view sha lm S i (task i) (k t)"
      using step.IH clock(2) caller_clock unfolding system_inv_def by metis
    from quiet_step [OF step.IH _ this, of "ls_api S"] show ?thesis unfolding clock(1) by (simp add: unchanged_def)
  next
    case (get i ns n k r s')
    have "caller_inv view sha lm S i (task i) (k r)"
      using step.IH get(2) caller_get api_okD(1) [OF assms(2) get(3)] unfolding system_inv_def by metis
    then show ?thesis unfolding get(1) using quiet_step [OF step.IH] api_okD(1) [OF assms(2) get(3)] by blast
  next
    case (create i l k r s')
    then show ?thesis using step_create [OF assms(1,2) kt step.IH] by simp
  next
    case (update i l k r s')
    then show ?thesis using step_update [OF assms(1,2) step.IH] by simp
  next
    case (delete l r s')
    then show ?thesis using step_delete [OF assms(2) step.IH] by simp
  qed
qed

section \<open>Exclusion\<close>

lemma spaced_pair:
  assumes "spaced d (map snd xs)" "distinct (map fst xs)" "(i, a) \<in> set xs" "(j, b) \<in> set xs" "i \<noteq> j"
  shows "micro a + d < b \<or> micro b + d < a"
proof -
  obtain m where m: "m < length xs" "xs ! m = (i, a)" using assms(3) by (meson in_set_conv_nth)
  obtain n where n: "n < length xs" "xs ! n = (j, b)" using assms(4) by (meson in_set_conv_nth)
  have "m \<noteq> n" using m n assms(5) by auto
  then show ?thesis
    using assms(1) m n unfolding spaced_def sorted_wrt_iff_nth_less by (metis length_map linorder_neqE_nat nth_map snd_conv)
qed

lemma caller_acquired:
  assumes "caller_inv view sha lm S i t (Ret (Inr r))" "kl_Acquired r"
  shows "(i, kl_LeaseUntil r - durationForKey lm (snd t)) \<in> set (ls_log S (task_lease sha lm t))"
  using assms by (auto simp: caller_inv_def AcquireLease_def createLease_def updateLease_def Let_def)

text \<open>C8. A lease excludes. Take any number of callers of \<open>AcquireLease\<close> whose calls interleave in any way, against
  an API server that may serve stale reads and may fail. If two of them were told that they acquired the same
  lease, and it was not deleted meanwhile, then the clock values at which they acquired it lie a full
  lease duration apart, up to the microsecond that the stored time is rounded to. (Durations are whole
  seconds.)\<close>

theorem lease_exclusive:
  assumes "lease_api_ok api view" "whole_seconds lm"
    and "lease_start view sha lm task S0" "lease_reach api view S0 S"
    and "i \<noteq> j" "ls_proc S i = Ret (Inr ri)" "ls_proc S j = Ret (Inr rj)" "kl_Acquired ri" "kl_Acquired rj"
    and "task_lease sha lm (task i) = task_lease sha lm (task j)" "task_lease sha lm (task i) \<notin> ls_deleted S"
  shows "kl_LeaseUntil ri - microsecond < kl_LeaseUntil rj - durationForKey lm (snd (task j))
    \<or> kl_LeaseUntil rj - microsecond < kl_LeaseUntil ri - durationForKey lm (snd (task i))"
proof -
  let ?x = "task_lease sha lm (task i)"
  have kt: "\<forall>i. snd (task i) \<in> key_types" using assms(3) by (simp add: lease_start_def)
  have same: "snd (task i) = snd (task j)" using task_lease_type [OF _ _ assms(10)] kt by blast
  define d where "d = durationForKey lm (snd (task i))"
  have inv: "system_inv view sha lm task S" by (rule system_inv_reach [OF assms(2,1,3,4)])
  then have c: "caller_inv view sha lm S i (task i) (Ret (Inr ri))" "caller_inv view sha lm S j (task j) (Ret (Inr rj))"
    unfolding system_inv_def assms(6,7) [symmetric] by blast+
  have l: "(i, kl_LeaseUntil ri - d) \<in> set (ls_log S ?x)" "(j, kl_LeaseUntil rj - d) \<in> set (ls_log S ?x)"
    using caller_acquired [OF c(1) assms(8)] caller_acquired [OF c(2) assms(9)] assms(10) same by (simp_all add: d_def)
  have "log_inv lm view S" and dist: "distinct (map fst (ls_log S ?x))" using inv unfolding system_inv_def by blast+
  then have "spaced (lease_seconds lm (snd (task i)) * second) (map snd (ls_log S ?x))"
    using log_invD(3) [OF _ assms(11)] kt kind_char_task by metis
  then have "spaced d (map snd (ls_log S ?x))" using whole_secondsD(1) [OF assms(2)] kt by (simp add: d_def)
  from spaced_pair [OF this dist l assms(5)] show ?thesis
    using micro_gt [of "kl_LeaseUntil ri - d"] micro_gt [of "kl_LeaseUntil rj - d"] same by (simp add: d_def) linarith
qed

text \<open>One caller creates the lease, and another takes it over two minutes later.\<close>

record lease_store =
  lo_cur :: "lease_id \<Rightarrow> Lease option"
  lo_ver :: "lease_id \<Rightarrow> string \<Rightarrow> Lease option"
  lo_next :: nat

definition store_lease :: "Lease \<Rightarrow> lease_store \<Rightarrow> lease_store" where
  "store_lease l s =
     (let v = replicate (lo_next s) (CHR ''v''); x = lease_id l; m = stored v l
      in \<lparr> lo_cur = (lo_cur s)(x \<mapsto> m), lo_ver = (lo_ver s)(x := (lo_ver s x)(v \<mapsto> m)), lo_next = lo_next s + 1 \<rparr>)"

fun lease_server :: "lease_call \<Rightarrow> lease_store \<Rightarrow> (api_error + Lease) \<times> lease_store" where
  "lease_server (CGet ns n) s =
     (case lo_cur s (ns, n) of
        Some l \<Rightarrow> if lo_ver s (ns, n) (le_ResourceVersion l) = Some l then (Inr l, s) else (Inl (PlainErr ''not ready''), s)
      | None \<Rightarrow> (Inl NotFoundErr, s))"
| "lease_server (CCreate l) s =
     (if lo_cur s (lease_id l) = None \<and> lo_ver s (lease_id l) (replicate (lo_next s) (CHR ''v'')) = None
      then (Inr l, store_lease l s) else (Inl AlreadyExistsErr, s))"
| "lease_server (CUpdate l) s =
     (case lo_cur s (lease_id l) of
        Some old \<Rightarrow>
          if le_ResourceVersion old = le_ResourceVersion l \<and> lo_ver s (lease_id l) (replicate (lo_next s) (CHR ''v'')) = None
          then (Inr l, store_lease l s) else (Inl ConflictErr, s)
      | None \<Rightarrow> (Inl NotFoundErr, s))"
| "lease_server (CDelete l) s = (Inr l, s\<lparr>lo_cur := (lo_cur s)(lease_id l := None)\<rparr>)"

definition server_view :: "lease_store lease_view" where
  "server_view = \<lparr> lv_cur = lo_cur, lv_ver = lo_ver \<rparr>"

lemma server_view_simps [simp]: "lv_cur server_view = lo_cur" "lv_ver server_view = lo_ver"
  by (simp_all add: server_view_def)

definition server_api :: "lease_store lease_api" where
  "server_api c s r s' \<longleftrightarrow> lease_server c s = (r, s')"

lemma store_lease_written:
  "lo_ver s (lease_id l) (replicate (lo_next s) (CHR ''v'')) = None \<Longrightarrow> written server_view l s (store_lease l s)"
  unfolding written_def store_lease_def by (intro exI [of _ "replicate (lo_next s) (CHR ''v'')"]) (simp add: Let_def)

lemma server_api_ok: "lease_api_ok server_api server_view"
proof -
  have g: "server_api (CGet ns n) s r s' \<Longrightarrow>
      unchanged server_view s s' \<and> (\<forall>l. r = Inr l \<longrightarrow> lv_ver server_view s (ns, n) (le_ResourceVersion l) = Some l)" for ns n s r s'
    by (auto simp: server_api_def unchanged_def split: option.splits if_splits)
  have c: "server_api (CCreate l) s r s' \<Longrightarrow> unchanged server_view s s' \<and> (\<exists>e. r = Inl e)
      \<or> lv_cur server_view s (lease_id l) = None \<and> written server_view l s s'" for l s r s'
    using store_lease_written [of s l]
    by (auto simp: server_api_def unchanged_def split: if_splits)
  have u: "server_api (CUpdate l) s r s' \<Longrightarrow> unchanged server_view s s' \<and> (\<exists>e. r = Inl e)
      \<or> (\<exists>old. lv_cur server_view s (lease_id l) = Some old \<and> le_ResourceVersion old = le_ResourceVersion l)
        \<and> written server_view l s s'" for l s r s'
    using store_lease_written [of s l]
    by (auto simp: server_api_def unchanged_def split: if_splits option.splits)
  have d: "server_api (CDelete l) s r s' \<Longrightarrow> unchanged server_view s s'
      \<or> lv_cur server_view s' = (lv_cur server_view s)(lease_id l := None) \<and> lv_ver server_view s' = lv_ver server_view s" for l s r s'
    by (auto simp: server_api_def)
  show ?thesis unfolding lease_api_ok_def using g c u d by blast
qed

text \<open>The next action of caller \<open>i\<close>, at clock value \<open>t\<close>.\<close>

definition lease_turn :: "lease_store lease_system \<Rightarrow> nat \<times> time \<Rightarrow> lease_store lease_system" where
  "lease_turn S it =
     (let i = fst it; put = (\<lambda>p. (ls_proc S)(i := p))
      in case ls_proc S i of
           Clock k \<Rightarrow> S\<lparr>ls_proc := put (k (snd it))\<rparr>
         | GetLease ns n k \<Rightarrow>
             (case lease_server (CGet ns n) (ls_api S) of (r, s') \<Rightarrow> S\<lparr>ls_api := s', ls_proc := put (k r)\<rparr>)
         | CreateLease l k \<Rightarrow>
             (case lease_server (CCreate l) (ls_api S) of (r, s') \<Rightarrow>
                S\<lparr>ls_api := s', ls_proc := put (k (reply_error r)), ls_log := logged server_view i l S s'\<rparr>)
         | UpdateLease l k \<Rightarrow>
             (case lease_server (CUpdate l) (ls_api S) of (r, s') \<Rightarrow>
                S\<lparr>ls_api := s', ls_proc := put (k (reply_error r)), ls_log := logged server_view i l S s'\<rparr>)
         | _ \<Rightarrow> S)"

lemma lease_turn_step: "lease_step server_api server_view S (lease_turn S it) \<or> lease_turn S it = S"
proof (cases "ls_proc S (fst it)")
  case (Clock k)
  then show ?thesis using lease_step.clock [of S "fst it" k] by (simp add: lease_turn_def Let_def)
next
  case (GetLease ns n k)
  obtain r s' where e: "lease_server (CGet ns n) (ls_api S) = (r, s')" by (metis surj_pair)
  then have "server_api (CGet ns n) (ls_api S) r s'" by (simp add: server_api_def)
  from lease_step.get [where api = server_api and view = server_view, OF GetLease this] show ?thesis
    by (simp add: lease_turn_def Let_def GetLease e del: lease_server.simps)
next
  case (CreateLease l k)
  obtain r s' where e: "lease_server (CCreate l) (ls_api S) = (r, s')" by (metis surj_pair)
  then have "server_api (CCreate l) (ls_api S) r s'" by (simp add: server_api_def)
  from lease_step.create [where api = server_api and view = server_view, OF CreateLease this] show ?thesis
    by (simp add: lease_turn_def Let_def CreateLease e del: lease_server.simps)
next
  case (UpdateLease l k)
  obtain r s' where e: "lease_server (CUpdate l) (ls_api S) = (r, s')" by (metis surj_pair)
  then have "server_api (CUpdate l) (ls_api S) r s'" by (simp add: server_api_def)
  from lease_step.update [where api = server_api and view = server_view, OF UpdateLease this] show ?thesis
    by (simp add: lease_turn_def Let_def UpdateLease e del: lease_server.simps)
qed (simp_all add: lease_turn_def Let_def)

lemma lease_turns_reach: "lease_reach server_api server_view S (foldl lease_turn S its)"
proof (induction its rule: rev_induct)
  case (snoc it its)
  have e: "foldl lease_turn S (its @ [it]) = lease_turn (foldl lease_turn S its) it" by simp
  from lease_turn_step [of "foldl lease_turn S its" it] show ?case
  proof
    assume "lease_step server_api server_view (foldl lease_turn S its) (lease_turn (foldl lease_turn S its) it)"
    then show ?thesis unfolding e by (rule lease_reach.step [OF snoc])
  next
    assume "lease_turn (foldl lease_turn S its) it = foldl lease_turn S its"
    then show ?thesis unfolding e using snoc by simp
  qed
qed (simp add: lease_reach.start)

definition demo_manager :: LeaseManager where
  "demo_manager = NewLeaseManager ''ops'' (120 * second) ''api''"

definition demo_task :: "nat \<Rightarrow> string \<times> string" where
  "demo_task i = (''rt/a/b'', LeaseKeyTypeRuntime)"

text \<open>Caller 0 starts at time 5, caller 2 comes two minutes later.\<close>

definition demo_turns :: "(nat \<times> time) list" where
  "demo_turns = [(0, 5), (0, 0), (0, 0), (2, 121 * second), (2, 0), (2, 0)]"

definition demo_leases :: "lease_store lease_system" where
  "demo_leases =
     \<lparr> ls_api = \<lparr> lo_cur = (\<lambda>_. None), lo_ver = (\<lambda>_ _. None), lo_next = 1 \<rparr>,
       ls_proc = (\<lambda>i. AcquireLease (\<lambda>_. ''00000000'') demo_manager (fst (demo_task i)) (snd (demo_task i))),
       ls_log = (\<lambda>_. []), ls_deleted = {} \<rparr>"

lemma demo_manager_whole: "whole_seconds demo_manager"
  unfolding whole_seconds_def
  by (auto simp: durationForKey_def demo_manager_def NewLeaseManager_def intro!: exI [of _ 120])

lemma demo_start: "lease_start server_view (\<lambda>_. ''00000000'') demo_manager demo_task demo_leases"
  by (simp add: lease_start_def demo_leases_def demo_task_def key_types_def)

lemma demo_acquire:
  "AcquireLease (\<lambda>_. ''00000000'') demo_manager ''rt/a/b'' LeaseKeyTypeRuntime =
     Clock (\<lambda>now. GetLease ''ops'' ''xtrinode-resume-runtime-rt-a-b'' (acquire_from demo_manager ''xtrinode-resume-runtime-rt-a-b'' ''rt/a/b'' LeaseKeyTypeRuntime now))"
proof -
  have "makeLeaseNameFromKey (\<lambda>_. ''00000000'') ''rt/a/b'' LeaseKeyTypeRuntime = ''xtrinode-resume-runtime-rt-a-b''" by code_simp
  moreover have "lm_leaseNamespace demo_manager = ''ops''" by (simp add: demo_manager_def NewLeaseManager_def)
  ultimately show ?thesis by (simp add: AcquireLease_def Let_def)
qed

lemma demo_duration:
  "durationForKey demo_manager LeaseKeyTypeRuntime = 120 * second" "lease_seconds demo_manager LeaseKeyTypeRuntime = 120"
  using duration_seconds_whole [of 120]
  by (simp_all add: lease_seconds_def durationForKey_def demo_manager_def NewLeaseManager_def LeaseKeyTypeRuntime_def LeaseKeyTypeSuspend_def)

lemmas demo_run =
  demo_turns_def lease_turn_def demo_leases_def demo_task_def demo_acquire demo_duration acquire_from_def createLease_def updateLease_def
  new_lease_def lease_id_def store_lease_def stored_def renewed_def logged_def lease_expiry_def label_key_type_def Let_def
  micro_def second_def millisecond_def microsecond_def nanosecond_def i64_def

theorem lease_exclusive_witness:
  "ls_proc (foldl lease_turn demo_leases demo_turns) 0 = Ret (Inr \<lparr> kl_Acquired = True, kl_LeaseUntil = 120 * second + 5, kl_Holder = ''api'' \<rparr>)
   \<and> ls_proc (foldl lease_turn demo_leases demo_turns) 2 = Ret (Inr \<lparr> kl_Acquired = True, kl_LeaseUntil = 241 * second, kl_Holder = ''api'' \<rparr>)
   \<and> (120 * second + 5 - microsecond < 241 * second - 120 * second \<or> 241 * second - microsecond < (120 * second + 5) - 120 * second)"
proof -
  let ?S = "foldl lease_turn demo_leases demo_turns"
  have p: "ls_proc ?S 0 = Ret (Inr \<lparr> kl_Acquired = True, kl_LeaseUntil = 120 * second + 5, kl_Holder = ''api'' \<rparr>)"
    "ls_proc ?S 2 = Ret (Inr \<lparr> kl_Acquired = True, kl_LeaseUntil = 241 * second, kl_Holder = ''api'' \<rparr>)"
    by (simp_all add: demo_run) (simp_all add: demo_manager_def NewLeaseManager_def)
  have d: "task_lease (\<lambda>_. ''00000000'') demo_manager (demo_task 0) \<notin> ls_deleted ?S"
    by (simp add: demo_run)
  show ?thesis
    using lease_exclusive [OF server_api_ok demo_manager_whole demo_start lease_turns_reach _ p] d p
    by (simp add: demo_task_def demo_duration)
qed

end
