(* ===== verification/ApiServer.thy ===== *)
theory ApiServer
  imports Lease Http Url Config RuntimeShape
begin

text \<open>
  The REST API for runtimes (\<open>pkg/api-server\<close>): request bodies and their validation, bearer tokens and
  what they allow, and the handlers that list, read, create and delete runtimes. A handler is a program over the
  Kubernetes client that ends with a response. The body of a response is the value handed to the JSON
  encoder. Metrics are left out.
\<close>

section \<open>Requests and responses\<close>

text \<open>\<open>aq_EscapedPath\<close> is \<open>URL.EscapedPath()\<close>; a body of unknown length has length -1.\<close>

record ApiRequest = HttpRequest +
  aq_EscapedPath :: string
  aq_ContentLength :: int
  aq_Body :: string

record ErrorResponse =
  er_Error :: string
  er_Code :: string
  er_Details :: string

record LeaseInfo =
  li_Operation :: string
  li_Applied :: bool
  li_Until :: string

record AsyncOperationResponse =
  ar_Status :: string
  ar_Desired :: string
  ar_CurrentPhase :: string
  ar_PollURL :: string
  ar_Lease :: LeaseInfo
  ar_RetryAfterSeconds :: int

record UnifiedResumeResponse =
  ur_Triggered :: bool
  ur_Gated :: bool
  ur_RetryAfter :: int
  ur_Key :: string
  ur_KeyType :: string
  ur_LeaseUntil :: string
  ur_Error :: string
  ur_Holder :: string

text \<open>The answer to a gated resume or suspend request, a map in the source.\<close>

record GatedResponse =
  gp_Operation :: string
  gp_Namespace :: string
  gp_Name :: string
  gp_RetryAfter :: int
  gp_LeaseUntil :: string
  gp_Holder :: string

record RuntimeStatus =
  rt_Phase :: string
  rt_CoordinatorURL :: string
  rt_Workers :: int
  rt_LastActivity :: "time option"
  rt_Conditions :: "Condition list"

datatype payload =
    PText string
  | PError ErrorResponse
  | PRuntimes "XTrinode list"
  | PRuntime XTrinode
  | PStatus RuntimeStatus
  | PAsync AsyncOperationResponse
  | PUnified UnifiedResumeResponse
  | PGated GatedResponse

record ApiResponse =
  ap_Status :: int
  ap_Header :: headers
  ap_Body :: payload

definition StatusCreated :: int where "StatusCreated = 201"
definition StatusNoContent :: int where "StatusNoContent = 204"
definition StatusMovedPermanently :: int where "StatusMovedPermanently = 301"
definition StatusConflict :: int where "StatusConflict = 409"

definition writeJSON :: "headers \<Rightarrow> int \<Rightarrow> payload \<Rightarrow> ApiResponse prog" where
  "writeJSON h status data =
     Ret \<lparr> ap_Status = status, ap_Header = header_set ''Content-Type'' ''application/json'' h, ap_Body = data \<rparr>"

definition writeError :: "headers \<Rightarrow> int \<Rightarrow> string \<Rightarrow> string \<Rightarrow> ApiResponse prog" where
  "writeError h status message code =
     writeJSON h status (PError \<lparr> er_Error = message, er_Code = code, er_Details = '''' \<rparr>)"

section \<open>The environment\<close>

text \<open>
  What the handlers take from outside: the local time zone (offset in seconds at a time), the wording of errors of
  \<open>encoding/json\<close> and of the Kubernetes client, \<open>strconv.Quote\<close> (its table of printable characters), SHA-256 in
  hexadecimal, \<open>RetryOnConflict\<close>, and the two parameters of the shape resolution.
\<close>

record ApiEnv =
  ae_zone :: "time \<Rightarrow> int"
  ae_jsonError :: "string \<Rightarrow> string"
  ae_errText :: "api_error \<Rightarrow> string"
  ae_quote :: "string \<Rightarrow> string"
  ae_sha :: "string \<Rightarrow> string"
  ae_retry :: retrier
  ae_quantity :: QuantityLib
  ae_hashShape :: "ResolvedRuntimeShape \<Rightarrow> string + string"

subsection \<open>RFC 3339 times\<close>

definition pad :: "nat \<Rightarrow> int \<Rightarrow> string" where
  "pad n v = (let d = show_int v in replicate (n - length d) (CHR ''0'') @ d)"

text \<open>The civil date of a day counted from 1 January 1970.\<close>

definition civil :: "int \<Rightarrow> int \<times> int \<times> int" where
  "civil days =
     (let z = days + 719468; era = z div 146097; doe = z mod 146097;
          yoe = (doe - doe div 1460 + doe div 36524 - doe div 146096) div 365;
          doy = doe - (365 * yoe + yoe div 4 - yoe div 100);
          mp = (5 * doy + 2) div 153;
          m = (if mp < 10 then mp + 3 else mp - 9)
      in (yoe + era * 400 + (if m \<le> 2 then 1 else 0), m, doy - (153 * mp + 2) div 5 + 1))"

definition format_rfc3339 :: "int \<Rightarrow> time \<Rightarrow> string" where
  "format_rfc3339 offset t =
     (let s = t div second + offset; days = s div 86400; r = s mod 86400;
          (y, m, d) = civil days; o' = \<bar>offset\<bar> div 60
      in pad 4 y @ ''-'' @ pad 2 m @ ''-'' @ pad 2 d @ ''T'' @ pad 2 (r div 3600) @ '':'' @ pad 2 (r div 60 mod 60)
         @ '':'' @ pad 2 (r mod 60)
         @ (if offset = 0 then ''Z'' else (if offset < 0 then ''-'' else ''+'') @ pad 2 (o' div 60) @ '':'' @ pad 2 (o' mod 60)))"

definition local_rfc3339 :: "ApiEnv \<Rightarrow> time \<Rightarrow> string" where
  "local_rfc3339 env t = format_rfc3339 (ae_zone env t) t"

section \<open>Request bodies\<close>

text \<open>
  \<open>json.Decoder\<close> with \<open>DisallowUnknownFields\<close>: fields are found by their exact name or else without regard
  to case, as the library folds it; a field that occurs twice is read twice.
\<close>

fun fold_name :: "string \<Rightarrow> string" where
  "fold_name [] = []"
| "fold_name (c # s) =
     (if c = CHR 0xC5 \<and> has_prefix s [CHR 0xBF] then CHR ''S'' # fold_name (drop 1 s)
      else if c = CHR 0xE2 \<and> has_prefix s [CHR 0x84, CHR 0xAA] then CHR ''K'' # fold_name (drop 2 s)
      else to_upper_char c # fold_name s)"

type_synonym 'r field_reader = "string \<times> (jvalue \<Rightarrow> 'r \<Rightarrow> 'r option)"

definition find_field :: "'r field_reader list \<Rightarrow> string \<Rightarrow> (jvalue \<Rightarrow> 'r \<Rightarrow> 'r option) option" where
  "find_field fs name =
     (case map_of fs name of
        Some f \<Rightarrow> Some f
      | None \<Rightarrow> map_of (map (\<lambda>(n, f). (fold_name n, f)) fs) (fold_name name))"

fun read_fields :: "'r field_reader list \<Rightarrow> (string \<times> jvalue) list \<Rightarrow> 'r \<Rightarrow> 'r option" where
  "read_fields fs [] r = Some r"
| "read_fields fs ((k, v) # kvs) r =
     (case find_field fs k of
        None \<Rightarrow> None
      | Some f \<Rightarrow> (case f v r of None \<Rightarrow> None | Some r' \<Rightarrow> read_fields fs kvs r'))"

fun read_struct :: "'r field_reader list \<Rightarrow> jvalue \<Rightarrow> 'r \<Rightarrow> 'r option" where
  "read_struct fs (VObj kvs) r = read_fields fs kvs r"
| "read_struct fs VNull r = Some r"
| "read_struct fs _ r = None"

fun read_string :: "jvalue \<Rightarrow> string \<Rightarrow> string option" where
  "read_string (VStr s) old = Some s"
| "read_string VNull old = Some old"
| "read_string _ old = None"

text \<open>A pointer to a struct: \<open>null\<close> clears it, an object fills what is there or a new zero value.\<close>

fun read_pointer :: "'a \<Rightarrow> 'a field_reader list \<Rightarrow> jvalue \<Rightarrow> 'a option \<Rightarrow> 'a option option" where
  "read_pointer zero fs VNull old = Some None"
| "read_pointer zero fs v old =
     map_option Some (read_struct fs v (case old of Some x \<Rightarrow> x | None \<Rightarrow> zero))"

fun read_int32 :: "jvalue \<Rightarrow> int option \<Rightarrow> int option option" where
  "read_int32 VNull old = Some None"
| "read_int32 (VNum t) old = map_option Some (parse_int 32 t)"
| "read_int32 _ old = None"

fun read_duration :: "jvalue \<Rightarrow> duration option \<Rightarrow> duration option option" where
  "read_duration VNull old = Some None"
| "read_duration (VStr t) old = map_option Some (ParseDuration t)"
| "read_duration _ old = None"

fun read_labels :: "(string \<times> jvalue) list \<Rightarrow> str_map \<Rightarrow> str_map option" where
  "read_labels [] m = Some m"
| "read_labels ((k, v) # kvs) m =
     (case read_string v '''' of None \<Rightarrow> None | Some s \<Rightarrow> read_labels kvs (insert_key k s m))"

fun read_map :: "jvalue \<Rightarrow> str_map \<Rightarrow> str_map option" where
  "read_map VNull m = Some []"
| "read_map (VObj kvs) m = read_labels kvs m"
| "read_map _ m = None"

text \<open>The first value of at most \<open>2 ^ 20\<close> bytes.\<close>

definition decode_body :: "'r field_reader list \<Rightarrow> 'r \<Rightarrow> string \<Rightarrow> 'r option" where
  "decode_body fs zero body =
     (let s = take (2 ^ 20) body
      in case dec_value (Suc (2 * length s)) (NewDecoder s) of
           None \<Rightarrow> None
         | Some (v, d) \<Rightarrow> read_struct fs v zero)"

record RoutingConfig =
  rg_RoutingGroup :: string

record CreateRuntimeRequest =
  cq_Name :: string
  cq_Namespace :: string
  cq_Size :: string
  cq_Routing :: "RoutingConfig option"
  cq_Labels :: str_map

definition decode_create :: "string \<Rightarrow> CreateRuntimeRequest option" where
  "decode_create =
     decode_body
       [(''name'', \<lambda>v r. map_option (\<lambda>s. r\<lparr>cq_Name := s\<rparr>) (read_string v (cq_Name r))),
        (''namespace'', \<lambda>v r. map_option (\<lambda>s. r\<lparr>cq_Namespace := s\<rparr>) (read_string v (cq_Namespace r))),
        (''size'', \<lambda>v r. map_option (\<lambda>s. r\<lparr>cq_Size := s\<rparr>) (read_string v (cq_Size r))),
        (''routing'', \<lambda>v r. map_option (\<lambda>g. r\<lparr>cq_Routing := g\<rparr>)
           (read_pointer \<lparr> rg_RoutingGroup = '''' \<rparr>
              [(''routingGroup'', \<lambda>v g. map_option (\<lambda>s. g\<lparr>rg_RoutingGroup := s\<rparr>) (read_string v (rg_RoutingGroup g)))]
              v (cq_Routing r))),
        (''labels'', \<lambda>v r. map_option (\<lambda>m. r\<lparr>cq_Labels := m\<rparr>) (read_map v (cq_Labels r)))]
       \<lparr> cq_Name = '''', cq_Namespace = '''', cq_Size = '''', cq_Routing = None, cq_Labels = [] \<rparr>"

record ResumeRuntimeRequest =
  rz_WakeMinWorkers :: "int option"
  rz_WakeTTL :: "duration option"
  rz_RequestID :: string

definition no_resume_options :: ResumeRuntimeRequest where
  "no_resume_options = \<lparr> rz_WakeMinWorkers = None, rz_WakeTTL = None, rz_RequestID = '''' \<rparr>"

definition decode_resume_options :: "string \<Rightarrow> ResumeRuntimeRequest option" where
  "decode_resume_options =
     decode_body
       [(''wakeMinWorkers'', \<lambda>v r. map_option (\<lambda>n. r\<lparr>rz_WakeMinWorkers := n\<rparr>) (read_int32 v (rz_WakeMinWorkers r))),
        (''wakeTTL'', \<lambda>v r. map_option (\<lambda>d. r\<lparr>rz_WakeTTL := d\<rparr>) (read_duration v (rz_WakeTTL r))),
        (''requestId'', \<lambda>v r. map_option (\<lambda>s. r\<lparr>rz_RequestID := s\<rparr>) (read_string v (rz_RequestID r)))]
       no_resume_options"

record SuspendRuntimeRequest =
  sz_RequestID :: string

definition decode_suspend :: "string \<Rightarrow> SuspendRuntimeRequest option" where
  "decode_suspend =
     decode_body
       [(''requestId'', \<lambda>v r. map_option (\<lambda>s. r\<lparr>sz_RequestID := s\<rparr>) (read_string v (sz_RequestID r)))]
       \<lparr> sz_RequestID = '''' \<rparr>"

record CandidateRuntime =
  cr_Namespace :: string
  cr_Name :: string

record UnifiedResumeRequest =
  uq_RoutingGroup :: string
  uq_Candidate :: "CandidateRuntime option"
  uq_Reason :: string
  uq_RouteName :: string

definition no_unified :: UnifiedResumeRequest where
  "no_unified = \<lparr> uq_RoutingGroup = '''', uq_Candidate = None, uq_Reason = '''', uq_RouteName = '''' \<rparr>"

definition decode_unified :: "string \<Rightarrow> UnifiedResumeRequest option" where
  "decode_unified =
     decode_body
       [(''routingGroup'', \<lambda>v r. map_option (\<lambda>s. r\<lparr>uq_RoutingGroup := s\<rparr>) (read_string v (uq_RoutingGroup r))),
        (''candidate'', \<lambda>v r. map_option (\<lambda>c. r\<lparr>uq_Candidate := c\<rparr>)
           (read_pointer \<lparr> cr_Namespace = '''', cr_Name = '''' \<rparr>
              [(''namespace'', \<lambda>v c. map_option (\<lambda>s. c\<lparr>cr_Namespace := s\<rparr>) (read_string v (cr_Namespace c))),
               (''name'', \<lambda>v c. map_option (\<lambda>s. c\<lparr>cr_Name := s\<rparr>) (read_string v (cr_Name c)))]
              v (uq_Candidate r))),
        (''reason'', \<lambda>v r. map_option (\<lambda>s. r\<lparr>uq_Reason := s\<rparr>) (read_string v (uq_Reason r))),
        (''routeName'', \<lambda>v r. map_option (\<lambda>s. r\<lparr>uq_RouteName := s\<rparr>) (read_string v (uq_RouteName r)))]
       no_unified"

section \<open>Validation\<close>

text \<open>The regular expressions, as predicates on bytes.\<close>

definition lower_alnum :: "char \<Rightarrow> bool" where
  "lower_alnum c \<longleftrightarrow> byte_in 0x61 0x7A c \<or> byte_in 0x30 0x39 c"

definition k8sNameRegex :: "string \<Rightarrow> bool" where
  "k8sNameRegex s \<longleftrightarrow>
     s \<noteq> [] \<and> lower_alnum (hd s) \<and> lower_alnum (last s) \<and> list_all (\<lambda>c. lower_alnum c \<or> c = CHR ''-'') s"

definition validateK8sName :: "string \<Rightarrow> string option" where
  "validateK8sName name =
     (if name = '''' then Some ''name cannot be empty''
      else if length name > 253 then Some ''name cannot be longer than 253 characters''
      else if \<not> k8sNameRegex name then
        Some (''name must consist of lower case alphanumeric characters or '' @ [CHR 0x27, CHR ''-'', CHR 0x27]
              @ '', and must start and end with an alphanumeric character'')
      else None)"

definition validateNamespace :: "string \<Rightarrow> string option" where
  "validateNamespace namespace = validateK8sName namespace"

definition validateSize :: "string \<Rightarrow> string option" where
  "validateSize size' =
     (if map_of ValidSizes size' \<noteq> Some True
      then Some (''invalid size: '' @ size' @ '' (must be one of: ['' @ join_with (CHR '' '') SizeList @ ''])'')
      else None)"

definition label_text :: "string \<Rightarrow> bool" where
  "label_text s \<longleftrightarrow>
     s \<noteq> [] \<and> is_alnum (hd s) \<and> is_alnum (last s) \<and> list_all (\<lambda>c. is_alnum c \<or> c \<in> set ''-_.'') s"

definition k8sLabelKeyRegex :: "string \<Rightarrow> bool" where
  "k8sLabelKeyRegex key =
     (case split_on (CHR ''/'') key of
        [name] \<Rightarrow> label_text name
      | [prefix, name] \<Rightarrow> list_all k8sNameRegex (split_on (CHR ''.'') prefix) \<and> label_text name
      | _ \<Rightarrow> False)"

definition k8sLabelValueRegex :: "string \<Rightarrow> bool" where
  "k8sLabelValueRegex v \<longleftrightarrow> v = '''' \<or> label_text v"

text \<open>The entries in the order in which the map is visited; \<open>q\<close> quotes a string.\<close>

fun validateLabels :: "(string \<Rightarrow> string) \<Rightarrow> str_map \<Rightarrow> string option" where
  "validateLabels q [] = None"
| "validateLabels q ((key, v) # rest) =
     (if length key > 253 + 1 + 63 then Some (''label key '' @ q key @ '' exceeds maximum length'')
      else if \<not> k8sLabelKeyRegex key then Some (''label key '' @ q key @ '' is not a valid Kubernetes label key'')
      else if length v > 63 then Some (''label value for key '' @ q key @ '' exceeds 63 characters'')
      else if v \<noteq> '''' \<and> \<not> k8sLabelValueRegex v then
        Some (''label value '' @ q v @ '' for key '' @ q key @ '' is not a valid Kubernetes label value'')
      else validateLabels q rest)"

section \<open>Tokens\<close>

definition apiActionRuntimeRead :: string where "apiActionRuntimeRead = ''runtimes:read''"
definition apiActionRuntimeCreate :: string where "apiActionRuntimeCreate = ''runtimes:create''"
definition apiActionRuntimeDelete :: string where "apiActionRuntimeDelete = ''runtimes:delete''"
definition apiActionRuntimeResume :: string where "apiActionRuntimeResume = ''runtimes:resume''"
definition apiActionRuntimeSuspend :: string where "apiActionRuntimeSuspend = ''runtimes:suspend''"

record bearerAuthConfig =
  ba_Enabled :: bool
  ba_AdminToken :: string
  ba_ResumeOnlyToken :: string

record authPrincipal =
  ai_name :: string
  ai_allActions :: bool
  ai_actions :: "string list"

definition adminPrincipal :: authPrincipal where
  "adminPrincipal = \<lparr> ai_name = ''admin'', ai_allActions = True, ai_actions = [] \<rparr>"

definition resumeOnlyPrincipal :: authPrincipal where
  "resumeOnlyPrincipal = \<lparr> ai_name = ''resume'', ai_allActions = False, ai_actions = [apiActionRuntimeResume] \<rparr>"

definition bearerTokenMatches :: "string \<Rightarrow> string \<Rightarrow> bool" where
  "bearerTokenMatches headerValue expectedToken =
     (if \<not> has_prefix headerValue ''Bearer '' then False
      else let actualToken = trim_space (trim_prefix headerValue ''Bearer '')
           in if actualToken = '''' \<or> length actualToken \<noteq> length expectedToken then False
              else actualToken = expectedToken)"

definition authenticateBearerToken :: "string \<Rightarrow> bearerAuthConfig \<Rightarrow> authPrincipal option" where
  "authenticateBearerToken headerValue cfg =
     (if ba_AdminToken cfg \<noteq> '''' \<and> ba_ResumeOnlyToken cfg \<noteq> '''' \<and> ba_AdminToken cfg = ba_ResumeOnlyToken cfg then None
      else if ba_AdminToken cfg \<noteq> '''' \<and> bearerTokenMatches headerValue (ba_AdminToken cfg) then Some adminPrincipal
      else if ba_ResumeOnlyToken cfg \<noteq> '''' \<and> bearerTokenMatches headerValue (ba_ResumeOnlyToken cfg) then Some resumeOnlyPrincipal
      else None)"

definition unauthorized :: "headers \<Rightarrow> ApiResponse" where
  "unauthorized h =
     \<lparr> ap_Status = StatusUnauthorized,
       ap_Header = header_set ''WWW-Authenticate'' (''Bearer realm='' @ CHR 0x22 # ''xtrinode-api-server'' @ [CHR 0x22])
                     (header_set ''Content-Type'' ''application/json'' h),
       ap_Body = PError \<lparr> er_Error = ''Unauthorized'', er_Code = ''UNAUTHORIZED'', er_Details = '''' \<rparr> \<rparr>"

definition forbidden :: "headers \<Rightarrow> string \<Rightarrow> ApiResponse" where
  "forbidden h action =
     \<lparr> ap_Status = StatusForbidden, ap_Header = header_set ''Content-Type'' ''application/json'' h,
       ap_Body = PError \<lparr> er_Error = ''Forbidden'', er_Code = ''FORBIDDEN'', er_Details = action \<rparr> \<rparr>"

section \<open>Middleware\<close>

text \<open>A handler sees the principal in the request context, if any, and the response headers set so far.\<close>

type_synonym handler = "authPrincipal option \<Rightarrow> headers \<Rightarrow> ApiRequest \<Rightarrow> ApiResponse prog"

definition withRequestID :: "string \<Rightarrow> handler \<Rightarrow> handler" where
  "withRequestID requestID next pr h r = next pr (header_set ''X-Request-ID'' requestID h) r"

definition cors_headers :: "string \<Rightarrow> headers \<Rightarrow> headers" where
  "cors_headers origin h =
     header_set ''Access-Control-Allow-Headers'' ''Content-Type, Authorization''
       (header_set ''Access-Control-Allow-Methods'' ''GET, POST, DELETE, OPTIONS''
         (header_set ''Vary'' ''Origin'' (header_set ''Access-Control-Allow-Origin'' origin h)))"

definition withCORS :: "string list \<Rightarrow> handler \<Rightarrow> handler" where
  "withCORS allowedOrigins next pr h r =
     (let allowed' = filter (\<lambda>s. s \<noteq> '''') (map trim_space allowedOrigins);
          origin = header_get (rq_Header r) ''Origin'';
          h' = (if origin \<noteq> '''' \<and> origin \<in> set allowed' then cors_headers origin h else h)
      in if rq_Method r = ''OPTIONS'' then Ret \<lparr> ap_Status = StatusNoContent, ap_Header = h', ap_Body = PText '''' \<rparr>
         else next pr h' r)"

definition withBearerAuth :: "bearerAuthConfig \<Rightarrow> handler \<Rightarrow> handler" where
  "withBearerAuth cfg next pr h r =
     (if \<not> ba_Enabled cfg then next pr h r
      else case authenticateBearerToken (header_get (rq_Header r) ''Authorization'') cfg of
             None \<Rightarrow> Ret (unauthorized h)
           | Some who \<Rightarrow> next (Some who) h r)"

section \<open>The server\<close>

record ServerConfig =
  sf_Port :: int
  sf_APIPath :: string
  sf_HealthPath :: string
  sf_MetricsPath :: string
  sf_ReadTimeout :: duration
  sf_WriteTimeout :: duration
  sf_ShutdownTimeout :: duration
  sf_RequestTimeout :: duration
  sf_ResumeLeaseDuration :: duration
  sf_SuspendLeaseDuration :: duration
  sf_RetryAfterSeconds :: int
  sf_LeaseNamespace :: string
  sf_LeaseHolderIdentity :: string
  sf_AuthEnabled :: bool
  sf_AuthToken :: string
  sf_ResumeAuthToken :: string
  sf_CORSAllowedOrigins :: "string list"

record Server =
  sv_config :: ServerConfig
  sv_leaseManager :: LeaseManager

definition APIServerDefaultLeaseNamespace :: string where
  "APIServerDefaultLeaseNamespace = ''xtrinode-system''"

definition NewServer :: "ServerConfig \<Rightarrow> Server" where
  "NewServer cfg =
     (let leaseNamespace = (if sf_LeaseNamespace cfg = '''' then APIServerDefaultLeaseNamespace else sf_LeaseNamespace cfg);
          holderIdentity = (if sf_LeaseHolderIdentity cfg = '''' then ''xtrinode-api-server'' else sf_LeaseHolderIdentity cfg);
          leaseManager = NewLeaseManager leaseNamespace (sf_ResumeLeaseDuration cfg) holderIdentity
      in \<lparr> sv_config = cfg, sv_leaseManager = SetSuspendDuration (sf_SuspendLeaseDuration cfg) leaseManager \<rparr>)"

text \<open>\<open>authorize\<close> writes a response and stops the handler, or lets it go on (\<open>None\<close>).\<close>

definition authorize :: "Server \<Rightarrow> authPrincipal option \<Rightarrow> headers \<Rightarrow> string \<Rightarrow> ApiResponse option" where
  "authorize s pr h action =
     (if \<not> sf_AuthEnabled (sv_config s) then None
      else case pr of
             None \<Rightarrow> Some (unauthorized h)
           | Some who \<Rightarrow>
               if ai_allActions who then None
               else if action \<in> set (ai_actions who) then None
               else Some (forbidden h action))"

text \<open>The rest of a handler, if the action is allowed.\<close>

definition if_authorized :: "Server \<Rightarrow> authPrincipal option \<Rightarrow> headers \<Rightarrow> string \<Rightarrow> ApiResponse prog \<Rightarrow> ApiResponse prog" where
  "if_authorized s pr h action p = (case authorize s pr h action of None \<Rightarrow> p | Some resp \<Rightarrow> Ret resp)"

definition apiHandler :: "Server \<Rightarrow> string \<Rightarrow> handler \<Rightarrow> handler" where
  "apiHandler s requestID next =
     (let authConfig = \<lparr> ba_Enabled = sf_AuthEnabled (sv_config s), ba_AdminToken = sf_AuthToken (sv_config s),
                         ba_ResumeOnlyToken = sf_ResumeAuthToken (sv_config s) \<rparr>
      in withCORS (sf_CORSAllowedOrigins (sv_config s)) (withRequestID requestID (withBearerAuth authConfig next)))"

section \<open>Paths\<close>

text \<open>\<open>path.Clean\<close>, one segment after the other; \<open>out\<close> holds the segments kept so far, the last first.\<close>

fun clean_segments :: "bool \<Rightarrow> string list \<Rightarrow> string list \<Rightarrow> string list" where
  "clean_segments rooted out [] = rev out"
| "clean_segments rooted out (w # ws) =
     (if w = '''' \<or> w = ''.'' then clean_segments rooted out ws
      else if w = ''..'' then
        (case out of
           v # vs \<Rightarrow> if v = ''..'' then clean_segments rooted (w # out) ws else clean_segments rooted vs ws
         | [] \<Rightarrow> clean_segments rooted (if rooted then [] else [w]) ws)
      else clean_segments rooted (w # out) ws)"

definition path_clean :: "string \<Rightarrow> string" where
  "path_clean p =
     (let rooted = has_prefix p ''/'';
          ws = clean_segments rooted [] (split_on (CHR ''/'') p)
      in if rooted then CHR ''/'' # join_with (CHR ''/'') ws
         else if ws = [] then ''.'' else join_with (CHR ''/'') ws)"

definition parsePath :: "string \<Rightarrow> string list" where
  "parsePath urlPath =
     (let trimmed = trim_by (\<lambda>c. c = CHR ''/'') (path_clean urlPath)
      in if trimmed = '''' \<or> trimmed = ''.'' then []
         else map (\<lambda>part. case PathUnescape part of Some d \<Rightarrow> d | None \<Rightarrow> part)
                (filter (\<lambda>part. part \<noteq> '''') (split_on (CHR ''/'') trimmed)))"

section \<open>Listing, reading, creating, deleting\<close>

text \<open>\<open>normalizeXTrinodeTypeMeta\<close> fills in the API version and the kind, which are constants of the type here.\<close>

definition listRuntimes :: "ApiEnv \<Rightarrow> headers \<Rightarrow> ApiResponse prog" where
  "listRuntimes env h =
     ListXTrinodes (\<lambda>r. case r of
       Inl err \<Rightarrow> writeError h StatusInternalServerError (''Failed to list runtimes: '' @ ae_errText env err) ''LIST_FAILED''
     | Inr items \<Rightarrow> writeJSON h StatusOK (PRuntimes items))"

definition runtime_error :: "ApiEnv \<Rightarrow> headers \<Rightarrow> api_error \<Rightarrow> string \<Rightarrow> string \<Rightarrow> ApiResponse prog" where
  "runtime_error env h err message code =
     (if IsNotFound err then writeError h StatusNotFound ''Runtime not found'' ''NOT_FOUND''
      else writeError h StatusInternalServerError (message @ '': '' @ ae_errText env err) code)"

definition getRuntime :: "ApiEnv \<Rightarrow> headers \<Rightarrow> string \<Rightarrow> string \<Rightarrow> ApiResponse prog" where
  "getRuntime env h namespace name =
     GetXTrinode namespace name (\<lambda>r. case r of
       Inl err \<Rightarrow> runtime_error env h err ''Failed to get runtime'' ''GET_FAILED''
     | Inr xtrinode \<Rightarrow> writeJSON h StatusOK (PRuntime xtrinode))"

definition empty_status :: XTrinodeStatus where
  "empty_status =
     \<lparr> st_Phase = '''', st_CoordinatorURL = '''', st_Workers = 0, st_LastActivity = None, st_CurrentRevision = '''',
       st_ObservedGeneration = 0, st_BaseRevision = '''', st_CoordinatorRolloutHash = '''', st_WorkerRolloutHash = '''',
       st_ObservedCatalogs = [], st_ObservedCatalogDigest = '''', st_ObservedAccessControlDigest = '''',
       st_ObservedSessionPropsDigest = '''', st_ObservedRuntimeShape = None, st_Wake = None, st_Conditions = [] \<rparr>"

definition runtime_of_request :: "CreateRuntimeRequest \<Rightarrow> XTrinode" where
  "runtime_of_request req =
     \<lparr> xt_Name = cq_Name req, xt_Namespace = cq_Namespace req, xt_UID = '''', xt_ResourceVersion = '''', xt_Generation = 0,
       xt_CreationTimestamp = zero_time, xt_Labels = cq_Labels req, xt_Finalizers = [], xt_Annotations = [],
       xt_DeletionTimestamp = None,
       xt_Spec = (bare_spec (cq_Size req))\<lparr>xs_Routing :=
         map_option (\<lambda>g. \<lparr> ro_RoutingGroup = rg_RoutingGroup g, ro_HostnameDomain = '''', ro_Hostname = '''', ro_Header = '''',
                             ro_Default = False, ro_CapacityUnits = None \<rparr>) (cq_Routing req)\<rparr>,
       xt_Status = empty_status \<rparr>"

text \<open>The first check a creation request fails: the message and the code.\<close>

definition create_error :: "ApiEnv \<Rightarrow> CreateRuntimeRequest \<Rightarrow> (string \<times> string) option" where
  "create_error env req =
     (if cq_Name req = '''' then Some (''Name is required'', ''MISSING_NAME'')
      else if cq_Namespace req = '''' then Some (''Namespace is required'', ''MISSING_NAMESPACE'')
      else if cq_Size req = '''' then Some (''Size is required'', ''MISSING_SIZE'')
      else case validateK8sName (cq_Name req) of
        Some err \<Rightarrow> Some (''Invalid name: '' @ err, ''INVALID_NAME'')
      | None \<Rightarrow>
          (case validateNamespace (cq_Namespace req) of
             Some err \<Rightarrow> Some (''Invalid namespace: '' @ err, ''INVALID_NAMESPACE'')
           | None \<Rightarrow>
               (case validateSize (cq_Size req) of
                  Some err \<Rightarrow> Some (''Invalid size: '' @ err, ''INVALID_SIZE'')
                | None \<Rightarrow>
                    (case validateLabels (ae_quote env) (cq_Labels req) of
                       Some err \<Rightarrow> Some (''Invalid labels: '' @ err, ''INVALID_LABELS'')
                     | None \<Rightarrow> None))))"

definition createRuntime :: "ApiEnv \<Rightarrow> headers \<Rightarrow> ApiRequest \<Rightarrow> ApiResponse prog" where
  "createRuntime env h r =
     (case decode_create (aq_Body r) of
        None \<Rightarrow> writeError h StatusBadRequest (''Invalid request body: '' @ ae_jsonError env (aq_Body r)) ''INVALID_REQUEST''
      | Some req \<Rightarrow>
          (case create_error env req of
             Some (message, code) \<Rightarrow> writeError h StatusBadRequest message code
           | None \<Rightarrow>
               CreateXTrinode (runtime_of_request req) (\<lambda>r. case r of
                 Inr created \<Rightarrow> writeJSON h StatusCreated (PRuntime created)
               | Inl err \<Rightarrow>
                   if IsAlreadyExists err then
                     writeError h StatusConflict (''Runtime '' @ cq_Namespace req @ ''/'' @ cq_Name req @ '' already exists'') ''ALREADY_EXISTS''
                   else writeError h StatusInternalServerError ''Failed to create runtime'' ''CREATE_FAILED'')))"

definition deleteRuntime :: "ApiEnv \<Rightarrow> headers \<Rightarrow> string \<Rightarrow> string \<Rightarrow> ApiResponse prog" where
  "deleteRuntime env h namespace name =
     DeleteXTrinode namespace name (\<lambda>err. case err of
       Some e \<Rightarrow> runtime_error env h e ''Failed to delete runtime'' ''DELETE_FAILED''
     | None \<Rightarrow> Ret \<lparr> ap_Status = StatusNoContent, ap_Header = h, ap_Body = PText '''' \<rparr>)"

definition getRuntimeStatus :: "ApiEnv \<Rightarrow> headers \<Rightarrow> string \<Rightarrow> string \<Rightarrow> ApiResponse prog" where
  "getRuntimeStatus env h namespace name =
     GetXTrinode namespace name (\<lambda>r. case r of
       Inl err \<Rightarrow> runtime_error env h err ''Failed to get runtime'' ''GET_FAILED''
     | Inr xtrinode \<Rightarrow>
         let st = xt_Status xtrinode
         in writeJSON h StatusOK
              (PStatus \<lparr> rt_Phase = st_Phase st, rt_CoordinatorURL = st_CoordinatorURL st, rt_Workers = st_Workers st,
                         rt_LastActivity = st_LastActivity st, rt_Conditions = st_Conditions st \<rparr>))"

definition handleAPIHealth :: "headers \<Rightarrow> ApiResponse prog" where
  "handleAPIHealth h = Ret \<lparr> ap_Status = StatusOK, ap_Header = h, ap_Body = PText ''OK'' \<rparr>"

end
