(* ===== verification/ApiResume.thy ===== *)
theory ApiResume
  imports ApiServer "HOL-Library.Product_Lexorder"
begin

text \<open>
  Resuming and suspending runtimes (\<open>pkg/api-server/server.go\<close>, \<open>resume.go\<close>): the gated handlers, the choice of a
  runtime for a routing group, the dispatch of requests, and what a token allows.
\<close>

section \<open>Annotations\<close>

definition ResumeRequestedAnnotation :: string where
  "ResumeRequestedAnnotation = ''xtrinode.analytics.xtrinode.io/resume-requested''"
definition ResumeRequestedAtAnnotation :: string where
  "ResumeRequestedAtAnnotation = ''xtrinode.analytics.xtrinode.io/resume-requested-at''"
definition SuspendRequestedAnnotation :: string where
  "SuspendRequestedAnnotation = ''xtrinode.analytics.xtrinode.io/suspend-requested''"
definition SuspendRequestedAtAnnotation :: string where
  "SuspendRequestedAtAnnotation = ''xtrinode.analytics.xtrinode.io/suspend-requested-at''"
definition WakeMinWorkersAnnotation :: string where
  "WakeMinWorkersAnnotation = ''xtrinode.analytics.xtrinode.io/wake-min-workers''"
definition WakeTTLAnnotation :: string where
  "WakeTTLAnnotation = ''xtrinode.analytics.xtrinode.io/wake-ttl''"

definition APIServerMinRetryAfterSeconds :: int where "APIServerMinRetryAfterSeconds = 1"
definition APIServerMaxRetryAfterSeconds :: int where "APIServerMaxRetryAfterSeconds = 120"

definition annotate :: "string \<Rightarrow> string \<Rightarrow> XTrinode \<Rightarrow> XTrinode" where
  "annotate k v x = x\<lparr>xt_Annotations := insert_key k v (xt_Annotations x)\<rparr>"

text \<open>Read the runtime, change its annotations, write it back.\<close>

definition annotate_runtime :: "string \<Rightarrow> string \<Rightarrow> (time \<Rightarrow> XTrinode \<Rightarrow> XTrinode) \<Rightarrow> api_error option prog" where
  "annotate_runtime namespace name change =
     GetXTrinode namespace name (\<lambda>r. case r of
       Inl err \<Rightarrow> Ret (Some err)
     | Inr xtrinode \<Rightarrow> Clock (\<lambda>now. UpdateXTrinode (change now xtrinode) Ret))"

definition resume_annotations :: "ResumeRuntimeRequest \<Rightarrow> time \<Rightarrow> XTrinode \<Rightarrow> XTrinode" where
  "resume_annotations req now xtrinode =
     (let x1 = annotate ResumeRequestedAnnotation ''true'' xtrinode;
          x2 = annotate ResumeRequestedAtAnnotation (format_rfc3339 0 now) x1;
          x3 = (case rz_WakeMinWorkers req of Some n \<Rightarrow> annotate WakeMinWorkersAnnotation (show_int n) x2 | None \<Rightarrow> x2)
      in case rz_WakeTTL req of Some d \<Rightarrow> annotate WakeTTLAnnotation (duration_string d) x3 | None \<Rightarrow> x3)"

definition suspend_annotations :: "time \<Rightarrow> XTrinode \<Rightarrow> XTrinode" where
  "suspend_annotations now xtrinode =
     annotate SuspendRequestedAtAnnotation (format_rfc3339 0 now) (annotate SuspendRequestedAnnotation ''true'' xtrinode)"

section \<open>Resume and suspend of one runtime\<close>

definition seconds_until :: "time \<Rightarrow> time \<Rightarrow> int" where
  "seconds_until t now = f64_to_int 64 (duration_seconds (time_sub t now))"

definition lease_error :: "headers \<Rightarrow> ApiResponse prog" where
  "lease_error h = writeError h StatusInternalServerError ''Failed to acquire lease'' ''LEASE_ERROR''"

text \<open>The 503 answer while another request holds the lease.\<close>

definition gated_answer :: "ApiEnv \<Rightarrow> headers \<Rightarrow> string \<Rightarrow> string \<Rightarrow> string \<Rightarrow> K8sLeaseResult \<Rightarrow> ApiResponse prog" where
  "gated_answer env h operation namespace name leaseResult =
     Clock (\<lambda>now.
       let until = local_rfc3339 env (kl_LeaseUntil leaseResult);
           remaining = seconds_until (kl_LeaseUntil leaseResult) now;
           remaining = (if remaining < 1 then 30 else remaining);
           remaining = (if remaining > 120 then 120 else remaining);
           h' = header_set ''X-Lease-Holder'' (kl_Holder leaseResult)
                  (header_set ''X-Lease-Until'' until
                    (header_set ''X-Lease-Gated'' ''true'' (header_set ''Retry-After'' (show_int remaining) h)))
       in writeJSON h' StatusServiceUnavailable
            (PGated \<lparr> gp_Operation = operation, gp_Namespace = namespace, gp_Name = name, gp_RetryAfter = remaining,
                      gp_LeaseUntil = until, gp_Holder = kl_Holder leaseResult \<rparr>))"

definition accepted_headers :: "int \<Rightarrow> string \<Rightarrow> headers \<Rightarrow> headers" where
  "accepted_headers retryAfter until h =
     header_set ''X-Lease-Until'' until
       (header_set ''X-Lease-Acquired'' ''true'' (header_set ''Retry-After'' (show_int retryAfter) h))"

definition accepted_answer ::
    "ApiEnv \<Rightarrow> Server \<Rightarrow> headers \<Rightarrow> string \<Rightarrow> string \<Rightarrow> string \<Rightarrow> string \<Rightarrow> K8sLeaseResult \<Rightarrow> ApiResponse prog" where
  "accepted_answer env s h operation desired namespace name leaseResult =
     (let retryAfter = (if sf_RetryAfterSeconds (sv_config s) \<le> 0 then 30 else sf_RetryAfterSeconds (sv_config s));
          until = local_rfc3339 env (kl_LeaseUntil leaseResult)
      in writeJSON (accepted_headers retryAfter until h) StatusAccepted
           (PAsync \<lparr> ar_Status = ''accepted'', ar_Desired = desired, ar_CurrentPhase = '''',
                     ar_PollURL = sf_APIPath (sv_config s) @ ''/runtimes/'' @ namespace @ ''/'' @ name @ ''/status'',
                     ar_Lease = \<lparr> li_Operation = operation, li_Applied = True, li_Until = until \<rparr>,
                     ar_RetryAfterSeconds = retryAfter \<rparr>))"

text \<open>
  What \<open>resumeRuntime\<close> and \<open>suspendRuntime\<close> do once their body is read: take the lease, annotate the runtime, and give
  the lease back when that fails.
\<close>

definition gated_operation ::
    "ApiEnv \<Rightarrow> Server \<Rightarrow> headers \<Rightarrow> string \<Rightarrow> string \<Rightarrow> string \<Rightarrow> string \<Rightarrow> string \<Rightarrow> (time \<Rightarrow> XTrinode \<Rightarrow> XTrinode) \<Rightarrow> ApiResponse prog" where
  "gated_operation env s h operation desired keyType namespace name change =
     (let key = MakeRuntimeKey namespace name; lm = sv_leaseManager s
      in bind (AcquireLease (ae_sha env) lm key keyType) (\<lambda>reply. case reply of
           Inl err \<Rightarrow> lease_error h
         | Inr leaseResult \<Rightarrow>
             if \<not> kl_Acquired leaseResult then gated_answer env h operation namespace name leaseResult
             else bind (ae_retry env (annotate_runtime namespace name change)) (\<lambda>updateErr. case updateErr of
               Some err \<Rightarrow>
                 bind (ReleaseLease (ae_sha env) lm key keyType) (\<lambda>_.
                   if IsNotFound err then writeError h StatusNotFound ''Runtime not found'' ''NOT_FOUND''
                   else writeError h StatusInternalServerError (''Failed to trigger '' @ operation) ''UPDATE_FAILED'')
             | None \<Rightarrow> accepted_answer env s h operation desired namespace name leaseResult)))"

definition has_body :: "ApiRequest \<Rightarrow> bool" where
  "has_body r \<longleftrightarrow> aq_ContentLength r > 0"

definition invalid_body :: "ApiEnv \<Rightarrow> headers \<Rightarrow> ApiRequest \<Rightarrow> ApiResponse prog" where
  "invalid_body env h r =
     writeError h StatusBadRequest (''Invalid request body: '' @ ae_jsonError env (aq_Body r)) ''INVALID_REQUEST''"

definition resumeRuntime :: "ApiEnv \<Rightarrow> Server \<Rightarrow> headers \<Rightarrow> ApiRequest \<Rightarrow> string \<Rightarrow> string \<Rightarrow> ApiResponse prog" where
  "resumeRuntime env s h r namespace name =
     (case (if has_body r then decode_resume_options (aq_Body r) else Some no_resume_options) of
        None \<Rightarrow> invalid_body env h r
      | Some req \<Rightarrow>
          gated_operation env s h ''resume'' ''resumed'' LeaseKeyTypeRuntime namespace name (resume_annotations req))"

definition suspendRuntime :: "ApiEnv \<Rightarrow> Server \<Rightarrow> headers \<Rightarrow> ApiRequest \<Rightarrow> string \<Rightarrow> string \<Rightarrow> ApiResponse prog" where
  "suspendRuntime env s h r namespace name =
     (if has_body r \<and> decode_suspend (aq_Body r) = None then invalid_body env h r
      else gated_operation env s h ''suspend'' ''suspended'' LeaseKeyTypeSuspend namespace name suspend_annotations)"

section \<open>Resume by routing group\<close>

definition xtrinodeMatchesRoutingGroup :: "XTrinode \<Rightarrow> string \<Rightarrow> bool" where
  "xtrinodeMatchesRoutingGroup xtrinode routingGroup =
     (if routingGroup = '''' then False
      else case xs_Routing (xt_Spec xtrinode) of
             Some ro \<Rightarrow>
               if ro_RoutingGroup ro \<noteq> '''' then ro_RoutingGroup ro = routingGroup
               else DefaultDedicatedRoutingGroup (xt_Namespace xtrinode) (xt_Name xtrinode) = routingGroup
           | None \<Rightarrow> DefaultDedicatedRoutingGroup (xt_Namespace xtrinode) (xt_Name xtrinode) = routingGroup)"

definition isPoolEmpty :: "string \<Rightarrow> (bool \<Rightarrow> 'a prog) \<Rightarrow> 'a prog" where
  "isPoolEmpty routingGroup k =
     ListXTrinodes (\<lambda>r. case r of
       Inl err \<Rightarrow> k True
     | Inr items \<Rightarrow>
         k (\<not> list_ex (\<lambda>t. xtrinodeMatchesRoutingGroup t routingGroup \<and> st_Phase (xt_Status t) = ''Ready'') items))"

definition phase_priority :: "string \<Rightarrow> int option" where
  "phase_priority phase = (if phase = ''Suspended'' then Some 0 else if phase = ''Reconciling'' then Some 1 else None)"

text \<open>The runtimes the loop considers, with priority and capacity.\<close>

definition resume_options :: "ApiEnv \<Rightarrow> string \<Rightarrow> XTrinode list \<Rightarrow> (XTrinode \<times> int \<times> int) list" where
  "resume_options env routingGroup items =
     concat (map (\<lambda>t.
       if \<not> xtrinodeMatchesRoutingGroup t routingGroup then []
       else case phase_priority (st_Phase (xt_Status t)) of
              None \<Rightarrow> []
            | Some priority \<Rightarrow>
                (case Resolve (ae_quantity env) (ae_hashShape env) t of
                   Inl err \<Rightarrow> []
                 | Inr shape \<Rightarrow> [(t, priority, sh_CapacityUnits shape)])) items)"

definition wakes_before :: "XTrinode \<times> int \<times> int \<Rightarrow> XTrinode \<times> int \<times> int \<Rightarrow> bool" where
  "wakes_before a b \<longleftrightarrow> fst (snd a) < fst (snd b) \<or> fst (snd a) = fst (snd b) \<and> snd (snd a) < snd (snd b)"

definition pick_candidate :: "ApiEnv \<Rightarrow> string \<Rightarrow> XTrinode list \<Rightarrow> CandidateRuntime option" where
  "pick_candidate env routingGroup items =
     map_option (\<lambda>(t, _). \<lparr> cr_Namespace = xt_Namespace t, cr_Name = xt_Name t \<rparr>)
       (scan_best wakes_before None (resume_options env routingGroup items))"

definition pickCandidateFromRoutes :: "ApiEnv \<Rightarrow> string \<Rightarrow> (CandidateRuntime option \<Rightarrow> 'a prog) \<Rightarrow> 'a prog" where
  "pickCandidateFromRoutes env routingGroup k =
     ListXTrinodes (\<lambda>r. case r of Inl err \<Rightarrow> k None | Inr items \<Rightarrow> k (pick_candidate env routingGroup items))"

definition getRetryAfter :: "Server \<Rightarrow> int" where
  "getRetryAfter s = (if sf_RetryAfterSeconds (sv_config s) > 0 then sf_RetryAfterSeconds (sv_config s) else 30)"

definition calculateRetryAfter :: "time \<Rightarrow> time \<Rightarrow> int" where
  "calculateRetryAfter leaseUntil now =
     (let remaining = seconds_until leaseUntil now
      in if remaining < APIServerMinRetryAfterSeconds then APIServerMinRetryAfterSeconds
         else if remaining > APIServerMaxRetryAfterSeconds then APIServerMaxRetryAfterSeconds
         else remaining)"

definition respondLeaseGated :: "ApiEnv \<Rightarrow> headers \<Rightarrow> string \<Rightarrow> string \<Rightarrow> K8sLeaseResult \<Rightarrow> ApiResponse prog" where
  "respondLeaseGated env h key keyType leaseResult =
     Clock (\<lambda>now.
       let remaining = calculateRetryAfter (kl_LeaseUntil leaseResult) now;
           until = local_rfc3339 env (kl_LeaseUntil leaseResult);
           h' = header_set ''X-Lease-Until'' until
                  (header_set ''X-Lease-Gated'' ''true'' (header_set ''Retry-After'' (show_int remaining) h))
       in writeJSON h' StatusServiceUnavailable
            (PUnified \<lparr> ur_Triggered = False, ur_Gated = True, ur_RetryAfter = remaining, ur_Key = key, ur_KeyType = keyType,
                        ur_LeaseUntil = until, ur_Error = ''resuming'', ur_Holder = kl_Holder leaseResult \<rparr>))"

definition triggered_answer :: "ApiEnv \<Rightarrow> Server \<Rightarrow> headers \<Rightarrow> string \<Rightarrow> string \<Rightarrow> K8sLeaseResult \<Rightarrow> ApiResponse prog" where
  "triggered_answer env s h key keyType leaseResult =
     (let retryAfter = getRetryAfter s; until = local_rfc3339 env (kl_LeaseUntil leaseResult)
      in writeJSON (accepted_headers retryAfter until h) StatusAccepted
           (PUnified \<lparr> ur_Triggered = True, ur_Gated = False, ur_RetryAfter = retryAfter, ur_Key = key, ur_KeyType = keyType,
                       ur_LeaseUntil = until, ur_Error = '''', ur_Holder = '''' \<rparr>))"

definition handleLeaseAcquired ::
    "ApiEnv \<Rightarrow> Server \<Rightarrow> headers \<Rightarrow> string \<Rightarrow> string \<Rightarrow> string \<Rightarrow> string \<Rightarrow> K8sLeaseResult \<Rightarrow> ApiResponse prog" where
  "handleLeaseAcquired env s h namespace name key keyType leaseResult =
     (if namespace \<noteq> '''' \<and> name \<noteq> ''''
      then GoResume namespace name key keyType (triggered_answer env s h key keyType leaseResult)
      else triggered_answer env s h key keyType leaseResult)"

text \<open>\<open>fallthrough\<close> is the rest of \<open>handleUnifiedResume\<close>, taken when the pool gate has not answered.\<close>

definition tryPoolGate :: "ApiEnv \<Rightarrow> Server \<Rightarrow> headers \<Rightarrow> string \<Rightarrow> ApiResponse prog \<Rightarrow> ApiResponse prog" where
  "tryPoolGate env s h routingGroup fallthrough =
     (let key = MakePoolKey routingGroup; keyType = LeaseKeyTypePool; lm = sv_leaseManager s
      in bind (AcquireLease (ae_sha env) lm key keyType) (\<lambda>reply. case reply of
           Inl err \<Rightarrow> lease_error h
         | Inr leaseResult \<Rightarrow>
             if \<not> kl_Acquired leaseResult then respondLeaseGated env h key keyType leaseResult
             else isPoolEmpty routingGroup (\<lambda>empty.
               if \<not> empty then bind (ReleaseLease (ae_sha env) lm key keyType) (\<lambda>_. fallthrough)
               else pickCandidateFromRoutes env routingGroup (\<lambda>candidate. case candidate of
                 None \<Rightarrow>
                   bind (ReleaseLease (ae_sha env) lm key keyType) (\<lambda>_.
                     writeError h StatusNotFound ''No candidate runtime found for pool gate'' ''NO_CANDIDATE'')
               | Some c \<Rightarrow>
                   GoResume (cr_Namespace c) (cr_Name c) key keyType (triggered_answer env s h key keyType leaseResult)))))"

definition runtime_gate :: "ApiEnv \<Rightarrow> Server \<Rightarrow> headers \<Rightarrow> string \<Rightarrow> string \<Rightarrow> ApiResponse prog" where
  "runtime_gate env s h namespace name =
     (let key = MakeRuntimeKey namespace name; keyType = LeaseKeyTypeRuntime
      in bind (AcquireLease (ae_sha env) (sv_leaseManager s) key keyType) (\<lambda>reply. case reply of
           Inl err \<Rightarrow> lease_error h
         | Inr leaseResult \<Rightarrow>
             if kl_Acquired leaseResult then handleLeaseAcquired env s h namespace name key keyType leaseResult
             else respondLeaseGated env h key keyType leaseResult))"

definition handleUnifiedResume :: "ApiEnv \<Rightarrow> Server \<Rightarrow> handler" where
  "handleUnifiedResume env s pr h r =
     (if rq_Method r \<noteq> ''POST'' then writeError h StatusMethodNotAllowed ''Resume requires POST method'' ''METHOD_NOT_ALLOWED''
      else if_authorized s pr h apiActionRuntimeResume
        (case (if has_body r then decode_unified (aq_Body r) else Some no_unified) of
           None \<Rightarrow> invalid_body env h r
         | Some req \<Rightarrow>
             (case uq_Candidate req of
                None \<Rightarrow>
                  if uq_RoutingGroup req = '''' then
                    writeError h StatusBadRequest ''Either routingGroup or candidate must be provided'' ''INVALID_REQUEST''
                  else tryPoolGate env s h (uq_RoutingGroup req)
                    (pickCandidateFromRoutes env (uq_RoutingGroup req) (\<lambda>candidate. case candidate of
                       None \<Rightarrow> writeError h StatusNotFound ''No candidate runtime found for routing group'' ''NO_CANDIDATE''
                     | Some c \<Rightarrow> runtime_gate env s h (cr_Namespace c) (cr_Name c)))
              | Some c \<Rightarrow>
                  (case validateNamespace (cr_Namespace c) of
                     Some err \<Rightarrow> writeError h StatusBadRequest (''Invalid namespace: '' @ err) ''INVALID_NAMESPACE''
                   | None \<Rightarrow>
                       (case validateK8sName (cr_Name c) of
                          Some err \<Rightarrow> writeError h StatusBadRequest (''Invalid name: '' @ err) ''INVALID_NAME''
                        | None \<Rightarrow> runtime_gate env s h (cr_Namespace c) (cr_Name c))))))"

text \<open>What \<open>triggerResumeAsync\<close> runs.\<close>

definition triggerResume :: "ApiEnv \<Rightarrow> string \<Rightarrow> string \<Rightarrow> api_error option prog" where
  "triggerResume env namespace name =
     bind (ae_retry env (annotate_runtime namespace name (resume_annotations no_resume_options)))
       (\<lambda>err. Ret (map_option (WrapErr ''failed to update xtrinode'') err))"

definition triggerResumeWithLeaseCleanup :: "ApiEnv \<Rightarrow> Server \<Rightarrow> string \<Rightarrow> string \<Rightarrow> string \<Rightarrow> string \<Rightarrow> unit prog" where
  "triggerResumeWithLeaseCleanup env s namespace name key keyType =
     bind (triggerResume env namespace name) (\<lambda>err. case err of
       None \<Rightarrow> Ret ()
     | Some e \<Rightarrow> bind (ReleaseLease (ae_sha env) (sv_leaseManager s) key keyType) (\<lambda>_. Ret ()))"

section \<open>Dispatch\<close>

definition method_not_allowed :: "headers \<Rightarrow> string \<Rightarrow> ApiResponse prog" where
  "method_not_allowed h message = writeError h StatusMethodNotAllowed message ''METHOD_NOT_ALLOWED''"

definition handleRuntimes :: "ApiEnv \<Rightarrow> Server \<Rightarrow> handler" where
  "handleRuntimes env s pr h r =
     (if rq_Method r = ''GET'' then if_authorized s pr h apiActionRuntimeRead (listRuntimes env h)
      else if rq_Method r = ''POST'' then if_authorized s pr h apiActionRuntimeCreate (createRuntime env h r)
      else method_not_allowed h ''Method not allowed'')"

text \<open>The path starts with the prefix, since the multiplexer matched it.\<close>

definition handleRuntime :: "ApiEnv \<Rightarrow> Server \<Rightarrow> handler" where
  "handleRuntime env s pr h r =
     (let runtimesPrefix = sf_APIPath (sv_config s) @ ''/runtimes/'';
          parts = parsePath (drop (length runtimesPrefix) (rq_Path r))
      in case parts of
           namespace # name # rest \<Rightarrow>
             let action = (case rest of a # _ \<Rightarrow> a | [] \<Rightarrow> '''')
             in (case validateNamespace namespace of
                   Some err \<Rightarrow> writeError h StatusBadRequest (''Invalid namespace: '' @ err) ''INVALID_NAMESPACE''
                 | None \<Rightarrow>
                     (case validateK8sName name of
                        Some err \<Rightarrow> writeError h StatusBadRequest (''Invalid name: '' @ err) ''INVALID_NAME''
                      | None \<Rightarrow>
                          if action = ''resume'' then
                            (if rq_Method r \<noteq> ''POST'' then method_not_allowed h ''Resume requires POST method''
                             else if_authorized s pr h apiActionRuntimeResume (resumeRuntime env s h r namespace name))
                          else if action = ''suspend'' then
                            (if rq_Method r \<noteq> ''POST'' then method_not_allowed h ''Suspend requires POST method''
                             else if_authorized s pr h apiActionRuntimeSuspend (suspendRuntime env s h r namespace name))
                          else if action = ''status'' then
                            (if rq_Method r \<noteq> ''GET'' then method_not_allowed h ''Status requires GET method''
                             else if_authorized s pr h apiActionRuntimeRead (getRuntimeStatus env h namespace name))
                          else if action = '''' then
                            (if rq_Method r = ''GET'' then if_authorized s pr h apiActionRuntimeRead (getRuntime env h namespace name)
                             else if rq_Method r = ''DELETE'' then
                               if_authorized s pr h apiActionRuntimeDelete (deleteRuntime env h namespace name)
                             else method_not_allowed h ''Method not allowed'')
                          else writeError h StatusBadRequest ''Unknown action'' ''UNKNOWN_ACTION''))
         | _ \<Rightarrow>
             writeError h StatusBadRequest
               (''Invalid path. Expected '' @ sf_APIPath (sv_config s) @ ''/runtimes/{namespace}/{name}'') ''INVALID_PATH'')"

text \<open>
  The multiplexer: a path that is not clean is redirected, an exact match goes before the subtree of
  \<open>/runtimes/\<close>, and segments are compared unescaped. \<open>metrics\<close> is the page of the Prometheus library; the target of the
  redirect is left out.
\<close>

definition clean_url_path :: "string \<Rightarrow> string" where
  "clean_url_path p =
     (let p = (if p = '''' then ''/'' else if \<not> has_prefix p ''/'' then CHR ''/'' # p else p);
          np = path_clean p
      in if has_suffix p ''/'' \<and> np \<noteq> ''/'' then np @ ''/'' else np)"

definition path_segments :: "string \<Rightarrow> string list" where
  "path_segments p = map (\<lambda>w. case PathUnescape w of Some d \<Rightarrow> d | None \<Rightarrow> w) (split_on (CHR ''/'') (drop 1 p))"

definition matches_exact :: "string \<Rightarrow> string \<Rightarrow> bool" where
  "matches_exact pattern p \<longleftrightarrow> path_segments p = split_on (CHR ''/'') (drop 1 pattern)"

definition matches_subtree :: "string \<Rightarrow> string \<Rightarrow> bool" where
  "matches_subtree pattern p \<longleftrightarrow>
     (let ps = split_on (CHR ''/'') (drop 1 pattern)
      in length ps < length (path_segments p) \<and> take (length ps) (path_segments p) = ps)"

definition serve :: "ApiEnv \<Rightarrow> Server \<Rightarrow> string \<Rightarrow> string \<Rightarrow> ApiRequest \<Rightarrow> ApiResponse prog" where
  "serve env s requestID metrics r =
     (let cfg = sv_config s;
          escaped = aq_EscapedPath r;
          p = (if rq_Method r = ''CONNECT'' then escaped else clean_url_path escaped);
          runtimesPath = sf_APIPath cfg @ ''/runtimes'';
          resumePath = sf_APIPath cfg @ ''/resume''
      in if p \<noteq> escaped then Ret \<lparr> ap_Status = StatusMovedPermanently, ap_Header = [], ap_Body = PText '''' \<rparr>
         else if matches_exact runtimesPath p then apiHandler s requestID (handleRuntimes env s) None [] r
         else if matches_exact resumePath p then apiHandler s requestID (handleUnifiedResume env s) None [] r
         else if matches_exact (sf_MetricsPath cfg) p then Ret \<lparr> ap_Status = StatusOK, ap_Header = [], ap_Body = PText metrics \<rparr>
         else if matches_exact (sf_HealthPath cfg) p then handleAPIHealth []
         else if matches_subtree runtimesPath p then apiHandler s requestID (handleRuntime env s) None [] r
         else Ret \<lparr> ap_Status = StatusNotFound, ap_Header = [], ap_Body = PText ''404 page not found'' \<rparr>)"

section \<open>What a token allows\<close>

definition nothing_allowed :: allowed where
  "nothing_allowed = \<lparr> al_lease = (\<lambda>_ _. False), al_read = False, al_update = (\<lambda>_ _. False), al_create = (\<lambda>_. False),
                       al_delete = (\<lambda>_ _. False), al_resume = (\<lambda>_ _ _ _. False) \<rparr>"

definition resume_keys :: "string set" where
  "resume_keys = {ResumeRequestedAnnotation, ResumeRequestedAtAnnotation, WakeMinWorkersAnnotation, WakeTTLAnnotation}"

definition resume_types :: "string set" where
  "resume_types = {LeaseKeyTypeRuntime, LeaseKeyTypePool}"

text \<open>Leases of resume requests, reading runtimes, and setting the resume annotations of a runtime.\<close>

definition resume_allowed :: "ApiEnv \<Rightarrow> Server \<Rightarrow> allowed" where
  "resume_allowed env s =
     \<lparr> al_lease = (\<lambda>ns n. ns = lm_leaseNamespace (sv_leaseManager s)
                           \<and> (\<exists>key. \<exists>kt \<in> resume_types. n = makeLeaseNameFromKey (ae_sha env) key kt)),
       al_read = True,
       al_update = (\<lambda>y x. \<exists>A. x = y\<lparr>xt_Annotations := A\<rparr> \<and> (\<forall>k. k \<notin> resume_keys \<longrightarrow> map_of A k = map_of (xt_Annotations y) k)),
       al_create = (\<lambda>_. False), al_delete = (\<lambda>_ _. False),
       al_resume = (\<lambda>ns n key kt. kt \<in> resume_types) \<rparr>"

lemma resume_allowed_simps [simp]:
  "al_read (resume_allowed env s)" "al_resume (resume_allowed env s) ns n key kt = (kt \<in> resume_types)"
  by (simp_all add: resume_allowed_def)

lemma lease_allowed:
  "kt \<in> resume_types \<Longrightarrow> al_lease (resume_allowed env s) (lm_leaseNamespace (sv_leaseManager s)) (makeLeaseNameFromKey (ae_sha env) key kt)"
  by (auto simp: resume_allowed_def)

lemma key_types_resume [simp]: "LeaseKeyTypeRuntime \<in> resume_types" "LeaseKeyTypePool \<in> resume_types"
  by (simp_all add: resume_types_def)

lemma confined_acquire:
  assumes "al_lease al (lm_leaseNamespace lm) (makeLeaseNameFromKey sha key kt)"
  shows "confined al seen (AcquireLease sha lm key kt)"
  using assms
  by (auto simp: AcquireLease_def acquire_from_def createLease_def updateLease_def new_lease_def renewed_def Let_def
      split: sum.split option.split)

lemma confined_release:
  assumes "al_lease al (lm_leaseNamespace lm) (makeLeaseNameFromKey sha key kt)"
  shows "confined al seen (ReleaseLease sha lm key kt)"
  using assms by (auto simp: ReleaseLease_def Let_def split: sum.split option.split)

lemma confined_answers [simp]:
  "confined al seen (writeJSON h st d)" "confined al seen (writeError h st m c)" "confined al seen (lease_error h)"
  "confined al seen (gated_answer env h op ns n l)" "confined al seen (accepted_answer env s h op des ns n l)"
  "confined al seen (respondLeaseGated env h key kt l)" "confined al seen (triggered_answer env s h key kt l)"
  "confined al seen (invalid_body env h r)" "confined al seen (method_not_allowed h m)" "confined al seen (handleAPIHealth h)"
  by (simp_all add: writeJSON_def writeError_def lease_error_def gated_answer_def accepted_answer_def respondLeaseGated_def
      triggered_answer_def invalid_body_def method_not_allowed_def handleAPIHealth_def Let_def)

subsection \<open>Annotations\<close>

lemma map_of_insert_key: "k' \<noteq> k \<Longrightarrow> map_of (insert_key k v m) k' = map_of m k'"
  by (induction k v m rule: insert_key.induct) auto

definition annotated :: "XTrinode \<Rightarrow> XTrinode \<Rightarrow> bool" where
  "annotated y x \<longleftrightarrow> (\<exists>A. x = y\<lparr>xt_Annotations := A\<rparr> \<and> (\<forall>k. k \<notin> resume_keys \<longrightarrow> map_of A k = map_of (xt_Annotations y) k))"

lemma annotated_annotate:
  assumes "annotated y x" "k \<in> resume_keys"
  shows "annotated y (annotate k v x)"
proof -
  obtain A where A: "x = y\<lparr>xt_Annotations := A\<rparr>" "\<forall>k. k \<notin> resume_keys \<longrightarrow> map_of A k = map_of (xt_Annotations y) k"
    using assms(1) by (auto simp: annotated_def)
  have "\<forall>j. j \<notin> resume_keys \<longrightarrow> map_of (insert_key k v A) j = map_of (xt_Annotations y) j"
    using A(2) assms(2) map_of_insert_key by metis
  then show ?thesis using A(1) by (auto simp: annotated_def annotate_def intro!: exI [of _ "insert_key k v A"])
qed

lemma annotated_resume: "annotated x (resume_annotations req now x)"
proof -
  have "annotated x x" by (auto simp: annotated_def intro: exI [of _ "xt_Annotations x"])
  then show ?thesis
    by (auto simp: resume_annotations_def Let_def resume_keys_def intro!: annotated_annotate split: option.split)
qed

lemma confined_annotate:
  "confined (resume_allowed env s) seen (annotate_runtime ns n (resume_annotations req))"
  using annotated_resume
  by (auto simp: annotate_runtime_def annotated_def resume_allowed_def split: sum.split)

subsection \<open>Handlers\<close>

lemma confined_resume_runtime:
  assumes "retrier_ok (ae_retry env)"
  shows "confined (resume_allowed env s) seen (resumeRuntime env s h r ns n)"
  by (auto simp: resumeRuntime_def gated_operation_def Let_def split: option.split sum.split
      intro!: confined_bind confined_acquire confined_release lease_allowed confined_retry [OF assms] confined_annotate)

lemma confined_runtime_gate: "confined (resume_allowed env s) seen (runtime_gate env s h ns n)"
  by (auto simp: runtime_gate_def handleLeaseAcquired_def Let_def split: sum.split
      intro!: confined_bind confined_acquire lease_allowed)

lemma confined_pick:
  "al_read al \<Longrightarrow> (\<And>c. confined al seen (k c)) \<Longrightarrow> confined al seen (pickCandidateFromRoutes env g k)"
  by (auto simp: pickCandidateFromRoutes_def split: sum.split)

lemma confined_pool_empty: "al_read al \<Longrightarrow> (\<And>b. confined al seen (k b)) \<Longrightarrow> confined al seen (isPoolEmpty g k)"
  by (auto simp: isPoolEmpty_def split: sum.split)

lemma confined_pool_gate:
  assumes "confined (resume_allowed env s) seen p"
  shows "confined (resume_allowed env s) seen (tryPoolGate env s h g p)"
  using assms
  by (auto simp: tryPoolGate_def Let_def split: sum.split option.split
      intro!: confined_bind confined_acquire confined_release lease_allowed confined_pick confined_pool_empty)

lemma confined_if_authorized:
  "(authorize s pr h a = None \<Longrightarrow> confined al seen p) \<Longrightarrow> confined al seen (if_authorized s pr h a p)"
  by (simp add: if_authorized_def split: option.split)

text \<open>Only the resume action is open to the resume-only principal.\<close>

lemma authorize_resume_only:
  assumes "sf_AuthEnabled (sv_config s)"
  shows "authorize s (Some resumeOnlyPrincipal) h a = None \<longleftrightarrow> a = apiActionRuntimeResume"
  using assms by (simp add: authorize_def resumeOnlyPrincipal_def)

lemma action_names:
  "apiActionRuntimeRead \<noteq> apiActionRuntimeResume" "apiActionRuntimeCreate \<noteq> apiActionRuntimeResume"
  "apiActionRuntimeDelete \<noteq> apiActionRuntimeResume" "apiActionRuntimeSuspend \<noteq> apiActionRuntimeResume"
  by (simp_all add: apiActionRuntimeRead_def apiActionRuntimeCreate_def apiActionRuntimeDelete_def apiActionRuntimeResume_def
      apiActionRuntimeSuspend_def)

lemma confined_refused:
  assumes "sf_AuthEnabled (sv_config s)" "a \<noteq> apiActionRuntimeResume"
  shows "confined al seen (if_authorized s (Some resumeOnlyPrincipal) h a p)"
  using assms(2) by (intro confined_if_authorized) (simp add: authorize_resume_only [OF assms(1)])

lemma confined_unified: "confined (resume_allowed env s) {} (handleUnifiedResume env s pr h r)"
  unfolding handleUnifiedResume_def
  by (auto split: option.split
      intro!: confined_if_authorized confined_pool_gate confined_pick confined_runtime_gate)

lemma confined_runtimes:
  assumes "sf_AuthEnabled (sv_config s)"
  shows "confined al {} (handleRuntimes env s (Some resumeOnlyPrincipal) h r)"
  unfolding handleRuntimes_def using confined_refused [OF assms] action_names by auto

lemma confined_runtime:
  assumes "sf_AuthEnabled (sv_config s)" "retrier_ok (ae_retry env)"
  shows "confined (resume_allowed env s) {} (handleRuntime env s (Some resumeOnlyPrincipal) h r)"
  unfolding handleRuntime_def Let_def
  by (auto split: list.split option.split
      intro!: confined_refused [OF assms(1) action_names(1)] confined_refused [OF assms(1) action_names(3)]
        confined_refused [OF assms(1) action_names(4)] confined_if_authorized [OF confined_resume_runtime [OF assms(2)]])

lemma confined_api_handler:
  assumes "sf_AuthEnabled (sv_config s)"
    and "authenticateBearerToken (header_get (rq_Header r) ''Authorization'')
           \<lparr> ba_Enabled = True, ba_AdminToken = sf_AuthToken (sv_config s), ba_ResumeOnlyToken = sf_ResumeAuthToken (sv_config s) \<rparr> = who"
    and "\<And>p h. who = Some p \<Longrightarrow> confined al {} (next (Some p) h r)"
  shows "confined al {} (apiHandler s rid next pr h r)"
  using assms by (auto simp: apiHandler_def withCORS_def withRequestID_def withBearerAuth_def Let_def split: option.split)

lemma token_principal:
  assumes "\<not> (adm \<noteq> '''' \<and> bearerTokenMatches auth adm)"
  shows "authenticateBearerToken auth \<lparr> ba_Enabled = True, ba_AdminToken = adm, ba_ResumeOnlyToken = res \<rparr> \<in>
    (if res \<noteq> '''' \<and> bearerTokenMatches auth res then {None, Some resumeOnlyPrincipal} else {None})"
  using assms by (auto simp: authenticateBearerToken_def)

text \<open>C9. With authentication on, a request without the admin token can change nothing but what resuming needs. The
  program that serves it makes no Kubernetes call at all unless it carries the resume token. With that token it
  touches only leases of resume requests, and it changes a runtime only by setting the resume
  annotations of a runtime it has read: it cannot suspend, create or delete a runtime or change a spec. The same
  holds for the work it leaves running in the background.\<close>

theorem token_confines_request:
  assumes "sf_AuthEnabled (sv_config s)" "retrier_ok (ae_retry env)"
    and "auth = header_get (rq_Header r) ''Authorization''"
    and "\<not> (sf_AuthToken (sv_config s) \<noteq> '''' \<and> bearerTokenMatches auth (sf_AuthToken (sv_config s)))"
  shows "confined (if sf_ResumeAuthToken (sv_config s) \<noteq> '''' \<and> bearerTokenMatches auth (sf_ResumeAuthToken (sv_config s))
                   then resume_allowed env s else nothing_allowed) {} (serve env s requestID metrics r)
    \<and> (\<forall>ns n key. \<forall>kt \<in> resume_types. confined (resume_allowed env s) {} (triggerResumeWithLeaseCleanup env s ns n key kt))"
proof
  let ?res = "sf_ResumeAuthToken (sv_config s) \<noteq> '''' \<and> bearerTokenMatches auth (sf_ResumeAuthToken (sv_config s))"
  let ?al = "if ?res then resume_allowed env s else nothing_allowed"
  define who where "who = authenticateBearerToken (header_get (rq_Header r) ''Authorization'')
    \<lparr> ba_Enabled = True, ba_AdminToken = sf_AuthToken (sv_config s), ba_ResumeOnlyToken = sf_ResumeAuthToken (sv_config s) \<rparr>"
  have who: "who = None \<or> who = Some resumeOnlyPrincipal \<and> ?res"
    using token_principal [OF assms(4), of "sf_ResumeAuthToken (sv_config s)"] assms(3) by (auto simp: who_def split: if_splits)
  note handler = confined_api_handler [OF assms(1) who_def [symmetric]]
  have "confined ?al {} (apiHandler s requestID (handleRuntimes env s) None [] r)"
    using who confined_runtimes [OF assms(1)] by (intro handler) auto
  moreover have "confined ?al {} (apiHandler s requestID (handleUnifiedResume env s) None [] r)"
    using who confined_unified by (intro handler) auto
  moreover have "confined ?al {} (apiHandler s requestID (handleRuntime env s) None [] r)"
    using who confined_runtime [OF assms(1,2)] by (intro handler) auto
  ultimately show "confined ?al {} (serve env s requestID metrics r)"
    unfolding serve_def Let_def by (simp split: if_split)
  show "\<forall>ns n key. \<forall>kt \<in> resume_types. confined (resume_allowed env s) {} (triggerResumeWithLeaseCleanup env s ns n key kt)"
    by (auto simp: triggerResumeWithLeaseCleanup_def triggerResume_def split: option.split
        intro!: confined_bind confined_retry [OF assms(2)] confined_annotate confined_release lease_allowed)
qed

definition demo_env :: ApiEnv where
  "demo_env = \<lparr> ae_zone = (\<lambda>_. 0), ae_jsonError = (\<lambda>_. ''bad''), ae_errText = (\<lambda>_. ''error''), ae_quote = (\<lambda>s. s),
                ae_sha = (\<lambda>_. ''00000000''), ae_retry = retry_run 4, ae_quantity = demo_lib, ae_hashShape = (\<lambda>_. Inr ''h'') \<rparr>"

definition demo_server :: Server where
  "demo_server = NewServer
     \<lparr> sf_Port = 8081, sf_APIPath = ''/api/v1'', sf_HealthPath = ''/health'', sf_MetricsPath = ''/metrics'', sf_ReadTimeout = 10 * second,
       sf_WriteTimeout = 30 * second, sf_ShutdownTimeout = 5 * second, sf_RequestTimeout = 30 * second,
       sf_ResumeLeaseDuration = 120 * second, sf_SuspendLeaseDuration = 120 * second, sf_RetryAfterSeconds = 30,
       sf_LeaseNamespace = '''', sf_LeaseHolderIdentity = '''', sf_AuthEnabled = True, sf_AuthToken = ''root'',
       sf_ResumeAuthToken = ''wake'', sf_CORSAllowedOrigins = [] \<rparr>"

definition demo_api_request :: "string \<Rightarrow> string \<Rightarrow> string \<Rightarrow> ApiRequest" where
  "demo_api_request method p token =
     \<lparr> rq_Method = method, rq_Host = ''api'', rq_Path = p, rq_RemoteAddr = '''', rq_TLS = False,
       rq_Header = [(''authorization'', ''Bearer '' @ token)], aq_EscapedPath = p, aq_ContentLength = 0, aq_Body = '''' \<rparr>"

lemma demo_retry: "retrier_ok (ae_retry demo_env)"
  by (auto simp: retrier_ok_def demo_env_def)

text \<open>The resume token opens the resume call of a runtime, which starts by reading the clock for the lease.\<close>

theorem token_confines_request_witness:
  "confined (resume_allowed demo_env demo_server) {} (serve demo_env demo_server ''id'' '''' (demo_api_request ''POST'' ''/api/v1/runtimes/a/b/resume'' ''wake''))
   \<and> (case serve demo_env demo_server ''id'' '''' (demo_api_request ''POST'' ''/api/v1/runtimes/a/b/resume'' ''wake'') of Clock _ \<Rightarrow> True | _ \<Rightarrow> False)"
proof -
  let ?r = "demo_api_request ''POST'' ''/api/v1/runtimes/a/b/resume'' ''wake''"
  have a: "sf_AuthEnabled (sv_config demo_server)" by (simp add: demo_server_def NewServer_def)
  have t: "header_get (rq_Header ?r) ''Authorization'' = ''Bearer wake''" by code_simp
  have m: "\<not> (sf_AuthToken (sv_config demo_server) \<noteq> '''' \<and> bearerTokenMatches ''Bearer wake'' (sf_AuthToken (sv_config demo_server)))"
    "sf_ResumeAuthToken (sv_config demo_server) \<noteq> '''' \<and> bearerTokenMatches ''Bearer wake'' (sf_ResumeAuthToken (sv_config demo_server))"
    by code_simp+
  have "case serve demo_env demo_server ''id'' '''' ?r of Clock _ \<Rightarrow> True | _ \<Rightarrow> False" by code_simp
  then show ?thesis
    using token_confines_request [OF a demo_retry t [symmetric] m(1), of "''id''" "''''"] m(2) by (simp only: if_True simp_thms)
qed

section \<open>The runtime that is resumed\<close>

interpretation by_wake: selection_key "\<lambda>_. True" wakes_before "\<lambda>a. (fst (snd a), snd (snd a))"
  by unfold_locales (auto simp: wakes_before_def)

text \<open>A suspended runtime before one that is already reconciling, then the one with the least capacity, then the
  first in the list.\<close>

lemma pick_candidate_least:
  assumes "pick_candidate env g items = Some c"
  shows "\<exists>t pr cap. (t, pr, cap) \<in> set (resume_options env g items)
    \<and> c = \<lparr> cr_Namespace = xt_Namespace t, cr_Name = xt_Name t \<rparr>
    \<and> (\<forall>(t', pr', cap') \<in> set (resume_options env g items). pr < pr' \<or> pr = pr' \<and> cap \<le> cap')"
proof -
  obtain m where m: "scan_best wakes_before None (resume_options env g items) = Some m"
    "c = \<lparr> cr_Namespace = xt_Namespace (fst m), cr_Name = xt_Name (fst m) \<rparr>"
    using assms by (auto simp: pick_candidate_def)
  obtain t pr cap where t: "m = (t, pr, cap)" by (metis prod_cases3)
  have "m \<in> set (resume_options env g items)" using scan_best_in [OF m(1)] by simp
  moreover have "\<forall>x\<in>set (resume_options env g items). (pr, cap) \<le> (fst (snd x), snd (snd x))"
    using by_wake.scan_first_least [OF _ m(1)] by (auto simp: t)
  then have "\<forall>(t', pr', cap') \<in> set (resume_options env g items). pr < pr' \<or> pr = pr' \<and> cap \<le> cap'"
    by fastforce
  ultimately show ?thesis using m(2) t by auto
qed

end
