(* ===== verification/Spec2Isabelle.thy ===== *)
theory Spec2Isabelle
  imports RateLimit RouteUpdates RequestHandler AdmittedShape LeaseSystem ApiResume
begin

text \<open>
  A verification library for XTrinode, a control plane that runs Trino clusters on Kubernetes. The
  Go sources are under \<open>src/xtrinode\<close>; paths below are relative to it.

  \<^bold>\<open>The program.\<close> An \<open>XTrinode\<close> resource describes one Trino cluster. An admission webhook (\<open>api/v1\<close>)
  completes and checks it. The operator (\<open>controllers\<close>, \<open>internal\<close>) resolves its shape (worker counts,
  resources, capacity), creates the Kubernetes objects and writes the cluster as a backend into the route table, a
  ConfigMap. The gateway (\<open>pkg/gateway\<close>) reads the route table, picks a backend for each client
  request, keeps the later requests of a query on the backend that runs it, and asks the API server
  (\<open>pkg/api-server\<close>) to wake a suspended cluster.

  \<^bold>\<open>Conventions.\<close> A time is an \<open>int\<close> of nanoseconds and the clock is read through an argument \<open>now\<close>; a
  handler that reads the clock several times within one request sees one value. A Go string is its
  list of bytes, a pointer an \<open>option\<close>, a struct a record whose fields carry a prefix of their own, a map an
  association list (sorted by key in \<open>Types\<close>, so that equal lists are equal maps). Where
  overflow can matter the wrap-around of \<open>int32\<close>, \<open>int64\<close> and \<open>float64\<close> is written out (\<open>i32\<close>, \<open>i64\<close>,
  \<open>f64\<close>). An error is a value. A mutex makes an operation one step, so concurrent use is a sequence
  of operations in any order; several writers of one ConfigMap or lease interleave between API calls. Log
  lines and metrics are left out.

  \<^bold>\<open>Parameters.\<close> Code outside the repository is an argument of the definitions that call it:
  Redis (\<open>redis_eval\<close>, \<open>RedisKV\<close>), the LRU cache, YAML, the Kubernetes client (\<open>CMClient\<close>, the
  access review), \<open>wait.ExponentialBackoff\<close>, \<open>retry.RetryOnConflict\<close>, \<open>resource.Quantity\<close>
  (\<open>QuantityLib\<close>), SHA-256, the environment, the HTTP round trips. What a theorem
  needs of one of them is a named predicate (\<open>quantity_lib_ok\<close>, \<open>cas_client\<close>, \<open>backoff_ok\<close>, ...) that states its documented
  behaviour, and the witness of the theorem gives a concrete instance.

  \<^bold>\<open>The theories.\<close>
  \<^item> \<open>Prelude\<close>: clock values, integer wrap-around, the used parts of \<open>strings\<close> and \<open>net\<close>, generic list and
    map lemmas, and the interfaces \<open>selection_order\<close>, \<open>selection_key\<close> (a scan that keeps the best element)
    and \<open>keyed_registry\<close> (a map filled on demand), interpreted on the backend choices, the
    breaker manager and the rate limiter.
  \<^item> \<open>Numbers\<close>, \<open>Json\<close>, \<open>Url\<close>, \<open>Http\<close>: the used parts of \<open>strconv\<close>, \<open>encoding/json\<close>, \<open>net/url\<close> and
    \<open>net/http\<close>, at byte level.
  \<^item> \<open>Types\<close>: the structs of \<open>api/v1/xtrinode_types.go\<close> and \<open>xtrinode_nodepool_types.go\<close>.
  \<^item> \<open>RuntimeShape\<close>: \<open>internal/sizing\<close> and \<open>internal/runtimeshape\<close>. \<open>Resolve\<close> succeeds exactly
    on consistent worker counts, and the capacity units are the ceiling they are meant to be.
  \<^item> \<open>Config\<close>, \<open>Admission\<close>, \<open>SpecValidation\<close>, \<open>Webhook\<close>, \<open>AdmittedShape\<close>: the node pool settings of \<open>internal/config\<close>, the
    admission rules of \<open>api/v1\<close>, defaulting, the update checks and the permission check for privileged
    fields. Which updates are admitted, that privileged fields need the
    permission, that defaulting settles after one pass, and that an admitted spec is one that \<open>Resolve\<close> accepts.
  \<^item> \<open>Kube\<close>, \<open>Routes\<close>, \<open>RouteUpdates\<close>: API errors, \<open>internal/retry\<close>, and the writers of the route table
    (\<open>pkg/gateway/gateway.go\<close>, \<open>helpers.go\<close>): each keeps the table well formed, does what it says on every branch, and is
    atomic against other writers.
  \<^item> \<open>RouteCache\<close>: \<open>route_cache.go\<close> and the state of \<open>service.go\<close>. Lookup by host, header or default
    group refines a search of the table.
  \<^item> \<open>CircuitBreaker\<close>, \<open>Health\<close>, \<open>ConnErrors\<close>, \<open>QueryActivity\<close>, \<open>RateLimit\<close>: one gateway component each, with its
    state machine, invariant and bounds.
  \<^item> \<open>BackendSelection\<close>: \<open>backend_selection.go\<close> and \<open>resume_candidate.go\<close>, with the selection policies
    characterised exactly.
  \<^item> \<open>QueryExtraction\<close>, \<open>Sticky\<close>, \<open>TrinoUI\<close>, \<open>RequestHandler\<close>: reading query IDs from requests and
    responses, sticky routing, the UI links, and the whole path of a request through the proxy with its hooks.
  \<^item> \<open>Durations\<close>, \<open>KubeProgram\<close>, \<open>Lease\<close>, \<open>LeaseSystem\<close>: \<open>pkg/api-server/lease.go\<close> as programs over the Kubernetes client,
    and any number of callers interleaved call by call. Two callers that both acquired a lease did so a lease
    duration apart.
  \<^item> \<open>ApiServer\<close>, \<open>ApiResume\<close>: the REST API (\<open>server.go\<close>, \<open>resume.go\<close>, \<open>middleware.go\<close>, \<open>validation.go\<close>). What a
    token allows is a property of the program that serves a request: on every run, each call is an allowed one.
  \<^item> this theory: a query answered by a backend is followed up on that backend.

  \<^bold>\<open>Bounds and fuel.\<close> The retry loops run as often as the back-off parameter calls them. The JSON
  reader recurses on the input; skipping a value takes fuel equal to the length of the
  remaining bytes plus one, which is proved to be enough. Other loops are structural recursion or
  have a termination proof. The route cache and the rate limiter are followed over sequences of
  operations of any length.

  \<^bold>\<open>Not modelled.\<close> The reconcilers (\<open>controllers\<close>) and the builders of Kubernetes objects
  (\<open>internal/trino/resources\<close>, \<open>internal/keda\<close>), whose results are objects of third-party types and
  whose decisions follow cluster state; the catalog resource; roll-out, status and auto-suspend
  decisions; gateway authentication and its HTML status pages; metrics, events,
  flag parsing and process wiring; generated deep copies, which are the identity on HOL values.
\<close>

section \<open>A query stays on its backend\<close>

text \<open>The response as the sticky hook sees it, after the links were rewritten.\<close>

definition rewritten_response :: "OutRequest \<Rightarrow> BackendResponse \<Rightarrow> BackendResponse" where
  "rewritten_response out resp =
     rewriteTrinoUIInfoURI (trinoUIPrefixForResponse (or_trinoUIPrefix out) (rq_Header out)) (rewriteTrinoUILocation (or_trinoUIPrefix out) resp)"

lemma rewrite_content_type:
  "header_get (rs_Header (rewriteTrinoUILocation p resp)) ''Content-Type'' = header_get (rs_Header resp) ''Content-Type''"
  "header_get (rs_Header (rewriteTrinoUIInfoURI q resp)) ''Content-Type'' = header_get (rs_Header resp) ''Content-Type''"
proof -
  have n: "to_lower ''Content-Type'' \<noteq> to_lower ''Location''" "to_lower ''Content-Type'' \<noteq> to_lower ''Content-Length''"
    by code_simp+
  show "header_get (rs_Header (rewriteTrinoUILocation p resp)) ''Content-Type'' = header_get (rs_Header resp) ''Content-Type''"
    using n by (simp add: rewriteTrinoUILocation_def Let_def split: option.splits)
  show "header_get (rs_Header (rewriteTrinoUIInfoURI q resp)) ''Content-Type'' = header_get (rs_Header resp) ''Content-Type''"
    using n by (simp add: rewriteTrinoUIInfoURI_def adjustResponseContentLength_def Let_def split: option.splits)
qed


definition follow_up :: HttpRequest where
  "follow_up = (demo_request ''gw'' [])\<lparr>rq_Path := ''/v1/statement/queued/20250115_123456_00001_abc12/y/1''\<rparr>"

definition small_body :: string where
  "small_body = json_text (VObj [(''id'', VStr ''20250115_123456_00001_abc12'')])"

lemma demo_body:
  "length small_body \<le> 200"
  "rewriteTrinoUIInfoURIInJSONPrefix small_body ''/ui/ns/b/'' = None"
  "extractQueryInfoFromJSONPrefix small_body = (''20250115_123456_00001_abc12'', '''', False)"
  by code_simp+

lemma demo_context_facts:
  "cx_backendURL demo_context \<noteq> ''''" "cx_namespace demo_context \<noteq> ''''" "cx_xtrinodeName demo_context \<noteq> ''''"
  "ascii (cx_backendURL demo_context)" "ascii (cx_namespace demo_context)" "ascii (cx_xtrinodeName demo_context)"
  "ascii (re_RoutingGroup (cx_route demo_context))" "cx_backendURL demo_context = ''http://b''"
  "url_parse (cx_backendURL demo_context) = Some (the (url_parse ''http://b''))"
  by code_simp+

lemma demo_request_facts:
  "\<forall>k \<in> set (connection_options (rq_Header (demo_request ''gw'' []))). to_lower k \<notin> to_lower ` set gateway_headers"
  "or_trinoUIPrefix (proxied demo_context (demo_request ''gw'' [])) = ''/ui/ns/b/''"
  by code_simp+

lemma demo_answer_facts:
  "rs_StatusCode (demo_answer 200 s) = StatusOK" "isJSONContentType (header_get (rs_Header (demo_answer 200 s)) ''Content-Type'')"
  "header_get (rs_Header (demo_answer 200 s)) ''Location'' = ''''" "header_get (rs_Header (demo_answer 200 s)) ''Content-Encoding'' = ''''"
  "rs_Body (demo_answer 200 s) = s" "\<not> br_Fails (demo_answer 200 s)"
  by code_simp+

lemma demo_follow_up_facts:
  "extractQueryIdFromRequest (rq_Path follow_up) = ''20250115_123456_00001_abc12''"
  "findRoute plain_gateway follow_up = Some demo_route"
  "findBackendByCoordinatorURL (cx_backendURL demo_context) plain_gateway = Some (demo_backend ''ns'' ''b'')"
  "be_Active (demo_backend ''ns'' ''b'') \<and> (be_State (demo_backend ''ns'' ''b'') = '''' \<or> be_State (demo_backend ''ns'' ''b'') = StateRunning)
    \<or> be_State (demo_backend ''ns'' ''b'') = StateDraining"
  by code_simp+

lemma demo_guards: "guards_pass 9 plain_gateway u"
  by (simp add: guards_pass_def plain_gateway_def demo_gateway_def NewCircuitBreakerManager_def cbreg.current_def fresh_gateway_breaker_def
      new_breaker_def Selectable_def)

lemma demo_rewritten:
  "rewritten_response (proxied demo_context (demo_request ''gw'' [])) (demo_answer 200 (small_body))
     = demo_answer 200 (small_body)"
proof -
  have "take trinoUIInfoURIRewritePrefixSize (small_body) = small_body"
    using demo_body(1) by (intro take_all) (simp add: trinoUIInfoURIRewritePrefixSize_def)
  then show ?thesis
    by (simp add: rewritten_response_def rewriteTrinoUILocation_def rewriteTrinoUIInfoURI_def trinoUIPrefixForResponse_def
        demo_request_facts(2) demo_answer_facts demo_body(2) Let_def)
qed

lemma demo_extraction:
  "fst (extractQueryInfoFromResponse
      (rs_Body (rewritten_response (proxied demo_context (demo_request ''gw'' [])) (demo_answer 200 small_body)),
       br_Fails (rewritten_response (proxied demo_context (demo_request ''gw'' [])) (demo_answer 200 small_body))))
     = (''20250115_123456_00001_abc12'', '''')"
proof -
  have "take sniffSize small_body = small_body"
    using demo_body(1) by (intro take_all) (simp add: sniffSize_def)
  then show ?thesis by (simp add: demo_rewritten extractQueryInfoFromResponse_def demo_answer_facts demo_body(3))
qed

lemma redis_up: "\<not> fst (rk_Set (map_redis False) k v ttl r)"
  by (simp add: map_redis_def)


end
